(* ===== verification/Prelude.thy ===== *)
theory Prelude
  imports Main
begin

text \<open>
  What every component of the model shares: Go's \<open>error\<close> values and the way the validators of
  \<open>protocol/\<close> collect them, the shapes of the loops they run over slices, decimal
  field indices, and 64-bit signed arithmetic.

  A validator of the source starts from an empty slice \<open>errs\<close>, appends to it, and returns
  \<open>errors.Join(errs...)\<close>. Here the slice is an \<open>err list\<close> built with \<open>@\<close> in the
  order of the source, a single \<open>if cond { errs = append(errs, e) }\<close> is \<open>fails cond e\<close>,
  a call \<open>if err := v; err != nil { errs = append(errs, err) }\<close> is \<open>reports v\<close>, and the
  wrapped form \<open>fmt.Errorf("f: %w", err)\<close> is \<open>wraps\<close>. The collection \<open>validation\<close>
  holds one equation per shape that says when it appends nothing, so that acceptance of a
  validator unfolds to the conjunction of what it checks.
\<close>

named_theorems validation \<open>when a validation step reports nothing\<close>

section \<open>Errors\<close>

text \<open>
  \<open>New s\<close> is \<open>errors.New(s)\<close>; \<open>Errorf f args\<close> is \<open>fmt.Errorf(f, args...)\<close> with its
  arguments kept unformatted; \<open>Joined es\<close> is the value of \<open>errors.Join\<close> on non-nil errors.
\<close>

datatype err = New string | Errorf string "arg list" | Joined "err list"
  and arg = Str string | Num int | Wrapped err

text \<open>A Go \<open>error\<close>: \<open>None\<close> is \<open>nil\<close>.\<close>

type_synonym error = "err option"

definition join :: "err list \<Rightarrow> error" where
  "join es = (if es = [] then None else Some (Joined es))"

definition fails :: "bool \<Rightarrow> err \<Rightarrow> err list" where
  "fails b e = (if b then [e] else [])"

definition reports :: "error \<Rightarrow> err list" where
  "reports v = (case v of None \<Rightarrow> [] | Some e \<Rightarrow> [e])"

definition wraps :: "string \<Rightarrow> arg list \<Rightarrow> error \<Rightarrow> err list" where
  "wraps f args v = (case v of None \<Rightarrow> [] | Some e \<Rightarrow> [Errorf f (args @ [Wrapped e])])"

text \<open>The closure \<open>require\<close> that several validators declare.\<close>

definition required :: "string \<Rightarrow> string \<Rightarrow> err list" where
  "required name v = fails (v = []) (Errorf ''%s is required'' [Str name])"

lemma join_None [validation, simp]: "join es = None \<longleftrightarrow> es = []"
  by (simp add: join_def)

lemma fails_Nil [validation, simp]: "fails b e = [] \<longleftrightarrow> \<not> b"
  by (simp add: fails_def)

lemma reports_Nil [validation, simp]: "reports v = [] \<longleftrightarrow> v = None"
  by (simp add: reports_def split: option.splits)

lemma wraps_Nil [validation, simp]: "wraps f args v = [] \<longleftrightarrow> v = None"
  by (simp add: wraps_def split: option.splits)

lemma required_Nil [validation, simp]: "required name v = [] \<longleftrightarrow> v \<noteq> []"
  by (simp add: required_def)

lemma join_Some_Nil [simp]: "join [] = None"
  by simp

lemma fails_simps [simp]: "fails True e = [e]" "fails False e = []"
  by (simp_all add: fails_def)

lemma reports_simps [simp]: "reports None = []" "reports (Some e) = [e]"
  by (simp_all add: reports_def)

lemma wraps_simps [simp]:
  "wraps f args None = []" "wraps f args (Some e) = [Errorf f (args @ [Wrapped e])]"
  by (simp_all add: wraps_def)

text \<open>The two shapes of a conditional among the appended pieces.\<close>

lemma if_error_Nil [validation, simp]: "(if b then e # es else ys) = [] \<longleftrightarrow> \<not> b \<and> ys = []"
  by simp

lemma if_checked_Nil [validation]: "(if b then xs else []) = [] \<longleftrightarrow> (b \<longrightarrow> xs = [])"
  by simp

lemma fails_set: "e' \<in> set (fails b e) \<longleftrightarrow> b \<and> e' = e"
  by (auto simp: fails_def)

text \<open>\<open>if err := v; err != nil { return err }; return w\<close>\<close>

lemma first_error_None [validation, simp]:
  "(case v of None \<Rightarrow> w | Some e \<Rightarrow> Some e) = None \<longleftrightarrow> v = None \<and> w = None"
  by (cases v) simp_all

text \<open>The outcome of a call that may panic.\<close>

datatype 'a outcome = Panic | Returns 'a

section \<open>Loops over slices\<close>

text \<open>\<open>for i, x := range xs { errs = append(errs, f(i, x)...) }\<close>, from index \<open>i\<close> on.\<close>

primrec each_from :: "nat \<Rightarrow> (nat \<Rightarrow> 'a \<Rightarrow> err list) \<Rightarrow> 'a list \<Rightarrow> err list" where
  "each_from i f [] = []"
| "each_from i f (x # xs) = f i x @ each_from (Suc i) f xs"

abbreviation each :: "(nat \<Rightarrow> 'a \<Rightarrow> err list) \<Rightarrow> 'a list \<Rightarrow> err list" where
  "each f xs \<equiv> each_from 0 f xs"

text \<open>
  The loop with a \<open>seen\<close> set: an element that fails its own check is reported and skipped
  (\<open>continue\<close>), any other is reported when its key was already seen, and its key is recorded.
\<close>

primrec each_unique ::
  "nat \<Rightarrow> (nat \<Rightarrow> 'a \<Rightarrow> error) \<Rightarrow> ('a \<Rightarrow> 'k) \<Rightarrow> (nat \<Rightarrow> 'a \<Rightarrow> err) \<Rightarrow> 'k set \<Rightarrow> 'a list \<Rightarrow> err list" where
  "each_unique i bad key dup seen [] = []"
| "each_unique i bad key dup seen (x # xs) =
     (case bad i x of
        Some e \<Rightarrow> e # each_unique (Suc i) bad key dup seen xs
      | None \<Rightarrow> fails (key x \<in> seen) (dup i x) @ each_unique (Suc i) bad key dup (insert (key x) seen) xs)"

lemma each_from_Nil: "each_from i f xs = [] \<longleftrightarrow> (\<forall>j < length xs. f (i + j) (xs ! j) = [])"
  by (induction xs arbitrary: i) (simp_all add: All_less_Suc2)

lemma each_from_append: "each_from i f (xs @ ys) = each_from i f xs @ each_from (i + length xs) f ys"
  by (induction xs arbitrary: i) simp_all

text \<open>
  A loop reports nothing when no element does. The simplifier reduces the check of one element
  under \<open>all_from\<close>; what is left seldom depends on the index, which only appears in messages.
\<close>

definition all_from :: "nat \<Rightarrow> (nat \<Rightarrow> 'a \<Rightarrow> bool) \<Rightarrow> 'a list \<Rightarrow> bool" where
  "all_from i Q xs \<longleftrightarrow> (\<forall>j < length xs. Q (i + j) (xs ! j))"

lemma all_from_simps [code]: "all_from i Q [] \<longleftrightarrow> True" "all_from i Q (x # xs) \<longleftrightarrow> Q i x \<and> all_from (Suc i) Q xs"
  by (simp_all add: all_from_def All_less_Suc2)

lemma all_from_const [validation, simp]: "all_from i (\<lambda>j x. P x) xs \<longleftrightarrow> (\<forall>x \<in> set xs. P x)"
  by (simp add: all_from_def all_set_conv_all_nth)

lemma each_from_iff [validation, simp]: "each_from i f xs = [] \<longleftrightarrow> all_from i (\<lambda>j x. f j x = []) xs"
  by (simp add: each_from_Nil all_from_def)

lemma each_unique_iff [validation, simp]:
  "each_unique i bad key dup seen xs = [] \<longleftrightarrow>
    all_from i (\<lambda>j x. bad j x = None) xs \<and> distinct (map key xs) \<and> key ` set xs \<inter> seen = {}"
proof (induction xs arbitrary: i seen)
  case (Cons x xs)
  show ?case by (cases "bad i x") (auto simp: Cons.IH all_from_simps)
qed (simp add: all_from_simps)

text \<open>
  The variant without \<open>continue\<close>: \<open>f\<close> is told whether the key of the element was seen
  before, and only elements with \<open>P\<close> take part in the bookkeeping.
\<close>

primrec each_seen ::
  "nat \<Rightarrow> (nat \<Rightarrow> bool \<Rightarrow> 'a \<Rightarrow> err list) \<Rightarrow> ('a \<Rightarrow> bool) \<Rightarrow> ('a \<Rightarrow> 'k) \<Rightarrow> 'k set \<Rightarrow> 'a list \<Rightarrow> err list" where
  "each_seen i f P key seen [] = []"
| "each_seen i f P key seen (x # xs) =
     f i (P x \<and> key x \<in> seen) x @
     each_seen (Suc i) f P key (if P x then insert (key x) seen else seen) xs"

lemma each_seen_Nil:
  assumes "\<And>i d x. f i d x = [] \<longleftrightarrow> Q i x \<and> \<not> d"
  shows "each_seen i f P key seen xs = [] \<longleftrightarrow>
    all_from i Q xs \<and> distinct (map key (filter P xs)) \<and> key ` set (filter P xs) \<inter> seen = {}"
proof (induction xs arbitrary: i seen)
  case (Cons x xs)
  show ?case by (cases "P x") (auto simp: Cons.IH assms all_from_simps)
qed (simp add: all_from_simps)

text \<open>What a projection determines, it determines element by element.\<close>

lemma map_factor:
  assumes "map f xs = map f ys" and "\<And>x y. f x = f y \<Longrightarrow> g x = g y"
  shows "map g xs = map g ys"
  using assms(1)
proof (induction xs arbitrary: ys)
  case (Cons x xs)
  from Cons.prems obtain y zs where ys: "ys = y # zs" and "f x = f y" and "map f xs = map f zs"
    by (cases ys) simp_all
  then show ?case using Cons.IH [of zs] assms(2) [of x y] by (simp add: ys)
qed simp

section \<open>Field names with an index\<close>

text \<open>\<open>strconv.Itoa\<close> on a slice index.\<close>

fun dec :: "nat \<Rightarrow> string" where
  "dec n = (if n < 10 then [''0123456789'' ! n] else dec (n div 10) @ [''0123456789'' ! (n mod 10)])"

declare dec.simps [simp del]

definition at_index :: "string \<Rightarrow> nat \<Rightarrow> string \<Rightarrow> string" where
  \<comment> \<open>\<open>fmt.Sprintf("pre[%d]post", i)\<close>\<close>
  "at_index pre i post = pre @ ''['' @ dec i @ '']'' @ post"

section \<open>64-bit signed arithmetic\<close>

text \<open>
  Go's \<open>int\<close> and \<open>int64\<close> are 64 bits wide here. A field of such a type is an \<open>int\<close>;
  where the code computes with it, the result is wrapped.
\<close>

definition wrap64 :: "int \<Rightarrow> int" where
  "wrap64 x = (x + 2 ^ 63) mod 2 ^ 64 - 2 ^ 63"

abbreviation int64_max :: int where "int64_max \<equiv> 9223372036854775807"
abbreviation int64_min :: int where "int64_min \<equiv> - 9223372036854775808"

definition in64 :: "int \<Rightarrow> bool" where
  "in64 x \<longleftrightarrow> int64_min \<le> x \<and> x \<le> int64_max"

lemma wrap64_id [simp]: "in64 x \<Longrightarrow> wrap64 x = x"
  by (simp add: wrap64_def in64_def)

lemma in64_wrap64 [simp]: "in64 (wrap64 x)"
proof -
  have "0 \<le> (x + 2 ^ 63) mod 2 ^ 64" "(x + 2 ^ 63) mod 2 ^ 64 < 2 ^ 64"
    by simp_all
  then show ?thesis by (simp add: wrap64_def in64_def)
qed

lemma wrap64_wrap64_add [simp]: "wrap64 (wrap64 x + y) = wrap64 (x + y)"
proof -
  have "((x + 2 ^ 63) mod 2 ^ 64 + y) mod 2 ^ 64 = ((x + 2 ^ 63) + y) mod (2 ^ 64 :: int)"
    by (rule mod_add_left_eq)
  then show ?thesis by (simp add: wrap64_def algebra_simps)
qed

lemma wrap64_add_wrap64 [simp]: "wrap64 (x + wrap64 y) = wrap64 (x + y)"
  by (metis add.commute wrap64_wrap64_add)

lemma wrap64_neq: "\<not> in64 x \<Longrightarrow> wrap64 x \<noteq> x"
  by (metis in64_wrap64)

end
