(* ===== verification/GoTime.thy ===== *)
theory GoTime
  imports Prelude
begin

text \<open>
  Go's \<open>time.Time\<close> and \<open>time.Duration\<close>, as far as the source uses them. A \<open>time\<close> is an
  instant: nanoseconds since the zero time, 1 January of year 1, UTC. Location and monotonic
  reading are left out: the source compares instants only, and where it compares structs with
  \<open>==\<close> it has called \<open>UTC()\<close> before, which drops both. The type is a linear order, so that
  \<open>t.Before(u)\<close> is \<open>t < u\<close>, and \<open>t.IsZero()\<close> is \<open>t = 0\<close>.
  A \<open>time.Duration\<close> is an \<open>int\<close> of 64 bits.
\<close>

datatype time = Time (instant: int)

instantiation time :: linorder
begin

definition less_eq_time :: "time \<Rightarrow> time \<Rightarrow> bool" where
  "less_eq_time t u \<longleftrightarrow> instant t \<le> instant u"

definition less_time :: "time \<Rightarrow> time \<Rightarrow> bool" where
  "less_time t u \<longleftrightarrow> instant t < instant u"

instance
  by standard (auto simp: less_eq_time_def less_time_def intro: time.expand)

end

instantiation time :: zero
begin

definition zero_time :: time where "zero_time = Time 0"

instance ..

end

lemma time_less_simps [simp]: "Time a < Time b \<longleftrightarrow> a < b" "Time a \<le> Time b \<longleftrightarrow> a \<le> b"
  by (simp_all add: less_time_def less_eq_time_def)

lemma time_zero_simps [simp]: "Time a = 0 \<longleftrightarrow> a = 0" "0 = Time a \<longleftrightarrow> a = 0" "instant 0 = 0"
  by (auto simp: zero_time_def)

section \<open>Time arithmetic\<close>

definition time_add :: "time \<Rightarrow> int \<Rightarrow> time" where
  \<comment> \<open>\<open>t.Add(d)\<close>\<close>
  "time_add t d = Time (instant t + d)"

definition time_sub :: "time \<Rightarrow> time \<Rightarrow> int" where
  \<comment> \<open>\<open>t.Sub(u)\<close> saturates at the extreme durations\<close>
  "time_sub t u =
     (let d = instant t - instant u
      in if in64 d then d else if t < u then int64_min else int64_max)"

definition duration_neg :: "int \<Rightarrow> int" where
  \<comment> \<open>\<open>-d\<close> wraps at the least duration\<close>
  "duration_neg d = wrap64 (- d)"

definition milliseconds :: "int \<Rightarrow> int" where
  \<comment> \<open>\<open>time.Duration(n) * time.Millisecond\<close>\<close>
  "milliseconds n = wrap64 (n * 1000000)"

text \<open>\<open>if d < 0 { d = -d }\<close>, the absolute value as the source computes it.\<close>

definition duration_abs :: "int \<Rightarrow> int" where
  "duration_abs d = (if d < 0 then duration_neg d else d)"

lemma duration_abs_least: "duration_abs int64_min = int64_min"
  by (simp add: duration_abs_def duration_neg_def wrap64_def)

lemma duration_abs_eq: "in64 d \<Longrightarrow> d \<noteq> int64_min \<Longrightarrow> duration_abs d = \<bar>d\<bar>"
  by (simp add: duration_abs_def duration_neg_def in64_def)

lemma time_sub_exact: "in64 (instant t - instant u) \<Longrightarrow> time_sub t u = instant t - instant u"
  by (simp add: time_sub_def)

lemma in64_time_sub: "in64 (time_sub t u)"
  by (simp add: time_sub_def Let_def in64_def)

text \<open>The difference saturates downwards exactly when the true one is out of range below.\<close>

lemma time_sub_least: "time_sub t u = int64_min \<longleftrightarrow> instant t - instant u \<le> int64_min"
  by (auto simp: time_sub_def Let_def in64_def less_time_def)

section \<open>Unix time\<close>

definition unix_epoch :: int where
  \<comment> \<open>1 January 1970, in nanoseconds since year 1\<close>
  "unix_epoch = 62135596800 * 1000000000"

end
