(* ===== verification/StreamProof.thy ===== *)
theory StreamProof
  imports Prelude GoTime
begin

text \<open>
  \<open>protocol/stream_proof.go\<close>: the evidence a worker attaches to a streaming task, the byte count
  that may be billed from it (\<open>VerifiedDeliveredBytes\<close>) and the content verification of a
  manifest (\<open>VerifyManifest\<close>).

  The Go maps built from the slices are functions built by the same loops, last write wins. The
  locale \<open>keyed_index\<close> is the contract of such a map, proved for each of them at the end of the
  definitions. Then the manifest check is related to an independent statement of what a verified
  manifest is, and the billed figure to a sum over that manifest.
\<close>

section \<open>Data\<close>

type_synonym SegmentProvenance = string

definition ProvenanceHostVerified :: SegmentProvenance where "ProvenanceHostVerified = ''host-verified''"
definition ProvenanceAttested :: SegmentProvenance where "ProvenanceAttested = ''attested''"

type_synonym DeliveryConsumerKind = string

definition ConsumerViewer :: DeliveryConsumerKind where "ConsumerViewer = ''viewer''"
definition ConsumerEdgeRelay :: DeliveryConsumerKind where "ConsumerEdgeRelay = ''edge-relay''"

record Segment =
  s_Index :: int
  s_DurationMS :: int
  s_Bytes :: int
  s_SHA256 :: string
  s_Provenance :: SegmentProvenance

record SampledFrame =
  f_PTS :: int
  f_SHA256 :: string

record LivenessNonce =
  n_Nonce :: string
  n_IssuedAt :: time
  n_ReflectedInSeq :: int

record DeliveryReceipt =
  d_ConsumerID :: string
  d_Kind :: DeliveryConsumerKind
  d_SeqStart :: int
  d_SeqEnd :: int
  d_Bytes :: int
  d_SHA256 :: string
  d_Sig :: string

record Discontinuity =
  c_At :: time
  c_Reason :: string
  c_PrevSeq :: int
  c_ResumeSeq :: int
  c_Sig :: string

record StreamManifest =
  m_Seq :: int
  m_StreamID :: string
  m_StartedAt :: time
  m_LivenessNonces :: "LivenessNonce list"
  m_Segments :: "Segment list"
  m_SampledFrames :: "SampledFrame list"
  m_DeliveryReceipts :: "DeliveryReceipt list"
  m_WorkerReportedDeliveredBytes :: int
  m_AttestedPushedBytesByDestination :: "(string \<times> int) list"
  m_Discontinuities :: "Discontinuity list"
  m_DroppedFrames :: int
  m_Sig :: string

record StreamReceipt =
  sr_ID :: string
  sr_OrgID :: string
  sr_TaskID :: string
  sr_ServiceLeaseID :: string
  sr_WorkerID :: string
  sr_PoolID :: string
  sr_PolicyID :: string
  sr_Manifest :: StreamManifest
  sr_Sig :: string

definition StreamReceipt_Validate :: "StreamReceipt \<Rightarrow> error" where
  "StreamReceipt_Validate r = join
     (fails (sr_TaskID r = []) (New ''task_id is required'') @
      fails (sr_WorkerID r = []) (New ''worker_id is required'') @
      fails (m_StreamID (sr_Manifest r) = []) (New ''manifest.stream_id is required'') @
      fails (m_Segments (sr_Manifest r) = []) (New ''manifest must contain at least one segment''))"

section \<open>Indices over a slice\<close>

definition segByIndex :: "Segment list \<Rightarrow> int \<Rightarrow> Segment option" where
  "segByIndex segs = foldl (\<lambda>m s. m(s_Index s \<mapsto> s)) Map.empty segs"

definition segPosition :: "Segment list \<Rightarrow> int \<Rightarrow> nat option" where
  "segPosition segs = snd (foldl (\<lambda>(pos, m) s. (Suc pos, m(s_Index s \<mapsto> pos))) (0, Map.empty) segs)"

definition issuedByNonce :: "LivenessNonce list \<Rightarrow> string \<Rightarrow> LivenessNonce option" where
  "issuedByNonce ns = foldl (\<lambda>m n. m(n_Nonce n \<mapsto> n)) Map.empty ns"

section \<open>The billed byte count\<close>

definition VerifiedDeliveredBytes :: "StreamManifest \<Rightarrow> int" where
  "VerifiedDeliveredBytes m =
     (let idx = segByIndex (m_Segments m)
      in foldl (\<lambda>total r.
           if d_SeqStart r \<noteq> d_SeqEnd r then total
           else (case idx (d_SeqStart r) of
                   None \<Rightarrow> total
                 | Some seg \<Rightarrow>
                     if s_Provenance seg \<noteq> ProvenanceHostVerified then total
                     else if s_SHA256 seg \<noteq> d_SHA256 r then total
                     else wrap64 (total + s_Bytes seg)))
         0 (m_DeliveryReceipts m))"

section \<open>Manifest verification\<close>

definition gapCovered :: "int \<Rightarrow> int \<Rightarrow> Discontinuity list \<Rightarrow> bool" where
  "gapCovered prevIdx curIdx ds = list_ex (\<lambda>d. c_PrevSeq d = prevIdx \<and> c_ResumeSeq d = curIdx) ds"

text \<open>Step 1: \<open>i\<close> is the position of the second segment of each adjacent pair.\<close>

fun monotonic_errs :: "nat \<Rightarrow> Segment list \<Rightarrow> err list" where
  "monotonic_errs i (p # s # ss) =
     fails (s_Index s \<le> s_Index p)
       (Errorf ''segment[%d]: index %d is not strictly greater than previous index %d''
          [Num (int i), Num (s_Index s), Num (s_Index p)]) @
     monotonic_errs (Suc i) (s # ss)"
| "monotonic_errs i _ = []"

text \<open>Step 4: index continuity.\<close>

fun gap_errs :: "Discontinuity list \<Rightarrow> Segment list \<Rightarrow> err list" where
  "gap_errs ds (p # s # ss) =
     (if s_Index s = wrap64 (s_Index p + 1) then []
      else fails (\<not> gapCovered (s_Index p) (s_Index s) ds)
             (Errorf ''unmarked sequence gap between segment index %d and %d'' [Num (s_Index p), Num (s_Index s)])) @
     gap_errs ds (s # ss)"
| "gap_errs ds _ = []"

fun cum_from :: "int \<Rightarrow> Segment list \<Rightarrow> int list" where
  "cum_from acc [] = []"
| "cum_from acc (s # ss) =
     (let c = wrap64 (acc + milliseconds (s_DurationMS s)) in c # cum_from c ss)"

fun cumDuration :: "Segment list \<Rightarrow> int list" where
  "cumDuration [] = []"
| "cumDuration (s # ss) = (let c = milliseconds (s_DurationMS s) in c # cum_from c ss)"

text \<open>Step 2: one liveness nonce.\<close>

definition nonce_errs :: "StreamManifest \<Rightarrow> LivenessNonce list \<Rightarrow> int \<Rightarrow> LivenessNonce \<Rightarrow> err list" where
  "nonce_errs m issuedNonces reflectWindow n =
     (case issuedByNonce issuedNonces (n_Nonce n) of
        None \<Rightarrow> [Errorf ''liveness nonce %q not found in issued nonces'' [Str (n_Nonce n)]]
      | Some issued \<Rightarrow>
          (case segPosition (m_Segments m) (n_ReflectedInSeq n) of
             None \<Rightarrow> [Errorf ''liveness nonce %q reflects segment index %d which does not exist''
                       [Str (n_Nonce n), Num (n_ReflectedInSeq n)]]
           | Some pos \<Rightarrow>
               (let reflectionTime = time_add (m_StartedAt m) (cumDuration (m_Segments m) ! pos);
                    diff = time_sub reflectionTime (n_IssuedAt issued);
                    diff = (if diff < 0 then duration_neg diff else diff)
                in fails (diff > reflectWindow)
                     (Errorf ''liveness nonce %q: reflection time %v is outside window (%v) of issued time %v (diff=%v)''
                        [Str (n_Nonce n), Num (instant reflectionTime), Num reflectWindow,
                         Num (instant (n_IssuedAt issued)), Num diff]))))"

text \<open>Step 3: one delivery receipt.\<close>

definition receipt_errs :: "StreamManifest \<Rightarrow> nat \<Rightarrow> DeliveryReceipt \<Rightarrow> err list" where
  "receipt_errs m i r =
     (if d_SeqStart r \<noteq> d_SeqEnd r then
        [Errorf ''delivery_receipt[%d]: range receipts (SeqStart=%d, SeqEnd=%d) are not supported in v1''
           [Num (int i), Num (d_SeqStart r), Num (d_SeqEnd r)]]
      else (case segByIndex (m_Segments m) (d_SeqStart r) of
              None \<Rightarrow> [Errorf ''delivery_receipt[%d]: references segment index %d which does not exist''
                        [Num (int i), Num (d_SeqStart r)]]
            | Some seg \<Rightarrow>
                fails (s_SHA256 seg \<noteq> d_SHA256 r)
                  (Errorf ''delivery_receipt[%d]: SHA256 %q does not match segment %d SHA256 %q''
                     [Num (int i), Str (d_SHA256 r), Num (d_SeqStart r), Str (s_SHA256 seg)])))"

definition VerifyManifest :: "StreamManifest \<Rightarrow> LivenessNonce list \<Rightarrow> int \<Rightarrow> error" where
  "VerifyManifest m issuedNonces reflectWindow =
     (if m_Segments m = [] then Some (New ''manifest contains no segments'')
      else join
        (monotonic_errs 1 (m_Segments m) @
         gap_errs (m_Discontinuities m) (m_Segments m) @
         concat (map (nonce_errs m issuedNonces reflectWindow) (m_LivenessNonces m)) @
         each (receipt_errs m) (m_DeliveryReceipts m)))"

section \<open>The contract of an index\<close>

text \<open>
  A map filled by ranging over a slice: it starts empty, and visiting the element at position
  \<open>length xs\<close> stores \<open>val (length xs) x\<close> under \<open>key x\<close>.
\<close>

locale keyed_index =
  fixes key :: "'a \<Rightarrow> 'k"
    and val :: "nat \<Rightarrow> 'a \<Rightarrow> 'v"
    and build :: "'a list \<Rightarrow> 'k \<Rightarrow> 'v option"
  assumes build_Nil: "build [] = Map.empty"
    and build_snoc: "build (xs @ [x]) = (build xs)(key x \<mapsto> val (length xs) x)"
begin

lemma dom_build: "dom (build xs) = key ` set xs"
proof (induction xs rule: rev_induct)
  case (snoc x xs)
  then show ?case unfolding build_snoc dom_fun_upd by simp
qed (simp add: build_Nil)

lemma lookup_None: "build xs k = None \<longleftrightarrow> k \<notin> key ` set xs"
  using dom_build [of xs] by (metis domIff)

lemma lookup_Some:
  "build xs k = Some v \<Longrightarrow> \<exists>i < length xs. key (xs ! i) = k \<and> v = val i (xs ! i)"
proof (induction xs rule: rev_induct)
  case (snoc x xs)
  show ?case
  proof (cases "key x = k")
    case True
    with snoc.prems show ?thesis
      by (intro exI [of _ "length xs"]) (simp add: build_snoc)
  next
    case False
    with snoc.prems have "build xs k = Some v" by (simp add: build_snoc)
    then obtain i where "i < length xs" "key (xs ! i) = k" "v = val i (xs ! i)"
      using snoc.IH by blast
    then show ?thesis by (intro exI [of _ i]) (simp add: nth_append)
  qed
qed (simp add: build_Nil)

text \<open>The entry found is the one of the last element with the key.\<close>

lemma lookup_last:
  "build xs k = Some v \<longleftrightarrow>
     (\<exists>i < length xs. key (xs ! i) = k \<and> v = val i (xs ! i) \<and> k \<notin> key ` set (drop (Suc i) xs))"
proof (induction xs rule: rev_induct)
  case (snoc x xs)
  show ?case
  proof (cases "key x = k")
    case True
    then show ?thesis by (auto simp: build_snoc nth_append less_Suc_eq)
  next
    case False
    then show ?thesis by (auto simp: build_snoc snoc.IH nth_append less_Suc_eq)
  qed
qed (simp add: build_Nil)

lemma lookup_distinct:
  "distinct (map key xs) \<Longrightarrow> i < length xs \<Longrightarrow> build xs (key (xs ! i)) = Some (val i (xs ! i))"
proof (induction xs rule: rev_induct)
  case (snoc x xs)
  show ?case
  proof (cases "i < length xs")
    case True
    then have "key (xs ! i) \<in> key ` set xs" by simp
    with snoc.prems have "key x \<noteq> key (xs ! i)" by auto
    with snoc True show ?thesis by (simp add: build_snoc nth_append)
  next
    case False
    with snoc.prems show ?thesis by (simp add: build_snoc nth_append less_Suc_eq)
  qed
qed simp

lemma lookup_distinct_iff:
  "distinct (map key xs) \<Longrightarrow>
     build xs k = Some v \<longleftrightarrow> (\<exists>i < length xs. key (xs ! i) = k \<and> v = val i (xs ! i))"
  using lookup_Some lookup_distinct by metis

end

interpretation segIdx: keyed_index s_Index "\<lambda>_ s. s" segByIndex
  by unfold_locales (simp_all add: segByIndex_def)

lemma fst_segPosition_fold: "fst (foldl (\<lambda>(pos, m) s. (Suc pos, m(s_Index s \<mapsto> pos))) (p, m0) segs) = p + length segs"
  by (induction segs arbitrary: p m0) simp_all

interpretation segPos: keyed_index s_Index "\<lambda>i _. i" segPosition
proof
  show "segPosition [] = Map.empty" by (simp add: segPosition_def)
next
  fix xs x
  show "segPosition (xs @ [x]) = (segPosition xs)(s_Index x \<mapsto> length xs)"
    using fst_segPosition_fold [of 0 Map.empty xs]
    by (simp add: segPosition_def split_beta)
qed

interpretation nonceIdx: keyed_index n_Nonce "\<lambda>_ n. n" issuedByNonce
  by unfold_locales (simp_all add: issuedByNonce_def)

section \<open>What a verified manifest is\<close>

text \<open>
  The four documented checks, stated without the maps and loops: the indices, the bracketing of
  gaps, the freshness of a reflected nonce against the last issued entry of its value, and the
  single-segment receipts. Times are compared on the time line, without the widths of the code:
  \<open>reflection_delay\<close> is the signed distance of the end of a segment from the issue of a nonce.
\<close>

definition increasing :: "Segment list \<Rightarrow> bool" where
  "increasing segs = sorted_wrt (<) (map s_Index segs)"

definition gaps_marked :: "Discontinuity list \<Rightarrow> Segment list \<Rightarrow> bool" where
  "gaps_marked ds segs = (\<forall>i < length segs - 1.
     s_Index (segs ! Suc i) = s_Index (segs ! i) + 1 \<or>
     (\<exists>d \<in> set ds. c_PrevSeq d = s_Index (segs ! i) \<and> c_ResumeSeq d = s_Index (segs ! Suc i)))"

definition played :: "StreamManifest \<Rightarrow> nat \<Rightarrow> int" where
  \<comment> \<open>nanoseconds from the start to the end of a segment\<close>
  "played m pos = (\<Sum>s \<leftarrow> take (Suc pos) (m_Segments m). s_DurationMS s * 1000000)"

definition reflection_delay :: "StreamManifest \<Rightarrow> LivenessNonce \<Rightarrow> nat \<Rightarrow> int" where
  "reflection_delay m issued pos = instant (m_StartedAt m) + played m pos - instant (n_IssuedAt issued)"

definition last_issued :: "LivenessNonce list \<Rightarrow> string \<Rightarrow> LivenessNonce \<Rightarrow> bool" where
  "last_issued ns nonce n \<longleftrightarrow>
     (\<exists>i < length ns. n = ns ! i \<and> n_Nonce n = nonce \<and> nonce \<notin> n_Nonce ` set (drop (Suc i) ns))"

definition nonce_verified :: "StreamManifest \<Rightarrow> LivenessNonce list \<Rightarrow> int \<Rightarrow> LivenessNonce \<Rightarrow> bool" where
  "nonce_verified m ns w n \<longleftrightarrow>
     (\<exists>issued pos. last_issued ns (n_Nonce n) issued \<and> pos < length (m_Segments m) \<and>
        s_Index (m_Segments m ! pos) = n_ReflectedInSeq n \<and> \<bar>reflection_delay m issued pos\<bar> \<le> w)"

definition receipt_verified :: "Segment list \<Rightarrow> DeliveryReceipt \<Rightarrow> bool" where
  "receipt_verified segs r \<longleftrightarrow>
     d_SeqStart r = d_SeqEnd r \<and> (\<exists>s \<in> set segs. s_Index s = d_SeqStart r \<and> s_SHA256 s = d_SHA256 r)"

text \<open>The same distance as the code computes it: the offset wraps at 64 bits, the difference saturates, and the
  absolute value of the least duration is itself.\<close>

definition reflection_offset :: "StreamManifest \<Rightarrow> nat \<Rightarrow> int" where
  "reflection_offset m pos = wrap64 (played m pos)"

definition accepted_in_window :: "StreamManifest \<Rightarrow> LivenessNonce \<Rightarrow> nat \<Rightarrow> int \<Rightarrow> bool" where
  "accepted_in_window m issued pos w \<longleftrightarrow>
     duration_abs (time_sub (time_add (m_StartedAt m) (reflection_offset m pos)) (n_IssuedAt issued)) \<le> w"

definition nonce_accepted :: "StreamManifest \<Rightarrow> LivenessNonce list \<Rightarrow> int \<Rightarrow> LivenessNonce \<Rightarrow> bool" where
  "nonce_accepted m ns w n \<longleftrightarrow>
     (\<exists>issued pos. last_issued ns (n_Nonce n) issued \<and> pos < length (m_Segments m) \<and>
        s_Index (m_Segments m ! pos) = n_ReflectedInSeq n \<and> accepted_in_window m issued pos w)"

lemma monotonic_errs_Nil: "monotonic_errs i segs = [] \<longleftrightarrow> increasing segs"
proof (induction i segs rule: monotonic_errs.induct)
  case (1 i p s ss)
  have "increasing (p # s # ss) \<longleftrightarrow> s_Index p < s_Index s \<and> increasing (s # ss)"
    by (auto simp: increasing_def)
  then show ?case using 1 by auto
qed (simp_all add: increasing_def)

lemma increasing_Cons2 [simp]:
  "increasing (p # s # ss) \<longleftrightarrow> s_Index p < s_Index s \<and> increasing (s # ss)"
  by (auto simp: increasing_def)

lemma increasing_distinct: "increasing segs \<Longrightarrow> distinct (map s_Index segs)"
  unfolding increasing_def using strict_sorted_iff by blast

lemma wrap64_succ: "in64 p \<Longrightarrow> in64 c \<Longrightarrow> p < c \<Longrightarrow> c = wrap64 (p + 1) \<longleftrightarrow> c = p + 1"
  by (auto simp: in64_def)

lemma gaps_marked_Cons2:
  "gaps_marked ds (p # s # ss) \<longleftrightarrow>
     (s_Index s = s_Index p + 1 \<or> gapCovered (s_Index p) (s_Index s) ds) \<and> gaps_marked ds (s # ss)"
  by (auto simp: gaps_marked_def gapCovered_def list_ex_iff All_less_Suc2)

lemma gap_errs_Nil:
  "\<forall>s \<in> set segs. in64 (s_Index s) \<Longrightarrow> increasing segs \<Longrightarrow> gap_errs ds segs = [] \<longleftrightarrow> gaps_marked ds segs"
proof (induction ds segs rule: gap_errs.induct)
  case (1 ds p s ss)
  then show ?case by (simp add: gaps_marked_Cons2 wrap64_succ)
qed (simp_all add: gaps_marked_def)

lemma cum_from_nth:
  "pos < length ss \<Longrightarrow>
     cum_from acc ss ! pos = wrap64 (acc + (\<Sum>s \<leftarrow> take (Suc pos) ss. s_DurationMS s * 1000000))"
proof (induction acc ss arbitrary: pos rule: cum_from.induct)
  case (2 acc s ss)
  then show ?case
    by (cases pos) (simp_all add: Let_def milliseconds_def algebra_simps)
qed simp

lemma cumDuration_nth:
  assumes "pos < length (m_Segments m)"
  shows "cumDuration (m_Segments m) ! pos = reflection_offset m pos"
proof (cases "m_Segments m")
  case (Cons s ss)
  with assms show ?thesis
    by (cases pos)
      (simp_all add: reflection_offset_def played_def cum_from_nth Let_def milliseconds_def)
qed (use assms in simp)

lemma last_issued_iff: "issuedByNonce ns nonce = Some n \<longleftrightarrow> last_issued ns nonce n"
  by (auto simp: nonceIdx.lookup_last last_issued_def)

lemma segPosition_iff:
  assumes "increasing segs"
  shows "segPosition segs k = Some pos \<longleftrightarrow> pos < length segs \<and> s_Index (segs ! pos) = k"
  using segPos.lookup_distinct_iff [OF increasing_distinct [OF assms]] by auto

lemma segByIndex_iff:
  assumes "increasing segs"
  shows "segByIndex segs k = Some s \<longleftrightarrow> s \<in> set segs \<and> s_Index s = k"
  using segIdx.lookup_distinct_iff [OF increasing_distinct [OF assms]] by (auto simp: in_set_conv_nth)

lemma nonce_errs_lookup:
  assumes "increasing (m_Segments m)"
  shows "nonce_errs m ns w n = [] \<longleftrightarrow>
    (\<exists>issued pos. issuedByNonce ns (n_Nonce n) = Some issued \<and>
       segPosition (m_Segments m) (n_ReflectedInSeq n) = Some pos \<and> accepted_in_window m issued pos w)"
proof (cases "segPosition (m_Segments m) (n_ReflectedInSeq n)")
  case (Some pos)
  then have "pos < length (m_Segments m)" using segPosition_iff [OF assms] by blast
  then show ?thesis
    unfolding nonce_errs_def Let_def duration_abs_def [symmetric] accepted_in_window_def
    by (auto simp: Some cumDuration_nth not_less split: option.split)
qed (simp add: nonce_errs_def split: option.split)

lemma nonce_errs_Nil:
  assumes "increasing (m_Segments m)"
  shows "nonce_errs m ns w n = [] \<longleftrightarrow> nonce_accepted m ns w n"
  by (simp add: nonce_errs_lookup assms nonce_accepted_def last_issued_iff segPosition_iff)

lemma receipt_errs_Nil:
  assumes "increasing (m_Segments m)"
  shows "receipt_errs m i r = [] \<longleftrightarrow> receipt_verified (m_Segments m) r"
proof (cases "segByIndex (m_Segments m) (d_SeqStart r)")
  case None
  then have "d_SeqStart r \<notin> s_Index ` set (m_Segments m)" by (simp add: segIdx.lookup_None)
  with None show ?thesis unfolding receipt_errs_def receipt_verified_def
    by (cases "d_SeqStart r = d_SeqEnd r") (auto simp: image_iff)
next
  case (Some s)
  then have "\<forall>s'. s' \<in> set (m_Segments m) \<and> s_Index s' = d_SeqStart r \<longleftrightarrow> s' = s"
    using segByIndex_iff [OF assms] by (metis option.inject)
  then have "(\<exists>s' \<in> set (m_Segments m). s_Index s' = d_SeqStart r \<and> s_SHA256 s' = d_SHA256 r) \<longleftrightarrow>
      s_SHA256 s = d_SHA256 r" by metis
  with Some show ?thesis
    by (cases "d_SeqStart r = d_SeqEnd r") (auto simp: receipt_errs_def receipt_verified_def)
qed

section \<open>Freshness and saturation\<close>

text \<open>How far the claimed reflection of a nonce lies from its issue, on the time line.\<close>

definition true_delay :: "StreamManifest \<Rightarrow> LivenessNonce \<Rightarrow> nat \<Rightarrow> int" where
  "true_delay m issued pos = instant (m_StartedAt m) + reflection_offset m pos - instant (n_IssuedAt issued)"

lemma accepted_in_window_iff:
  assumes "in64 w" and "w < int64_max"
  shows "accepted_in_window m issued pos w \<longleftrightarrow>
    \<bar>true_delay m issued pos\<bar> \<le> w \<or> true_delay m issued pos \<le> int64_min"
proof -
  let ?t = "time_add (m_StartedAt m) (reflection_offset m pos)" and ?u = "n_IssuedAt issued"
  have d: "instant ?t - instant ?u = true_delay m issued pos"
    by (simp add: time_add_def true_delay_def)
  consider "true_delay m issued pos \<le> int64_min" | "true_delay m issued pos > int64_max"
    | "in64 (true_delay m issued pos)" "true_delay m issued pos \<noteq> int64_min"
    unfolding in64_def by linarith
  then show ?thesis
  proof cases
    case 1
    then have "time_sub ?t ?u = int64_min" by (simp add: time_sub_least d)
    with 1 assms show ?thesis by (simp add: accepted_in_window_def duration_abs_least in64_def)
  next
    case 2
    then have "time_sub ?t ?u = int64_max"
      using d by (auto simp: time_sub_def Let_def in64_def less_time_def)
    with 2 assms show ?thesis by (simp add: accepted_in_window_def duration_abs_def)
  next
    case 3
    then have "time_sub ?t ?u = true_delay m issued pos" using d time_sub_exact by simp
    with 3 show ?thesis by (auto simp: accepted_in_window_def duration_abs_eq in64_def)
  qed
qed

lemma VerifyManifest_accepts:
  assumes "\<forall>s \<in> set (m_Segments m). in64 (s_Index s)"
  shows "VerifyManifest m ns w = None \<longleftrightarrow>
    m_Segments m \<noteq> [] \<and> increasing (m_Segments m) \<and>
    gaps_marked (m_Discontinuities m) (m_Segments m) \<and>
    (\<forall>n \<in> set (m_LivenessNonces m). nonce_accepted m ns w n) \<and>
    (\<forall>r \<in> set (m_DeliveryReceipts m). receipt_verified (m_Segments m) r)"
proof (cases "m_Segments m \<noteq> [] \<and> increasing (m_Segments m)")
  case True
  then show ?thesis
    by (simp add: receipt_errs_Nil VerifyManifest_def monotonic_errs_Nil gap_errs_Nil [OF assms] nonce_errs_Nil)
qed (auto simp: VerifyManifest_def monotonic_errs_Nil)

lemma nonce_accepted_iff:
  assumes "in64 w" "w < int64_max" and "\<forall>pos < length (m_Segments m). in64 (played m pos)"
    and "\<forall>issued \<in> set ns. \<forall>pos < length (m_Segments m). int64_min < reflection_delay m issued pos"
  shows "nonce_accepted m ns w n \<longleftrightarrow> nonce_verified m ns w n"
proof -
  have "accepted_in_window m issued pos w \<longleftrightarrow> \<bar>reflection_delay m issued pos\<bar> \<le> w"
    if "last_issued ns (n_Nonce n) issued" and pos: "pos < length (m_Segments m)" for issued pos
  proof -
    have "issued \<in> set ns" using that(1) by (auto simp: last_issued_def)
    then have "int64_min < reflection_delay m issued pos" using assms(4) pos by blast
    moreover have "true_delay m issued pos = reflection_delay m issued pos"
      using assms(3) pos by (simp add: true_delay_def reflection_delay_def reflection_offset_def)
    ultimately show ?thesis using accepted_in_window_iff [OF assms(1,2), of m issued pos] by simp
  qed
  then show ?thesis unfolding nonce_accepted_def nonce_verified_def by blast
qed

text \<open>C1. \<open>VerifyManifest\<close> accepts exactly the manifests that satisfy its four documented checks, the distance of a
  reflection from the issue of its nonce being taken on the time line. This holds as long as the stream
  lasts less than the largest duration, about 292 years, and claims no start that lies longer than that before
  an issue; beyond that the check of the window is lost to saturation.\<close>

theorem VerifyManifest_iff:
  assumes "\<forall>s \<in> set (m_Segments m). in64 (s_Index s)" and "in64 w" and "w < int64_max"
    and "\<forall>pos < length (m_Segments m). in64 (played m pos)"
    and "\<forall>issued \<in> set ns. \<forall>pos < length (m_Segments m). int64_min < reflection_delay m issued pos"
  shows "VerifyManifest m ns w = None \<longleftrightarrow>
    m_Segments m \<noteq> [] \<and> increasing (m_Segments m) \<and>
    gaps_marked (m_Discontinuities m) (m_Segments m) \<and>
    (\<forall>n \<in> set (m_LivenessNonces m). nonce_verified m ns w n) \<and>
    (\<forall>r \<in> set (m_DeliveryReceipts m). receipt_verified (m_Segments m) r)"
  unfolding VerifyManifest_accepts [OF assms(1)] nonce_accepted_iff [OF assms(2-5)] by (rule refl)

lemma verified_increasing:
  assumes "VerifyManifest m ns w = None"
  shows "m_Segments m \<noteq> []" and "increasing (m_Segments m)"
    and "\<forall>n \<in> set (m_LivenessNonces m). nonce_accepted m ns w n"
    and "\<forall>r \<in> set (m_DeliveryReceipts m). receipt_verified (m_Segments m) r"
proof -
  show ne: "m_Segments m \<noteq> []" using assms by (auto simp: VerifyManifest_def)
  with assms show inc: "increasing (m_Segments m)"
    by (simp add: VerifyManifest_def monotonic_errs_Nil)
  with assms ne show "\<forall>n \<in> set (m_LivenessNonces m). nonce_accepted m ns w n"
    and "\<forall>r \<in> set (m_DeliveryReceipts m). receipt_verified (m_Segments m) r"
    by (simp_all add: VerifyManifest_def nonce_errs_Nil receipt_errs_Nil)
qed

text \<open>In an accepted manifest every liveness nonce was issued, and its reflection lies within the
  window of its issue, unless the manifest claims to have started so long before the issue
  that the difference saturates.\<close>

theorem VerifyManifest_fresh:
  assumes "VerifyManifest m ns w = None" and "n \<in> set (m_LivenessNonces m)"
    and "in64 w" and "w < int64_max"
  shows "\<exists>issued pos. last_issued ns (n_Nonce n) issued \<and> pos < length (m_Segments m) \<and>
    s_Index (m_Segments m ! pos) = n_ReflectedInSeq n \<and>
    (\<bar>true_delay m issued pos\<bar> \<le> w \<or> true_delay m issued pos \<le> int64_min)"
  using verified_increasing(3) [OF assms(1)] assms(2)
  by (auto simp: nonce_accepted_def accepted_in_window_iff [OF assms(3,4)])

lemma nonce_errs_saturated:
  assumes "\<forall>issued \<in> set ns. \<forall>pos < length (m_Segments m). true_delay m issued pos \<le> int64_min"
    and "in64 w" and "in64 w'"
  shows "nonce_errs m ns w n = nonce_errs m ns w' n"
proof -
  have sat: "duration_abs (time_sub (time_add (m_StartedAt m) (cumDuration (m_Segments m) ! pos)) (n_IssuedAt issued)) = int64_min"
    if "issuedByNonce ns (n_Nonce n) = Some issued" and "segPosition (m_Segments m) k = Some pos" for issued pos k
  proof -
    have "issued \<in> set ns" using that(1) by (auto simp: last_issued_iff last_issued_def)
    moreover have pos: "pos < length (m_Segments m)" using segPos.lookup_Some [OF that(2)] by auto
    ultimately have "true_delay m issued pos \<le> int64_min" using assms(1) by blast
    then have "time_sub (time_add (m_StartedAt m) (cumDuration (m_Segments m) ! pos)) (n_IssuedAt issued) = int64_min"
      by (simp add: time_sub_least time_add_def cumDuration_nth [OF pos] true_delay_def)
    then show ?thesis by (simp only: duration_abs_least)
  qed
  show ?thesis
    unfolding nonce_errs_def Let_def duration_abs_def [symmetric]
    using assms(2,3) by (auto simp: sat in64_def split: option.split)
qed

text \<open>C40. Saturation defeats the window: when the manifest claims a start more than about 292 years
  before every nonce was issued, for instance the zero time of an omitted field, the size of the
  window no longer matters. The negated least duration is itself, so it is never larger than the
  window.\<close>

theorem VerifyManifest_saturated_window:
  assumes "\<forall>issued \<in> set ns. \<forall>pos < length (m_Segments m). true_delay m issued pos \<le> int64_min"
    and "in64 w" and "in64 w'"
  shows "VerifyManifest m ns w = VerifyManifest m ns w'"
proof -
  have "nonce_errs m ns w = nonce_errs m ns w'"
    using nonce_errs_saturated [OF assms] by blast
  then show ?thesis by (simp add: VerifyManifest_def)
qed

section \<open>Billing\<close>

text \<open>What one receipt is worth, without the index map: the bytes of the host-verified segment it names.\<close>

definition host_verified_bytes :: "Segment list \<Rightarrow> int \<Rightarrow> int" where
  "host_verified_bytes segs k =
     (\<Sum>s \<leftarrow> segs. if s_Index s = k \<and> s_Provenance s = ProvenanceHostVerified then s_Bytes s else 0)"

definition credit :: "(int \<Rightarrow> Segment option) \<Rightarrow> DeliveryReceipt \<Rightarrow> int" where
  "credit idx r =
     (if d_SeqStart r \<noteq> d_SeqEnd r then 0
      else (case idx (d_SeqStart r) of None \<Rightarrow> 0
        | Some s \<Rightarrow> if s_Provenance s = ProvenanceHostVerified \<and> s_SHA256 s = d_SHA256 r then s_Bytes s else 0))"

lemma VerifiedDeliveredBytes_credit:
  "VerifiedDeliveredBytes m = wrap64 (\<Sum>r \<leftarrow> m_DeliveryReceipts m. credit (segByIndex (m_Segments m)) r)"
proof -
  let ?idx = "segByIndex (m_Segments m)"
  have "in64 t \<Longrightarrow> foldl (\<lambda>total r.
           if d_SeqStart r \<noteq> d_SeqEnd r then total
           else (case ?idx (d_SeqStart r) of
                   None \<Rightarrow> total
                 | Some seg \<Rightarrow>
                     if s_Provenance seg \<noteq> ProvenanceHostVerified then total
                     else if s_SHA256 seg \<noteq> d_SHA256 r then total
                     else wrap64 (total + s_Bytes seg))) t rs = wrap64 (t + (\<Sum>r \<leftarrow> rs. credit ?idx r))" for t rs
  proof (induction rs arbitrary: t)
    case (Cons r rs)
    show ?case
      by (cases "?idx (d_SeqStart r)")
        (auto simp: Cons.prems credit_def Cons.IH algebra_simps)
  qed simp
  from this [of 0] show ?thesis
    by (simp add: VerifiedDeliveredBytes_def Let_def in64_def)
qed

lemma sum_single_index:
  "distinct (map s_Index segs) \<Longrightarrow> s \<in> set segs \<Longrightarrow>
     host_verified_bytes segs (s_Index s) = (if s_Provenance s = ProvenanceHostVerified then s_Bytes s else 0)"
proof (induction segs)
  case (Cons a segs)
  have other: "host_verified_bytes segs k = 0" if "k \<notin> s_Index ` set segs" for k
    using that unfolding host_verified_bytes_def by (induction segs) auto
  show ?case
  proof (cases "s = a")
    case True
    with Cons.prems(1) other [of "s_Index a"] show ?thesis by (simp add: host_verified_bytes_def)
  next
    case False
    with Cons show ?thesis by (auto simp: host_verified_bytes_def)
  qed
qed simp

lemma credit_verified:
  assumes "increasing segs" and "receipt_verified segs r"
  shows "credit (segByIndex segs) r = host_verified_bytes segs (d_SeqStart r)"
proof -
  obtain s where s: "s \<in> set segs" "s_Index s = d_SeqStart r" "s_SHA256 s = d_SHA256 r"
    and r: "d_SeqStart r = d_SeqEnd r" using assms(2) by (auto simp: receipt_verified_def)
  have "segByIndex segs (d_SeqStart r) = Some s" using s segByIndex_iff [OF assms(1)] by blast
  then show ?thesis
    using r s sum_single_index [OF increasing_distinct [OF assms(1)] s(1)] by (simp add: credit_def)
qed

lemma sum_list_absent: "k \<notin> set ks \<Longrightarrow> (\<Sum>k' \<leftarrow> ks. if k = k' \<and> P then b else 0) = (0 :: int)"
  by (induction ks) auto

lemma sum_list_once: "distinct ks \<Longrightarrow> 0 \<le> b \<Longrightarrow> (\<Sum>k' \<leftarrow> ks. if k = k' \<and> P then b else 0) \<le> (if P then b else (0 :: int))"
proof (induction ks)
  case (Cons a ks)
  then show ?case using sum_list_absent [of k ks P b] by (cases "k = a") auto
qed simp

lemma host_verified_sum_le:
  assumes "distinct ks" and "\<forall>s \<in> set segs. 0 \<le> s_Bytes s"
  shows "(\<Sum>k \<leftarrow> ks. host_verified_bytes segs k) \<le>
    (\<Sum>s \<leftarrow> segs. if s_Provenance s = ProvenanceHostVerified then s_Bytes s else 0)"
  using assms(2)
proof (induction segs)
  case (Cons s segs)
  have "(\<Sum>k \<leftarrow> ks. if s_Index s = k \<and> s_Provenance s = ProvenanceHostVerified then s_Bytes s else 0)
      \<le> (if s_Provenance s = ProvenanceHostVerified then s_Bytes s else 0)"
    using assms(1) Cons.prems by (intro sum_list_once) auto
  moreover have "(\<Sum>k \<leftarrow> ks. host_verified_bytes (s # segs) k) =
      (\<Sum>k \<leftarrow> ks. if s_Index s = k \<and> s_Provenance s = ProvenanceHostVerified then s_Bytes s else 0) +
      (\<Sum>k \<leftarrow> ks. host_verified_bytes segs k)"
    by (simp add: host_verified_bytes_def sum_list_addf)
  ultimately show ?case using Cons by simp
next
  case Nil
  have "host_verified_bytes [] = (\<lambda>_. 0)" by (simp add: host_verified_bytes_def [abs_def])
  then show ?case by simp
qed

text \<open>C15. For an accepted manifest the billed figure is the sum, over the receipts, of the bytes of
  the host-verified segment each one names, in 64-bit arithmetic.\<close>

theorem VerifiedDeliveredBytes_sum:
  assumes "VerifyManifest m ns w = None"
  shows "VerifiedDeliveredBytes m =
    wrap64 (\<Sum>r \<leftarrow> m_DeliveryReceipts m. host_verified_bytes (m_Segments m) (d_SeqStart r))"
proof -
  note acc = verified_increasing [OF assms]
  have "map (credit (segByIndex (m_Segments m))) (m_DeliveryReceipts m) =
      map (\<lambda>r. host_verified_bytes (m_Segments m) (d_SeqStart r)) (m_DeliveryReceipts m)"
    using acc(4) credit_verified [OF acc(2)] by simp
  then show ?thesis by (simp only: VerifiedDeliveredBytes_credit)
qed

text \<open>C2. No other claim of the worker reaches the billed figure: two manifests with the same segments
  and receipts that agree on segment range and hash are billed alike, whatever bytes, consumers,
  signatures and totals they report.\<close>

theorem VerifiedDeliveredBytes_ignores_claims:
  assumes "m_Segments m' = m_Segments m"
    and "map (\<lambda>r. (d_SeqStart r, d_SeqEnd r, d_SHA256 r)) (m_DeliveryReceipts m') =
         map (\<lambda>r. (d_SeqStart r, d_SeqEnd r, d_SHA256 r)) (m_DeliveryReceipts m)"
  shows "VerifiedDeliveredBytes m' = VerifiedDeliveredBytes m"
proof -
  have "map (credit (segByIndex (m_Segments m))) (m_DeliveryReceipts m') =
      map (credit (segByIndex (m_Segments m))) (m_DeliveryReceipts m)"
    using assms(2) by (rule map_factor) (simp add: credit_def cong: option.case_cong)
  then show ?thesis by (simp only: VerifiedDeliveredBytes_credit assms(1))
qed

text \<open>A worker cannot be credited more than the host verified, as long as each segment is receipted
  once and the sizes are sane.\<close>

theorem VerifiedDeliveredBytes_bound:
  assumes "VerifyManifest m ns w = None"
    and "distinct (map d_SeqStart (m_DeliveryReceipts m))"
    and "\<forall>s \<in> set (m_Segments m). 0 \<le> s_Bytes s"
    and "(\<Sum>s \<leftarrow> m_Segments m. if s_Provenance s = ProvenanceHostVerified then s_Bytes s else 0) \<le> int64_max"
  shows "0 \<le> VerifiedDeliveredBytes m \<and> VerifiedDeliveredBytes m \<le>
    (\<Sum>s \<leftarrow> m_Segments m. if s_Provenance s = ProvenanceHostVerified then s_Bytes s else 0)"
proof -
  note acc = verified_increasing [OF assms(1)]
  let ?sum = "\<Sum>r \<leftarrow> m_DeliveryReceipts m. host_verified_bytes (m_Segments m) (d_SeqStart r)"
  have v: "VerifiedDeliveredBytes m = wrap64 ?sum"
    using VerifiedDeliveredBytes_credit [of m] credit_verified [OF acc(2)] acc(4)
    by (simp cong: map_cong)
  have "0 \<le> host_verified_bytes (m_Segments m) k" for k
    using assms(3) unfolding host_verified_bytes_def by (intro sum_list_nonneg) auto
  then have "0 \<le> ?sum" by (intro sum_list_nonneg) auto
  moreover have "?sum \<le> (\<Sum>s \<leftarrow> m_Segments m. if s_Provenance s = ProvenanceHostVerified then s_Bytes s else 0)"
    using host_verified_sum_le [OF assms(2,3)] by (simp add: comp_def)
  ultimately show ?thesis using assms(4) v by (simp add: in64_def)
qed

text \<open>Nothing stops a receipt from being presented twice: a repeated receipt keeps an accepted
  manifest accepted and is billed again.\<close>

theorem repeated_receipt_billed_again:
  assumes "VerifyManifest m ns w = None" and "r \<in> set (m_DeliveryReceipts m)"
    and "m' = m\<lparr>m_DeliveryReceipts := m_DeliveryReceipts m @ [r]\<rparr>"
  shows "VerifyManifest m' ns w = None \<and>
    VerifiedDeliveredBytes m' = wrap64 (VerifiedDeliveredBytes m + host_verified_bytes (m_Segments m) (d_SeqStart r))"
proof -
  note acc = verified_increasing [OF assms(1)]
  have same: "m_Segments m' = m_Segments m" "m_LivenessNonces m' = m_LivenessNonces m"
    "m_Discontinuities m' = m_Discontinuities m" "m_DeliveryReceipts m' = m_DeliveryReceipts m @ [r]"
    "m_StartedAt m' = m_StartedAt m"
    using assms(3) by simp_all
  have "nonce_errs m' ns w = nonce_errs m ns w" "receipt_errs m' = receipt_errs m"
    unfolding nonce_errs_def [abs_def] receipt_errs_def [abs_def] same by (rule refl)+
  moreover have "receipt_verified (m_Segments m) r" using acc(4) assms(2) by blast
  ultimately have "VerifyManifest m' ns w = None"
    using assms(1) acc(1) receipt_errs_Nil [OF acc(2)] by (simp add: VerifyManifest_def same each_from_append)
  moreover have "VerifiedDeliveredBytes m' = wrap64 (VerifiedDeliveredBytes m + credit (segByIndex (m_Segments m)) r)"
    by (simp add: VerifiedDeliveredBytes_credit same)
  ultimately show ?thesis
    using credit_verified [OF acc(2)] \<open>receipt_verified (m_Segments m) r\<close> by simp
qed

section \<open>Witnesses\<close>

definition demo_segments :: "Segment list" where
  "demo_segments =
     [\<lparr>s_Index = 1, s_DurationMS = 2000, s_Bytes = 100, s_SHA256 = ''aa'', s_Provenance = ProvenanceHostVerified\<rparr>,
      \<lparr>s_Index = 2, s_DurationMS = 2000, s_Bytes = 50, s_SHA256 = ''bb'', s_Provenance = ProvenanceAttested\<rparr>,
      \<lparr>s_Index = 4, s_DurationMS = 1000, s_Bytes = 30, s_SHA256 = ''cc'', s_Provenance = ProvenanceHostVerified\<rparr>]"

definition demo_receipt :: "string \<Rightarrow> int \<Rightarrow> int \<Rightarrow> string \<Rightarrow> DeliveryReceipt" where
  "demo_receipt who seq bytes h = \<lparr>d_ConsumerID = who, d_Kind = ConsumerViewer, d_SeqStart = seq,
     d_SeqEnd = seq, d_Bytes = bytes, d_SHA256 = h, d_Sig = []\<rparr>"

definition demo_manifest :: "int \<Rightarrow> DeliveryReceipt list \<Rightarrow> StreamManifest" where
  "demo_manifest started receipts = \<lparr>m_Seq = 1, m_StreamID = ''stream'', m_StartedAt = Time started,
     m_LivenessNonces = [\<lparr>n_Nonce = ''n1'', n_IssuedAt = 0, n_ReflectedInSeq = 2\<rparr>],
     m_Segments = demo_segments, m_SampledFrames = [], m_DeliveryReceipts = receipts,
     m_WorkerReportedDeliveredBytes = 99999, m_AttestedPushedBytesByDestination = [],
     m_Discontinuities = [\<lparr>c_At = 0, c_Reason = ''drop'', c_PrevSeq = 2, c_ResumeSeq = 4, c_Sig = []\<rparr>],
     m_DroppedFrames = 0, m_Sig = []\<rparr>"

definition demo_receipts :: "DeliveryReceipt list" where
  "demo_receipts = [demo_receipt ''v'' 1 7 ''aa'', demo_receipt ''v'' 2 7 ''bb'', demo_receipt ''v'' 4 7 ''cc'']"

definition demo_issued :: "int \<Rightarrow> LivenessNonce list" where
  "demo_issued t0 = [\<lparr>n_Nonce = ''n1'', n_IssuedAt = Time t0, n_ReflectedInSeq = 0\<rparr>]"

lemma demo_accepted: "VerifyManifest (demo_manifest 5000000000 demo_receipts) (demo_issued 8000000000) 2000000000 = None"
  by code_simp

lemma demo_rejected: "VerifyManifest (demo_manifest 5000000000 demo_receipts) (demo_issued 8000000000) 999999999 \<noteq> None"
  by code_simp

lemma VerifyManifest_iff_witness:
  "list_all (receipt_verified demo_segments) demo_receipts \<and>
   \<not> nonce_verified (demo_manifest 5000000000 demo_receipts) (demo_issued 8000000000) 999999999
       \<lparr>n_Nonce = ''n1'', n_IssuedAt = 0, n_ReflectedInSeq = 2\<rparr>"
proof -
  let ?m = "demo_manifest 5000000000 demo_receipts" and ?ns = "demo_issued 8000000000"
  have idx: "\<forall>s \<in> set (m_Segments ?m). in64 (s_Index s)" by code_simp
  have len: "length (m_Segments ?m) = 3" by (simp add: demo_manifest_def demo_segments_def)
  have played: "\<forall>pos < length (m_Segments ?m). in64 (played ?m pos)"
    and delay: "\<forall>issued \<in> set ?ns. \<forall>pos < length (m_Segments ?m). int64_min < reflection_delay ?m issued pos"
    unfolding len by (simp_all add: numeral_3_eq_3 All_less_Suc2 played_def reflection_delay_def demo_manifest_def demo_segments_def
        demo_issued_def in64_def)
  have w: "in64 2000000000" "(2000000000 :: int) < int64_max" "in64 999999999" "(999999999 :: int) < int64_max"
    by (simp_all add: in64_def)
  note iff = VerifyManifest_iff [OF idx w(1,2) played delay] VerifyManifest_iff [OF idx w(3,4) played delay]
  from iff(1) demo_accepted have ok: "increasing (m_Segments ?m)" "gaps_marked (m_Discontinuities ?m) (m_Segments ?m)"
    "\<forall>r \<in> set (m_DeliveryReceipts ?m). receipt_verified (m_Segments ?m) r" "m_Segments ?m \<noteq> []" by blast+
  with iff(2) demo_rejected have "\<not> (\<forall>n \<in> set (m_LivenessNonces ?m). nonce_verified ?m ?ns 999999999 n)" by blast
  then show ?thesis using ok(3) by (simp add: demo_manifest_def list_all_iff)
qed

lemma VerifyManifest_fresh_witness:
  "\<exists>issued pos. last_issued (demo_issued 8000000000) ''n1'' issued \<and>
     s_Index (demo_segments ! pos) = 2 \<and>
     (\<bar>true_delay (demo_manifest 5000000000 demo_receipts) issued pos\<bar> \<le> 2000000000 \<or>
      true_delay (demo_manifest 5000000000 demo_receipts) issued pos \<le> int64_min)"
  using VerifyManifest_fresh [OF demo_accepted, of "hd (m_LivenessNonces (demo_manifest 5000000000 demo_receipts))"]
  by (simp add: demo_manifest_def in64_def) blast

text \<open>A manifest with no start time at all passes with a window of one nanosecond.\<close>

lemma VerifyManifest_saturated_window_witness:
  "VerifyManifest (demo_manifest 0 demo_receipts) (demo_issued 63000000000000000000) 1 = None"
proof -
  have "VerifyManifest (demo_manifest 0 demo_receipts) (demo_issued 63000000000000000000) int64_max = None"
    by code_simp
  moreover have "\<forall>issued \<in> set (demo_issued 63000000000000000000).
      \<forall>pos < length (m_Segments (demo_manifest 0 demo_receipts)).
        true_delay (demo_manifest 0 demo_receipts) issued pos \<le> int64_min"
    by (simp add: demo_issued_def demo_manifest_def demo_segments_def true_delay_def
        reflection_offset_def played_def wrap64_def All_less_Suc2 numeral_3_eq_3)
  ultimately show ?thesis
    using VerifyManifest_saturated_window [of "demo_issued 63000000000000000000" "demo_manifest 0 demo_receipts" int64_max 1]
    by (simp add: in64_def)
qed

lemma VerifiedDeliveredBytes_sum_witness:
  "VerifiedDeliveredBytes (demo_manifest 5000000000 demo_receipts) = 130"
  using VerifiedDeliveredBytes_sum [OF demo_accepted]
  by (simp add: demo_manifest_def demo_receipts_def demo_receipt_def demo_segments_def
      host_verified_bytes_def ProvenanceHostVerified_def ProvenanceAttested_def in64_def)

lemma VerifiedDeliveredBytes_ignores_claims_witness:
  "VerifiedDeliveredBytes (demo_manifest 0 [demo_receipt ''x'' 1 1000000 ''aa'']) =
   VerifiedDeliveredBytes (demo_manifest 0 [demo_receipt ''v'' 1 100 ''aa''])"
  by (rule VerifiedDeliveredBytes_ignores_claims) (simp_all add: demo_manifest_def demo_receipt_def)

lemma VerifiedDeliveredBytes_bound_witness:
  "VerifiedDeliveredBytes (demo_manifest 5000000000 demo_receipts) \<le> 130"
  using VerifiedDeliveredBytes_bound [OF demo_accepted]
  by (simp add: demo_manifest_def demo_receipts_def demo_receipt_def demo_segments_def
      ProvenanceHostVerified_def ProvenanceAttested_def)

lemma repeated_receipt_billed_again_witness:
  "VerifiedDeliveredBytes ((demo_manifest 5000000000 demo_receipts)
     \<lparr>m_DeliveryReceipts := demo_receipts @ [hd demo_receipts]\<rparr>) = 230"
proof -
  have "VerifiedDeliveredBytes (demo_manifest 5000000000 demo_receipts) = 130" by code_simp
  then show ?thesis
    using repeated_receipt_billed_again [OF demo_accepted, of "hd demo_receipts"]
    by (simp add: demo_manifest_def demo_receipts_def demo_receipt_def demo_segments_def
        host_verified_bytes_def ProvenanceHostVerified_def ProvenanceAttested_def in64_def)
qed

end
