(* ===== verification/GoStrings.thy ===== *)
theory GoStrings
  imports Prelude "HOL-Library.Sublist"
begin

text \<open>
  The parts of Go's \<open>strings\<close>, \<open>path\<close>, \<open>encoding/hex\<close> and \<open>strconv\<close> packages the
  source calls. A Go string is a sequence of bytes, and so is a \<open>string\<close> here: a \<open>char\<close> is
  one byte, and a character outside ASCII is its UTF-8 bytes.
\<close>

section \<open>Prefixes, substrings, character classes\<close>

abbreviation has_prefix :: "string \<Rightarrow> string \<Rightarrow> bool" where
  \<comment> \<open>\<open>strings.HasPrefix(s, p)\<close>\<close>
  "has_prefix s p \<equiv> prefix p s"

definition trim_prefix :: "string \<Rightarrow> string \<Rightarrow> string" where
  \<comment> \<open>\<open>strings.TrimPrefix(s, p)\<close>\<close>
  "trim_prefix s p = (if prefix p s then drop (length p) s else s)"

primrec contains_str :: "string \<Rightarrow> string \<Rightarrow> bool" where
  \<comment> \<open>\<open>strings.Contains(s, t)\<close>\<close>
  "contains_str [] t = (t = [])"
| "contains_str (c # s) t = (prefix t (c # s) \<or> contains_str s t)"

definition contains_any :: "string \<Rightarrow> string \<Rightarrow> bool" where
  \<comment> \<open>\<open>strings.ContainsAny(s, chars)\<close> for a set of ASCII characters\<close>
  "contains_any s cs = list_ex (\<lambda>c. c \<in> set cs) s"

fun cut_char :: "char \<Rightarrow> string \<Rightarrow> (string \<times> string) option" where
  \<comment> \<open>\<open>strings.Cut(s, sep)\<close> for a one-byte separator: \<open>None\<close> when it is not found\<close>
  "cut_char c [] = None"
| "cut_char c (x # xs) = (if x = c then Some ([], xs) else map_option (map_prod ((#) x) id) (cut_char c xs))"

fun split_char :: "char \<Rightarrow> string \<Rightarrow> string list" where
  \<comment> \<open>\<open>strings.Split(s, sep)\<close> for a one-byte separator\<close>
  "split_char c [] = [[]]"
| "split_char c (x # xs) =
     (if x = c then [] # split_char c xs
      else (case split_char c xs of [] \<Rightarrow> [[x]] | w # ws \<Rightarrow> (x # w) # ws))"

fun join_char :: "char \<Rightarrow> string list \<Rightarrow> string" where
  \<comment> \<open>\<open>strings.Join(ss, sep)\<close> for a one-byte separator\<close>
  "join_char c [] = []"
| "join_char c [w] = w"
| "join_char c (w # ws) = w @ c # join_char c ws"

text \<open>The literal sets of characters the validators exclude.\<close>

definition ch_nul :: string where "ch_nul = [CHR 0x00]"
definition ws_chars :: string where "ws_chars = [CHR '' '', CHR 0x09, CHR 0x0D, CHR 0x0A]"
  \<comment> \<open>the literal of a space, tab, carriage return and newline\<close>
definition ctl_chars :: string where "ctl_chars = [CHR 0x09, CHR 0x0D, CHR 0x0A]"
  \<comment> \<open>tab, carriage return, newline\<close>

section \<open>TrimSpace\<close>

text \<open>
  \<open>space_len\<close> is the number of bytes of the white-space character a string starts with, 0 when
  it starts with none: the six ASCII ones, and U+0085, U+00A0, U+1680, U+2000 to U+200A, U+2028,
  U+2029, U+202F, U+205F and U+3000 in UTF-8. \<open>rspace_len\<close> is the same on a reversed string.
  UTF-8 is self-synchronising, so stripping these byte sequences is what \<open>strings.TrimSpace\<close>
  does with decoded characters.
\<close>

definition ascii_space :: "char \<Rightarrow> bool" where
  "ascii_space c \<longleftrightarrow> c \<in> set [CHR 0x09, CHR 0x0A, CHR 0x0B, CHR 0x0C, CHR 0x0D, CHR '' '']"

definition space2 :: "char \<Rightarrow> char \<Rightarrow> bool" where
  "space2 a b \<longleftrightarrow> a = CHR 0xC2 \<and> (b = CHR 0x85 \<or> b = CHR 0xA0)"

definition space3 :: "char \<Rightarrow> char \<Rightarrow> char \<Rightarrow> bool" where
  "space3 a b c \<longleftrightarrow>
     [a, b, c] \<in> set [[CHR 0xE1, CHR 0x9A, CHR 0x80], [CHR 0xE2, CHR 0x81, CHR 0x9F],
       [CHR 0xE3, CHR 0x80, CHR 0x80]] \<or>
     a = CHR 0xE2 \<and> b = CHR 0x80 \<and>
     c \<in> set [CHR 0x80, CHR 0x81, CHR 0x82, CHR 0x83, CHR 0x84, CHR 0x85, CHR 0x86, CHR 0x87,
       CHR 0x88, CHR 0x89, CHR 0x8A, CHR 0xA8, CHR 0xA9, CHR 0xAF]"

definition space_len :: "string \<Rightarrow> nat" where
  "space_len s =
     (case s of [] \<Rightarrow> 0
      | a # s1 \<Rightarrow> if ascii_space a then 1 else
        (case s1 of [] \<Rightarrow> 0
         | b # s2 \<Rightarrow> if space2 a b then 2 else
           (case s2 of [] \<Rightarrow> 0 | c # _ \<Rightarrow> if space3 a b c then 3 else 0)))"

definition rspace_len :: "string \<Rightarrow> nat" where
  "rspace_len s =
     (case s of [] \<Rightarrow> 0
      | a # s1 \<Rightarrow> if ascii_space a then 1 else
        (case s1 of [] \<Rightarrow> 0
         | b # s2 \<Rightarrow> if space2 b a then 2 else
           (case s2 of [] \<Rightarrow> 0 | c # _ \<Rightarrow> if space3 c b a then 3 else 0)))"

function strip :: "(string \<Rightarrow> nat) \<Rightarrow> string \<Rightarrow> string" where
  "strip f s = (if f s = 0 \<or> s = [] then s else strip f (drop (f s) s))"
  by pat_completeness auto
termination by (relation "measure (length \<circ> snd)") auto

declare strip.simps [simp del]

definition trim_left :: "string \<Rightarrow> string" where
  "trim_left = strip space_len"

definition trim_right :: "string \<Rightarrow> string" where
  "trim_right s = rev (strip rspace_len (rev s))"

definition trim_space :: "string \<Rightarrow> string" where
  \<comment> \<open>\<open>strings.TrimSpace\<close>\<close>
  "trim_space s = trim_right (trim_left s)"

section \<open>Case mapping\<close>

text \<open>
  \<open>strings.ToLower\<close> and \<open>strings.ToUpper\<close> map whole Unicode characters. With one exception the
  source only compares the result with ASCII text, searches it for ASCII substrings or characters,
  and trims it. (The exception, the capability names of a runtime profile, takes \<open>ToUpper\<close> as a
  parameter.) For those uses what matters is which bytes become ASCII: the ASCII letters, and the few
  other characters whose lower or upper case is an ASCII letter (U+0130 and U+212A lower to
  \<open>i\<close> and \<open>k\<close>; U+0131 and U+017F upper to \<open>I\<close> and \<open>S\<close>). Every other
  non-ASCII character maps to non-ASCII bytes and is left as it is here.
\<close>

definition upper_letters :: string where "upper_letters = ''ABCDEFGHIJKLMNOPQRSTUVWXYZ''"
definition lower_letters :: string where "lower_letters = ''abcdefghijklmnopqrstuvwxyz''"

definition lower_char :: "char \<Rightarrow> char" where
  "lower_char c = (case map_of (zip upper_letters lower_letters) c of None \<Rightarrow> c | Some d \<Rightarrow> d)"

definition upper_char :: "char \<Rightarrow> char" where
  "upper_char c = (case map_of (zip lower_letters upper_letters) c of None \<Rightarrow> c | Some d \<Rightarrow> d)"

fun to_lower :: "string \<Rightarrow> string" where
  "to_lower [] = []"
| "to_lower (a # s) =
     (if prefix [CHR 0xC4, CHR 0xB0] (a # s) then CHR ''i'' # to_lower (drop 1 s)
      else if prefix [CHR 0xE2, CHR 0x84, CHR 0xAA] (a # s) then CHR ''k'' # to_lower (drop 2 s)
      else lower_char a # to_lower s)"

fun to_upper :: "string \<Rightarrow> string" where
  "to_upper [] = []"
| "to_upper (a # s) =
     (if prefix [CHR 0xC4, CHR 0xB1] (a # s) then CHR ''I'' # to_upper (drop 1 s)
      else if prefix [CHR 0xC5, CHR 0xBF] (a # s) then CHR ''S'' # to_upper (drop 1 s)
      else upper_char a # to_upper s)"

text \<open>
  \<open>strings.EqualFold(s, t)\<close> for a lower-case ASCII \<open>t\<close>: under simple Unicode folding the only
  characters equal to an ASCII letter are its two cases, U+017F for \<open>s\<close> and U+212A for \<open>k\<close>.
\<close>

fun fold_case :: "string \<Rightarrow> string" where
  "fold_case [] = []"
| "fold_case (a # s) =
     (if prefix [CHR 0xC5, CHR 0xBF] (a # s) then CHR ''s'' # fold_case (drop 1 s)
      else if prefix [CHR 0xE2, CHR 0x84, CHR 0xAA] (a # s) then CHR ''k'' # fold_case (drop 2 s)
      else lower_char a # fold_case s)"

definition equal_fold :: "string \<Rightarrow> string \<Rightarrow> bool" where
  "equal_fold s t \<longleftrightarrow> fold_case s = t"

section \<open>Hexadecimal\<close>

definition is_hex_digit :: "char \<Rightarrow> bool" where
  "is_hex_digit c \<longleftrightarrow> c \<in> set ''0123456789abcdefABCDEF''"

definition hex_decodes :: "string \<Rightarrow> bool" where
  \<comment> \<open>\<open>hex.DecodeString\<close> returns no error\<close>
  "hex_decodes s \<longleftrightarrow> even (length s) \<and> list_all is_hex_digit s"

definition hex_encode :: "string \<Rightarrow> string" where
  \<comment> \<open>\<open>hex.EncodeToString\<close>\<close>
  "hex_encode bs = concat (map (\<lambda>b. [''0123456789abcdef'' ! (of_char b div 16), ''0123456789abcdef'' ! (of_char b mod 16)]) bs)"

section \<open>path.Clean\<close>

text \<open>
  The documented rules of \<open>path.Clean\<close>: empty and \<open>.\<close> elements disappear, an inner
  \<open>..\<close> removes the element before it, a leading \<open>..\<close> of a rooted path disappears,
  and the empty result is \<open>.\<close>. The elements kept so far are a stack, last one first.
\<close>

fun clean_elems :: "bool \<Rightarrow> string list \<Rightarrow> string list \<Rightarrow> string list" where
  "clean_elems rooted stk [] = rev stk"
| "clean_elems rooted stk (w # ws) =
     (if w = [] \<or> w = ''.'' then clean_elems rooted stk ws
      else if w = ''..'' then
        (case stk of
           t # ts \<Rightarrow> if t = ''..'' then clean_elems rooted (w # stk) ws else clean_elems rooted ts ws
         | [] \<Rightarrow> if rooted then clean_elems rooted [] ws else clean_elems rooted [w] ws)
      else clean_elems rooted (w # stk) ws)"

definition path_clean :: "string \<Rightarrow> string" where
  "path_clean p =
     (let rooted = prefix ''/'' p;
          out = clean_elems rooted [] (split_char (CHR ''/'') p);
          body = join_char (CHR ''/'') out
      in if rooted then CHR ''/'' # body else if out = [] then ''.'' else body)"

section \<open>Laws\<close>

lemma strip_fixed: "f (strip f s) = 0 \<or> strip f s = []"
  by (induction f s rule: strip.induct) (subst (1 2) strip.simps, auto)

lemma strip_suffix: "suffix (strip f s) s"
proof (induction f s rule: strip.induct)
  case (1 f s)
  show ?case
  proof (cases "f s = 0 \<or> s = []")
    case True
    then show ?thesis by (simp add: strip.simps [of f s])
  next
    case False
    with 1 have "suffix (strip f (drop (f s) s)) (drop (f s) s)" by simp
    with False show ?thesis
      by (simp add: strip.simps [of f s]) (meson suffix_drop suffix_order.trans)
  qed
qed

lemma strip_id: "f s = 0 \<Longrightarrow> strip f s = s"
  by (simp add: strip.simps)

lemma space_len_Nil [simp]: "space_len [] = 0" "rspace_len [] = 0"
  by (simp_all add: space_len_def rspace_len_def)

lemma space_len_strip [simp]: "space_len (strip space_len s) = 0" "rspace_len (strip rspace_len s) = 0"
  using strip_fixed [of space_len s] strip_fixed [of rspace_len s] by auto

text \<open>A string that starts with no white space has no prefix that does.\<close>

lemma space_len_prefix:
  assumes "space_len t = 0" and "prefix s t"
  shows "space_len s = 0"
proof -
  obtain z where t: "t = s @ z" using assms(2) by (auto simp: prefix_def)
  show ?thesis
  proof (cases s)
    case s: (Cons a s1)
    show ?thesis
    proof (cases s1)
      case s1: (Cons b s2)
      then show ?thesis using assms(1) by (cases s2) (simp_all add: t s space_len_def split: if_splits)
    qed (use assms(1) in \<open>auto simp: t s space_len_def split: if_splits\<close>)
  qed simp
qed

lemma trim_right_prefix: "prefix (trim_right s) s"
  using strip_suffix [of rspace_len "rev s"] by (simp add: trim_right_def suffix_to_prefix)

lemma trim_space_ends: "space_len (trim_space s) = 0" "rspace_len (rev (trim_space s)) = 0"
proof -
  have "space_len (trim_left s) = 0" by (simp add: trim_left_def)
  then show "space_len (trim_space s) = 0"
    unfolding trim_space_def using trim_right_prefix by (rule space_len_prefix)
qed (simp add: trim_space_def trim_right_def)

lemma trim_space_id_iff: "trim_space s = s \<longleftrightarrow> space_len s = 0 \<and> rspace_len (rev s) = 0"
proof
  assume "trim_space s = s"
  then show "space_len s = 0 \<and> rspace_len (rev s) = 0"
    using trim_space_ends [of s] by simp
next
  assume "space_len s = 0 \<and> rspace_len (rev s) = 0"
  then show "trim_space s = s"
    by (simp add: trim_space_def trim_left_def trim_right_def strip_id)
qed

lemma trim_space_idem [simp]: "trim_space (trim_space s) = trim_space s"
  by (simp add: trim_space_id_iff trim_space_ends)

lemma trim_space_Nil [simp]: "trim_space [] = []"
  by (simp add: trim_space_id_iff)

lemma trim_space_nonempty: "trim_space s = s \<Longrightarrow> trim_space s = [] \<longleftrightarrow> s = []"
  by simp

text \<open>Joining two trimmed parts with a hyphen needs no trimming.\<close>

lemma space_len_hyphen: "space_len s = 0 \<Longrightarrow> space_len (s @ CHR ''-'' # t) = 0"
proof (cases s)
  case s: (Cons a s1)
  assume "space_len s = 0"
  then show ?thesis
  proof (cases s1)
    case s1: (Cons b s2)
    with \<open>space_len s = 0\<close> show ?thesis
      by (cases s2) (simp_all add: s space_len_def space3_def split: if_splits)
  qed (simp add: s space_len_def space2_def space3_def split: if_splits list.splits)
qed (simp add: space_len_def ascii_space_def space2_def space3_def split: list.splits)

lemma rspace_len_hyphen: "rspace_len s = 0 \<Longrightarrow> rspace_len (s @ CHR ''-'' # t) = 0"
proof (cases s)
  case s: (Cons a s1)
  assume "rspace_len s = 0"
  then show ?thesis
  proof (cases s1)
    case s1: (Cons b s2)
    with \<open>rspace_len s = 0\<close> show ?thesis
      by (cases s2) (simp_all add: s rspace_len_def space3_def split: if_splits)
  qed (simp add: s rspace_len_def space2_def space3_def split: if_splits list.splits)
qed (simp add: rspace_len_def ascii_space_def space2_def space3_def split: list.splits)

lemma trim_space_hyphen:
  "trim_space s = s \<Longrightarrow> trim_space t = t \<Longrightarrow> trim_space (s @ CHR ''-'' # t) = s @ CHR ''-'' # t"
  by (simp add: trim_space_id_iff space_len_hyphen rspace_len_hyphen)

lemma contains_any_append [simp]: "contains_any (s @ t) cs \<longleftrightarrow> contains_any s cs \<or> contains_any t cs"
  by (simp add: contains_any_def)

lemma contains_any_Cons [simp]: "contains_any (c # t) cs \<longleftrightarrow> c \<in> set cs \<or> contains_any t cs"
  by (simp add: contains_any_def)

lemma contains_any_Nil [simp]: "\<not> contains_any [] cs"
  by (simp add: contains_any_def)

lemma contains_any_iff: "contains_any s cs \<longleftrightarrow> set s \<inter> set cs \<noteq> {}"
  by (auto simp: contains_any_def list_ex_iff)

lemma contains_str_iff: "contains_str s t \<longleftrightarrow> (\<exists>u v. s = u @ t @ v)"
proof (induction s)
  case (Cons c s)
  have "(\<exists>u v. c # s = u @ t @ v) \<longleftrightarrow> prefix t (c # s) \<or> (\<exists>u v. s = u @ t @ v)"
  proof
    assume "\<exists>u v. c # s = u @ t @ v"
    then obtain u v where "c # s = u @ t @ v" by blast
    then show "prefix t (c # s) \<or> (\<exists>u v. s = u @ t @ v)"
      by (cases u) (auto simp: prefix_def)
  next
    assume "prefix t (c # s) \<or> (\<exists>u v. s = u @ t @ v)"
    then show "\<exists>u v. c # s = u @ t @ v"
      by (metis append_Cons append_Nil prefix_def)
  qed
  then show ?case by (simp add: Cons.IH)
qed auto

lemma trim_prefix_append [simp]: "trim_prefix (p @ s) p = s"
  by (simp add: trim_prefix_def)

text \<open>Cutting at a separator and splitting are inverse to joining.\<close>

lemma cut_char_Some: "cut_char c s = Some (a, b) \<longleftrightarrow> s = a @ c # b \<and> c \<notin> set a"
proof (induction s arbitrary: a)
  case (Cons x xs)
  show ?case
  proof (cases a)
    case Nil
    then show ?thesis by auto
  next
    case (Cons y ys)
    then show ?thesis using Cons.IH [of ys]
      by (auto simp: map_option_case split: option.splits)
  qed
qed auto

lemma cut_char_None: "cut_char c s = None \<longleftrightarrow> c \<notin> set s"
  by (induction s) auto

lemma split_char_nonempty [simp]: "split_char c s \<noteq> []"
  by (induction s) (auto split: list.splits)

lemma join_split_char: "join_char c (split_char c s) = s"
proof (induction s)
  case (Cons x xs)
  obtain w ws where w: "split_char c xs = w # ws"
    by (meson neq_Nil_conv split_char_nonempty)
  show ?case using Cons.IH by (cases ws) (auto simp: w)
qed simp

lemma split_char_no_sep: "w \<in> set (split_char c s) \<Longrightarrow> c \<notin> set w"
  by (induction s arbitrary: w) (auto split: list.splits if_splits)

text \<open>Hexadecimal output is decodable and in lower case.\<close>

lemma hex_digit_nth: "i < 16 \<Longrightarrow> ''0123456789abcdef'' ! i \<in> set ''0123456789abcdef''"
  by (rule nth_mem) simp

lemma hex_encode_set: "c \<in> set (hex_encode bs) \<Longrightarrow> c \<in> set ''0123456789abcdef''"
proof -
  assume "c \<in> set (hex_encode bs)"
  then obtain b :: char where c: "c = ''0123456789abcdef'' ! (of_char b div 16) \<or> c = ''0123456789abcdef'' ! (of_char b mod 16)"
    by (auto simp: hex_encode_def)
  have "(of_char b :: nat) < 256" by simp
  then have "(of_char b :: nat) div 16 < 16" by (simp add: div_less_iff_less_mult)
  moreover have "(of_char b :: nat) mod 16 < 16" by simp
  ultimately show ?thesis using c hex_digit_nth by metis
qed

lemma length_hex_encode: "length (hex_encode bs) = 2 * length bs"
  by (induction bs) (simp_all add: hex_encode_def)

lemma hex_encode_decodes: "hex_decodes (hex_encode bs)"
  by (auto simp: hex_decodes_def length_hex_encode list_all_iff is_hex_digit_def dest: hex_encode_set)

lemma lower_char_hex: "c \<in> set ''0123456789abcdef'' \<Longrightarrow> lower_char c = c"
proof -
  have "list_all (\<lambda>c. lower_char c = c) ''0123456789abcdef''" by code_simp
  then show "c \<in> set ''0123456789abcdef'' \<Longrightarrow> lower_char c = c" by (simp only: list_all_iff)
qed

lemma to_lower_id:
  assumes "\<And>c. c \<in> set s \<Longrightarrow> lower_char c = c" and "CHR 0xC4 \<notin> set s" and "CHR 0xE2 \<notin> set s"
  shows "to_lower s = s"
  using assms by (induction s rule: to_lower.induct) auto

lemma to_lower_hex_encode: "to_lower (hex_encode bs) = hex_encode bs"
  by (rule to_lower_id) (auto dest: hex_encode_set intro: lower_char_hex)

end
