(* ===== verification/Vocabulary.thy ===== *)
theory Vocabulary
  imports Prelude
begin

text \<open>
  The named string constants of \<open>protocol/types.go\<close>. Each Go type \<open>type T string\<close> is a
  synonym of \<open>string\<close>, since a decoded document can hold any string there; each constant
  keeps its Go name. The collection \<open>enum\<close> unfolds them all.
\<close>

named_theorems enum \<open>values of the named constants\<close>

definition Version :: string where [enum]: "Version = ''compute.v1alpha1''"

section \<open>Workloads and runtimes\<close>

type_synonym NetworkOperatingMode = string

definition NetworkModeBatch :: NetworkOperatingMode where [enum]: "NetworkModeBatch = ''batch''"
definition NetworkModeWarmService :: NetworkOperatingMode where [enum]: "NetworkModeWarmService = ''warm-service''"
definition NetworkModeNodeService :: NetworkOperatingMode where [enum]: "NetworkModeNodeService = ''node-service''"
definition NetworkModeInferenceAPI :: NetworkOperatingMode where [enum]: "NetworkModeInferenceAPI = ''inference-api''"

type_synonym WorkloadKind = string

definition WorkloadCommand :: WorkloadKind where [enum]: "WorkloadCommand = ''command''"
definition WorkloadContainerBuild :: WorkloadKind where [enum]: "WorkloadContainerBuild = ''container-build''"
definition WorkloadDockerComposeBuild :: WorkloadKind where [enum]: "WorkloadDockerComposeBuild = ''docker-compose-build''"
definition WorkloadBenchmark :: WorkloadKind where [enum]: "WorkloadBenchmark = ''benchmark''"
definition WorkloadTraining :: WorkloadKind where [enum]: "WorkloadTraining = ''training''"
definition WorkloadService :: WorkloadKind where [enum]: "WorkloadService = ''service''"
definition WorkloadNodeService :: WorkloadKind where [enum]: "WorkloadNodeService = ''node-service''"
definition WorkloadContentCache :: WorkloadKind where [enum]: "WorkloadContentCache = ''content-cache''"
definition WorkloadSupervisor :: WorkloadKind where [enum]: "WorkloadSupervisor = ''supervisor''"
definition WorkloadProductCapture :: WorkloadKind where [enum]: "WorkloadProductCapture = ''product-capture''"
definition WorkloadProvider :: WorkloadKind where [enum]: "WorkloadProvider = ''provider''"
definition WorkloadWASMComponent :: WorkloadKind where [enum]: "WorkloadWASMComponent = ''wasm-component''"
definition WorkloadVideoStream :: WorkloadKind where [enum]: "WorkloadVideoStream = ''video-stream''"
definition WorkloadMediaTransform :: WorkloadKind where [enum]: "WorkloadMediaTransform = ''media-transform''"

type_synonym RuntimeProfile = string

definition RuntimeProfileSandboxedOCI :: RuntimeProfile where [enum]: "RuntimeProfileSandboxedOCI = ''sandboxed-oci-v1''"
definition RuntimeProfileContainerBuild :: RuntimeProfile where [enum]: "RuntimeProfileContainerBuild = ''container-build-v1''"
definition RuntimeProfileServiceOCI :: RuntimeProfile where [enum]: "RuntimeProfileServiceOCI = ''service-oci-v1''"
definition RuntimeProfileWASMComponent :: RuntimeProfile where [enum]: "RuntimeProfileWASMComponent = ''wasm-component-v1''"
definition RuntimeProfileBrowserWorker :: RuntimeProfile where [enum]: "RuntimeProfileBrowserWorker = ''browser-worker-wasm-v1''"

type_synonym ContainerRuntimeTool = string

definition ContainerRuntimePodman :: ContainerRuntimeTool where [enum]: "ContainerRuntimePodman = ''podman''"
definition ContainerRuntimeDocker :: ContainerRuntimeTool where [enum]: "ContainerRuntimeDocker = ''docker''"
definition ContainerRuntimeNerdctl :: ContainerRuntimeTool where [enum]: "ContainerRuntimeNerdctl = ''nerdctl''"
definition ContainerRuntimeAppleContainer :: ContainerRuntimeTool where [enum]: "ContainerRuntimeAppleContainer = ''apple-container''"

type_synonym RuntimePermission = string

definition RuntimePermissionForbidden :: RuntimePermission where [enum]: "RuntimePermissionForbidden = ''forbidden''"
definition RuntimePermissionExplicit :: RuntimePermission where [enum]: "RuntimePermissionExplicit = ''explicit''"
definition RuntimePermissionAllowed :: RuntimePermission where [enum]: "RuntimePermissionAllowed = ''allowed''"

section \<open>Policies\<close>

type_synonym ResidueMode = string

definition ResidueModeIsolated :: ResidueMode where [enum]: "ResidueModeIsolated = ''isolated''"
definition ResidueModeNone :: ResidueMode where [enum]: "ResidueModeNone = ''none''"
definition ResidueModeProviderBound :: ResidueMode where [enum]: "ResidueModeProviderBound = ''provider-bound''"
definition ResidueModeWorkerBound :: ResidueMode where [enum]: "ResidueModeWorkerBound = ''worker-bound''"
definition ResidueModeSessionBound :: ResidueMode where [enum]: "ResidueModeSessionBound = ''session-bound''"

type_synonym UpstreamClientConformance = string

definition UpstreamClientConformanceShapeOnly :: UpstreamClientConformance where [enum]: "UpstreamClientConformanceShapeOnly = ''shape-only''"
definition UpstreamClientConformanceRealClient :: UpstreamClientConformance where [enum]: "UpstreamClientConformanceRealClient = ''real-client''"

section \<open>Execution and proof tiers\<close>

type_synonym ExecutionSecurityTier = string

definition ExecutionTrustedNative :: ExecutionSecurityTier where [enum]: "ExecutionTrustedNative = ''trusted-native''"
definition ExecutionHardenedContainer :: ExecutionSecurityTier where [enum]: "ExecutionHardenedContainer = ''hardened-container''"
definition ExecutionSandboxedContainer :: ExecutionSecurityTier where [enum]: "ExecutionSandboxedContainer = ''sandboxed-container''"
definition ExecutionMicroVM :: ExecutionSecurityTier where [enum]: "ExecutionMicroVM = ''microvm''"
definition ExecutionConfidentialCPU :: ExecutionSecurityTier where [enum]: "ExecutionConfidentialCPU = ''confidential-cpu''"
definition ExecutionConfidentialGPU :: ExecutionSecurityTier where [enum]: "ExecutionConfidentialGPU = ''confidential-gpu''"
definition ExecutionWASMCapability :: ExecutionSecurityTier where [enum]: "ExecutionWASMCapability = ''wasm-capability''"

type_synonym ProofTier = string

definition ProofReceiptOnly :: ProofTier where [enum]: "ProofReceiptOnly = ''receipt-only''"
definition ProofArtifactHash :: ProofTier where [enum]: "ProofArtifactHash = ''artifact-hash''"
definition ProofReplicatedQuorum :: ProofTier where [enum]: "ProofReplicatedQuorum = ''replicated-quorum''"
definition ProofAttestedReceipt :: ProofTier where [enum]: "ProofAttestedReceipt = ''attested-receipt''"
definition ProofAttestedQuorum :: ProofTier where [enum]: "ProofAttestedQuorum = ''attested-quorum''"
definition ProofZKReplay :: ProofTier where [enum]: "ProofZKReplay = ''zk-replay''"
definition ProofStreamSegmentManifest :: ProofTier where [enum]: "ProofStreamSegmentManifest = ''stream-segment-manifest''"

type_synonym VerificationStatus = string

definition VerificationUnknown :: VerificationStatus where [enum]: "VerificationUnknown = []"
definition VerificationPending :: VerificationStatus where [enum]: "VerificationPending = ''pending''"
definition VerificationAccepted :: VerificationStatus where [enum]: "VerificationAccepted = ''accepted''"
definition VerificationRejected :: VerificationStatus where [enum]: "VerificationRejected = ''rejected''"
definition VerificationConflicted :: VerificationStatus where [enum]: "VerificationConflicted = ''conflicted''"

type_synonym RuntimeAdapterKind = string

definition RuntimeAdapterExecution :: RuntimeAdapterKind where [enum]: "RuntimeAdapterExecution = ''execution''"
definition RuntimeAdapterServiceRun :: RuntimeAdapterKind where [enum]: "RuntimeAdapterServiceRun = ''service-run''"
definition RuntimeAdapterServiceSession :: RuntimeAdapterKind where [enum]: "RuntimeAdapterServiceSession = ''service-session''"

type_synonym RuntimeWorkspacePolicy = string

definition RuntimeWorkspaceUnavailable :: RuntimeWorkspacePolicy where [enum]: "RuntimeWorkspaceUnavailable = ''unavailable''"
definition RuntimeWorkspaceOptional :: RuntimeWorkspacePolicy where [enum]: "RuntimeWorkspaceOptional = ''optional''"
definition RuntimeWorkspaceRequired :: RuntimeWorkspacePolicy where [enum]: "RuntimeWorkspaceRequired = ''required''"

section \<open>Runtime backends\<close>

type_synonym ProviderCapabilityStatus = string

definition ProviderCapabilitySupported :: ProviderCapabilityStatus where [enum]: "ProviderCapabilitySupported = ''supported''"
definition ProviderCapabilityDegraded :: ProviderCapabilityStatus where [enum]: "ProviderCapabilityDegraded = ''degraded''"
definition ProviderCapabilityUnsupported :: ProviderCapabilityStatus where [enum]: "ProviderCapabilityUnsupported = ''unsupported''"

type_synonym RuntimeBackendStatus = string

definition RuntimeBackendSupported :: RuntimeBackendStatus where [enum]: "RuntimeBackendSupported = ''supported''"
definition RuntimeBackendDegraded :: RuntimeBackendStatus where [enum]: "RuntimeBackendDegraded = ''degraded''"
definition RuntimeBackendUnsupported :: RuntimeBackendStatus where [enum]: "RuntimeBackendUnsupported = ''unsupported''"

type_synonym RuntimeBackendFamily = string

definition RuntimeBackendFamilyPodman :: RuntimeBackendFamily where [enum]: "RuntimeBackendFamilyPodman = ''podman''"
definition RuntimeBackendFamilyDocker :: RuntimeBackendFamily where [enum]: "RuntimeBackendFamilyDocker = ''docker''"
definition RuntimeBackendFamilyNerdctl :: RuntimeBackendFamily where [enum]: "RuntimeBackendFamilyNerdctl = ''nerdctl''"
definition RuntimeBackendFamilyContainerd :: RuntimeBackendFamily where [enum]: "RuntimeBackendFamilyContainerd = ''containerd''"
definition RuntimeBackendFamilyAppleContainer :: RuntimeBackendFamily where [enum]: "RuntimeBackendFamilyAppleContainer = ''apple-container''"
definition RuntimeBackendFamilyHyperV :: RuntimeBackendFamily where [enum]: "RuntimeBackendFamilyHyperV = ''hyper-v''"
definition RuntimeBackendFamilyWSL :: RuntimeBackendFamily where [enum]: "RuntimeBackendFamilyWSL = ''wsl''"
definition RuntimeBackendFamilyMediaMTX :: RuntimeBackendFamily where [enum]: "RuntimeBackendFamilyMediaMTX = ''mediamtx''"

type_synonym RuntimeIsolationMode = string

definition RuntimeIsolationSharedKernelContainer :: RuntimeIsolationMode where [enum]: "RuntimeIsolationSharedKernelContainer = ''shared-kernel-container''"
definition RuntimeIsolationUserNamespace :: RuntimeIsolationMode where [enum]: "RuntimeIsolationUserNamespace = ''user-namespace''"
definition RuntimeIsolationVMBackedContainer :: RuntimeIsolationMode where [enum]: "RuntimeIsolationVMBackedContainer = ''vm-backed-container''"
definition RuntimeIsolationMicroVM :: RuntimeIsolationMode where [enum]: "RuntimeIsolationMicroVM = ''microvm''"
definition RuntimeIsolationConfidentialRuntime :: RuntimeIsolationMode where [enum]: "RuntimeIsolationConfidentialRuntime = ''confidential-runtime''"

type_synonym RuntimeInstallBurden = string

definition RuntimeInstallBundled :: RuntimeInstallBurden where [enum]: "RuntimeInstallBundled = ''bundled''"
definition RuntimeInstallSystemInstalled :: RuntimeInstallBurden where [enum]: "RuntimeInstallSystemInstalled = ''system-installed''"
definition RuntimeInstallDesktopManaged :: RuntimeInstallBurden where [enum]: "RuntimeInstallDesktopManaged = ''desktop-managed''"
definition RuntimeInstallWSLHyperV :: RuntimeInstallBurden where [enum]: "RuntimeInstallWSLHyperV = ''wsl-hyper-v''"
definition RuntimeInstallUnsupported :: RuntimeInstallBurden where [enum]: "RuntimeInstallUnsupported = ''unsupported''"

section \<open>Networks and services\<close>

type_synonym ServiceIngressTerminalStatus = string

definition ServiceIngressTerminalCompleted :: ServiceIngressTerminalStatus where [enum]: "ServiceIngressTerminalCompleted = ''completed''"
definition ServiceIngressTerminalFailed :: ServiceIngressTerminalStatus where [enum]: "ServiceIngressTerminalFailed = ''failed''"

type_synonym NetworkMode = string

definition NetworkModeDirect :: NetworkMode where [enum]: "NetworkModeDirect = ''direct''"
definition NetworkModeRelay :: NetworkMode where [enum]: "NetworkModeRelay = ''relay''"
definition NetworkModeTailnet :: NetworkMode where [enum]: "NetworkModeTailnet = ''tailnet''"
definition NetworkModeTor :: NetworkMode where [enum]: "NetworkModeTor = ''tor''"
definition NetworkModeP2P :: NetworkMode where [enum]: "NetworkModeP2P = ''p2p''"
definition NetworkModeOffline :: NetworkMode where [enum]: "NetworkModeOffline = ''offline''"

type_synonym P2PSessionMode = string

definition P2PSessionModeRelay :: P2PSessionMode where [enum]: "P2PSessionModeRelay = ''relay''"
definition P2PSessionModeStream :: P2PSessionMode where [enum]: "P2PSessionModeStream = ''p2p_stream''"
definition P2PSessionModeContent :: P2PSessionMode where [enum]: "P2PSessionModeContent = ''p2p_content''"

type_synonym AccessVisibility = string

definition AccessVisibilityPrivate :: AccessVisibility where [enum]: "AccessVisibilityPrivate = ''private''"
definition AccessVisibilityNetwork :: AccessVisibility where [enum]: "AccessVisibilityNetwork = ''network''"
definition AccessVisibilityPublic :: AccessVisibility where [enum]: "AccessVisibilityPublic = ''public''"

section \<open>Tasks, agents, artifacts\<close>

type_synonym TaskStatus = string

definition TaskQueued :: TaskStatus where [enum]: "TaskQueued = ''queued''"
definition TaskLeased :: TaskStatus where [enum]: "TaskLeased = ''leased''"
definition TaskRunning :: TaskStatus where [enum]: "TaskRunning = ''running''"
definition TaskSucceeded :: TaskStatus where [enum]: "TaskSucceeded = ''succeeded''"
definition TaskFailed :: TaskStatus where [enum]: "TaskFailed = ''failed''"
definition TaskStalled :: TaskStatus where [enum]: "TaskStalled = ''stalled''"
definition TaskCanceled :: TaskStatus where [enum]: "TaskCanceled = ''canceled''"

type_synonym CapabilityReportStatus = string

definition CapabilitySupported :: CapabilityReportStatus where [enum]: "CapabilitySupported = ''supported''"
definition CapabilityDegraded :: CapabilityReportStatus where [enum]: "CapabilityDegraded = ''degraded''"
definition CapabilityUnsupported :: CapabilityReportStatus where [enum]: "CapabilityUnsupported = ''unsupported''"

type_synonym AgentStatus = string

definition AgentUnknown :: AgentStatus where [enum]: "AgentUnknown = []"
definition AgentOnline :: AgentStatus where [enum]: "AgentOnline = ''online''"
definition AgentDraining :: AgentStatus where [enum]: "AgentDraining = ''draining''"
definition AgentOffline :: AgentStatus where [enum]: "AgentOffline = ''offline''"

type_synonym ProviderArtifactDeliveryStatus = string

definition ProviderArtifactDeliveryPending :: ProviderArtifactDeliveryStatus where [enum]: "ProviderArtifactDeliveryPending = ''pending''"
definition ProviderArtifactDeliveryDelivered :: ProviderArtifactDeliveryStatus where [enum]: "ProviderArtifactDeliveryDelivered = ''delivered''"
definition ProviderArtifactDeliveryFailed :: ProviderArtifactDeliveryStatus where [enum]: "ProviderArtifactDeliveryFailed = ''failed''"
definition ProviderArtifactDeliveryDeadLetter :: ProviderArtifactDeliveryStatus where [enum]: "ProviderArtifactDeliveryDeadLetter = ''dead_letter''"

type_synonym ContributionAuthority = string

definition ContributionAuthorityWFCompute :: ContributionAuthority where [enum]: "ContributionAuthorityWFCompute = ''wfcompute''"
definition ContributionAuthorityUpstream :: ContributionAuthority where [enum]: "ContributionAuthorityUpstream = ''upstream''"

section \<open>Settlement and marketplace\<close>

type_synonym SettlementTargetKind = string

definition SettlementTargetPointsLedger :: SettlementTargetKind where [enum]: "SettlementTargetPointsLedger = ''points_ledger''"
definition SettlementTargetPayrollAccount :: SettlementTargetKind where [enum]: "SettlementTargetPayrollAccount = ''payroll_account''"
definition SettlementTargetBadgeLedger :: SettlementTargetKind where [enum]: "SettlementTargetBadgeLedger = ''badge_ledger''"
definition SettlementTargetFiatTokenTreasury :: SettlementTargetKind where [enum]: "SettlementTargetFiatTokenTreasury = ''fiat_token_treasury''"
definition SettlementTargetTreasuryWallet :: SettlementTargetKind where [enum]: "SettlementTargetTreasuryWallet = ''treasury_wallet''"
definition SettlementTargetParticipantWallet :: SettlementTargetKind where [enum]: "SettlementTargetParticipantWallet = ''participant_wallet''"
definition SettlementTargetExternalDestination :: SettlementTargetKind where [enum]: "SettlementTargetExternalDestination = ''external_destination''"

type_synonym SettlementHoldStatus = string

definition SettlementHoldPending :: SettlementHoldStatus where [enum]: "SettlementHoldPending = ''pending''"
definition SettlementHoldReleased :: SettlementHoldStatus where [enum]: "SettlementHoldReleased = ''released''"
definition SettlementHoldReversed :: SettlementHoldStatus where [enum]: "SettlementHoldReversed = ''reversed''"

type_synonym SuspensionScope = string

definition SuspensionProduct :: SuspensionScope where [enum]: "SuspensionProduct = ''product''"
definition SuspensionRequestor :: SuspensionScope where [enum]: "SuspensionRequestor = ''requestor''"
definition SuspensionProvider :: SuspensionScope where [enum]: "SuspensionProvider = ''provider''"

type_synonym SuspensionStatus = string

definition SuspensionActive :: SuspensionStatus where [enum]: "SuspensionActive = ''active''"
definition SuspensionLifted :: SuspensionStatus where [enum]: "SuspensionLifted = ''lifted''"

type_synonym ReputationSubjectKind = string

definition ReputationSubjectProvider :: ReputationSubjectKind where [enum]: "ReputationSubjectProvider = ''provider''"
definition ReputationSubjectRequestor :: ReputationSubjectKind where [enum]: "ReputationSubjectRequestor = ''requestor''"
definition ReputationSubjectRouter :: ReputationSubjectKind where [enum]: "ReputationSubjectRouter = ''router''"
definition ReputationSubjectVerifier :: ReputationSubjectKind where [enum]: "ReputationSubjectVerifier = ''verifier''"

type_synonym ReputationEventType = string

definition ReputationProofAccepted :: ReputationEventType where [enum]: "ReputationProofAccepted = ''proof_accepted''"
definition ReputationProofRejected :: ReputationEventType where [enum]: "ReputationProofRejected = ''proof_rejected''"
definition ReputationDisputeWon :: ReputationEventType where [enum]: "ReputationDisputeWon = ''dispute_won''"
definition ReputationDisputeLost :: ReputationEventType where [enum]: "ReputationDisputeLost = ''dispute_lost''"
definition ReputationKillComplied :: ReputationEventType where [enum]: "ReputationKillComplied = ''kill_complied''"
definition ReputationKillIgnored :: ReputationEventType where [enum]: "ReputationKillIgnored = ''kill_ignored''"
definition ReputationPolicyViolation :: ReputationEventType where [enum]: "ReputationPolicyViolation = ''policy_violation''"
definition ReputationManualAdjustment :: ReputationEventType where [enum]: "ReputationManualAdjustment = ''manual_adjustment''"
definition ReputationAvailabilityPenalty :: ReputationEventType where [enum]: "ReputationAvailabilityPenalty = ''availability_penalty''"

type_synonym MarketplaceAbuseSubjectKind = string

definition MarketplaceAbuseSubjectProduct :: MarketplaceAbuseSubjectKind where [enum]: "MarketplaceAbuseSubjectProduct = ''product''"
definition MarketplaceAbuseSubjectRequestor :: MarketplaceAbuseSubjectKind where [enum]: "MarketplaceAbuseSubjectRequestor = ''requestor''"
definition MarketplaceAbuseSubjectProvider :: MarketplaceAbuseSubjectKind where [enum]: "MarketplaceAbuseSubjectProvider = ''provider''"
definition MarketplaceAbuseSubjectRouter :: MarketplaceAbuseSubjectKind where [enum]: "MarketplaceAbuseSubjectRouter = ''router''"
definition MarketplaceAbuseSubjectVerifier :: MarketplaceAbuseSubjectKind where [enum]: "MarketplaceAbuseSubjectVerifier = ''verifier''"

type_synonym MarketplaceAbuseSeverity = string

definition MarketplaceAbuseSeverityLow :: MarketplaceAbuseSeverity where [enum]: "MarketplaceAbuseSeverityLow = ''low''"
definition MarketplaceAbuseSeverityMedium :: MarketplaceAbuseSeverity where [enum]: "MarketplaceAbuseSeverityMedium = ''medium''"
definition MarketplaceAbuseSeverityHigh :: MarketplaceAbuseSeverity where [enum]: "MarketplaceAbuseSeverityHigh = ''high''"
definition MarketplaceAbuseSeverityCritical :: MarketplaceAbuseSeverity where [enum]: "MarketplaceAbuseSeverityCritical = ''critical''"

type_synonym MarketplaceAbuseStatus = string

definition MarketplaceAbuseStatusOpen :: MarketplaceAbuseStatus where [enum]: "MarketplaceAbuseStatusOpen = ''open''"
definition MarketplaceAbuseStatusInReview :: MarketplaceAbuseStatus where [enum]: "MarketplaceAbuseStatusInReview = ''in_review''"
definition MarketplaceAbuseStatusActioned :: MarketplaceAbuseStatus where [enum]: "MarketplaceAbuseStatusActioned = ''actioned''"
definition MarketplaceAbuseStatusDismissed :: MarketplaceAbuseStatus where [enum]: "MarketplaceAbuseStatusDismissed = ''dismissed''"
definition MarketplaceAbuseStatusResolved :: MarketplaceAbuseStatus where [enum]: "MarketplaceAbuseStatusResolved = ''resolved''"

type_synonym ProductCaptureMode = string

definition ProductCaptureModeBrowser :: ProductCaptureMode where [enum]: "ProductCaptureModeBrowser = ''browser''"
definition ProductCaptureModeMetadata :: ProductCaptureMode where [enum]: "ProductCaptureModeMetadata = ''metadata''"

type_synonym CryptoRewardCustodyMode = string

definition CryptoRewardCustodyTreasuryThenDistribute :: CryptoRewardCustodyMode where [enum]: "CryptoRewardCustodyTreasuryThenDistribute = ''treasury_then_distribute''"

type_synonym CryptoRewardDistributionMode = string

definition CryptoRewardDistributionContributionShare :: CryptoRewardDistributionMode where [enum]: "CryptoRewardDistributionContributionShare = ''contribution_share''"

type_synonym CryptoRewardParticipantWalletSource = string

definition CryptoRewardParticipantAccountWallet :: CryptoRewardParticipantWalletSource where [enum]: "CryptoRewardParticipantAccountWallet = ''account_wallet''"

type_synonym RedundancyTier = string

definition RedundancyNone :: RedundancyTier where [enum]: "RedundancyNone = ''none''"
definition RedundancyWarmStandby :: RedundancyTier where [enum]: "RedundancyWarmStandby = ''warm-standby''"
definition RedundancyActiveActive :: RedundancyTier where [enum]: "RedundancyActiveActive = ''active-active''"

type_synonym ManagedLifecycleAction = string

definition ManagedLifecyclePrepare :: ManagedLifecycleAction where [enum]: "ManagedLifecyclePrepare = ''prepare''"
definition ManagedLifecycleActivate :: ManagedLifecycleAction where [enum]: "ManagedLifecycleActivate = ''activate''"
definition ManagedLifecycleDeactivate :: ManagedLifecycleAction where [enum]: "ManagedLifecycleDeactivate = ''deactivate''"
definition ManagedLifecycleRollback :: ManagedLifecycleAction where [enum]: "ManagedLifecycleRollback = ''rollback''"
definition ManagedLifecycleStatus :: ManagedLifecycleAction where [enum]: "ManagedLifecycleStatus = ''status''"

type_synonym ManagedLifecycleResultStatus = string

definition ManagedLifecycleSucceeded :: ManagedLifecycleResultStatus where [enum]: "ManagedLifecycleSucceeded = ''succeeded''"
definition ManagedLifecycleFailed :: ManagedLifecycleResultStatus where [enum]: "ManagedLifecycleFailed = ''failed''"

type_synonym ManagedLifecycleRollbackResult = string

definition ManagedLifecycleRollbackNotRequired :: ManagedLifecycleRollbackResult where [enum]: "ManagedLifecycleRollbackNotRequired = ''not-required''"
definition ManagedLifecycleRollbackSucceeded :: ManagedLifecycleRollbackResult where [enum]: "ManagedLifecycleRollbackSucceeded = ''succeeded''"
definition ManagedLifecycleRollbackFailed :: ManagedLifecycleRollbackResult where [enum]: "ManagedLifecycleRollbackFailed = ''failed''"

type_synonym HostServiceState = string

definition HostServiceActive :: HostServiceState where [enum]: "HostServiceActive = ''active''"
definition HostServiceInactive :: HostServiceState where [enum]: "HostServiceInactive = ''inactive''"
definition HostServiceFailed :: HostServiceState where [enum]: "HostServiceFailed = ''failed''"
definition HostServiceActivating :: HostServiceState where [enum]: "HostServiceActivating = ''activating''"
definition HostServiceDeactivating :: HostServiceState where [enum]: "HostServiceDeactivating = ''deactivating''"
definition HostServiceNotFound :: HostServiceState where [enum]: "HostServiceNotFound = ''not-found''"

end
