(* ===== verification/Identifiers.thy ===== *)
theory Identifiers
  imports GoStrings Vocabulary
begin

text \<open>
  The leaf validators at the end of \<open>protocol/types.go\<close>: membership in an enumeration,
  digests and references, identifiers, host names, paths, text that may be shown publicly; and the
  canonical hash. SHA-256 and JSON marshalling are parameters.
\<close>

section \<open>Enumerations\<close>

definition validNetworkOperatingMode :: "NetworkOperatingMode \<Rightarrow> bool" where
  "validNetworkOperatingMode mode \<longleftrightarrow> mode \<in> set
    [NetworkModeBatch, NetworkModeWarmService, NetworkModeNodeService, NetworkModeInferenceAPI]"

definition validWorkloadKind :: "WorkloadKind \<Rightarrow> bool" where
  "validWorkloadKind kind \<longleftrightarrow> kind \<in> set
    [WorkloadCommand, WorkloadContainerBuild, WorkloadDockerComposeBuild, WorkloadBenchmark, WorkloadTraining, WorkloadService, WorkloadNodeService, WorkloadContentCache, WorkloadSupervisor, WorkloadProductCapture, WorkloadProvider, WorkloadWASMComponent, WorkloadVideoStream, WorkloadMediaTransform]"

definition validRuntimeProfile :: "RuntimeProfile \<Rightarrow> bool" where
  "validRuntimeProfile profile \<longleftrightarrow> profile \<in> set
    [RuntimeProfileSandboxedOCI, RuntimeProfileContainerBuild, RuntimeProfileServiceOCI, RuntimeProfileWASMComponent, RuntimeProfileBrowserWorker]"

definition validExecutionSecurityTier :: "ExecutionSecurityTier \<Rightarrow> bool" where
  "validExecutionSecurityTier tier \<longleftrightarrow> tier \<in> set
    [ExecutionTrustedNative, ExecutionHardenedContainer, ExecutionSandboxedContainer, ExecutionMicroVM, ExecutionConfidentialCPU, ExecutionConfidentialGPU, ExecutionWASMCapability]"

definition validProofTier :: "ProofTier \<Rightarrow> bool" where
  "validProofTier tier \<longleftrightarrow> tier \<in> set
    [ProofReceiptOnly, ProofArtifactHash, ProofReplicatedQuorum, ProofAttestedReceipt, ProofAttestedQuorum, ProofZKReplay, ProofStreamSegmentManifest]"

definition validRuntimeAdapterKind :: "RuntimeAdapterKind \<Rightarrow> bool" where
  "validRuntimeAdapterKind kind \<longleftrightarrow> kind \<in> set
    [RuntimeAdapterExecution, RuntimeAdapterServiceRun, RuntimeAdapterServiceSession]"

definition validRuntimeWorkspacePolicy :: "RuntimeWorkspacePolicy \<Rightarrow> bool" where
  "validRuntimeWorkspacePolicy policy \<longleftrightarrow> policy \<in> set
    [RuntimeWorkspaceUnavailable, RuntimeWorkspaceOptional, RuntimeWorkspaceRequired]"

definition validNetworkMode :: "NetworkMode \<Rightarrow> bool" where
  "validNetworkMode mode \<longleftrightarrow> mode \<in> set
    [NetworkModeDirect, NetworkModeRelay, NetworkModeTailnet, NetworkModeTor, NetworkModeP2P, NetworkModeOffline]"

definition validContainerRuntimeTool :: "ContainerRuntimeTool \<Rightarrow> bool" where
  "validContainerRuntimeTool tool \<longleftrightarrow> tool \<in> set
    [ContainerRuntimePodman, ContainerRuntimeDocker, ContainerRuntimeNerdctl, ContainerRuntimeAppleContainer]"

definition validRuntimeBackendStatus :: "RuntimeBackendStatus \<Rightarrow> bool" where
  "validRuntimeBackendStatus status \<longleftrightarrow> status \<in> set
    [RuntimeBackendSupported, RuntimeBackendDegraded, RuntimeBackendUnsupported]"

definition validRuntimeBackendFamily :: "RuntimeBackendFamily \<Rightarrow> bool" where
  "validRuntimeBackendFamily family \<longleftrightarrow> family \<in> set
    [RuntimeBackendFamilyPodman, RuntimeBackendFamilyDocker, RuntimeBackendFamilyNerdctl, RuntimeBackendFamilyContainerd, RuntimeBackendFamilyAppleContainer, RuntimeBackendFamilyHyperV, RuntimeBackendFamilyWSL, RuntimeBackendFamilyMediaMTX]"

definition validRuntimeIsolationMode :: "RuntimeIsolationMode \<Rightarrow> bool" where
  "validRuntimeIsolationMode mode \<longleftrightarrow> mode \<in> set
    [RuntimeIsolationSharedKernelContainer, RuntimeIsolationUserNamespace, RuntimeIsolationVMBackedContainer, RuntimeIsolationMicroVM, RuntimeIsolationConfidentialRuntime]"

definition validRuntimeInstallBurden :: "RuntimeInstallBurden \<Rightarrow> bool" where
  "validRuntimeInstallBurden burden \<longleftrightarrow> burden \<in> set
    [RuntimeInstallBundled, RuntimeInstallSystemInstalled, RuntimeInstallDesktopManaged, RuntimeInstallWSLHyperV, RuntimeInstallUnsupported]"

definition validRuntimePermission :: "RuntimePermission \<Rightarrow> bool" where
  "validRuntimePermission permission \<longleftrightarrow> permission \<in> set
    [RuntimePermissionForbidden, RuntimePermissionExplicit, RuntimePermissionAllowed]"

definition validAccessVisibility :: "AccessVisibility \<Rightarrow> bool" where
  "validAccessVisibility visibility \<longleftrightarrow> visibility \<in> set
    [[], AccessVisibilityPrivate, AccessVisibilityNetwork, AccessVisibilityPublic]"

definition validUpstreamClientConformance :: "UpstreamClientConformance \<Rightarrow> bool" where
  "validUpstreamClientConformance conformance \<longleftrightarrow> conformance \<in> set
    [UpstreamClientConformanceShapeOnly, UpstreamClientConformanceRealClient]"

definition validResidueMode :: "ResidueMode \<Rightarrow> bool \<Rightarrow> bool" where
  "validResidueMode mode allowEmpty =
     (if mode = [] then allowEmpty
      else mode \<in> set [ResidueModeIsolated, ResidueModeNone, ResidueModeProviderBound, ResidueModeWorkerBound, ResidueModeSessionBound])"

definition normalizeNetworkMode :: "NetworkMode \<Rightarrow> NetworkMode" where
  "normalizeNetworkMode mode = (let mode = trim_space mode in if mode = [] then NetworkModeDirect else mode)"

definition ProviderPluginRequiresUpstreamClientConformance :: "string \<Rightarrow> bool" where
  "ProviderPluginRequiresUpstreamClientConformance pluginID \<longleftrightarrow>
     pluginID \<in> set [''workflow-plugin-volunteer-science'', ''workflow-plugin-crypto'']"

section \<open>Digests\<close>

definition validSHA256Ref :: "string \<Rightarrow> bool" where
  "validSHA256Ref v =
     (if \<not> has_prefix v ''sha256:'' then False
      else (let hexPart = trim_prefix v ''sha256:''
            in if length hexPart \<noteq> 64 then False else hex_decodes hexPart))"

definition validSHA256Digest :: "string \<Rightarrow> bool" where
  "validSHA256Digest v =
     (if \<not> has_prefix v ''sha256:'' then False
      else (let hexPart = trim_prefix v ''sha256:''
            in if length hexPart \<noteq> 64 then False else hex_decodes hexPart \<and> to_lower hexPart = hexPart))"

text \<open>
  \<open>sha\<close> is \<open>sha256.Sum256\<close> and \<open>data\<close> the marshalled value (or, where marshalling fails, its
  \<open>%v\<close> form).
\<close>

definition CanonicalHash :: "(string \<Rightarrow> string) \<Rightarrow> string \<Rightarrow> string" where
  "CanonicalHash sha data = ''sha256:'' @ hex_encode (sha data)"

section \<open>Host names and headers\<close>

text \<open>
  \<open>netip.ParseAddr\<close> on a string without a colon: it is an address exactly when it is a dotted
  quad of decimal octets without leading zeros.
\<close>

definition digits :: string where "digits = ''0123456789''"

definition decimal_value :: "string \<Rightarrow> nat" where
  "decimal_value s = foldl (\<lambda>n c. n * 10 + (of_char c - of_char (CHR ''0''))) 0 s"

definition ipv4_octet :: "string \<Rightarrow> bool" where
  "ipv4_octet s \<longleftrightarrow>
     s \<noteq> [] \<and> list_all (\<lambda>c. c \<in> set digits) s \<and> (length s = 1 \<or> hd s \<noteq> CHR ''0'') \<and>
     length s \<le> 3 \<and> decimal_value s \<le> 255"

definition parses_ipv4 :: "string \<Rightarrow> bool" where
  "parses_ipv4 s \<longleftrightarrow> (let fs = split_char (CHR ''.'') s in length fs = 4 \<and> list_all ipv4_octet fs)"

definition url_chars :: string where "url_chars = ws_chars @ ''/:?&#''"
  \<comment> \<open>white space, and the characters of a scheme, path, query or fragment\<close>

definition validateNetworkHostname :: "string \<Rightarrow> error" where
  "validateNetworkHostname hostname =
     (let hostname = trim_space hostname
      in if hostname = [] then Some (New ''hostname is required'')
         else if contains_any hostname url_chars
         then Some (New ''hostname must not contain whitespace, scheme, path, query, or fragment'')
         else if parses_ipv4 hostname then Some (New ''hostname must not be an IP address'')
         else None)"

definition validateIngressHeaderName :: "string \<Rightarrow> error" where
  "validateIngressHeaderName name =
     (let name = trim_space (to_lower name)
      in if name = [] then Some (New ''header name is required'')
         else if contains_any name (ws_chars @ '':'') then Some (Errorf ''header %q is invalid'' [Str name])
         else if name \<in> set [''authorization'', ''cookie'', ''proxy-authorization'', ''x-api-key'',
             ''x-auth-token'', ''x-forwarded-authorization'']
         then Some (Errorf ''header %q is not allowed'' [Str name])
         else None)"

definition validateNetworkProductID :: "string \<Rightarrow> error" where
  "validateNetworkProductID i =
     (let i = trim_space i
      in if i = [] then Some (New ''product_id is required'')
         else if contains_any i url_chars
         then Some (New ''product_id must not contain whitespace, scheme, path, query, or fragment'')
         else None)"

section \<open>Identifiers and references\<close>

definition validateIdentifier :: "string \<Rightarrow> string \<Rightarrow> error" where
  "validateIdentifier name i =
     (let trimmed = trim_space i
      in if trimmed = [] then Some (Errorf ''%s is required'' [Str name])
         else if trimmed \<noteq> i then Some (Errorf ''%s must not contain leading or trailing whitespace'' [Str name])
         else if contains_any i url_chars
         then Some (Errorf ''%s must not contain whitespace, scheme, path, query, or fragment'' [Str name])
         else None)"

definition validateScopedRef :: "string \<Rightarrow> string \<Rightarrow> string \<Rightarrow> error" where
  "validateScopedRef name v scheme =
     (if \<not> has_prefix v scheme then Some (Errorf ''%s must use %s scoped ref'' [Str name, Str scheme])
      else if contains_str v ''..'' then Some (Errorf ''%s must not contain parent traversal'' [Str name])
      else if trim_prefix v scheme = [] then Some (Errorf ''%s must include scoped path'' [Str name])
      else None)"

definition component_schemes :: "string list" where
  "component_schemes = [''artifact://'', ''content://'', ''provider://'']"

definition validateComponentRef :: "string \<Rightarrow> string \<Rightarrow> error" where
  "validateComponentRef name v =
     (let trimmed = trim_space v
      in if trimmed = [] then Some (Errorf ''%s is required'' [Str name])
         else if v \<noteq> trimmed then Some (Errorf ''%s must not contain surrounding whitespace'' [Str name])
         else if list_ex (\<lambda>p. has_prefix v p \<and> \<not> contains_any v (ws_chars @ ch_nul)) component_schemes then None
         else Some (Errorf ''%s must use artifact://, content://, or provider:// ref'' [Str name]))"

definition validContainerAbsolutePath :: "string \<Rightarrow> bool" where
  "validContainerAbsolutePath v \<longleftrightarrow>
     has_prefix v ''/'' \<and> \<not> contains_str v ch_nul \<and> path_clean v = v \<and> \<not> contains_str v ''..''"

definition validProviderArtifactName :: "string \<Rightarrow> bool" where
  "validProviderArtifactName name \<longleftrightarrow>
     trim_space name \<noteq> [] \<and> \<not> contains_any name (CHR 0x5C # ''/'' @ ch_nul @ ctl_chars) \<and>
     name \<noteq> ''.'' \<and> name \<noteq> ''..''"

definition validProviderReturnSubmitEndpoint :: "string \<Rightarrow> bool" where
  "validProviderReturnSubmitEndpoint v \<longleftrightarrow>
     has_prefix v ''/'' \<and> \<not> contains_str v ''://'' \<and> \<not> contains_any v (ws_chars @ ch_nul @ ''?#'') \<and>
     path_clean v = v \<and> \<not> contains_str v ''..''"

section \<open>Public text\<close>

definition nonshippable_markers :: "string list" where
  "nonshippable_markers = [''/users/'', ''/home/'', [CHR 0x5C] @ ''users'' @ [CHR 0x5C], ''.sock'', ''token'',
     ''cookie'', ''secret'', ''password'', ''credential'', ''authorization'', ''bearer'']"

definition validateRuntimeBackendPublicText :: "string \<Rightarrow> string \<Rightarrow> err list" where
  "validateRuntimeBackendPublicText field v =
     (if v = [] then []
      else (let lower = to_lower v
            in fails (list_ex (contains_str lower) nonshippable_markers)
                 (Errorf ''%s contains non-shippable runtime evidence'' [Str field]) @
               fails (contains_any v (ch_nul @ [CHR 0x0D, CHR 0x0A]))
                 (Errorf ''%s must be single-line text'' [Str field])))"

definition validateRequiredRuntimeIdentifier :: "string \<Rightarrow> string \<Rightarrow> err list" where
  "validateRequiredRuntimeIdentifier field v =
     (case validateIdentifier field v of Some e \<Rightarrow> [e] | None \<Rightarrow> validateRuntimeBackendPublicText field v)"

definition validateRequiredRuntimePublicText :: "string \<Rightarrow> string \<Rightarrow> err list" where
  "validateRequiredRuntimePublicText field v =
     (if trim_space v = [] then [Errorf ''%s is required'' [Str field]]
      else if trim_space v \<noteq> v then [Errorf ''%s must not contain leading or trailing whitespace'' [Str field]]
      else validateRuntimeBackendPublicText field v)"

definition validateRequiredSHA256Digest :: "string \<Rightarrow> string \<Rightarrow> err list" where
  "validateRequiredSHA256Digest field v =
     (if v = [] then [Errorf ''%s is required'' [Str field]]
      else fails (\<not> validSHA256Digest v) (Errorf ''%s must be sha256:<64 lowercase hex chars>'' [Str field]))"

section \<open>What the leaf validators accept\<close>

definition plain_id :: "string \<Rightarrow> bool" where
  "plain_id i \<longleftrightarrow> i \<noteq> [] \<and> trim_space i = i \<and> \<not> contains_any i url_chars"

definition public_text :: "string \<Rightarrow> bool" where
  "public_text v \<longleftrightarrow>
     (\<forall>m \<in> set nonshippable_markers. \<not> contains_str (to_lower v) m) \<and>
     \<not> contains_any v (ch_nul @ [CHR 0x0D, CHR 0x0A])"

lemma validateIdentifier_None [validation, simp]: "validateIdentifier name i = None \<longleftrightarrow> plain_id i"
  by (auto simp: validateIdentifier_def plain_id_def Let_def)

lemma public_text_Nil [simp]: "public_text []"
  by (simp add: public_text_def nonshippable_markers_def)

lemma validateRuntimeBackendPublicText_Nil [validation, simp]:
  "validateRuntimeBackendPublicText field v = [] \<longleftrightarrow> public_text v"
proof (cases "v = []")
  case False
  then show ?thesis
    by (auto simp: validateRuntimeBackendPublicText_def public_text_def Let_def list_ex_iff)
qed (simp add: validateRuntimeBackendPublicText_def)

lemma validateRequiredRuntimeIdentifier_Nil [validation, simp]:
  "validateRequiredRuntimeIdentifier field v = [] \<longleftrightarrow> plain_id v \<and> public_text v"
proof (cases "validateIdentifier field v")
  case None
  then have "plain_id v" by (simp only: validateIdentifier_None)
  then show ?thesis unfolding validateRequiredRuntimeIdentifier_def None option.case by simp
next
  case (Some e)
  then have "\<not> plain_id v" by (metis option.distinct(1) validateIdentifier_None)
  with Some show ?thesis by (simp add: validateRequiredRuntimeIdentifier_def)
qed

lemma validateRequiredRuntimePublicText_Nil [validation, simp]:
  "validateRequiredRuntimePublicText field v = [] \<longleftrightarrow> v \<noteq> [] \<and> trim_space v = v \<and> public_text v"
  by (auto simp: validateRequiredRuntimePublicText_def)

lemma plain_id_nonempty [dest]: "plain_id i \<Longrightarrow> i \<noteq> [] \<and> trim_space i = i"
  by (simp add: plain_id_def)

lemma plain_id_Nil [simp]: "\<not> plain_id []"
  by (simp add: plain_id_def)

text \<open>Two identifiers joined by a hyphen are an identifier.\<close>

lemma plain_id_hyphen: "plain_id a \<Longrightarrow> plain_id b \<Longrightarrow> plain_id (a @ CHR ''-'' # b)"
  by (auto simp: plain_id_def trim_space_hyphen url_chars_def ws_chars_def)

section \<open>Digests are canonical\<close>

lemma validSHA256Ref_iff:
  "validSHA256Ref v \<longleftrightarrow> (\<exists>h. v = ''sha256:'' @ h \<and> length h = 64 \<and> hex_decodes h)"
  by (auto simp: validSHA256Ref_def trim_prefix_def prefix_def Let_def)

lemma validSHA256Digest_iff:
  "validSHA256Digest v \<longleftrightarrow> (\<exists>h. v = ''sha256:'' @ h \<and> length h = 64 \<and> hex_decodes h \<and> to_lower h = h)"
  by (auto simp: validSHA256Digest_def trim_prefix_def prefix_def Let_def)

lemma validSHA256Digest_Ref: "validSHA256Digest v \<Longrightarrow> validSHA256Ref v"
  by (auto simp: validSHA256Digest_iff validSHA256Ref_iff)

lemma validSHA256Digest_Nil [simp]: "\<not> validSHA256Digest []" "\<not> validSHA256Ref []"
  by (simp_all add: validSHA256Digest_def validSHA256Ref_def)

lemma validateRequiredSHA256Digest_Nil [validation, simp]:
  "validateRequiredSHA256Digest field v = [] \<longleftrightarrow> validSHA256Digest v"
  by (auto simp: validateRequiredSHA256Digest_def)

lemma CanonicalHash_valid:
  assumes "length (sha data) = 32"
  shows "validSHA256Digest (CanonicalHash sha data)"
  unfolding validSHA256Digest_iff CanonicalHash_def
  by (intro exI [of _ "hex_encode (sha data)"])
    (simp add: length_hex_encode assms hex_encode_decodes to_lower_hex_encode)

lemma hex_byte_inj:
  assumes "x < 16" "y < 16" "''0123456789abcdef'' ! x = ''0123456789abcdef'' ! y"
  shows "x = y"
proof -
  have "distinct (''0123456789abcdef'' :: string)" by simp
  then show ?thesis using assms nth_eq_iff_index_eq [of "''0123456789abcdef''" x y] by simp
qed

lemma hex_encode_inj: "hex_encode a = hex_encode b \<Longrightarrow> a = b"
proof (induction a arbitrary: b)
  case (Cons x a)
  then obtain y b' where b: "b = y # b'" by (cases b) (simp_all add: hex_encode_def)
  let ?d = "\<lambda>n. ''0123456789abcdef'' ! n"
  from Cons.prems have eqs: "?d (of_char x div 16) = ?d (of_char y div 16)" "?d (of_char x mod 16) = ?d (of_char y mod 16)"
    and rest: "hex_encode a = hex_encode b'" by (simp_all add: hex_encode_def b)
  have "(of_char c :: nat) div 16 < 16" for c :: char by (simp add: div_less_iff_less_mult)
  then have "(of_char x :: nat) div 16 = of_char y div 16" "(of_char x :: nat) mod 16 = of_char y mod 16"
    using hex_byte_inj [OF _ _ eqs(1)] hex_byte_inj [OF _ _ eqs(2)] by simp_all
  then have "(of_char x :: nat) = of_char y" by (metis div_mult_mod_eq)
  then show ?case using Cons.IH [OF rest] by (simp add: b)
qed (simp add: hex_encode_def split: list.splits)

lemma CanonicalHash_eq_iff: "CanonicalHash sha a = CanonicalHash sha b \<longleftrightarrow> sha a = sha b"
  by (auto simp: CanonicalHash_def dest: hex_encode_inj)

text \<open>A digest for the examples.\<close>

definition demo_sha :: string where
  "demo_sha = ''sha256:'' @ replicate 64 (CHR ''0'')"

end
