(* ===== verification/Attestation.thy ===== *)
theory Attestation
  imports Identifiers GoTime
begin

text \<open>
  \<open>protocol/types.go\<close>, lines 171 to 622: runtime descriptors, executor references, and the
  bindings that tie a receipt to the attestation of its executor and to the decision that released
  its key. \<open>marshal\<close> is \<open>json.Marshal\<close> on an attestation decision, \<open>None\<close> where it returns
  an error (a year outside 0 to 9999), on which \<open>BindingDigest\<close> panics; \<open>sha\<close> is SHA-256.
\<close>

section \<open>Executors\<close>

record RuntimeDescriptor =
  rd_Name :: string
  rd_Version :: string
  rd_ExecutionSecurityTier :: ExecutionSecurityTier
  rd_ProofTier :: ProofTier
  rd_ImageDigest :: string
  rd_RootFSDigest :: string

record ExecutorRef =
  er_Provider :: string
  er_Version :: string
  er_ExecutionSecurityTier :: ExecutionSecurityTier
  er_ProofTier :: ProofTier
  er_ImageDigest :: string
  er_RootFSDigest :: string

definition RuntimeDescriptor_Validate :: "RuntimeDescriptor \<Rightarrow> error" where
  "RuntimeDescriptor_Validate d =
     join
     (reports (validateIdentifier ''name'' (rd_Name d)) @
      (if trim_space (rd_Version d) = [] then
         [New ''version is required'']
       else fails (contains_any (rd_Version d) (ws_chars @ ch_nul))
              (New ''version must not contain whitespace'')) @
      fails (\<not> validExecutionSecurityTier (rd_ExecutionSecurityTier d))
        (Errorf ''execution_security_tier %q is unsupported'' [Str (rd_ExecutionSecurityTier d)]) @
      fails (\<not> validProofTier (rd_ProofTier d))
        (Errorf ''proof_tier %q is unsupported'' [Str (rd_ProofTier d)]) @
      (if rd_ExecutionSecurityTier d \<noteq> ExecutionTrustedNative \<and> rd_ExecutionSecurityTier d \<noteq> ExecutionWASMCapability then
         (if rd_ImageDigest d = [] then
            [New ''image_digest is required for non-native runtime'']
          else fails (\<not> validSHA256Ref (rd_ImageDigest d))
                 (New ''image_digest must be sha256:<64 hex chars>'')) @
         (if rd_RootFSDigest d = [] then
            [New ''rootfs_digest is required for non-native runtime'']
          else fails (\<not> validSHA256Ref (rd_RootFSDigest d))
                 (New ''rootfs_digest must be sha256:<64 hex chars>''))
       else []))"

definition RuntimeDescriptor_ExecutorRef :: "RuntimeDescriptor \<Rightarrow> string \<Rightarrow> ExecutorRef" where
  "RuntimeDescriptor_ExecutorRef d defaultProvider =
     (let provider = (if rd_Name d = [] then defaultProvider else rd_Name d);
          version = (if rd_Version d = [] then ''dev'' else rd_Version d)
      in \<lparr>er_Provider = provider, er_Version = version, er_ExecutionSecurityTier = rd_ExecutionSecurityTier d,
           er_ProofTier = rd_ProofTier d, er_ImageDigest = rd_ImageDigest d, er_RootFSDigest = rd_RootFSDigest d\<rparr>)"

definition ExecutorRef_ValidateForProof :: "ExecutorRef \<Rightarrow> error" where
  "ExecutorRef_ValidateForProof e =
     join
     (fails (er_Provider e = [])
        (New ''executor.provider is required'') @
      fails (er_Version e = [])
        (New ''executor.version is required'') @
      fails (er_ExecutionSecurityTier e = [])
        (New ''executor.execution_security_tier is required'') @
      fails (er_ProofTier e = [])
        (New ''executor.proof_tier is required'') @
      (if er_ExecutionSecurityTier e \<noteq> [] \<and> er_ExecutionSecurityTier e \<noteq> ExecutionTrustedNative \<and> er_ExecutionSecurityTier e \<noteq> ExecutionWASMCapability then
         fails (er_ImageDigest e = [])
           (New ''executor.image_digest is required for non-native executor'') @
         fails (er_RootFSDigest e = [])
           (New ''executor.rootfs_digest is required for non-native executor'')
       else []))"

definition ExecutorRef_RequiresAttestation :: "ExecutorRef \<Rightarrow> bool" where
  "ExecutorRef_RequiresAttestation e =
     (if er_ExecutionSecurityTier e \<in> set [ExecutionConfidentialCPU, ExecutionConfidentialGPU] then True
      else if er_ProofTier e \<in> set [ProofAttestedReceipt, ProofAttestedQuorum] then True
      else False)"

definition validateRuntimeBackendExecutor :: "ExecutorRef \<Rightarrow> error" where
  "validateRuntimeBackendExecutor executor =
     join
     (reports (validateIdentifier ''executor.provider'' (er_Provider executor)) @
      fails (er_ExecutionSecurityTier executor \<noteq> [] \<and> \<not> validExecutionSecurityTier (er_ExecutionSecurityTier executor))
        (Errorf ''executor.execution_security_tier %q is unsupported'' [Str (er_ExecutionSecurityTier executor)]) @
      fails (er_ProofTier executor \<noteq> [] \<and> \<not> validProofTier (er_ProofTier executor))
        (Errorf ''executor.proof_tier %q is unsupported'' [Str (er_ProofTier executor)]) @
      (if er_ExecutionSecurityTier executor \<noteq> [] \<and> er_ExecutionSecurityTier executor \<noteq> ExecutionTrustedNative \<and> er_ExecutionSecurityTier executor \<noteq> ExecutionWASMCapability then
         fails (er_ImageDigest executor \<noteq> [] \<and> \<not> validSHA256Ref (er_ImageDigest executor))
           (New ''executor.image_digest must be sha256:<64 hex chars>'') @
         fails (er_RootFSDigest executor \<noteq> [] \<and> \<not> validSHA256Ref (er_RootFSDigest executor))
           (New ''executor.rootfs_digest must be sha256:<64 hex chars>'')
       else []))"

section \<open>Attestation and key release\<close>

record SignatureEnvelope =
  se_Algorithm :: string
  se_KeyID :: string
  se_Value :: string
  se_Verified :: bool

record AttestationDecision =
  ad_Provider :: string
  ad_VerifierID :: string
  ad_DecisionID :: string
  ad_HardwareClass :: string
  ad_ExecutorImageDigest :: string
  ad_ExecutorRootFSDigest :: string
  ad_PolicyID :: string
  ad_Nonce :: string
  ad_IssuedAt :: time
  ad_ExpiresAt :: time
  ad_SignatureVerified :: bool
  ad_ConfidentialGPU :: bool
  ad_Signature :: SignatureEnvelope

record KeyReleaseDecision =
  krd_Provider :: string
  krd_DecisionID :: string
  krd_AttestationDecisionID :: string
  krd_AttestationDigest :: string
  krd_AttestationProvider :: string
  krd_AttestationVerifierID :: string
  krd_AttestationKeyID :: string
  krd_PolicyID :: string
  krd_TaskID :: string
  krd_TaskHash :: string
  krd_InputHash :: string
  krd_DependencyClosureHash :: string
  krd_WorkerID :: string
  krd_PoolID :: string
  krd_KeyRefHash :: string
  krd_Released :: bool
  krd_ExpiresAt :: time
  krd_Signature :: SignatureEnvelope

record VerifierResult =
  vr_Provider :: string
  vr_Status :: VerificationStatus
  vr_Message :: string
  vr_Attestation :: AttestationDecision
  vr_KeyRelease :: KeyReleaseDecision

record AttestedProofBinding =
  apb_Executor :: ExecutorRef
  apb_PolicyID :: string
  apb_TaskID :: string
  apb_TaskHash :: string
  apb_InputHash :: string
  apb_DependencyClosureHash :: string
  apb_WorkerID :: string
  apb_PoolID :: string
  apb_StartedAt :: time
  apb_FinishedAt :: time
  apb_Verifier :: VerifierResult

record AttestedServiceBinding =
  asb_Executor :: ExecutorRef
  asb_PolicyID :: string
  asb_TaskID :: string
  asb_DeploymentHash :: string
  asb_WorkerID :: string
  asb_PoolID :: string
  asb_StartedAt :: time
  asb_FinishedAt :: time
  asb_Verifier :: VerifierResult

definition zero_SignatureEnvelope :: SignatureEnvelope where
  "zero_SignatureEnvelope = \<lparr>se_Algorithm = [], se_KeyID = [], se_Value = [], se_Verified = False\<rparr>"

definition BindingDigest :: "(string \<Rightarrow> string) \<Rightarrow> (AttestationDecision \<Rightarrow> string option) \<Rightarrow> AttestationDecision \<Rightarrow> string outcome" where
  "BindingDigest sha marshal a =
     (let a = a\<lparr>ad_Signature := zero_SignatureEnvelope, ad_SignatureVerified := False\<rparr>
      in case marshal a of None \<Rightarrow> Panic | Some data \<Rightarrow> Returns (''sha256:'' @ hex_encode (sha data)))"

definition validateVerifiedSignature :: "string \<Rightarrow> SignatureEnvelope \<Rightarrow> error" where
  "validateVerifiedSignature pre sig =
     join
     (fails (se_Algorithm sig = [])
        (Errorf ''%s.algorithm is required'' [Str pre]) @
      fails (se_KeyID sig = [])
        (Errorf ''%s.key_id is required'' [Str pre]) @
      fails (se_Value sig = [])
        (Errorf ''%s.value is required'' [Str pre]) @
      fails (\<not> se_Verified sig)
        (Errorf ''%s.verified is required'' [Str pre]))"

definition validateSignatureEnvelope :: "SignatureEnvelope \<Rightarrow> string \<Rightarrow> error" where
  "validateSignatureEnvelope sig name =
     join
     (fails (trim_space (se_Algorithm sig) = [])
        (Errorf ''%s.algorithm is required'' [Str name]) @
      fails (trim_space (se_KeyID sig) = [])
        (Errorf ''%s.key_id is required'' [Str name]) @
      fails (trim_space (se_Value sig) = [])
        (Errorf ''%s.value is required'' [Str name]))"

text \<open>
  The two binding checks, on the digest of the attestation. The check proper computes that digest
  only for a key release that carries one, and panics when that fails.
\<close>

definition proof_binding_errs :: "string \<Rightarrow> AttestedProofBinding \<Rightarrow> err list" where
  "proof_binding_errs digest b =
     (reports (ExecutorRef_ValidateForProof (apb_Executor b)) @
      required ''verifier.provider'' (vr_Provider (apb_Verifier b)) @
      fails (vr_Status (apb_Verifier b) \<noteq> VerificationAccepted)
        (Errorf ''verifier.status must be %q'' [Str VerificationAccepted]) @
      (let attestation = vr_Attestation (apb_Verifier b) in
         required ''verifier.attestation.provider'' (ad_Provider attestation) @
         required ''verifier.attestation.verifier_id'' (ad_VerifierID attestation) @
         required ''verifier.attestation.decision_id'' (ad_DecisionID attestation) @
         required ''verifier.attestation.hardware_class'' (ad_HardwareClass attestation) @
         required ''verifier.attestation.executor_image_digest'' (ad_ExecutorImageDigest attestation) @
         required ''verifier.attestation.executor_rootfs_digest'' (ad_ExecutorRootFSDigest attestation) @
         required ''verifier.attestation.policy_id'' (ad_PolicyID attestation) @
         required ''verifier.attestation.nonce'' (ad_Nonce attestation) @
         reports (validateVerifiedSignature ''verifier.attestation.signature'' (ad_Signature attestation)) @
         fails (\<not> ad_SignatureVerified attestation)
           (New ''verifier.attestation.signature_verified is required'') @
         fails (ad_IssuedAt attestation = 0)
           (New ''verifier.attestation.issued_at is required'') @
         fails (ad_ExpiresAt attestation = 0)
           (New ''verifier.attestation.expires_at is required'') @
         fails (\<not> ad_IssuedAt attestation = 0 \<and> \<not> ad_ExpiresAt attestation = 0 \<and> \<not> ad_IssuedAt attestation < ad_ExpiresAt attestation)
           (New ''verifier.attestation.expires_at must be after issued_at'') @
         fails (ad_PolicyID attestation \<noteq> [] \<and> ad_PolicyID attestation \<noteq> apb_PolicyID b)
           (New ''verifier.attestation.policy_id must match receipt policy_id'') @
         fails (ad_HardwareClass attestation \<noteq> [] \<and> ad_HardwareClass attestation \<noteq> er_ExecutionSecurityTier (apb_Executor b))
           (New ''verifier.attestation.hardware_class must match executor.execution_security_tier'') @
         fails (ad_ExecutorImageDigest attestation \<noteq> [] \<and> ad_ExecutorImageDigest attestation \<noteq> er_ImageDigest (apb_Executor b))
           (New ''verifier.attestation.executor_image_digest must match executor.image_digest'') @
         fails (ad_ExecutorRootFSDigest attestation \<noteq> [] \<and> ad_ExecutorRootFSDigest attestation \<noteq> er_RootFSDigest (apb_Executor b))
           (New ''verifier.attestation.executor_rootfs_digest must match executor.rootfs_digest'') @
         fails (er_ExecutionSecurityTier (apb_Executor b) = ExecutionConfidentialGPU \<and> \<not> ad_ConfidentialGPU attestation)
           (New ''verifier.attestation.confidential_gpu is required for confidential GPU execution'') @
         (let keyRelease = vr_KeyRelease (apb_Verifier b) in
            required ''verifier.key_release.provider'' (krd_Provider keyRelease) @
            required ''verifier.key_release.decision_id'' (krd_DecisionID keyRelease) @
            required ''verifier.key_release.attestation_decision_id'' (krd_AttestationDecisionID keyRelease) @
            required ''verifier.key_release.attestation_digest'' (krd_AttestationDigest keyRelease) @
            required ''verifier.key_release.attestation_provider'' (krd_AttestationProvider keyRelease) @
            required ''verifier.key_release.attestation_verifier_id'' (krd_AttestationVerifierID keyRelease) @
            required ''verifier.key_release.attestation_key_id'' (krd_AttestationKeyID keyRelease) @
            required ''verifier.key_release.policy_id'' (krd_PolicyID keyRelease) @
            required ''verifier.key_release.task_id'' (krd_TaskID keyRelease) @
            required ''verifier.key_release.task_hash'' (krd_TaskHash keyRelease) @
            required ''verifier.key_release.input_hash'' (krd_InputHash keyRelease) @
            required ''verifier.key_release.dependency_closure_hash'' (krd_DependencyClosureHash keyRelease) @
            required ''verifier.key_release.worker_id'' (krd_WorkerID keyRelease) @
            required ''verifier.key_release.pool_id'' (krd_PoolID keyRelease) @
            required ''verifier.key_release.key_ref_hash'' (krd_KeyRefHash keyRelease) @
            reports (validateVerifiedSignature ''verifier.key_release.signature'' (krd_Signature keyRelease)) @
            fails (\<not> krd_Released keyRelease)
              (New ''verifier.key_release.released is required'') @
            fails (krd_ExpiresAt keyRelease = 0)
              (New ''verifier.key_release.expires_at is required'') @
            fails (krd_AttestationDecisionID keyRelease \<noteq> [] \<and> ad_DecisionID attestation \<noteq> [] \<and> krd_AttestationDecisionID keyRelease \<noteq> ad_DecisionID attestation)
              (New ''verifier.key_release.attestation_decision_id must match verifier.attestation.decision_id'') @
            fails (krd_AttestationDigest keyRelease \<noteq> [] \<and> krd_AttestationDigest keyRelease \<noteq> digest)
              (New ''verifier.key_release.attestation_digest must match verifier.attestation digest'') @
            fails (krd_AttestationProvider keyRelease \<noteq> [] \<and> krd_AttestationProvider keyRelease \<noteq> ad_Provider attestation)
              (New ''verifier.key_release.attestation_provider must match verifier.attestation.provider'') @
            fails (krd_AttestationVerifierID keyRelease \<noteq> [] \<and> krd_AttestationVerifierID keyRelease \<noteq> ad_VerifierID attestation)
              (New ''verifier.key_release.attestation_verifier_id must match verifier.attestation.verifier_id'') @
            fails (krd_AttestationKeyID keyRelease \<noteq> [] \<and> krd_AttestationKeyID keyRelease \<noteq> se_KeyID (ad_Signature attestation))
              (New ''verifier.key_release.attestation_key_id must match verifier.attestation.signature.key_id'') @
            fails (krd_PolicyID keyRelease \<noteq> [] \<and> krd_PolicyID keyRelease \<noteq> apb_PolicyID b)
              (New ''verifier.key_release.policy_id must match receipt policy_id'') @
            fails (krd_TaskID keyRelease \<noteq> [] \<and> krd_TaskID keyRelease \<noteq> apb_TaskID b)
              (New ''verifier.key_release.task_id must match receipt task_id'') @
            fails (krd_TaskHash keyRelease \<noteq> [] \<and> krd_TaskHash keyRelease \<noteq> apb_TaskHash b)
              (New ''verifier.key_release.task_hash must match receipt task_hash'') @
            fails (krd_InputHash keyRelease \<noteq> [] \<and> krd_InputHash keyRelease \<noteq> apb_InputHash b)
              (New ''verifier.key_release.input_hash must match receipt input_hash'') @
            fails (krd_DependencyClosureHash keyRelease \<noteq> [] \<and> krd_DependencyClosureHash keyRelease \<noteq> apb_DependencyClosureHash b)
              (New ''verifier.key_release.dependency_closure_hash must match receipt dependency_closure_hash'') @
            fails (krd_WorkerID keyRelease \<noteq> [] \<and> krd_WorkerID keyRelease \<noteq> apb_WorkerID b)
              (New ''verifier.key_release.worker_id must match receipt worker_id'') @
            fails (krd_PoolID keyRelease \<noteq> [] \<and> krd_PoolID keyRelease \<noteq> apb_PoolID b)
              (New ''verifier.key_release.pool_id must match receipt pool_id'') @
            fails (\<not> krd_ExpiresAt keyRelease = 0 \<and> \<not> ad_ExpiresAt attestation = 0 \<and> ad_ExpiresAt attestation < krd_ExpiresAt keyRelease)
              (New ''verifier.key_release.expires_at must not exceed verifier.attestation.expires_at'') @
            fails (\<not> apb_StartedAt b = 0 \<and> \<not> ad_IssuedAt attestation = 0 \<and> apb_StartedAt b < ad_IssuedAt attestation)
              (New ''started_at must not precede verifier.attestation.issued_at'') @
            fails (\<not> apb_FinishedAt b = 0 \<and> \<not> ad_ExpiresAt attestation = 0 \<and> ad_ExpiresAt attestation < apb_FinishedAt b)
              (New ''finished_at must not exceed verifier.attestation.expires_at'') @
            fails (\<not> apb_FinishedAt b = 0 \<and> \<not> krd_ExpiresAt keyRelease = 0 \<and> krd_ExpiresAt keyRelease < apb_FinishedAt b)
              (New ''finished_at must not exceed verifier.key_release.expires_at''))))"

definition ValidateAttestedProofBinding :: "(string \<Rightarrow> string) \<Rightarrow> (AttestationDecision \<Rightarrow> string option) \<Rightarrow> AttestedProofBinding \<Rightarrow> error outcome" where
  "ValidateAttestedProofBinding sha marshal b =
     (if krd_AttestationDigest (vr_KeyRelease (apb_Verifier b)) = [] then Returns (join (proof_binding_errs [] b))
      else (case BindingDigest sha marshal (vr_Attestation (apb_Verifier b)) of
              Panic \<Rightarrow> Panic | Returns digest \<Rightarrow> Returns (join (proof_binding_errs digest b))))"

definition service_binding_errs :: "string \<Rightarrow> AttestedServiceBinding \<Rightarrow> err list" where
  "service_binding_errs digest b =
     (reports (ExecutorRef_ValidateForProof (asb_Executor b)) @
      required ''verifier.provider'' (vr_Provider (asb_Verifier b)) @
      fails (vr_Status (asb_Verifier b) \<noteq> VerificationAccepted)
        (Errorf ''verifier.status must be %q'' [Str VerificationAccepted]) @
      (let attestation = vr_Attestation (asb_Verifier b) in
         required ''verifier.attestation.provider'' (ad_Provider attestation) @
         required ''verifier.attestation.verifier_id'' (ad_VerifierID attestation) @
         required ''verifier.attestation.decision_id'' (ad_DecisionID attestation) @
         required ''verifier.attestation.hardware_class'' (ad_HardwareClass attestation) @
         required ''verifier.attestation.executor_image_digest'' (ad_ExecutorImageDigest attestation) @
         required ''verifier.attestation.executor_rootfs_digest'' (ad_ExecutorRootFSDigest attestation) @
         required ''verifier.attestation.policy_id'' (ad_PolicyID attestation) @
         reports (validateVerifiedSignature ''verifier.attestation.signature'' (ad_Signature attestation)) @
         fails (\<not> ad_SignatureVerified attestation)
           (New ''verifier.attestation.signature_verified is required'') @
         fails (ad_PolicyID attestation \<noteq> [] \<and> ad_PolicyID attestation \<noteq> asb_PolicyID b)
           (New ''verifier.attestation.policy_id must match receipt policy_id'') @
         fails (ad_HardwareClass attestation \<noteq> [] \<and> ad_HardwareClass attestation \<noteq> er_ExecutionSecurityTier (asb_Executor b))
           (New ''verifier.attestation.hardware_class must match executor.execution_security_tier'') @
         fails (ad_ExecutorImageDigest attestation \<noteq> [] \<and> ad_ExecutorImageDigest attestation \<noteq> er_ImageDigest (asb_Executor b))
           (New ''verifier.attestation.executor_image_digest must match executor.image_digest'') @
         fails (ad_ExecutorRootFSDigest attestation \<noteq> [] \<and> ad_ExecutorRootFSDigest attestation \<noteq> er_RootFSDigest (asb_Executor b))
           (New ''verifier.attestation.executor_rootfs_digest must match executor.rootfs_digest'') @
         fails (er_ExecutionSecurityTier (asb_Executor b) = ExecutionConfidentialGPU \<and> \<not> ad_ConfidentialGPU attestation)
           (New ''verifier.attestation.confidential_gpu is required for confidential GPU execution'') @
         (let keyRelease = vr_KeyRelease (asb_Verifier b) in
            required ''verifier.key_release.decision_id'' (krd_DecisionID keyRelease) @
            required ''verifier.key_release.attestation_decision_id'' (krd_AttestationDecisionID keyRelease) @
            required ''verifier.key_release.attestation_digest'' (krd_AttestationDigest keyRelease) @
            required ''verifier.key_release.key_ref_hash'' (krd_KeyRefHash keyRelease) @
            reports (validateVerifiedSignature ''verifier.key_release.signature'' (krd_Signature keyRelease)) @
            fails (\<not> krd_Released keyRelease)
              (New ''verifier.key_release.released is required'') @
            fails (krd_AttestationDecisionID keyRelease \<noteq> [] \<and> ad_DecisionID attestation \<noteq> [] \<and> krd_AttestationDecisionID keyRelease \<noteq> ad_DecisionID attestation)
              (New ''verifier.key_release.attestation_decision_id must match verifier.attestation.decision_id'') @
            fails (krd_AttestationDigest keyRelease \<noteq> [] \<and> krd_AttestationDigest keyRelease \<noteq> digest)
              (New ''verifier.key_release.attestation_digest must match verifier.attestation digest'') @
            fails (krd_PolicyID keyRelease \<noteq> [] \<and> krd_PolicyID keyRelease \<noteq> asb_PolicyID b)
              (New ''verifier.key_release.policy_id must match receipt policy_id'') @
            fails (krd_TaskID keyRelease \<noteq> [] \<and> krd_TaskID keyRelease \<noteq> asb_TaskID b)
              (New ''verifier.key_release.task_id must match receipt task_id'') @
            fails (krd_DependencyClosureHash keyRelease \<noteq> [] \<and> krd_DependencyClosureHash keyRelease \<noteq> asb_DeploymentHash b)
              (New ''verifier.key_release.dependency_closure_hash must match receipt deployment_hash'') @
            fails (krd_WorkerID keyRelease \<noteq> [] \<and> krd_WorkerID keyRelease \<noteq> asb_WorkerID b)
              (New ''verifier.key_release.worker_id must match receipt worker_id'') @
            fails (krd_PoolID keyRelease \<noteq> [] \<and> krd_PoolID keyRelease \<noteq> asb_PoolID b)
              (New ''verifier.key_release.pool_id must match receipt pool_id'') @
            fails (\<not> krd_ExpiresAt keyRelease = 0 \<and> \<not> ad_ExpiresAt attestation = 0 \<and> ad_ExpiresAt attestation < krd_ExpiresAt keyRelease)
              (New ''verifier.key_release.expires_at must not exceed verifier.attestation.expires_at'') @
            fails (\<not> asb_StartedAt b = 0 \<and> \<not> ad_IssuedAt attestation = 0 \<and> asb_StartedAt b < ad_IssuedAt attestation)
              (New ''started_at must not precede verifier.attestation.issued_at'') @
            fails (\<not> asb_FinishedAt b = 0 \<and> \<not> ad_ExpiresAt attestation = 0 \<and> ad_ExpiresAt attestation < asb_FinishedAt b)
              (New ''finished_at must not exceed verifier.attestation.expires_at'') @
            fails (\<not> asb_FinishedAt b = 0 \<and> \<not> krd_ExpiresAt keyRelease = 0 \<and> krd_ExpiresAt keyRelease < asb_FinishedAt b)
              (New ''finished_at must not exceed verifier.key_release.expires_at''))))"

definition ValidateAttestedServiceBinding :: "(string \<Rightarrow> string) \<Rightarrow> (AttestationDecision \<Rightarrow> string option) \<Rightarrow> AttestedServiceBinding \<Rightarrow> error outcome" where
  "ValidateAttestedServiceBinding sha marshal b =
     (if krd_AttestationDigest (vr_KeyRelease (asb_Verifier b)) = [] then Returns (join (service_binding_errs [] b))
      else (case BindingDigest sha marshal (vr_Attestation (asb_Verifier b)) of
              Panic \<Rightarrow> Panic | Returns digest \<Rightarrow> Returns (join (service_binding_errs digest b))))"

section \<open>What an accepted binding means\<close>

definition verified_signature :: "SignatureEnvelope \<Rightarrow> bool" where
  "verified_signature sig \<longleftrightarrow> se_Algorithm sig \<noteq> [] \<and> se_KeyID sig \<noteq> [] \<and> se_Value sig \<noteq> [] \<and> se_Verified sig"

lemma validateVerifiedSignature_None [validation, simp]:
  "validateVerifiedSignature pre sig = None \<longleftrightarrow> verified_signature sig"
  by (simp add: validateVerifiedSignature_def verified_signature_def)

definition native_tier :: "ExecutionSecurityTier \<Rightarrow> bool" where
  "native_tier t \<longleftrightarrow> t = ExecutionTrustedNative \<or> t = ExecutionWASMCapability"

definition provable_executor :: "ExecutorRef \<Rightarrow> bool" where
  "provable_executor e \<longleftrightarrow>
     er_Provider e \<noteq> [] \<and> er_Version e \<noteq> [] \<and> er_ExecutionSecurityTier e \<noteq> [] \<and> er_ProofTier e \<noteq> [] \<and>
     (native_tier (er_ExecutionSecurityTier e) \<or> er_ImageDigest e \<noteq> [] \<and> er_RootFSDigest e \<noteq> [])"

lemma ValidateForProof_None [validation, simp]: "ExecutorRef_ValidateForProof e = None \<longleftrightarrow> provable_executor e"
  by (auto simp: ExecutorRef_ValidateForProof_def provable_executor_def native_tier_def)

text \<open>The attestation vouches for the executor, and the key release for the attestation.\<close>

definition attests :: "AttestationDecision \<Rightarrow> ExecutorRef \<Rightarrow> string \<Rightarrow> bool" where
  "attests a e policy \<longleftrightarrow>
     ad_Provider a \<noteq> [] \<and> ad_VerifierID a \<noteq> [] \<and> ad_DecisionID a \<noteq> [] \<and>
     ad_SignatureVerified a \<and> verified_signature (ad_Signature a) \<and>
     policy \<noteq> [] \<and> ad_PolicyID a = policy \<and>
     er_ExecutionSecurityTier e \<noteq> [] \<and> ad_HardwareClass a = er_ExecutionSecurityTier e \<and>
     er_ImageDigest e \<noteq> [] \<and> ad_ExecutorImageDigest a = er_ImageDigest e \<and>
     er_RootFSDigest e \<noteq> [] \<and> ad_ExecutorRootFSDigest a = er_RootFSDigest e \<and>
     (er_ExecutionSecurityTier e = ExecutionConfidentialGPU \<longrightarrow> ad_ConfidentialGPU a)"

definition released_for :: "KeyReleaseDecision \<Rightarrow> AttestationDecision \<Rightarrow> string \<Rightarrow> AttestedProofBinding \<Rightarrow> bool" where
  "released_for k a digest b \<longleftrightarrow>
     krd_Released k \<and> verified_signature (krd_Signature k) \<and>
     krd_Provider k \<noteq> [] \<and> krd_DecisionID k \<noteq> [] \<and> krd_KeyRefHash k \<noteq> [] \<and>
     digest \<noteq> [] \<and> krd_AttestationDigest k = digest \<and>
     krd_AttestationDecisionID k = ad_DecisionID a \<and> krd_AttestationProvider k = ad_Provider a \<and>
     krd_AttestationVerifierID k = ad_VerifierID a \<and> krd_AttestationKeyID k = se_KeyID (ad_Signature a) \<and>
     krd_PolicyID k = apb_PolicyID b \<and> krd_TaskID k = apb_TaskID b \<and> krd_TaskHash k = apb_TaskHash b \<and>
     krd_InputHash k = apb_InputHash b \<and> krd_DependencyClosureHash k = apb_DependencyClosureHash b \<and>
     krd_WorkerID k = apb_WorkerID b \<and> krd_PoolID k = apb_PoolID b \<and>
     apb_TaskID b \<noteq> [] \<and> apb_TaskHash b \<noteq> [] \<and> apb_InputHash b \<noteq> [] \<and>
     apb_DependencyClosureHash b \<noteq> [] \<and> apb_WorkerID b \<noteq> [] \<and> apb_PoolID b \<noteq> []"

definition in_validity :: "AttestationDecision \<Rightarrow> KeyReleaseDecision \<Rightarrow> AttestedProofBinding \<Rightarrow> bool" where
  "in_validity a k b \<longleftrightarrow>
     ad_IssuedAt a \<noteq> 0 \<and> ad_ExpiresAt a \<noteq> 0 \<and> krd_ExpiresAt k \<noteq> 0 \<and>
     ad_IssuedAt a < ad_ExpiresAt a \<and> krd_ExpiresAt k \<le> ad_ExpiresAt a \<and>
     (apb_StartedAt b = 0 \<or> ad_IssuedAt a \<le> apb_StartedAt b) \<and>
     (apb_FinishedAt b = 0 \<or> apb_FinishedAt b \<le> krd_ExpiresAt k)"

definition proof_bound :: "string \<Rightarrow> AttestedProofBinding \<Rightarrow> bool" where
  "proof_bound digest b \<longleftrightarrow>
     (let v = apb_Verifier b; a = vr_Attestation v; k = vr_KeyRelease v
      in provable_executor (apb_Executor b) \<and> vr_Provider v \<noteq> [] \<and> vr_Status v = VerificationAccepted \<and>
         ad_Nonce a \<noteq> [] \<and> attests a (apb_Executor b) (apb_PolicyID b) \<and>
         released_for k a digest b \<and> in_validity a k b)"

lemmas binding_conditions =
  append_is_Nil_conv fails_Nil required_Nil reports_Nil validateVerifiedSignature_None ValidateForProof_None

lemma proof_binding_errs_sound: "proof_binding_errs digest b = [] \<Longrightarrow> proof_bound digest b"
  unfolding proof_binding_errs_def proof_bound_def Let_def attests_def released_for_def in_validity_def
    binding_conditions
  by (elim conjE) (simp add: not_less verified_signature_def)

lemma in_validity_attested: "in_validity a k b \<Longrightarrow> apb_FinishedAt b = 0 \<or> apb_FinishedAt b \<le> ad_ExpiresAt a"
  unfolding in_validity_def by (metis order_trans)

lemma proof_binding_errs_complete:
  assumes b: "proof_bound digest b"
  shows "proof_binding_errs digest b = []"
proof -
  have "apb_FinishedAt b = 0 \<or> apb_FinishedAt b \<le> ad_ExpiresAt (vr_Attestation (apb_Verifier b))"
    using b in_validity_attested by (auto simp: proof_bound_def Let_def)
  with b show ?thesis
    unfolding proof_binding_errs_def proof_bound_def Let_def attests_def released_for_def in_validity_def
      binding_conditions verified_signature_def
    by (elim conjE, intro conjI)
      (simp_all only: simp_thms not_less de_Morgan_conj not_not imp_conv_disj disj_commute)
qed

lemma proof_binding_errs_Nil: "proof_binding_errs digest b = [] \<longleftrightarrow> proof_bound digest b"
  using proof_binding_errs_sound proof_binding_errs_complete by blast

text \<open>
  The service binding is looser: its key release may leave out the identities it was issued for,
  and no date is required.
\<close>

definition unless_empty :: "string \<Rightarrow> string \<Rightarrow> bool" where
  "unless_empty x y \<longleftrightarrow> x = [] \<or> x = y"

definition service_released_for :: "KeyReleaseDecision \<Rightarrow> AttestationDecision \<Rightarrow> string \<Rightarrow> AttestedServiceBinding \<Rightarrow> bool" where
  "service_released_for k a digest b \<longleftrightarrow>
     krd_Released k \<and> verified_signature (krd_Signature k) \<and> krd_DecisionID k \<noteq> [] \<and> krd_KeyRefHash k \<noteq> [] \<and>
     digest \<noteq> [] \<and> krd_AttestationDigest k = digest \<and> krd_AttestationDecisionID k = ad_DecisionID a \<and>
     unless_empty (krd_PolicyID k) (asb_PolicyID b) \<and> unless_empty (krd_TaskID k) (asb_TaskID b) \<and>
     unless_empty (krd_DependencyClosureHash k) (asb_DeploymentHash b) \<and>
     unless_empty (krd_WorkerID k) (asb_WorkerID b) \<and> unless_empty (krd_PoolID k) (asb_PoolID b)"

definition not_after :: "time \<Rightarrow> time \<Rightarrow> bool" where
  "not_after t u \<longleftrightarrow> t = 0 \<or> u = 0 \<or> t \<le> u"

definition service_bound :: "string \<Rightarrow> AttestedServiceBinding \<Rightarrow> bool" where
  "service_bound digest b \<longleftrightarrow>
     (let v = asb_Verifier b; a = vr_Attestation v; k = vr_KeyRelease v
      in provable_executor (asb_Executor b) \<and> vr_Provider v \<noteq> [] \<and> vr_Status v = VerificationAccepted \<and>
         attests a (asb_Executor b) (asb_PolicyID b) \<and> service_released_for k a digest b \<and>
         not_after (krd_ExpiresAt k) (ad_ExpiresAt a) \<and> not_after (ad_IssuedAt a) (asb_StartedAt b) \<and>
         not_after (asb_FinishedAt b) (ad_ExpiresAt a) \<and> not_after (asb_FinishedAt b) (krd_ExpiresAt k))"

lemma service_binding_errs_sound: "service_binding_errs digest b = [] \<Longrightarrow> service_bound digest b"
  unfolding service_binding_errs_def service_bound_def Let_def attests_def service_released_for_def
    unless_empty_def not_after_def binding_conditions
  by (elim conjE) (simp add: not_less disj_ac imp_conv_disj verified_signature_def)

lemma service_binding_errs_complete: "service_bound digest b \<Longrightarrow> service_binding_errs digest b = []"
  unfolding service_binding_errs_def service_bound_def Let_def attests_def service_released_for_def
    unless_empty_def not_after_def binding_conditions verified_signature_def
  by (elim conjE, intro conjI)
    (simp_all only: simp_thms not_less de_Morgan_conj not_not imp_conv_disj disj_ac)

lemma BindingDigest_nonempty: "BindingDigest sha marshal a = Returns d \<Longrightarrow> d \<noteq> []"
  by (auto simp: BindingDigest_def Let_def split: option.splits)

definition unsigned :: "AttestationDecision \<Rightarrow> AttestationDecision" where
  "unsigned a = a\<lparr>ad_Signature := zero_SignatureEnvelope, ad_SignatureVerified := False\<rparr>"

lemma BindingDigest_eq:
  assumes "BindingDigest sha marshal a = Returns d" and "BindingDigest sha marshal a' = Returns d"
  shows "\<exists>e e'. marshal (unsigned a) = Some e \<and> marshal (unsigned a') = Some e' \<and> sha e = sha e'"
proof -
  obtain e e' where e: "marshal (unsigned a) = Some e" "marshal (unsigned a') = Some e'"
    and d: "d = ''sha256:'' @ hex_encode (sha e)" "d = ''sha256:'' @ hex_encode (sha e')"
    using assms by (auto simp: BindingDigest_def Let_def unsigned_def split: option.splits)
  then have "sha e = sha e'" by (simp add: hex_encode_inj)
  with e show ?thesis by blast
qed

section \<open>Properties\<close>

text \<open>\<open>ValidateAttestedProofBinding\<close> accepts exactly the bindings in which an accepted, signed and
  unexpired attestation vouches for this executor and policy, and a released key is bound to that very
  attestation, by digest, and to this task, input, worker and pool.\<close>

theorem ValidateAttestedProofBinding_iff:
  "ValidateAttestedProofBinding sha marshal b = Returns None \<longleftrightarrow>
     (\<exists>digest. BindingDigest sha marshal (vr_Attestation (apb_Verifier b)) = Returns digest \<and> proof_bound digest b)"
proof (cases "krd_AttestationDigest (vr_KeyRelease (apb_Verifier b)) = []")
  case True
  then have "\<not> proof_bound digest b" for digest by (auto simp: proof_bound_def released_for_def Let_def)
  then show ?thesis using True by (simp add: ValidateAttestedProofBinding_def proof_binding_errs_Nil)
next
  case False
  then show ?thesis by (simp add: ValidateAttestedProofBinding_def proof_binding_errs_Nil split: outcome.splits)
qed

text \<open>The same for services, whose key release may leave out identities and whose dates are
  compared only where both are given.\<close>

theorem ValidateAttestedServiceBinding_iff:
  "ValidateAttestedServiceBinding sha marshal b = Returns None \<longleftrightarrow>
     (\<exists>digest. BindingDigest sha marshal (vr_Attestation (asb_Verifier b)) = Returns digest \<and> service_bound digest b)"
proof -
  have errs: "service_binding_errs digest b = [] \<longleftrightarrow> service_bound digest b" for digest
    using service_binding_errs_sound service_binding_errs_complete by blast
  show ?thesis
  proof (cases "krd_AttestationDigest (vr_KeyRelease (asb_Verifier b)) = []")
    case True
    then have "\<not> service_bound digest b" for digest by (auto simp: service_bound_def service_released_for_def Let_def)
    then show ?thesis using True by (simp add: ValidateAttestedServiceBinding_def errs)
  next
    case False
    then show ?thesis by (simp add: ValidateAttestedServiceBinding_def errs split: outcome.splits)
  qed
qed

text \<open>C11. A key release cannot be moved: two accepted proof bindings that carry the same key release are for the same
  task, input, dependencies, worker, pool and policy, name the same attestation decision of the same verifier, and their
  attestations, signature aside, have the same JSON text, or else their two texts are a collision of SHA-256.\<close>

theorem key_release_fixes_binding:
  assumes "ValidateAttestedProofBinding sha marshal b = Returns None"
    and "ValidateAttestedProofBinding sha marshal b' = Returns None"
    and "vr_KeyRelease (apb_Verifier b') = vr_KeyRelease (apb_Verifier b)"
  defines "a \<equiv> vr_Attestation (apb_Verifier b)" and "a' \<equiv> vr_Attestation (apb_Verifier b')"
  shows "(apb_TaskID b' = apb_TaskID b \<and> apb_TaskHash b' = apb_TaskHash b \<and> apb_InputHash b' = apb_InputHash b \<and>
      apb_DependencyClosureHash b' = apb_DependencyClosureHash b \<and> apb_WorkerID b' = apb_WorkerID b \<and>
      apb_PoolID b' = apb_PoolID b \<and> apb_PolicyID b' = apb_PolicyID b) \<and>
    (ad_DecisionID a' = ad_DecisionID a \<and> ad_Provider a' = ad_Provider a \<and> ad_VerifierID a' = ad_VerifierID a \<and>
      se_KeyID (ad_Signature a') = se_KeyID (ad_Signature a)) \<and>
    (\<exists>e e'. marshal (a\<lparr>ad_Signature := zero_SignatureEnvelope, ad_SignatureVerified := False\<rparr>) = Some e \<and>
      marshal (a'\<lparr>ad_Signature := zero_SignatureEnvelope, ad_SignatureVerified := False\<rparr>) = Some e' \<and>
      (e' = e \<or> e' \<noteq> e \<and> sha e' = sha e))"
proof -
  obtain d d' where digest: "BindingDigest sha marshal a = Returns d" "BindingDigest sha marshal a' = Returns d'"
    and bound: "proof_bound d b" "proof_bound d' b'"
    using assms(1,2) ValidateAttestedProofBinding_iff unfolding a_def a'_def by metis
  note release = bound [unfolded proof_bound_def Let_def released_for_def assms(3)]
  have same: "apb_TaskID b' = apb_TaskID b" "apb_TaskHash b' = apb_TaskHash b" "apb_InputHash b' = apb_InputHash b"
    "apb_DependencyClosureHash b' = apb_DependencyClosureHash b" "apb_WorkerID b' = apb_WorkerID b"
    "apb_PoolID b' = apb_PoolID b" "apb_PolicyID b' = apb_PolicyID b" and d: "d' = d"
    using release by (elim conjE, metis)+
  have named: "ad_DecisionID a' = ad_DecisionID a" "ad_Provider a' = ad_Provider a" "ad_VerifierID a' = ad_VerifierID a"
    "se_KeyID (ad_Signature a') = se_KeyID (ad_Signature a)"
    using release unfolding a_def a'_def by (elim conjE, metis)+
  from BindingDigest_eq [OF digest(1) digest(2) [unfolded d]]
  have "\<exists>e e'. marshal (unsigned a) = Some e \<and> marshal (unsigned a') = Some e' \<and> (e' = e \<or> e' \<noteq> e \<and> sha e' = sha e)"
    by metis
  then show ?thesis using same named by (simp add: unsigned_def)
qed

section \<open>Witness\<close>

definition demo_signature :: "string \<Rightarrow> SignatureEnvelope" where
  "demo_signature v = \<lparr>se_Algorithm = ''ed25519'', se_KeyID = ''key'', se_Value = v, se_Verified = True\<rparr>"

definition demo_executor :: ExecutorRef where
  "demo_executor = \<lparr>er_Provider = ''provider'', er_Version = ''1'', er_ExecutionSecurityTier = ExecutionConfidentialCPU,
     er_ProofTier = ProofAttestedReceipt, er_ImageDigest = ''image'', er_RootFSDigest = ''rootfs''\<rparr>"

definition demo_attestation :: "string \<Rightarrow> AttestationDecision" where
  "demo_attestation v = \<lparr>ad_Provider = ''tee'', ad_VerifierID = ''verifier'', ad_DecisionID = ''decision'',
     ad_HardwareClass = ExecutionConfidentialCPU, ad_ExecutorImageDigest = ''image'', ad_ExecutorRootFSDigest = ''rootfs'',
     ad_PolicyID = ''policy'', ad_Nonce = ''nonce'', ad_IssuedAt = Time 10, ad_ExpiresAt = Time 100,
     ad_SignatureVerified = True, ad_ConfidentialGPU = False, ad_Signature = demo_signature v\<rparr>"

definition demo_key :: KeyReleaseDecision where
  "demo_key = \<lparr>krd_Provider = ''kms'', krd_DecisionID = ''release'', krd_AttestationDecisionID = ''decision'',
     krd_AttestationDigest = ''sha256:'' @ hex_encode ''doc'', krd_AttestationProvider = ''tee'',
     krd_AttestationVerifierID = ''verifier'', krd_AttestationKeyID = ''key'', krd_PolicyID = ''policy'',
     krd_TaskID = ''task'', krd_TaskHash = ''th'', krd_InputHash = ''ih'', krd_DependencyClosureHash = ''dh'',
     krd_WorkerID = ''worker'', krd_PoolID = ''pool'', krd_KeyRefHash = ''kh'', krd_Released = True,
     krd_ExpiresAt = Time 90, krd_Signature = demo_signature ''k''\<rparr>"

definition demo_binding :: "string \<Rightarrow> AttestedProofBinding" where
  "demo_binding v = \<lparr>apb_Executor = demo_executor, apb_PolicyID = ''policy'', apb_TaskID = ''task'', apb_TaskHash = ''th'',
     apb_InputHash = ''ih'', apb_DependencyClosureHash = ''dh'', apb_WorkerID = ''worker'', apb_PoolID = ''pool'',
     apb_StartedAt = Time 20, apb_FinishedAt = Time 80,
     apb_Verifier = \<lparr>vr_Provider = ''tee'', vr_Status = VerificationAccepted, vr_Message = [],
       vr_Attestation = demo_attestation v, vr_KeyRelease = demo_key\<rparr>\<rparr>"

text \<open>An encoder that knows the one decision, and the identity as a hash without collisions.\<close>

definition demo_marshal :: "AttestationDecision \<Rightarrow> string option" where
  "demo_marshal a = (if a = unsigned (demo_attestation []) then Some ''doc'' else None)"

lemma demo_unsigned: "unsigned (demo_attestation v) = unsigned (demo_attestation [])"
  by (simp add: unsigned_def demo_attestation_def)

lemma demo_digest: "BindingDigest (\<lambda>d. d) demo_marshal (demo_attestation v) = Returns (''sha256:'' @ hex_encode ''doc'')"
  using demo_unsigned [of v] by (simp add: BindingDigest_def Let_def demo_marshal_def unsigned_def)

lemma demo_bound: "v \<noteq> [] \<Longrightarrow> proof_bound (''sha256:'' @ hex_encode ''doc'') (demo_binding v)"
  by (simp add: proof_bound_def Let_def attests_def released_for_def in_validity_def verified_signature_def
      provable_executor_def native_tier_def demo_binding_def demo_attestation_def demo_key_def demo_executor_def
      demo_signature_def enum)

lemma demo_binding_accepted: "v \<noteq> [] \<Longrightarrow> ValidateAttestedProofBinding (\<lambda>d. d) demo_marshal (demo_binding v) = Returns None"
proof -
  assume "v \<noteq> []"
  then have "proof_bound (''sha256:'' @ hex_encode ''doc'') (demo_binding v)" by (rule demo_bound)
  moreover have "vr_Attestation (apb_Verifier (demo_binding v)) = demo_attestation v" by (simp add: demo_binding_def)
  moreover have "krd_AttestationDigest (vr_KeyRelease (apb_Verifier (demo_binding v))) \<noteq> []"
    by (simp add: demo_binding_def demo_key_def)
  ultimately show ?thesis
    by (simp add: ValidateAttestedProofBinding_def demo_digest proof_binding_errs_Nil)
qed

lemma key_release_fixes_binding_witness:
  "demo_attestation ''s1'' \<noteq> demo_attestation ''s2'' \<and>
   (\<exists>e. demo_marshal (unsigned (demo_attestation ''s2'')) = Some e)"
proof -
  have "ValidateAttestedProofBinding (\<lambda>d. d) demo_marshal (demo_binding ''s1'') = Returns None"
    "ValidateAttestedProofBinding (\<lambda>d. d) demo_marshal (demo_binding ''s2'') = Returns None"
    by (simp_all add: demo_binding_accepted)
  moreover have "vr_KeyRelease (apb_Verifier (demo_binding ''s2'')) = vr_KeyRelease (apb_Verifier (demo_binding ''s1''))"
    by (simp add: demo_binding_def)
  ultimately have "\<exists>e. demo_marshal (unsigned (vr_Attestation (apb_Verifier (demo_binding ''s2'')))) = Some e"
    using key_release_fixes_binding [of "\<lambda>d. d" demo_marshal "demo_binding ''s1''" "demo_binding ''s2''"] unfolding unsigned_def by blast
  then show ?thesis by (simp add: demo_binding_def demo_attestation_def demo_signature_def)
qed

end
