(* ===== verification/Policies.thy ===== *)
theory Policies
  imports Attestation
begin

text \<open>
  \<open>protocol/types.go\<close>: the small policies a task, contract or lease carries. Residue (lines 96 to
  110, 4981 to 5051), provider configuration, warm sessions, proof quorums and visibility (3621 to
  3738), and the run-log policy of a lease with the grammar of its authority (3902 to 4022).
\<close>

section \<open>Residue\<close>

record ResiduePolicy =
  rp_Mode :: ResidueMode
  rp_AllowedModes :: "ResidueMode list"
  rp_SessionKey :: string
  rp_PolicyHash :: string
  rp_MaxAgeSeconds :: int
  rp_MaxReuseCount :: int
  rp_WipeOnFailure :: bool
  rp_ExplicitWorkerBound :: bool

record ResiduePolicyValidation =
  rpv_NoWorkspaceAllowed :: bool
  rpv_RequireSessionKey :: bool
  rpv_RequireExplicitWorkerBound :: bool
  rpv_RequirePolicyHash :: bool

definition ResiduePolicy_UsesReusableWorkspace :: "ResiduePolicy \<Rightarrow> bool" where
  "ResiduePolicy_UsesReusableWorkspace p =
     (if rp_Mode p \<in> set [ResidueModeProviderBound, ResidueModeWorkerBound, ResidueModeSessionBound] then True
      else False)"

definition ResiduePolicy_IsZero :: "ResiduePolicy \<Rightarrow> bool" where
  "ResiduePolicy_IsZero p =
     (rp_Mode p = [] \<and> (rp_AllowedModes p) = [] \<and> rp_SessionKey p = [] \<and> rp_PolicyHash p = [] \<and> rp_MaxAgeSeconds p = 0 \<and> rp_MaxReuseCount p = 0 \<and> \<not> rp_WipeOnFailure p \<and> \<not> rp_ExplicitWorkerBound p)"

definition ResiduePolicy_Validate :: "ResiduePolicy \<Rightarrow> ResiduePolicyValidation \<Rightarrow> error" where
  "ResiduePolicy_Validate p v = join
     (fails (\<not> validResidueMode (rp_Mode p) True) (Errorf ''mode %q is unsupported'' [Str (rp_Mode p)]) @
      each_unique 0
        (\<lambda>i mode. if \<not> validResidueMode mode False
           then Some (Errorf ''allowed_modes[%d] %q is unsupported'' [Num (int i), Str mode]) else None)
        (\<lambda>mode. mode)
        (\<lambda>i mode. Errorf ''allowed_modes[%d] %q is duplicated'' [Num (int i), Str mode]) {} (rp_AllowedModes p) @
      (if rp_Mode p \<noteq> [] \<and> rp_AllowedModes p \<noteq> [] then
         fails (rp_Mode p \<notin> set (filter (\<lambda>mode. validResidueMode mode False) (rp_AllowedModes p)))
           (Errorf ''mode %q is not in allowed_modes'' [Str (rp_Mode p)])
       else []) @
      fails (rpv_NoWorkspaceAllowed v \<and> ResiduePolicy_UsesReusableWorkspace p)
        (New ''reusable residue requires host workspace support'') @
      (if rp_Mode p = ResidueModeSessionBound \<or> rpv_RequireSessionKey v \<and> rp_Mode p = ResidueModeSessionBound then
         (if trim_space (rp_SessionKey p) = [] then [New ''session_key is required for session-bound residue'']
          else fails (trim_space (rp_SessionKey p) \<noteq> rp_SessionKey p \<or> contains_any (rp_SessionKey p) (ctl_chars @ ch_nul))
                 (New ''session_key must not contain control whitespace or surrounding whitespace''))
       else []) @
      fails (rp_Mode p \<noteq> ResidueModeSessionBound \<and> rp_SessionKey p \<noteq> [])
        (New ''session_key requires session-bound residue mode'') @
      fails (rp_Mode p = ResidueModeWorkerBound \<and> rpv_RequireExplicitWorkerBound v \<and> \<not> rp_ExplicitWorkerBound p)
        (New ''explicit_worker_bound is required for worker-bound residue'') @
      fails (rp_PolicyHash p \<noteq> [] \<and> \<not> validSHA256Ref (rp_PolicyHash p))
        (New ''policy_hash must be sha256:<64 hex chars>'') @
      fails (rpv_RequirePolicyHash v \<and> ResiduePolicy_UsesReusableWorkspace p \<and> rp_PolicyHash p = [])
        (New ''policy_hash is required for reusable residue'') @
      fails (rp_MaxAgeSeconds p < 0) (New ''max_age_seconds must not be negative'') @
      fails (rp_MaxReuseCount p < 0) (New ''max_reuse_count must not be negative''))"

section \<open>Configuration, sessions, proofs, visibility\<close>

record ProofPolicy =
  prpo_Quorum :: int
  prpo_MaxAttempts :: int

record SessionPolicy =
  sepo_WarmSeconds :: int
  sepo_MinRenewals :: int
  sepo_MaxBatchRequests :: int

record ProviderConfig =
  pc_PluginID :: string
  pc_ProviderID :: string
  pc_ContractID :: string
  pc_Version :: string
  pc_ConfigRef :: string
  pc_ConfigDigest :: string

record AccessPolicy =
  ap_ProviderUsageVisibility :: AccessVisibility
  ap_WorkloadVisibility :: AccessVisibility
  ap_ArtifactVisibility :: AccessVisibility

definition zero_ProviderConfig :: ProviderConfig where
  "zero_ProviderConfig = \<lparr>pc_PluginID = [], pc_ProviderID = [], pc_ContractID = [], pc_Version = [], pc_ConfigRef = [], pc_ConfigDigest = []\<rparr>"

definition ProviderConfig_Validate :: "ProviderConfig \<Rightarrow> error" where
  "ProviderConfig_Validate p =
     (if p = zero_ProviderConfig then None
     else join
     (reports (validateIdentifier ''plugin_id'' (pc_PluginID p)) @
      reports (validateIdentifier ''provider_id'' (pc_ProviderID p)) @
      reports (validateIdentifier ''contract_id'' (pc_ContractID p)) @
      (if trim_space (pc_Version p) = [] then
         [New ''version is required'']
       else fails (contains_any (pc_Version p) (ws_chars @ ch_nul))
              (New ''version must not contain whitespace'')) @
      (if trim_space (pc_ConfigRef p) = [] then
         [New ''config_ref is required'']
       else reports (validateScopedRef ''config_ref'' (pc_ConfigRef p) ''config://'')) @
      fails (pc_ConfigDigest p \<noteq> [] \<and> \<not> validSHA256Ref (pc_ConfigDigest p))
        (New ''config_digest must be sha256:<64 hex chars>'')))"

definition SessionPolicy_ValidateForOperatingMode :: "SessionPolicy \<Rightarrow> NetworkOperatingMode \<Rightarrow> error" where
  "SessionPolicy_ValidateForOperatingMode p mode =
     join
     (fails (sepo_WarmSeconds p < 0)
        (New ''warm_seconds must be non-negative'') @
      fails (sepo_MinRenewals p < 0)
        (New ''min_renewals must be non-negative'') @
      fails (sepo_MaxBatchRequests p < 0)
        (New ''max_batch_requests must be non-negative'') @
      (if mode \<in> set [NetworkModeWarmService, NetworkModeNodeService, NetworkModeInferenceAPI] then
         fails (sepo_WarmSeconds p \<le> 0)
           (New ''warm_seconds is required for warm operating modes'')
       else if mode = NetworkModeBatch then
         fails (sepo_MinRenewals p > 0)
           (New ''min_renewals requires warm operating mode'')
       else []))"

definition ValidateProofPolicy :: "ProofTier \<Rightarrow> ProofPolicy \<Rightarrow> error" where
  "ValidateProofPolicy proofTier policy =
     (if proofTier \<in> set [ProofReplicatedQuorum, ProofAttestedQuorum] then if prpo_Quorum policy < 2 then Some (New ''proof_policy.quorum must be >= 2'')
        else if prpo_MaxAttempts policy \<noteq> 0 \<and> prpo_MaxAttempts policy < prpo_Quorum policy then Some (New ''proof_policy.max_attempts must be >= quorum'')
        else None
      else if prpo_Quorum policy > 1 \<or> prpo_MaxAttempts policy > 0 then Some (New ''proof_policy.quorum requires replicated or attested quorum proof tier'')
        else None)"

definition AccessPolicy_Validate :: "AccessPolicy \<Rightarrow> error" where
  "AccessPolicy_Validate p =
     join
     (fails (\<not> validAccessVisibility (ap_ProviderUsageVisibility p))
        (Errorf ''provider_usage_visibility %q is unsupported'' [Str (ap_ProviderUsageVisibility p)]) @
      fails (\<not> validAccessVisibility (ap_WorkloadVisibility p))
        (Errorf ''workload_visibility %q is unsupported'' [Str (ap_WorkloadVisibility p)]) @
      fails (\<not> validAccessVisibility (ap_ArtifactVisibility p))
        (Errorf ''artifact_visibility %q is unsupported'' [Str (ap_ArtifactVisibility p)]))"

section \<open>Run logs\<close>

definition CapabilityTagRunLogLeasePolicyV1 :: string where
  "CapabilityTagRunLogLeasePolicyV1 = ''run-log-lease-policy-v1''"
definition RunLogLeasePolicyVersionV1 :: string where "RunLogLeasePolicyVersionV1 = ''v1''"

record RunLogLeasePolicy =
  rllp_Version :: string
  rllp_PreserveFullLogs :: bool
  rllp_RetentionSeconds :: int
  rllp_PolicyRef :: string
  rllp_PolicyHash :: string
  rllp_ProviderEnrollmentID :: string
  rllp_RequestAdjusted :: bool
  rllp_present :: bool

definition zero_RunLogLeasePolicy :: RunLogLeasePolicy where
  "zero_RunLogLeasePolicy = \<lparr>rllp_Version = [], rllp_PreserveFullLogs = False, rllp_RetentionSeconds = 0, rllp_PolicyRef = [],
     rllp_PolicyHash = [], rllp_ProviderEnrollmentID = [], rllp_RequestAdjusted = False, rllp_present = False\<rparr>"

text \<open>
  A policy that arrives in JSON. \<open>decode\<close> is the strict decoder on the wire form of the struct; it cannot
  set the unexported field. An error leaves the receiver as it was.
\<close>

definition RunLogLeasePolicy_UnmarshalJSON :: "(string \<Rightarrow> err + RunLogLeasePolicy) \<Rightarrow> RunLogLeasePolicy \<Rightarrow> string \<Rightarrow> error \<times> RunLogLeasePolicy" where
  "RunLogLeasePolicy_UnmarshalJSON decode p data =
     (let decoded = (if trim_space data \<noteq> ''null'' then decode data else Inr zero_RunLogLeasePolicy)
      in case decoded of
           Inl err \<Rightarrow> (Some err, p)
         | Inr decoded \<Rightarrow> (None, decoded\<lparr>rllp_present := True\<rparr>))"

definition ascii_alnum :: "char \<Rightarrow> bool" where
  "ascii_alnum ch \<longleftrightarrow> ch \<in> set lower_letters \<or> ch \<in> set upper_letters \<or> ch \<in> set digits"

definition validateRunLogAuthorityIdentifier :: "string \<Rightarrow> string \<Rightarrow> error" where
  "validateRunLogAuthorityIdentifier name v =
     (if v = [] then Some (Errorf ''%s is required'' [Str name])
      else if length v > 256 then Some (Errorf ''%s must not exceed 256 bytes'' [Str name])
      else if all_from 0 (\<lambda>i ch. ascii_alnum ch \<or> i > 0 \<and> ch \<in> set ''-_.@+'') v then None
      else Some (Errorf ''%s must use bounded ASCII identifier syntax'' [Str name]))"

definition ValidateRunLogProviderEnrollmentID :: "string \<Rightarrow> error" where
  "ValidateRunLogProviderEnrollmentID i = validateRunLogAuthorityIdentifier ''run_log_policy provider_enrollment_id'' i"

definition policy_ref_error :: err where
  "policy_ref_error = New (''run_log_policy policy_ref must be '' @ [CHR 0x22] @ ''global'' @ [CHR 0x22] @
     '' or use provider:, customer:, or client: authority'')"

definition validateRunLogPolicyRef :: "string \<Rightarrow> error" where
  "validateRunLogPolicyRef ref =
     (if length ref > 512 then Some (New ''run_log_policy policy_ref must not exceed 512 bytes'')
      else if ref = ''global'' then None
      else (case cut_char (CHR '':'') ref of
        None \<Rightarrow> Some policy_ref_error
      | Some (authority, subject) \<Rightarrow>
          if authority = ''client'' \<or> authority = ''customer'' then
            validateRunLogAuthorityIdentifier ''run_log_policy policy_ref'' subject
          else if authority = ''provider'' then
            (case cut_char (CHR ''/'') subject of
               None \<Rightarrow> Some (New ''run_log_policy provider policy_ref must identify plugin/provider'')
             | Some (pluginID, providerID) \<Rightarrow>
                 if contains_str providerID ''/''
                 then Some (New ''run_log_policy provider policy_ref must identify plugin/provider'')
                 else (case validateRunLogAuthorityIdentifier ''run_log_policy policy_ref plugin'' pluginID of
                         Some err \<Rightarrow> Some err
                       | None \<Rightarrow> validateRunLogAuthorityIdentifier ''run_log_policy policy_ref provider'' providerID))
          else Some policy_ref_error))"

definition RunLogLeasePolicy_Validate :: "RunLogLeasePolicy \<Rightarrow> error" where
  "RunLogLeasePolicy_Validate p =
     (if rllp_Version p = [] then
        (if rllp_present p \<or> rllp_PreserveFullLogs p \<or> rllp_RetentionSeconds p \<noteq> 0 \<or> rllp_PolicyRef p \<noteq> [] \<or>
            rllp_PolicyHash p \<noteq> [] \<or> rllp_ProviderEnrollmentID p \<noteq> [] \<or> rllp_RequestAdjusted p
         then Some (New ''run_log_policy version is required when policy fields are set'')
         else None)
      else if rllp_Version p \<noteq> RunLogLeasePolicyVersionV1
      then Some (Errorf ''run_log_policy version must be %q'' [Str RunLogLeasePolicyVersionV1])
      else if \<not> rllp_PreserveFullLogs p then
        (if rllp_RetentionSeconds p \<noteq> 0 \<or> rllp_PolicyRef p \<noteq> [] \<or> rllp_PolicyHash p \<noteq> [] \<or>
            rllp_ProviderEnrollmentID p \<noteq> [] \<or> rllp_RequestAdjusted p
         then Some (New ''disabled run_log_policy must not include authorization fields'')
         else None)
      else if rllp_RetentionSeconds p \<le> 0 then Some (New ''run_log_policy retention_seconds must be positive'')
      else (case validateRunLogPolicyRef (rllp_PolicyRef p) of
              Some err \<Rightarrow> Some err
            | None \<Rightarrow>
                if \<not> validSHA256Digest (rllp_PolicyHash p)
                then Some (New ''run_log_policy policy_hash must use sha256 digest'')
                else if rllp_ProviderEnrollmentID p \<noteq> []
                then ValidateRunLogProviderEnrollmentID (rllp_ProviderEnrollmentID p)
                else None))"

section \<open>What the policies accept\<close>

lemma zero_ProviderConfig_simps [simp]:
  "pc_PluginID zero_ProviderConfig = []" "pc_ProviderID zero_ProviderConfig = []" "pc_ContractID zero_ProviderConfig = []"
  by (simp_all add: zero_ProviderConfig_def)

text \<open>A residue policy is accepted exactly when its modes are known and consistent, a session key is present
  for session-bound residue and for nothing else, and the extra conditions the caller asks for hold:
  workspace support, explicit worker binding, and a policy hash for every reusable workspace.\<close>

theorem ResiduePolicy_Validate_iff:
  "ResiduePolicy_Validate p v = None \<longleftrightarrow>
     validResidueMode (rp_Mode p) True \<and> (\<forall>m \<in> set (rp_AllowedModes p). validResidueMode m False) \<and>
     distinct (rp_AllowedModes p) \<and> (rp_Mode p = [] \<or> rp_AllowedModes p = [] \<or> rp_Mode p \<in> set (rp_AllowedModes p)) \<and>
     (rp_SessionKey p \<noteq> [] \<longleftrightarrow> rp_Mode p = ResidueModeSessionBound) \<and>
     trim_space (rp_SessionKey p) = rp_SessionKey p \<and> \<not> contains_any (rp_SessionKey p) (ctl_chars @ ch_nul) \<and>
     (rpv_NoWorkspaceAllowed v \<longrightarrow> \<not> ResiduePolicy_UsesReusableWorkspace p) \<and>
     (rpv_RequireExplicitWorkerBound v \<and> rp_Mode p = ResidueModeWorkerBound \<longrightarrow> rp_ExplicitWorkerBound p) \<and>
     (rp_PolicyHash p \<noteq> [] \<longrightarrow> validSHA256Ref (rp_PolicyHash p)) \<and>
     (rpv_RequirePolicyHash v \<and> ResiduePolicy_UsesReusableWorkspace p \<longrightarrow> rp_PolicyHash p \<noteq> []) \<and>
     0 \<le> rp_MaxAgeSeconds p \<and> 0 \<le> rp_MaxReuseCount p"
proof -
  have key: "(if k = [] then [e] else fails (trim_space k \<noteq> k \<or> c) e') = [] \<and> fails (m \<noteq> s \<and> k' \<noteq> []) e'' = []
      \<longleftrightarrow> k \<noteq> [] \<and> trim_space k = k \<and> \<not> c \<and> (m = s \<or> k' = [])" for k k' c m s e e' e''
    by auto
  show ?thesis
  proof (cases "rp_Mode p = ResidueModeSessionBound")
    case True
    then show ?thesis
      unfolding ResiduePolicy_Validate_def join_None append_is_Nil_conv
      by (auto simp: not_less enum)
  next
    case False
    then show ?thesis
      unfolding ResiduePolicy_Validate_def join_None append_is_Nil_conv
      by (auto simp: not_less)
  qed
qed

text \<open>The flag \<open>RequireSessionKey\<close> has no effect: the key is required for session-bound residue anyway.\<close>

lemma RequireSessionKey_irrelevant:
  "ResiduePolicy_Validate p (v\<lparr>rpv_RequireSessionKey := b\<rparr>) = ResiduePolicy_Validate p v"
  by (simp add: ResiduePolicy_Validate_def)

text \<open>A quorum is asked for exactly by the quorum proof tiers: there it is at least two and attempts, where
  limited, reach it; elsewhere neither a quorum above one nor an attempt limit is accepted.\<close>

theorem ValidateProofPolicy_iff:
  "ValidateProofPolicy tier policy = None \<longleftrightarrow>
     (if tier = ProofReplicatedQuorum \<or> tier = ProofAttestedQuorum
      then 2 \<le> prpo_Quorum policy \<and> (prpo_MaxAttempts policy = 0 \<or> prpo_Quorum policy \<le> prpo_MaxAttempts policy)
      else prpo_Quorum policy \<le> 1 \<and> prpo_MaxAttempts policy \<le> 0)"
  by (auto simp: ValidateProofPolicy_def)

section \<open>The grammar of a run-log authority\<close>

datatype authority = GlobalAuthority | ClientAuthority string | CustomerAuthority string | ProviderAuthority string string

fun render :: "authority \<Rightarrow> string" where
  "render GlobalAuthority = ''global''"
| "render (ClientAuthority i) = ''client:'' @ i"
| "render (CustomerAuthority i) = ''customer:'' @ i"
| "render (ProviderAuthority p i) = ''provider:'' @ p @ ''/'' @ i"

definition authority_id :: "string \<Rightarrow> bool" where
  "authority_id v \<longleftrightarrow> v \<noteq> [] \<and> length v \<le> 256 \<and> ascii_alnum (hd v) \<and> (\<forall>c \<in> set v. ascii_alnum c \<or> c \<in> set ''-_.@+'')"

fun wf_authority :: "authority \<Rightarrow> bool" where
  "wf_authority GlobalAuthority \<longleftrightarrow> True"
| "wf_authority (ClientAuthority i) \<longleftrightarrow> authority_id i"
| "wf_authority (CustomerAuthority i) \<longleftrightarrow> authority_id i"
| "wf_authority (ProviderAuthority p i) \<longleftrightarrow> authority_id p \<and> authority_id i"

lemma validateRunLogAuthorityIdentifier_None [simp]:
  "validateRunLogAuthorityIdentifier name v = None \<longleftrightarrow> authority_id v"
proof (cases v)
  case (Cons c cs)
  have "all_from (Suc 0) (\<lambda>i ch. ascii_alnum ch \<or> i > 0 \<and> ch \<in> set ''-_.@+'') cs \<longleftrightarrow>
      (\<forall>c \<in> set cs. ascii_alnum c \<or> c \<in> set ''-_.@+'')"
    by (simp add: all_from_def all_set_conv_all_nth)
  then show ?thesis
    by (auto simp: Cons validateRunLogAuthorityIdentifier_def authority_id_def all_from_simps)
qed (simp add: validateRunLogAuthorityIdentifier_def authority_id_def)

lemma authority_id_chars: "authority_id v \<Longrightarrow> CHR '':'' \<notin> set v \<and> CHR ''/'' \<notin> set v"
proof -
  have "\<not> (ascii_alnum (CHR '':'') \<or> CHR '':'' \<in> set ''-_.@+'')" "\<not> (ascii_alnum (CHR ''/'') \<or> CHR ''/'' \<in> set ''-_.@+'')"
    by code_simp+
  then show "authority_id v \<Longrightarrow> CHR '':'' \<notin> set v \<and> CHR ''/'' \<notin> set v"
    unfolding authority_id_def by blast
qed

lemma cut_char_append: "c \<notin> set a \<Longrightarrow> cut_char c (a @ c # b) = Some (a, b)"
  by (simp add: cut_char_Some)

lemma contains_str_char: "contains_str s [c] \<longleftrightarrow> c \<in> set s"
  by (induction s) auto

lemma policy_ref_cut:
  assumes "length ref \<le> 512" and "ref \<noteq> ''global''" and "cut_char (CHR '':'') ref = Some (auth, subj)"
  shows "validateRunLogPolicyRef ref = None \<longleftrightarrow>
    (auth = ''client'' \<or> auth = ''customer'') \<and> authority_id subj \<or>
    auth = ''provider'' \<and> (\<exists>p i. cut_char (CHR ''/'') subj = Some (p, i) \<and> authority_id p \<and> authority_id i)"
proof -
  have prov: "(case cut_char (CHR ''/'') subj of None \<Rightarrow> Some e
       | Some (p, i) \<Rightarrow> if contains_str i ''/'' then Some e'
           else (case validateRunLogAuthorityIdentifier n p of Some err \<Rightarrow> Some err
              | None \<Rightarrow> validateRunLogAuthorityIdentifier n' i)) = None \<longleftrightarrow>
      (\<exists>p i. cut_char (CHR ''/'') subj = Some (p, i) \<and> authority_id p \<and> authority_id i)" for e e' n n'
  proof (cases "cut_char (CHR ''/'') subj")
    case (Some pi)
    obtain p i where pi: "pi = (p, i)" by (cases pi)
    have "\<not> contains_str i ''/''" if "authority_id i"
      using authority_id_chars [OF that] by (simp add: contains_str_char)
    then show ?thesis by (auto simp: Some pi)
  qed simp
  show ?thesis
    unfolding validateRunLogPolicyRef_def assms(3) using assms(1,2) prov by simp
qed

lemma render_accepted: "wf_authority a \<Longrightarrow> length (render a) \<le> 512 \<Longrightarrow> validateRunLogPolicyRef (render a) = None"
proof -
  assume wf: "wf_authority a" and len: "length (render a) \<le> 512"
  show ?thesis
  proof (cases a)
    case GlobalAuthority
    then show ?thesis by (simp add: validateRunLogPolicyRef_def)
  next
    case (ClientAuthority i)
    then show ?thesis using wf len policy_ref_cut [of "render a" "''client''" i] by simp
  next
    case (CustomerAuthority i)
    then show ?thesis using wf len policy_ref_cut [of "render a" "''customer''" i] by simp
  next
    case (ProviderAuthority p i)
    have "cut_char (CHR ''/'') (p @ CHR ''/'' # i) = Some (p, i)"
      using wf authority_id_chars [of p] by (intro cut_char_append) (simp add: ProviderAuthority)
    then show ?thesis using wf len policy_ref_cut [of "render a" "''provider''" "p @ CHR ''/'' # i"]
      by (simp add: ProviderAuthority)
  qed
qed

lemma accepted_render: "validateRunLogPolicyRef ref = None \<Longrightarrow> \<exists>a. wf_authority a \<and> render a = ref"
proof (cases "ref = ''global''")
  case True
  then show ?thesis by (intro exI [of _ GlobalAuthority]) simp
next
  case False
  assume acc: "validateRunLogPolicyRef ref = None"
  with False obtain auth subj where cut: "cut_char (CHR '':'') ref = Some (auth, subj)"
    by (auto simp: validateRunLogPolicyRef_def split: if_splits option.splits)
  then have ref: "ref = auth @ CHR '':'' # subj" by (simp add: cut_char_Some)
  have len: "length ref \<le> 512" using acc by (auto simp: validateRunLogPolicyRef_def split: if_splits)
  then consider "auth = ''client''" "authority_id subj" | "auth = ''customer''" "authority_id subj"
    | p i where "auth = ''provider''" "cut_char (CHR ''/'') subj = Some (p, i)" "authority_id p" "authority_id i"
    using policy_ref_cut [OF len False cut] acc by blast
  then show ?thesis
  proof cases
    case 1
    then show ?thesis by (intro exI [of _ "ClientAuthority subj"]) (simp add: ref)
  next
    case 2
    then show ?thesis by (intro exI [of _ "CustomerAuthority subj"]) (simp add: ref)
  next
    case 3
    then show ?thesis by (intro exI [of _ "ProviderAuthority p i"]) (simp add: ref cut_char_Some)
  qed
qed

lemma cut_render:
  "cut_char (CHR '':'') (render a) =
     (case a of GlobalAuthority \<Rightarrow> None | ClientAuthority i \<Rightarrow> Some (''client'', i)
      | CustomerAuthority i \<Rightarrow> Some (''customer'', i) | ProviderAuthority p i \<Rightarrow> Some (''provider'', p @ CHR ''/'' # i))"
  by (cases a) simp_all

lemma render_inj: "wf_authority a \<Longrightarrow> wf_authority b \<Longrightarrow> render a = render b \<Longrightarrow> a = b"
proof -
  assume wf: "wf_authority a" "wf_authority b" and eq: "render a = render b"
  have split: "p = p' \<and> i = i'" if "p @ CHR ''/'' # i = p' @ CHR ''/'' # i'" "authority_id p" "authority_id p'" for p p' i i'
  proof -
    have "cut_char (CHR ''/'') (p @ CHR ''/'' # i) = Some (p, i)" "cut_char (CHR ''/'') (p' @ CHR ''/'' # i') = Some (p', i')"
      using authority_id_chars [OF that(2)] authority_id_chars [OF that(3)] by (simp_all add: cut_char_append)
    then show ?thesis unfolding that(1) by (metis option.inject prod.inject)
  qed
  have cut: "cut_char (CHR '':'') (render a) = cut_char (CHR '':'') (render b)" using eq by simp
  show ?thesis
  proof (cases a)
    case (ProviderAuthority p i)
    with cut obtain p' i' where b: "b = ProviderAuthority p' i'" and "p @ CHR ''/'' # i = p' @ CHR ''/'' # i'"
      unfolding cut_render by (cases b) simp_all
    then show ?thesis using split [of p i p' i'] wf ProviderAuthority by simp
  qed (use cut in \<open>cases b; simp add: cut_render del: render.simps\<close>)+
qed

text \<open>A policy reference of at most 512 bytes is accepted exactly when it spells one of the four
  authorities, and then it spells only one: \<open>global\<close>, a client, a customer, or a plugin and provider.\<close>

theorem validateRunLogPolicyRef_iff:
  "validateRunLogPolicyRef ref = None \<longleftrightarrow> length ref \<le> 512 \<and> (\<exists>!a. wf_authority a \<and> render a = ref)"
proof
  assume acc: "validateRunLogPolicyRef ref = None"
  then have "length ref \<le> 512" by (auto simp: validateRunLogPolicyRef_def split: if_splits)
  with accepted_render [OF acc] render_inj show "length ref \<le> 512 \<and> (\<exists>!a. wf_authority a \<and> render a = ref)"
    by blast
next
  assume "length ref \<le> 512 \<and> (\<exists>!a. wf_authority a \<and> render a = ref)"
  then obtain a where "wf_authority a" "render a = ref" "length ref \<le> 512" by blast
  then show "validateRunLogPolicyRef ref = None" using render_accepted [of a] by simp
qed

text \<open>Preserving logs takes an authority: an accepted policy that keeps full logs names a version, a positive
  retention, a well-formed authority and the digest of the policy that granted it; one that does not carries
  no authorization at all.\<close>

theorem RunLogLeasePolicy_authority:
  assumes "RunLogLeasePolicy_Validate p = None"
  shows "if rllp_PreserveFullLogs p
    then rllp_Version p = RunLogLeasePolicyVersionV1 \<and> 0 < rllp_RetentionSeconds p \<and>
      (\<exists>a. wf_authority a \<and> render a = rllp_PolicyRef p) \<and> validSHA256Digest (rllp_PolicyHash p) \<and>
      (rllp_ProviderEnrollmentID p = [] \<or> authority_id (rllp_ProviderEnrollmentID p))
    else rllp_RetentionSeconds p = 0 \<and> rllp_PolicyRef p = [] \<and> rllp_PolicyHash p = [] \<and>
      rllp_ProviderEnrollmentID p = [] \<and> \<not> rllp_RequestAdjusted p"
proof (cases "rllp_PreserveFullLogs p")
  case True
  have "validateRunLogPolicyRef (rllp_PolicyRef p) = None"
    using assms True by (auto simp: RunLogLeasePolicy_Validate_def split: if_splits option.splits)
  then show ?thesis
    using assms True accepted_render
    by (simp add: RunLogLeasePolicy_Validate_def ValidateRunLogProviderEnrollmentID_def not_less not_le split: if_splits)
next
  case False
  then show ?thesis using assms by (auto simp: RunLogLeasePolicy_Validate_def split: if_splits)
qed

lemma RunLogLeasePolicy_authority_witness:
  "\<exists>a. wf_authority a \<and> render a = ''provider:plugin/id''"
proof -
  let ?p = "\<lparr>rllp_Version = ''v1'', rllp_PreserveFullLogs = True, rllp_RetentionSeconds = 60,
     rllp_PolicyRef = ''provider:plugin/id'', rllp_PolicyHash = ''sha256:'' @ replicate 64 (CHR ''a''),
     rllp_ProviderEnrollmentID = [], rllp_RequestAdjusted = False, rllp_present = True\<rparr>"
  have "RunLogLeasePolicy_Validate ?p = None" by code_simp
  then show ?thesis using RunLogLeasePolicy_authority [of ?p] by simp
qed

text \<open>C32. A policy in JSON has to say its version: whatever is decoded, an explicit null included, is accepted only
  with the supported version, while the policy that was never sent is accepted and grants nothing.\<close>

theorem decoded_policy_versioned:
  assumes "RunLogLeasePolicy_UnmarshalJSON decode p data = (None, q)"
  shows "(RunLogLeasePolicy_Validate q = None \<longrightarrow> rllp_Version q = RunLogLeasePolicyVersionV1) \<and>
    (trim_space data = ''null'' \<longrightarrow> RunLogLeasePolicy_Validate q \<noteq> None) \<and>
    RunLogLeasePolicy_Validate zero_RunLogLeasePolicy = None \<and> \<not> rllp_PreserveFullLogs zero_RunLogLeasePolicy"
  using assms
  by (auto simp: RunLogLeasePolicy_UnmarshalJSON_def zero_RunLogLeasePolicy_def RunLogLeasePolicy_Validate_def Let_def
      split: sum.splits if_splits)

lemma decoded_policy_versioned_witness:
  "RunLogLeasePolicy_Validate (zero_RunLogLeasePolicy\<lparr>rllp_present := True\<rparr>) \<noteq> None"
proof -
  have "trim_space '' null'' = ''null''" by code_simp
  moreover from this have "RunLogLeasePolicy_UnmarshalJSON (\<lambda>_. Inl (New [])) zero_RunLogLeasePolicy '' null'' =
      (None, zero_RunLogLeasePolicy\<lparr>rllp_present := True\<rparr>)" by (simp add: RunLogLeasePolicy_UnmarshalJSON_def)
  ultimately show ?thesis using decoded_policy_versioned by blast
qed

end
