(* ===== verification/Placement.thy ===== *)
theory Placement
  imports Attestation
begin

text \<open>
  \<open>protocol/types.go\<close>: what a task asks of a worker and whether a worker satisfies it.
  Placement requirements against capabilities, hardware classes and their attestations, resource
  limits against capacity, and the placement constraints of a network product.
\<close>

section \<open>Requirements and capabilities\<close>

record PlacementRequirements =
  pr_ExecutorProvider :: string
  pr_ExecutionSecurityTier :: ExecutionSecurityTier
  pr_ProofTier :: ProofTier
  pr_HardwareClass :: string
  pr_RequiredCapabilities :: "string list"

record ExecutorCapabilities =
  ec_Executors :: "ExecutorRef list"
  ec_ExecutionTiers :: "ExecutionSecurityTier list"

record ProviderCapabilityReport =
  pcr_Provider :: string
  pcr_Status :: ProviderCapabilityStatus
  pcr_Reason :: string

record HardwareAttestation =
  ha_Class :: string
  ha_Provider :: string
  ha_VerifierID :: string
  ha_KeyID :: string
  ha_Verified :: bool
  ha_ExpiresAt :: time

record HardwareSecurityCapabilities =
  hsc_TEE :: "string list"
  hsc_HardwareClasses :: "string list"
  hsc_HardwareAttestations :: "HardwareAttestation list"

record HardwarePlacementCapabilities =
  hpc_GPUCount :: int
  hpc_Security :: HardwareSecurityCapabilities
  hpc_Now :: time

record PlacementRequirementCapabilities =
  prc_CapabilityTags :: "string list"
  prc_ExecutorProviders :: "string list"
  prc_ExecutionTiers :: "ExecutionSecurityTier list"
  prc_ProofTiers :: "ProofTier list"
  prc_CapabilityReports :: "ProviderCapabilityReport list"
  prc_Executors :: "ExecutorRef list"

definition ExecutorMatchesPlacementRequirements :: "ExecutorRef \<Rightarrow> PlacementRequirements \<Rightarrow> bool" where
  "ExecutorMatchesPlacementRequirements executor req =
     (if pr_ExecutorProvider req \<noteq> [] \<and> er_Provider executor \<noteq> pr_ExecutorProvider req then False
      else if pr_ExecutionSecurityTier req \<noteq> [] \<and> er_ExecutionSecurityTier executor \<noteq> pr_ExecutionSecurityTier req then False
      else if pr_ProofTier req \<noteq> [] \<and> er_ProofTier executor \<noteq> pr_ProofTier req then False
      else True)"

definition ExecutionTierSupportsResourceLimits :: "ExecutionSecurityTier \<Rightarrow> bool" where
  "ExecutionTierSupportsResourceLimits tier =
     (if tier \<in> set [ExecutionHardenedContainer, ExecutionSandboxedContainer, ExecutionMicroVM, ExecutionConfidentialCPU, ExecutionConfidentialGPU, ExecutionWASMCapability] then True
      else False)"

definition providerCapabilityReportForProvider ::
  "ProviderCapabilityReport list \<Rightarrow> string \<Rightarrow> ProviderCapabilityReport option" where
  "providerCapabilityReportForProvider reports0 provider =
     (if provider = [] then None else find (\<lambda>report. pcr_Provider report = provider) reports0)"

definition ExecutorCapabilitiesHaveSupportedMatch ::
  "PlacementRequirements \<Rightarrow> PlacementRequirementCapabilities \<Rightarrow> bool" where
  "ExecutorCapabilitiesHaveSupportedMatch req caps =
     list_ex (\<lambda>executor. ExecutorMatchesPlacementRequirements executor req \<and>
         (case providerCapabilityReportForProvider (prc_CapabilityReports caps) (er_Provider executor) of
            None \<Rightarrow> True
          | Some report \<Rightarrow> pcr_Status report = ProviderCapabilitySupported))
       (prc_Executors caps)"

text \<open>
  The loop over the required capabilities: a tag that is no identifier is reported and skipped; any
  other is reported when it was seen before, and when the worker lacks it.
\<close>

primrec required_capability_errs :: "nat \<Rightarrow> string set \<Rightarrow> string set \<Rightarrow> string list \<Rightarrow> err list" where
  "required_capability_errs i worker seen [] = []"
| "required_capability_errs i worker seen (tag # tags) =
     (case validateIdentifier (at_index ''task requirements required_capabilities'' i []) tag of
        Some err \<Rightarrow> err # required_capability_errs (Suc i) worker seen tags
      | None \<Rightarrow>
          fails (tag \<in> seen)
            (Errorf ''task requirements required_capabilities[%d] %q is duplicated'' [Num (int i), Str tag]) @
          fails (tag \<notin> worker) (Errorf ''worker missing required capability %q'' [Str tag]) @
          required_capability_errs (Suc i) worker (insert tag seen) tags)"

definition ValidatePlacementRequirementsAgainstCapabilities ::
  "PlacementRequirements \<Rightarrow> PlacementRequirementCapabilities \<Rightarrow> error" where
  "ValidatePlacementRequirementsAgainstCapabilities req caps = join
     (required_capability_errs 0 (set (prc_CapabilityTags caps)) {} (pr_RequiredCapabilities req) @
      fails (pr_ExecutionSecurityTier req \<noteq> [] \<and> \<not> validExecutionSecurityTier (pr_ExecutionSecurityTier req))
        (Errorf ''task requirements execution_security_tier %q is unknown'' [Str (pr_ExecutionSecurityTier req)]) @
      fails (pr_ProofTier req \<noteq> [] \<and> \<not> validProofTier (pr_ProofTier req))
        (Errorf ''task requirements proof_tier %q is unknown'' [Str (pr_ProofTier req)]) @
      fails (pr_ExecutorProvider req \<noteq> [] \<and> pr_ExecutorProvider req \<notin> set (prc_ExecutorProviders caps))
        (Errorf ''worker does not support executor provider %q'' [Str (pr_ExecutorProvider req)]) @
      (case providerCapabilityReportForProvider (prc_CapabilityReports caps) (pr_ExecutorProvider req) of
         None \<Rightarrow> []
       | Some report \<Rightarrow> fails (pcr_Status report \<noteq> ProviderCapabilitySupported)
           (Errorf ''worker executor provider %q is %s: %s''
              [Str (pr_ExecutorProvider req), Str (pcr_Status report), Str (pcr_Reason report)])) @
      fails (pr_ExecutionSecurityTier req \<noteq> [] \<and> pr_ExecutionSecurityTier req \<notin> set (prc_ExecutionTiers caps))
        (Errorf ''worker does not support execution security tier %q'' [Str (pr_ExecutionSecurityTier req)]) @
      fails (pr_ProofTier req \<noteq> [] \<and> pr_ProofTier req \<notin> set (prc_ProofTiers caps))
        (Errorf ''worker does not support proof tier %q'' [Str (pr_ProofTier req)]) @
      fails (prc_Executors caps \<noteq> [] \<and> \<not> ExecutorCapabilitiesHaveSupportedMatch req caps)
        (New ''worker has no supported executor matching task placement requirements''))"

section \<open>Hardware\<close>

definition RequiredHardwareClass :: "PlacementRequirements \<Rightarrow> string" where
  "RequiredHardwareClass req =
     (if pr_HardwareClass req \<noteq> [] then pr_HardwareClass req
      else if pr_ExecutionSecurityTier req = ExecutionConfidentialCPU then ExecutionConfidentialCPU
      else if pr_ExecutionSecurityTier req = ExecutionConfidentialGPU then ExecutionConfidentialGPU
      else [])"

definition PlacementRequiresVerifiedHardwareAttestation :: "PlacementRequirements \<Rightarrow> bool" where
  "PlacementRequiresVerifiedHardwareAttestation req =
     (pr_ExecutionSecurityTier req = ExecutionConfidentialCPU \<or> pr_ExecutionSecurityTier req = ExecutionConfidentialGPU)"

text \<open>\<open>now0\<close> is the clock, \<open>time.Now().UTC()\<close>, read only when the capabilities carry no time.\<close>

definition HardwareCapabilitiesSatisfyPlacementRequirements ::
  "time \<Rightarrow> PlacementRequirements \<Rightarrow> HardwarePlacementCapabilities \<Rightarrow> bool" where
  "HardwareCapabilitiesSatisfyPlacementRequirements now0 req caps =
     (let class0 = RequiredHardwareClass req
      in if class0 = [] then True
         else if class0 = ExecutionConfidentialGPU \<and> hpc_GPUCount caps = 0 then False
         else if PlacementRequiresVerifiedHardwareAttestation req \<or> class0 = ExecutionConfidentialCPU \<or>
             class0 = ExecutionConfidentialGPU
         then (let now = (if hpc_Now caps = 0 then now0 else hpc_Now caps)
               in list_ex (\<lambda>attestation.
                    ha_Class attestation = class0 \<and> ha_Provider attestation \<noteq> [] \<and> ha_VerifierID attestation \<noteq> [] \<and>
                    ha_KeyID attestation \<noteq> [] \<and> ha_Verified attestation \<and>
                    (ha_ExpiresAt attestation = 0 \<or> now < ha_ExpiresAt attestation))
                  (hsc_HardwareAttestations (hpc_Security caps)))
         else class0 \<in> set (hsc_HardwareClasses (hpc_Security caps)) \<or> class0 \<in> set (hsc_TEE (hpc_Security caps)))"

section \<open>Resources\<close>

record ResourceUsage =
  ru_CPUMillis :: int
  ru_GPUMillis :: int
  ru_MaxMemoryBytes :: int
  ru_NetworkRxBytes :: int
  ru_NetworkTxBytes :: int
  ru_WorkspaceBytes :: int
  ru_OutputBytes :: int
  ru_LimitHit :: string

record ResourceLimits =
  rl_CPUPercent :: int
  rl_MemoryBytes :: int
  rl_WorkspaceBytes :: int
  rl_RuntimeSeconds :: int
  rl_NetworkEgressBytes :: int
  rl_OutputBytes :: int

record ResourceCapacity =
  rc_CPUCount :: int
  rc_MemoryBytes :: int
  rc_DiskBytes :: int

definition ResourceLimits_Validate :: "ResourceLimits \<Rightarrow> error" where
  "ResourceLimits_Validate l =
     join
     (fails (rl_CPUPercent l < 0)
        (New ''cpu_percent cannot be negative'') @
      fails (rl_MemoryBytes l < 0)
        (New ''memory_bytes cannot be negative'') @
      fails (rl_WorkspaceBytes l < 0)
        (New ''workspace_bytes cannot be negative'') @
      fails (rl_RuntimeSeconds l < 0)
        (New ''runtime_seconds cannot be negative'') @
      fails (rl_NetworkEgressBytes l < 0)
        (New ''network_egress_bytes cannot be negative'') @
      fails (rl_OutputBytes l < 0)
        (New ''output_bytes cannot be negative''))"

definition ValidateResourceLimitsAgainstCapacity :: "ResourceLimits \<Rightarrow> ResourceCapacity \<Rightarrow> error" where
  "ValidateResourceLimitsAgainstCapacity limits capacity =
     join
     ((if rl_CPUPercent limits > 0 \<and> rc_CPUCount capacity > 0 then
         (let cpuCapacity = wrap64 (rc_CPUCount capacity * 100) in
            fails (rl_CPUPercent limits > cpuCapacity)
              (Errorf ''resource_limits.cpu_percent %d exceeds worker CPU capacity %d'' [Num (rl_CPUPercent limits), Num cpuCapacity]))
       else []) @
      fails (rl_MemoryBytes limits > 0 \<and> rc_MemoryBytes capacity > 0 \<and> rl_MemoryBytes limits > rc_MemoryBytes capacity)
        (Errorf ''resource_limits.memory_bytes %d exceeds worker memory_bytes %d'' [Num (rl_MemoryBytes limits), Num (rc_MemoryBytes capacity)]) @
      fails (rl_WorkspaceBytes limits > 0 \<and> rc_DiskBytes capacity > 0 \<and> rl_WorkspaceBytes limits > rc_DiskBytes capacity)
        (Errorf ''resource_limits.workspace_bytes %d exceeds worker disk_bytes %d'' [Num (rl_WorkspaceBytes limits), Num (rc_DiskBytes capacity)]))"

definition ResourceLimitsRequireResourceConstrainedExecutor :: "ResourceLimits \<Rightarrow> bool" where
  "ResourceLimitsRequireResourceConstrainedExecutor limits =
     (rl_CPUPercent limits > 0 \<or> rl_MemoryBytes limits > 0)"

definition ExecutorCapabilitiesHaveResourceConstrainedMatch :: "PlacementRequirements \<Rightarrow> ExecutorCapabilities \<Rightarrow> bool" where
  "ExecutorCapabilitiesHaveResourceConstrainedMatch req caps =
     (if ec_Executors caps = [] then list_ex ExecutionTierSupportsResourceLimits (ec_ExecutionTiers caps)
      else list_ex (\<lambda>executor. ExecutorMatchesPlacementRequirements executor req \<and>
             ExecutionTierSupportsResourceLimits (er_ExecutionSecurityTier executor)) (ec_Executors caps))"

section \<open>Placement constraints\<close>

record SettlementTarget =
  st_Kind :: SettlementTargetKind
  st_AccountID :: string
  st_Network :: string
  st_WalletRef :: string

record StorageGuidance =
  sg_Mode :: string
  sg_MinDiskBytes :: int
  sg_MinDiskDisplay :: string
  sg_RecommendedDiskBytes :: int
  sg_RecommendedDiskDisplay :: string
  sg_GrowthMarginBytes :: int
  sg_GrowthMarginDisplay :: string
  sg_DurableVolumeRequired :: bool
  sg_PreserveOnUpdate :: bool
  sg_PreserveOnUninstall :: bool
  sg_PruningSupported :: bool
  sg_SnapshotVerificationRequired :: bool

record PlacementConstraints =
  plco_Chain :: string
  plco_Role :: string
  plco_MinDiskBytes :: int
  plco_MinMemoryBytes :: int
  plco_MinBandwidthMbps :: int
  plco_RequiresIngress :: bool
  plco_RequiredCapabilities :: "string list"
  plco_WalletRef :: string
  plco_StorageGuidance :: StorageGuidance

record PlacementCapabilities =
  plca_DiskBytes :: int
  plca_MemoryBytes :: int
  plca_BandwidthMbps :: int
  plca_IngressCapable :: bool
  plca_CapabilityTags :: "string list"

record PlacementNetworkPolicy =
  pnp_AllowIngress :: bool

definition zero_StorageGuidance :: StorageGuidance where
  "zero_StorageGuidance = \<lparr>sg_Mode = [], sg_MinDiskBytes = 0, sg_MinDiskDisplay = [], sg_RecommendedDiskBytes = 0, sg_RecommendedDiskDisplay = [], sg_GrowthMarginBytes = 0, sg_GrowthMarginDisplay = [], sg_DurableVolumeRequired = False, sg_PreserveOnUpdate = False, sg_PreserveOnUninstall = False, sg_PruningSupported = False, sg_SnapshotVerificationRequired = False\<rparr>"

definition StorageGuidance_Validate :: "StorageGuidance \<Rightarrow> error" where
  "StorageGuidance_Validate g =
     (if g = zero_StorageGuidance then None
     else join
     ((if sg_Mode g \<noteq> [] then
         reports (validateIdentifier ''mode'' (sg_Mode g))
       else []) @
      fails (sg_MinDiskBytes g < 0)
        (New ''min_disk_bytes must not be negative'') @
      fails (sg_RecommendedDiskBytes g < 0)
        (New ''recommended_disk_bytes must not be negative'') @
      fails (sg_GrowthMarginBytes g < 0)
        (New ''growth_margin_bytes must not be negative'') @
      fails (sg_MinDiskBytes g > 0 \<and> sg_MinDiskDisplay g = [])
        (New ''min_disk_display is required when min_disk_bytes is set'') @
      fails (sg_RecommendedDiskBytes g > 0 \<and> sg_RecommendedDiskDisplay g = [])
        (New ''recommended_disk_display is required when recommended_disk_bytes is set'') @
      fails (sg_GrowthMarginBytes g > 0 \<and> sg_GrowthMarginDisplay g = [])
        (New ''growth_margin_display is required when growth_margin_bytes is set'') @
      fails (sg_MinDiskBytes g > 0 \<and> sg_RecommendedDiskBytes g > 0 \<and> sg_RecommendedDiskBytes g < sg_MinDiskBytes g)
        (New ''recommended_disk_bytes must be at least min_disk_bytes'') @
      fails (trim_space (sg_MinDiskDisplay g) \<noteq> sg_MinDiskDisplay g \<or> contains_any (sg_MinDiskDisplay g) ctl_chars)
        (Errorf ''%s must not contain surrounding whitespace or control whitespace'' [Str ''min_disk_display'']) @
      fails (trim_space (sg_RecommendedDiskDisplay g) \<noteq> sg_RecommendedDiskDisplay g \<or> contains_any (sg_RecommendedDiskDisplay g) ctl_chars)
        (Errorf ''%s must not contain surrounding whitespace or control whitespace'' [Str ''recommended_disk_display'']) @
      fails (trim_space (sg_GrowthMarginDisplay g) \<noteq> sg_GrowthMarginDisplay g \<or> contains_any (sg_GrowthMarginDisplay g) ctl_chars)
        (Errorf ''%s must not contain surrounding whitespace or control whitespace'' [Str ''growth_margin_display''])))"

definition PlacementConstraints_IsZero :: "PlacementConstraints \<Rightarrow> bool" where
  "PlacementConstraints_IsZero c =
     (plco_Chain c = [] \<and> plco_Role c = [] \<and> plco_MinDiskBytes c = 0 \<and> plco_MinMemoryBytes c = 0 \<and> plco_MinBandwidthMbps c = 0 \<and> \<not> plco_RequiresIngress c \<and> (plco_RequiredCapabilities c) = [] \<and> plco_WalletRef c = [] \<and> plco_StorageGuidance c = zero_StorageGuidance)"

definition PlacementConstraints_Validate :: "PlacementConstraints \<Rightarrow> bool \<Rightarrow> SettlementTarget \<Rightarrow> error" where
  "PlacementConstraints_Validate c req target =
     (if PlacementConstraints_IsZero c then if req then Some (New ''placement constraints are required'')
       else None
     else join
     ((if plco_Chain c = [] then
         fails (req)
           (New ''chain is required'')
       else reports (validateIdentifier ''chain'' (plco_Chain c))) @
      (if plco_Role c = [] then
         fails (req)
           (New ''role is required'')
       else reports (validateIdentifier ''role'' (plco_Role c))) @
      (if plco_MinDiskBytes c \<le> 0 then
         (if req then
            [New ''min_disk_bytes must be positive'']
          else fails (plco_MinDiskBytes c < 0)
                 (New ''min_disk_bytes must not be negative''))
       else []) @
      (if plco_MinMemoryBytes c \<le> 0 then
         (if req then
            [New ''min_memory_bytes must be positive'']
          else fails (plco_MinMemoryBytes c < 0)
                 (New ''min_memory_bytes must not be negative''))
       else []) @
      (if plco_MinBandwidthMbps c \<le> 0 then
         (if req then
            [New ''min_bandwidth_mbps must be positive'']
          else fails (plco_MinBandwidthMbps c < 0)
                 (New ''min_bandwidth_mbps must not be negative''))
       else []) @
      each_unique 0
        (\<lambda>i tag. validateIdentifier (at_index ''required_capabilities'' i []) tag)
        (\<lambda>tag. tag)
        (\<lambda>i tag. Errorf ''required_capabilities[%d] %q is duplicated'' [Num (int i), Str tag]) {} (plco_RequiredCapabilities c) @
      (if plco_WalletRef c = [] then
         fails (req)
           (New ''wallet_ref is required'')
       else fails (\<not> has_prefix (plco_WalletRef c) ''wallet://'')
              (New ''wallet_ref must use wallet:// scope'') @
            fails (contains_any (plco_WalletRef c) (ws_chars @ ''?&#''))
              (New ''wallet_ref must not contain whitespace, query, fragment, or parameter delimiters'') @
            fails (st_WalletRef target \<noteq> [] \<and> plco_WalletRef c \<noteq> st_WalletRef target)
              (New ''wallet_ref must match settlement_target.wallet_ref'')) @
      wraps ''storage_guidance: %w'' [] (StorageGuidance_Validate (plco_StorageGuidance c))))"

definition PlacementConstraintsSatisfiedBy ::
  "PlacementConstraints \<Rightarrow> PlacementCapabilities \<Rightarrow> PlacementNetworkPolicy \<Rightarrow> error" where
  "PlacementConstraintsSatisfiedBy c caps task =
     (if PlacementConstraints_IsZero c then None
      else join
        (fails (plco_MinDiskBytes c > 0 \<and> plca_DiskBytes caps < plco_MinDiskBytes c)
           (Errorf ''worker disk_bytes %d below placement min_disk_bytes %d''
              [Num (plca_DiskBytes caps), Num (plco_MinDiskBytes c)]) @
         fails (plco_MinMemoryBytes c > 0 \<and> plca_MemoryBytes caps < plco_MinMemoryBytes c)
           (Errorf ''worker memory_bytes %d below placement min_memory_bytes %d''
              [Num (plca_MemoryBytes caps), Num (plco_MinMemoryBytes c)]) @
         fails (plco_MinBandwidthMbps c > 0 \<and> plca_BandwidthMbps caps < plco_MinBandwidthMbps c)
           (Errorf ''worker bandwidth_mbps %d below placement min_bandwidth_mbps %d''
              [Num (plca_BandwidthMbps caps), Num (plco_MinBandwidthMbps c)]) @
         fails (plco_RequiresIngress c \<and> (\<not> plca_IngressCapable caps \<or> \<not> pnp_AllowIngress task))
           (New ''worker/task does not satisfy placement ingress requirement'') @
         concat (map (\<lambda>tag. fails (tag \<notin> set (plca_CapabilityTags caps))
             (Errorf ''worker missing placement required capability %q'' [Str tag]))
           (plco_RequiredCapabilities c))))"

section \<open>What placement decides\<close>

text \<open>A provider is usable when the first report on it, if there is one, says supported.\<close>

definition provider_usable :: "PlacementRequirementCapabilities \<Rightarrow> string \<Rightarrow> bool" where
  "provider_usable caps provider \<longleftrightarrow>
     (\<forall>report. providerCapabilityReportForProvider (prc_CapabilityReports caps) provider = Some report \<longrightarrow>
        pcr_Status report = ProviderCapabilitySupported)"

definition optionally :: "string \<Rightarrow> bool \<Rightarrow> bool" where
  \<comment> \<open>a requirement that holds only where it was made\<close>
  "optionally want p \<longleftrightarrow> want = [] \<or> p"

lemma ExecutorMatches_iff:
  "ExecutorMatchesPlacementRequirements e req \<longleftrightarrow>
     optionally (pr_ExecutorProvider req) (er_Provider e = pr_ExecutorProvider req) \<and>
     optionally (pr_ExecutionSecurityTier req) (er_ExecutionSecurityTier e = pr_ExecutionSecurityTier req) \<and>
     optionally (pr_ProofTier req) (er_ProofTier e = pr_ProofTier req)"
  by (auto simp: ExecutorMatchesPlacementRequirements_def optionally_def)

lemma SupportedMatch_iff:
  "ExecutorCapabilitiesHaveSupportedMatch req caps \<longleftrightarrow>
     (\<exists>e \<in> set (prc_Executors caps). ExecutorMatchesPlacementRequirements e req \<and> provider_usable caps (er_Provider e))"
  by (auto simp: ExecutorCapabilitiesHaveSupportedMatch_def provider_usable_def list_ex_iff split: option.splits)

lemma required_capability_errs_Nil:
  "required_capability_errs i worker seen tags = [] \<longleftrightarrow>
     (\<forall>tag \<in> set tags. plain_id tag) \<and> distinct tags \<and> set tags \<inter> seen = {} \<and> set tags \<subseteq> worker"
proof (induction tags arbitrary: i seen)
  case (Cons tag tags)
  show ?case
  proof (cases "validateIdentifier (at_index ''task requirements required_capabilities'' i []) tag")
    case None
    then have "plain_id tag" by (simp only: validateIdentifier_None)
    with None show ?thesis unfolding required_capability_errs.simps None option.case
      by (auto simp: Cons.IH)
  next
    case (Some e)
    then have "\<not> plain_id tag" by (metis option.distinct(1) validateIdentifier_None)
    with Some show ?thesis by simp
  qed
qed simp

text \<open>A worker is accepted for a task's placement requirements exactly when the requirements are
  well formed, it has every required capability, its lists name the provider and tiers asked for, no
  leading report degrades that provider, and, if it lists executors at all, one usable executor matches
  all the requirements together.\<close>

theorem ValidatePlacementRequirements_iff:
  "ValidatePlacementRequirementsAgainstCapabilities req caps = None \<longleftrightarrow>
     (\<forall>tag \<in> set (pr_RequiredCapabilities req). plain_id tag) \<and> distinct (pr_RequiredCapabilities req) \<and>
     set (pr_RequiredCapabilities req) \<subseteq> set (prc_CapabilityTags caps) \<and>
     optionally (pr_ExecutorProvider req) (pr_ExecutorProvider req \<in> set (prc_ExecutorProviders caps)) \<and>
     provider_usable caps (pr_ExecutorProvider req) \<and>
     optionally (pr_ExecutionSecurityTier req)
       (validExecutionSecurityTier (pr_ExecutionSecurityTier req) \<and> pr_ExecutionSecurityTier req \<in> set (prc_ExecutionTiers caps)) \<and>
     optionally (pr_ProofTier req) (validProofTier (pr_ProofTier req) \<and> pr_ProofTier req \<in> set (prc_ProofTiers caps)) \<and>
     (prc_Executors caps = [] \<or>
       (\<exists>e \<in> set (prc_Executors caps). ExecutorMatchesPlacementRequirements e req \<and> provider_usable caps (er_Provider e)))"
proof -
  have report: "(case providerCapabilityReportForProvider (prc_CapabilityReports caps) (pr_ExecutorProvider req) of
         None \<Rightarrow> [] | Some report \<Rightarrow> fails (pcr_Status report \<noteq> ProviderCapabilitySupported) (e report)) = [] \<longleftrightarrow>
       provider_usable caps (pr_ExecutorProvider req)" for e
    by (simp add: provider_usable_def split: option.split)
  show ?thesis
    unfolding ValidatePlacementRequirementsAgainstCapabilities_def join_None append_is_Nil_conv fails_Nil report
      required_capability_errs_Nil SupportedMatch_iff optionally_def
    by blast
qed

text \<open>C39. A worker that gains capabilities, its reports unchanged, still accepts every task it accepted before, with one
  exception: a worker that listed no executors was not asked for a matching one, so when it lists its first ones it
  keeps the task exactly when one of them matches the task and has no leading report that degrades
  its provider.\<close>

theorem placement_growth:
  assumes "ValidatePlacementRequirementsAgainstCapabilities req caps = None"
    and "set (prc_CapabilityTags caps) \<subseteq> set (prc_CapabilityTags caps')"
    and "set (prc_ExecutorProviders caps) \<subseteq> set (prc_ExecutorProviders caps')"
    and "set (prc_ExecutionTiers caps) \<subseteq> set (prc_ExecutionTiers caps')"
    and "set (prc_ProofTiers caps) \<subseteq> set (prc_ProofTiers caps')"
    and "set (prc_Executors caps) \<subseteq> set (prc_Executors caps')"
    and "prc_CapabilityReports caps' = prc_CapabilityReports caps"
  shows "ValidatePlacementRequirementsAgainstCapabilities req caps' = None \<longleftrightarrow>
    prc_Executors caps \<noteq> [] \<or> prc_Executors caps' = [] \<or>
    (\<exists>e \<in> set (prc_Executors caps').
       (pr_ExecutorProvider req = [] \<or> er_Provider e = pr_ExecutorProvider req) \<and>
       (pr_ExecutionSecurityTier req = [] \<or> er_ExecutionSecurityTier e = pr_ExecutionSecurityTier req) \<and>
       (pr_ProofTier req = [] \<or> er_ProofTier e = pr_ProofTier req) \<and>
       (\<forall>report. providerCapabilityReportForProvider (prc_CapabilityReports caps) (er_Provider e) = Some report \<longrightarrow>
          pcr_Status report = ProviderCapabilitySupported))"
proof -
  let ?match = "\<lambda>e. ExecutorMatchesPlacementRequirements e req \<and> provider_usable caps (er_Provider e)"
  have usable: "provider_usable caps' = provider_usable caps"
    using assms(7) by (auto simp: provider_usable_def)
  note old = assms(1) [unfolded ValidatePlacementRequirements_iff]
  have "ValidatePlacementRequirementsAgainstCapabilities req caps' = None \<longleftrightarrow>
      prc_Executors caps' = [] \<or> (\<exists>e \<in> set (prc_Executors caps'). ?match e)"
    unfolding ValidatePlacementRequirements_iff usable using old assms(2-5) unfolding optionally_def by blast
  moreover have "\<exists>e \<in> set (prc_Executors caps'). ?match e" if "prc_Executors caps \<noteq> []"
    using old assms(6) that by blast
  ultimately show ?thesis
    unfolding ExecutorMatches_iff optionally_def provider_usable_def by blast
qed

text \<open>A task for a confidential tier is placed only on hardware with a complete, verified attestation
  of the required class that has not expired; the class is the one the task names or, failing that, the
  tier's own, and a GPU class needs a GPU.\<close>

theorem confidential_needs_attestation:
  assumes "HardwareCapabilitiesSatisfyPlacementRequirements now0 req caps"
    and "PlacementRequiresVerifiedHardwareAttestation req"
    and "now = (if hpc_Now caps = 0 then now0 else hpc_Now caps)"
  shows "\<exists>a \<in> set (hsc_HardwareAttestations (hpc_Security caps)).
    ha_Class a = (if pr_HardwareClass req = [] then pr_ExecutionSecurityTier req else pr_HardwareClass req) \<and>
    ha_Provider a \<noteq> [] \<and> ha_VerifierID a \<noteq> [] \<and> ha_KeyID a \<noteq> [] \<and> ha_Verified a \<and>
    (ha_ExpiresAt a = 0 \<or> now < ha_ExpiresAt a) \<and>
    (ha_Class a = ExecutionConfidentialGPU \<longrightarrow> hpc_GPUCount caps \<noteq> 0)"
proof -
  let ?c = "RequiredHardwareClass req"
  have c: "?c = (if pr_HardwareClass req = [] then pr_ExecutionSecurityTier req else pr_HardwareClass req)"
    using assms(2) by (auto simp: RequiredHardwareClass_def PlacementRequiresVerifiedHardwareAttestation_def)
  then have "?c \<noteq> []" using assms(2)
    by (auto simp: PlacementRequiresVerifiedHardwareAttestation_def enum split: if_splits)
  then show ?thesis
    using assms unfolding c [symmetric] HardwareCapabilitiesSatisfyPlacementRequirements_def
    by (auto simp: Let_def list_ex_iff split: if_splits)
qed

text \<open>For a worker of realistic size the CPU check is the intended one. Beyond
  \<open>92233720368547758\<close> CPUs the product wraps and the check changes meaning.\<close>

theorem ValidateResourceLimits_iff:
  assumes "in64 (rc_CPUCount capacity * 100)"
  shows "ValidateResourceLimitsAgainstCapacity limits capacity = None \<longleftrightarrow>
    (rl_CPUPercent limits \<le> 0 \<or> rc_CPUCount capacity \<le> 0 \<or> rl_CPUPercent limits \<le> 100 * rc_CPUCount capacity) \<and>
    (rl_MemoryBytes limits \<le> 0 \<or> rc_MemoryBytes capacity \<le> 0 \<or> rl_MemoryBytes limits \<le> rc_MemoryBytes capacity) \<and>
    (rl_WorkspaceBytes limits \<le> 0 \<or> rc_DiskBytes capacity \<le> 0 \<or> rl_WorkspaceBytes limits \<le> rc_DiskBytes capacity)"
  using assms by (auto simp: ValidateResourceLimitsAgainstCapacity_def Let_def)

text \<open>A worker satisfies placement constraints exactly when it meets each positive minimum, offers ingress
  where it is required and the task allows it, and has every required capability; the early return for
  empty constraints is not a special case.\<close>

theorem PlacementConstraintsSatisfiedBy_iff:
  "PlacementConstraintsSatisfiedBy c caps task = None \<longleftrightarrow>
     (plco_MinDiskBytes c \<le> 0 \<or> plco_MinDiskBytes c \<le> plca_DiskBytes caps) \<and>
     (plco_MinMemoryBytes c \<le> 0 \<or> plco_MinMemoryBytes c \<le> plca_MemoryBytes caps) \<and>
     (plco_MinBandwidthMbps c \<le> 0 \<or> plco_MinBandwidthMbps c \<le> plca_BandwidthMbps caps) \<and>
     (\<not> plco_RequiresIngress c \<or> plca_IngressCapable caps \<and> pnp_AllowIngress task) \<and>
     set (plco_RequiredCapabilities c) \<subseteq> set (plca_CapabilityTags caps)"
proof (cases "PlacementConstraints_IsZero c")
  case True
  then show ?thesis by (simp add: PlacementConstraintsSatisfiedBy_def PlacementConstraints_IsZero_def)
next
  case False
  then show ?thesis by (auto simp: PlacementConstraintsSatisfiedBy_def)
qed

section \<open>Witnesses\<close>

definition demo_requirements :: PlacementRequirements where
  "demo_requirements = \<lparr>pr_ExecutorProvider = ''oci'', pr_ExecutionSecurityTier = ExecutionConfidentialCPU,
     pr_ProofTier = ProofAttestedReceipt, pr_HardwareClass = [], pr_RequiredCapabilities = [''ssd'']\<rparr>"

definition demo_caps :: "string list \<Rightarrow> PlacementRequirementCapabilities" where
  "demo_caps tags = \<lparr>prc_CapabilityTags = tags, prc_ExecutorProviders = [''oci''],
     prc_ExecutionTiers = [ExecutionConfidentialCPU], prc_ProofTiers = [ProofAttestedReceipt],
     prc_CapabilityReports = [\<lparr>pcr_Provider = ''oci'', pcr_Status = ProviderCapabilitySupported, pcr_Reason = []\<rparr>],
     prc_Executors = []\<rparr>"

text \<open>The first executor listed takes a task away, when it is another provider's.\<close>

lemma placement_growth_witness:
  "ValidatePlacementRequirementsAgainstCapabilities demo_requirements (demo_caps [''gpu'', ''ssd'']) = None \<and>
   ValidatePlacementRequirementsAgainstCapabilities demo_requirements
     ((demo_caps [''ssd''])\<lparr>prc_Executors := [demo_executor]\<rparr>) \<noteq> None"
proof -
  have "ValidatePlacementRequirementsAgainstCapabilities demo_requirements (demo_caps [''ssd'']) = None"
    by code_simp
  note grown = placement_growth [OF this]
  have "ValidatePlacementRequirementsAgainstCapabilities demo_requirements (demo_caps [''gpu'', ''ssd'']) = None"
    by (subst grown) (simp_all add: demo_caps_def)
  moreover have "ValidatePlacementRequirementsAgainstCapabilities demo_requirements ((demo_caps [''ssd''])\<lparr>prc_Executors := [demo_executor]\<rparr>) \<noteq> None"
    by (subst grown) (simp_all add: demo_caps_def demo_requirements_def demo_executor_def)
  ultimately show ?thesis by blast
qed

definition demo_hardware :: HardwarePlacementCapabilities where
  "demo_hardware = \<lparr>hpc_GPUCount = 0, hpc_Security = \<lparr>hsc_TEE = [], hsc_HardwareClasses = [],
     hsc_HardwareAttestations = [\<lparr>ha_Class = ExecutionConfidentialCPU, ha_Provider = ''tee'', ha_VerifierID = ''v'',
       ha_KeyID = ''k'', ha_Verified = True, ha_ExpiresAt = Time 100\<rparr>]\<rparr>, hpc_Now = 0\<rparr>"

lemma confidential_needs_attestation_witness:
  "\<exists>a \<in> set (hsc_HardwareAttestations (hpc_Security demo_hardware)). ha_Verified a \<and> Time 99 < ha_ExpiresAt a"
proof -
  have "HardwareCapabilitiesSatisfyPlacementRequirements (Time 99) demo_requirements demo_hardware" by code_simp
  moreover have "PlacementRequiresVerifiedHardwareAttestation demo_requirements" by code_simp
  ultimately obtain a where "a \<in> set (hsc_HardwareAttestations (hpc_Security demo_hardware))" "ha_Verified a"
      "ha_ExpiresAt a = 0 \<or> Time 99 < ha_ExpiresAt a"
    using confidential_needs_attestation [of "Time 99" demo_requirements demo_hardware "Time 99"]
    by (auto simp: demo_hardware_def)
  then show ?thesis by (auto simp: demo_hardware_def)
qed

definition demo_limits :: "int \<Rightarrow> ResourceLimits" where
  "demo_limits cpu = \<lparr>rl_CPUPercent = cpu, rl_MemoryBytes = 1024, rl_WorkspaceBytes = 0, rl_RuntimeSeconds = 0,
     rl_NetworkEgressBytes = 0, rl_OutputBytes = 0\<rparr>"

definition demo_capacity :: "int \<Rightarrow> ResourceCapacity" where
  "demo_capacity cpus = \<lparr>rc_CPUCount = cpus, rc_MemoryBytes = 4096, rc_DiskBytes = 0\<rparr>"

lemma ValidateResourceLimits_iff_witness:
  "ValidateResourceLimitsAgainstCapacity (demo_limits 400) (demo_capacity 4) = None \<and>
   ValidateResourceLimitsAgainstCapacity (demo_limits 401) (demo_capacity 4) \<noteq> None"
  using ValidateResourceLimits_iff [of "demo_capacity 4"] by (simp add: demo_capacity_def demo_limits_def in64_def)

text \<open>The wrap-around: a machine of \<open>2^62\<close> CPUs is refused a single per cent.\<close>

lemma cpu_capacity_wraps: "ValidateResourceLimitsAgainstCapacity (demo_limits 1) (demo_capacity (2 ^ 62)) \<noteq> None"
  by code_simp

end
