(* ===== verification/Products.thy ===== *)
theory Products
  imports Policies Placement
begin

text \<open>
  \<open>protocol/types.go\<close>: a network product and what it pays with (lines 5135 to 5312, 5515 to 5723).
  A product names the workloads a pool accepts, the security floor under which they run, and the
  reward: who validates and credits contributions, the settlement target, the routing of crypto
  rewards, and the placement constraints the target brings with it.
\<close>

section \<open>Records\<close>

record ContributionPolicy =
  cp_ValidationAuthority :: ContributionAuthority
  cp_CreditAuthority :: ContributionAuthority
  cp_MonetaryPayouts :: bool

record CryptoRewardRoutingPolicy =
  crrp_Network :: string
  crrp_TreasuryAccountID :: string
  crrp_TreasuryWalletRef :: string
  crrp_CustodyMode :: CryptoRewardCustodyMode
  crrp_DistributionMode :: CryptoRewardDistributionMode
  crrp_ParticipantWalletSource :: CryptoRewardParticipantWalletSource
  crrp_ManagementFeeBps :: int

record NetworkProduct =
  nepr_ProtocolVersion :: string
  nepr_ID :: string
  nepr_DisplayName :: string
  nepr_Purpose :: string
  nepr_OperatingMode :: NetworkOperatingMode
  nepr_OrgID :: string
  nepr_PoolID :: string
  nepr_WorkloadKinds :: "string list"
  nepr_SecurityFloor :: PlacementRequirements
  nepr_ProofPolicy :: ProofPolicy
  nepr_SessionPolicy :: SessionPolicy
  nepr_ProviderConfig :: ProviderConfig
  nepr_NetworkModes :: "NetworkMode list"
  nepr_PlacementConstraints :: PlacementConstraints
  nepr_RewardPolicy :: string
  nepr_AbusePolicy :: string
  nepr_SettlementAccountID :: string
  nepr_SettlementTarget :: SettlementTarget
  nepr_CryptoRewardRouting :: CryptoRewardRoutingPolicy
  nepr_ContributionPolicy :: ContributionPolicy
  nepr_AccessPolicy :: AccessPolicy
  nepr_ResiduePolicy :: ResiduePolicy
  nepr_AdmissionMode :: string
  nepr_AllowPublic :: bool
  nepr_CreatedAt :: time

definition zero_ContributionPolicy :: ContributionPolicy where
  "zero_ContributionPolicy = \<lparr>cp_ValidationAuthority = [], cp_CreditAuthority = [], cp_MonetaryPayouts = False\<rparr>"

definition zero_SettlementTarget :: SettlementTarget where
  "zero_SettlementTarget = \<lparr>st_Kind = [], st_AccountID = [], st_Network = [], st_WalletRef = []\<rparr>"

definition zero_CryptoRewardRoutingPolicy :: CryptoRewardRoutingPolicy where
  "zero_CryptoRewardRoutingPolicy = \<lparr>crrp_Network = [], crrp_TreasuryAccountID = [], crrp_TreasuryWalletRef = [], crrp_CustodyMode = [], crrp_DistributionMode = [], crrp_ParticipantWalletSource = [], crrp_ManagementFeeBps = 0\<rparr>"

definition zero_ResiduePolicyValidation :: ResiduePolicyValidation where
  "zero_ResiduePolicyValidation = \<lparr>rpv_NoWorkspaceAllowed = False, rpv_RequireSessionKey = False, rpv_RequireExplicitWorkerBound = False, rpv_RequirePolicyHash = False\<rparr>"

section \<open>Validation\<close>

definition validContributionAuthority :: "ContributionAuthority \<Rightarrow> bool" where
  "validContributionAuthority authority \<longleftrightarrow> authority \<in> set [ContributionAuthorityWFCompute, ContributionAuthorityUpstream]"

definition ContributionPolicy_ValidateForRewardPolicy :: "ContributionPolicy \<Rightarrow> string \<Rightarrow> SettlementTarget \<Rightarrow> error" where
  "ContributionPolicy_ValidateForRewardPolicy p rewardPolicy target =
     (if p = zero_ContributionPolicy \<and> \<not> equal_fold (trim_space rewardPolicy) ''upstream-credit'' then None
     else join
     ((if cp_ValidationAuthority p = [] then
         [New ''validation_authority is required'']
       else fails (\<not> validContributionAuthority (cp_ValidationAuthority p))
              (Errorf ''validation_authority %q is unsupported'' [Str (cp_ValidationAuthority p)])) @
      (if cp_CreditAuthority p = [] then
         [New ''credit_authority is required'']
       else fails (\<not> validContributionAuthority (cp_CreditAuthority p))
              (Errorf ''credit_authority %q is unsupported'' [Str (cp_CreditAuthority p)])) @
      (if equal_fold (trim_space rewardPolicy) ''upstream-credit'' then
         fails (cp_ValidationAuthority p \<noteq> ContributionAuthorityUpstream)
           (New ''validation_authority must be upstream for upstream-credit'') @
         fails (cp_CreditAuthority p \<noteq> ContributionAuthorityUpstream)
           (New ''credit_authority must be upstream for upstream-credit'') @
         fails (cp_MonetaryPayouts p)
           (New ''monetary_payouts must be false for upstream-credit'') @
         (if st_Kind target \<in> set [[], SettlementTargetBadgeLedger] then
            []
          else [Errorf ''settlement_target.kind %q is not allowed for upstream-credit'' [Str (st_Kind target)]])
       else [])))"

definition SettlementTarget_Validate :: "SettlementTarget \<Rightarrow> string \<Rightarrow> error" where
  "SettlementTarget_Validate t settlementAccountID =
     (if t = zero_SettlementTarget then None
     else join
     ((if st_Kind t \<in> set [SettlementTargetPointsLedger, SettlementTargetPayrollAccount, SettlementTargetBadgeLedger, SettlementTargetFiatTokenTreasury, SettlementTargetTreasuryWallet, SettlementTargetParticipantWallet, SettlementTargetExternalDestination] then
         []
       else if st_Kind t = [] then
         [New ''kind is required'']
       else [Errorf ''kind %q is unsupported'' [Str (st_Kind t)]]) @
      (if st_AccountID t \<noteq> [] then
         reports (validateIdentifier ''account_id'' (st_AccountID t))
       else []) @
      fails (settlementAccountID \<noteq> [] \<and> st_AccountID t \<noteq> [] \<and> st_AccountID t \<noteq> settlementAccountID)
        (Errorf ''account_id %q must match settlement_account_id %q'' [Str (st_AccountID t), Str settlementAccountID]) @
      (if st_Network t \<noteq> [] then
         reports (validateIdentifier ''network'' (st_Network t))
       else []) @
      (if st_WalletRef t \<noteq> [] then
         fails (contains_any (st_WalletRef t) ws_chars)
           (New ''wallet_ref must not contain whitespace'') @
         fails (contains_any (st_WalletRef t) ''?&#'')
           (New ''wallet_ref must not contain query, fragment, or parameter delimiters'')
       else []) @
      (if st_Kind t = SettlementTargetTreasuryWallet then
         fails (trim_space (st_AccountID t) = [])
           (New ''account_id is required for treasury_wallet'') @
         fails (trim_space (st_Network t) = [])
           (New ''network is required for treasury_wallet'') @
         fails (trim_space (st_WalletRef t) = [])
           (New ''wallet_ref is required for treasury_wallet'')
       else []) @
      (if st_Kind t = SettlementTargetExternalDestination then
         fails (trim_space (st_AccountID t) = [])
           (New ''account_id is required for external_destination'')
       else [])))"

definition CryptoRewardRoutingPolicy_Validate :: "CryptoRewardRoutingPolicy \<Rightarrow> SettlementTarget \<Rightarrow> error" where
  "CryptoRewardRoutingPolicy_Validate p target =
     (if p = zero_CryptoRewardRoutingPolicy then None
     else join
     ((if trim_space (crrp_Network p) = [] then
         [New ''network is required'']
       else reports (validateIdentifier ''network'' (crrp_Network p))) @
      (if trim_space (crrp_TreasuryAccountID p) = [] then
         [New ''treasury_account_id is required'']
       else reports (validateIdentifier ''treasury_account_id'' (crrp_TreasuryAccountID p))) @
      (if trim_space (crrp_TreasuryWalletRef p) = [] then
         [New ''treasury_wallet_ref is required'']
       else (case validateScopedRef ''treasury_wallet_ref'' (crrp_TreasuryWalletRef p) ''wallet://'' of Some err \<Rightarrow> [err]
             | None \<Rightarrow> fails (contains_any (crrp_TreasuryWalletRef p) (ws_chars @ ''?&#''))
                    (New ''treasury_wallet_ref must not contain whitespace, query, fragment, or ampersand''))) @
      (if crrp_CustodyMode p = CryptoRewardCustodyTreasuryThenDistribute then
         []
       else if crrp_CustodyMode p = [] then
         [New ''custody_mode is required'']
       else [Errorf ''custody_mode %q is unsupported'' [Str (crrp_CustodyMode p)]]) @
      (if crrp_DistributionMode p = CryptoRewardDistributionContributionShare then
         []
       else if crrp_DistributionMode p = [] then
         [New ''distribution_mode is required'']
       else [Errorf ''distribution_mode %q is unsupported'' [Str (crrp_DistributionMode p)]]) @
      (if crrp_ParticipantWalletSource p = CryptoRewardParticipantAccountWallet then
         []
       else if crrp_ParticipantWalletSource p = [] then
         [New ''participant_wallet_source is required'']
       else [Errorf ''participant_wallet_source %q is unsupported'' [Str (crrp_ParticipantWalletSource p)]]) @
      fails (crrp_ManagementFeeBps p < 0 \<or> crrp_ManagementFeeBps p > 10000)
        (New ''management_fee_bps must be between 0 and 10000'') @
      fails (st_Kind target \<noteq> SettlementTargetTreasuryWallet)
        (New ''settlement_target.kind must be treasury_wallet'') @
      fails (st_Network target \<noteq> [] \<and> crrp_Network p \<noteq> st_Network target)
        (Errorf ''network %q must match settlement_target.network %q'' [Str (crrp_Network p), Str (st_Network target)]) @
      fails (st_AccountID target \<noteq> [] \<and> crrp_TreasuryAccountID p \<noteq> st_AccountID target)
        (Errorf ''treasury_account_id %q must match settlement_target.account_id %q'' [Str (crrp_TreasuryAccountID p), Str (st_AccountID target)]) @
      fails (st_WalletRef target \<noteq> [] \<and> crrp_TreasuryWalletRef p \<noteq> st_WalletRef target)
        (New ''treasury_wallet_ref must match settlement_target.wallet_ref'')))"

definition networkProductAdmitsSessionWorkload :: "NetworkProduct \<Rightarrow> bool" where
  "networkProductAdmitsSessionWorkload p \<longleftrightarrow>
     list_ex (\<lambda>kind. trim_space kind \<in> set [WorkloadService, WorkloadVideoStream]) (nepr_WorkloadKinds p)"

definition networkProductAdmitsShortLivedResidue :: "NetworkProduct \<Rightarrow> bool" where
  "networkProductAdmitsShortLivedResidue p \<longleftrightarrow>
     list_ex (\<lambda>kind. trim_space kind \<notin> set [WorkloadService, WorkloadNodeService, WorkloadVideoStream]) (nepr_WorkloadKinds p)"

definition NetworkProduct_Validate :: "NetworkProduct \<Rightarrow> error" where
  "NetworkProduct_Validate p =
     join
     (fails (nepr_ProtocolVersion p \<noteq> Version)
        (Errorf ''protocol_version must be %q'' [Str Version]) @
      wraps ''id: %w'' [] (validateNetworkProductID (nepr_ID p)) @
      fails (nepr_OrgID p = [])
        (New ''org_id is required'') @
      fails (nepr_PoolID p = [])
        (New ''pool_id is required'') @
      (if nepr_OperatingMode p = [] then
         [New ''operating_mode is required'']
       else fails (\<not> validNetworkOperatingMode (nepr_OperatingMode p))
              (Errorf ''operating_mode %q is unsupported'' [Str (nepr_OperatingMode p)])) @
      fails ((nepr_WorkloadKinds p) = [])
        (New ''workload_kinds is required'') @
      each (\<lambda>i kind.
         fails (\<not> validWorkloadKind (trim_space kind))
           (Errorf ''workload_kinds[%d] %q is unknown'' [Num (int i), Str kind])) (nepr_WorkloadKinds p) @
      (if nepr_OperatingMode p = NetworkModeBatch then
         []
       else if nepr_OperatingMode p = NetworkModeWarmService then
         fails (\<not> networkProductAdmitsSessionWorkload p)
           (Errorf ''operating_mode %q requires service or video-stream workload kind'' [Str (nepr_OperatingMode p)])
       else if nepr_OperatingMode p = NetworkModeInferenceAPI then
         fails (\<not> WorkloadService \<in> set (nepr_WorkloadKinds p))
           (Errorf ''operating_mode %q requires service workload kind'' [Str (nepr_OperatingMode p)])
       else if nepr_OperatingMode p = NetworkModeNodeService then
         fails (\<not> WorkloadNodeService \<in> set (nepr_WorkloadKinds p))
           (Errorf ''operating_mode %q requires node-service workload kind'' [Str (nepr_OperatingMode p)])
       else []) @
      fails (pr_ExecutorProvider (nepr_SecurityFloor p) = [])
        (New ''security_floor.executor_provider is required'') @
      (if pr_ExecutionSecurityTier (nepr_SecurityFloor p) = [] then
         [New ''security_floor.execution_security_tier is required'']
       else (if \<not> validExecutionSecurityTier (pr_ExecutionSecurityTier (nepr_SecurityFloor p)) then
               [Errorf ''security_floor.execution_security_tier %q is unknown'' [Str (pr_ExecutionSecurityTier (nepr_SecurityFloor p))]]
             else fails (pr_ExecutionSecurityTier (nepr_SecurityFloor p) = ExecutionTrustedNative)
                    (New ''security_floor.execution_security_tier trusted-native is not allowed for network products''))) @
      (if pr_ProofTier (nepr_SecurityFloor p) = [] then
         [New ''security_floor.proof_tier is required'']
       else (if \<not> validProofTier (pr_ProofTier (nepr_SecurityFloor p)) then
               [Errorf ''security_floor.proof_tier %q is unknown'' [Str (pr_ProofTier (nepr_SecurityFloor p))]]
             else (if pr_ProofTier (nepr_SecurityFloor p) = ProofReceiptOnly then
                     [New ''security_floor.proof_tier receipt-only is not allowed for network products'']
                   else wraps ''proof_policy: %w'' [] (ValidateProofPolicy (pr_ProofTier (nepr_SecurityFloor p)) (nepr_ProofPolicy p))))) @
      fails ((nepr_NetworkModes p) = [])
        (New ''network_modes is required'') @
      each (\<lambda>i mode.
         fails (\<not> validNetworkMode (normalizeNetworkMode mode))
           (Errorf ''network_modes[%d] %q is unsupported'' [Num (int i), Str mode])) (nepr_NetworkModes p) @
      fails (trim_space (nepr_RewardPolicy p) = [])
        (New ''reward_policy is required'') @
      fails (trim_space (nepr_AbusePolicy p) = [])
        (New ''abuse_policy is required'') @
      (if nepr_SettlementAccountID p \<noteq> [] then
         reports (validateIdentifier ''settlement_account_id'' (nepr_SettlementAccountID p))
       else []) @
      wraps ''settlement_target: %w'' [] (SettlementTarget_Validate (nepr_SettlementTarget p) (nepr_SettlementAccountID p)) @
      wraps ''crypto_reward_routing: %w'' [] (CryptoRewardRoutingPolicy_Validate (nepr_CryptoRewardRouting p) (nepr_SettlementTarget p)) @
      wraps ''placement_constraints: %w'' [] (PlacementConstraints_Validate (nepr_PlacementConstraints p) (st_Kind (nepr_SettlementTarget p) = SettlementTargetTreasuryWallet) (nepr_SettlementTarget p)) @
      wraps ''contribution_policy: %w'' [] (ContributionPolicy_ValidateForRewardPolicy (nepr_ContributionPolicy p) (nepr_RewardPolicy p) (nepr_SettlementTarget p)) @
      wraps ''access_policy: %w'' [] (AccessPolicy_Validate (nepr_AccessPolicy p)) @
      wraps ''residue_policy: %w'' [] (ResiduePolicy_Validate (nepr_ResiduePolicy p) zero_ResiduePolicyValidation) @
      fails (\<not> ResiduePolicy_IsZero (nepr_ResiduePolicy p) \<and> \<not> networkProductAdmitsShortLivedResidue p)
        (New ''residue_policy is only for short-lived workload products; service products use session_policy and durable service storage'') @
      (if equal_fold (trim_space (nepr_RewardPolicy p)) ''upstream-credit'' then
         fails (nepr_OperatingMode p \<noteq> NetworkModeWarmService \<and> nepr_OperatingMode p \<noteq> NetworkModeNodeService)
           (New ''upstream-credit products require headless warm-service or node-service operating mode'') @
         fails (\<not> WorkloadService \<in> set (nepr_WorkloadKinds p) \<and> \<not> WorkloadNodeService \<in> set (nepr_WorkloadKinds p))
           (New ''upstream-credit products require service or node-service workload kind'')
       else []) @
      (if nepr_OperatingMode p = NetworkModeNodeService \<and> equal_fold (trim_space (nepr_RewardPolicy p)) ''profit-share'' then
         fails (st_Kind (nepr_SettlementTarget p) \<noteq> SettlementTargetTreasuryWallet)
           (New ''node-service profit-share products require settlement_target.kind treasury_wallet'') @
         fails (trim_space (st_Network (nepr_SettlementTarget p)) = [])
           (New ''node-service profit-share products require settlement_target.network'') @
         fails (trim_space (st_WalletRef (nepr_SettlementTarget p)) = [])
           (New ''node-service profit-share products require settlement_target.wallet_ref'')
       else []) @
      wraps ''session_policy: %w'' [] (SessionPolicy_ValidateForOperatingMode (nepr_SessionPolicy p) (nepr_OperatingMode p)) @
      wraps ''provider_config: %w'' [] (ProviderConfig_Validate (nepr_ProviderConfig p)))"

section \<open>What an accepted product guarantees\<close>

abbreviation upstream_credit :: "NetworkProduct \<Rightarrow> bool" where
  "upstream_credit p \<equiv> equal_fold (trim_space (nepr_RewardPolicy p)) ''upstream-credit''"

text \<open>The clauses of \<open>NetworkProduct_Validate\<close> the properties rest on, one fact each.\<close>

lemma product_accepted:
  assumes "NetworkProduct_Validate p = None"
  shows product_target: "SettlementTarget_Validate (nepr_SettlementTarget p) (nepr_SettlementAccountID p) = None"
    and product_routing: "CryptoRewardRoutingPolicy_Validate (nepr_CryptoRewardRouting p) (nepr_SettlementTarget p) = None"
    and product_constraints: "PlacementConstraints_Validate (nepr_PlacementConstraints p)
          (st_Kind (nepr_SettlementTarget p) = SettlementTargetTreasuryWallet) (nepr_SettlementTarget p) = None"
    and product_contribution: "ContributionPolicy_ValidateForRewardPolicy (nepr_ContributionPolicy p) (nepr_RewardPolicy p)
          (nepr_SettlementTarget p) = None"
    and product_session: "SessionPolicy_ValidateForOperatingMode (nepr_SessionPolicy p) (nepr_OperatingMode p) = None"
    and product_upstream: "upstream_credit p \<Longrightarrow>
          (nepr_OperatingMode p = NetworkModeWarmService \<or> nepr_OperatingMode p = NetworkModeNodeService) \<and>
          (WorkloadService \<in> set (nepr_WorkloadKinds p) \<or> WorkloadNodeService \<in> set (nepr_WorkloadKinds p))"
    and product_residue: "ResiduePolicy_IsZero (nepr_ResiduePolicy p) \<or> networkProductAdmitsShortLivedResidue p"
    and product_tier: "validExecutionSecurityTier (pr_ExecutionSecurityTier (nepr_SecurityFloor p))"
          "pr_ExecutionSecurityTier (nepr_SecurityFloor p) \<noteq> ExecutionTrustedNative"
    and product_proof: "validProofTier (pr_ProofTier (nepr_SecurityFloor p))"
          "pr_ProofTier (nepr_SecurityFloor p) \<noteq> ProofReceiptOnly"
          "ValidateProofPolicy (pr_ProofTier (nepr_SecurityFloor p)) (nepr_ProofPolicy p) = None"
    and product_kinds: "\<forall>k \<in> set (nepr_WorkloadKinds p). validWorkloadKind (trim_space k)"
  using assms unfolding NetworkProduct_Validate_def join_None append_is_Nil_conv wraps_Nil fails_Nil
  by (auto simp: wraps_Nil split: if_splits)

lemma target_accepted:
  assumes "SettlementTarget_Validate t a = None" and "st_Kind t = SettlementTargetTreasuryWallet"
  shows "st_AccountID t \<noteq> []" "st_Network t \<noteq> []" "st_WalletRef t \<noteq> []"
proof -
  have "t \<noteq> zero_SettlementTarget" using assms(2) by (auto simp: zero_SettlementTarget_def enum)
  then have "trim_space (st_AccountID t) \<noteq> []" "trim_space (st_Network t) \<noteq> []" "trim_space (st_WalletRef t) \<noteq> []"
    using assms by (simp_all add: SettlementTarget_Validate_def if_checked_Nil)
  then show "st_AccountID t \<noteq> []" "st_Network t \<noteq> []" "st_WalletRef t \<noteq> []" by auto
qed

lemma scoped_ref_prefix: "validateScopedRef name v scheme = None \<Longrightarrow> has_prefix v scheme \<and> \<not> contains_str v ''..''"
  by (simp add: validateScopedRef_def split: if_splits)

lemma routing_accepted:
  assumes "CryptoRewardRoutingPolicy_Validate r t = None" and "r \<noteq> zero_CryptoRewardRoutingPolicy"
  shows "st_Kind t = SettlementTargetTreasuryWallet"
    and "st_Network t \<noteq> [] \<Longrightarrow> crrp_Network r = st_Network t"
    and "st_AccountID t \<noteq> [] \<Longrightarrow> crrp_TreasuryAccountID r = st_AccountID t"
    and "st_WalletRef t \<noteq> [] \<Longrightarrow> crrp_TreasuryWalletRef r = st_WalletRef t"
    and "has_prefix (crrp_TreasuryWalletRef r) ''wallet://''"
    and "0 \<le> crrp_ManagementFeeBps r \<and> crrp_ManagementFeeBps r \<le> 10000"
  using assms
  by (auto simp: CryptoRewardRoutingPolicy_Validate_def not_less dest!: scoped_ref_prefix split: if_splits option.splits)

lemma constraints_accepted:
  assumes "PlacementConstraints_Validate c True t = None" and "st_WalletRef t \<noteq> []"
  shows "plco_WalletRef c = st_WalletRef t" "plain_id (plco_Chain c)" "plain_id (plco_Role c)"
    "0 < plco_MinDiskBytes c" "0 < plco_MinMemoryBytes c" "0 < plco_MinBandwidthMbps c"
  using assms by (auto simp: PlacementConstraints_Validate_def not_le split: if_splits)

text \<open>A product paid in upstream credit pays nothing here: contributions are validated and credited upstream,
  there are no monetary payouts, no crypto routing and no settlement but the badge ledger, and the
  product is a headless service.\<close>

theorem upstream_credit_pays_nothing:
  assumes "NetworkProduct_Validate p = None" and "upstream_credit p"
  shows "cp_ValidationAuthority (nepr_ContributionPolicy p) = ContributionAuthorityUpstream \<and>
    cp_CreditAuthority (nepr_ContributionPolicy p) = ContributionAuthorityUpstream \<and>
    \<not> cp_MonetaryPayouts (nepr_ContributionPolicy p) \<and>
    nepr_CryptoRewardRouting p = zero_CryptoRewardRoutingPolicy \<and>
    st_Kind (nepr_SettlementTarget p) \<in> {[], SettlementTargetBadgeLedger} \<and>
    nepr_OperatingMode p \<in> {NetworkModeWarmService, NetworkModeNodeService}"
proof -
  have kind: "st_Kind (nepr_SettlementTarget p) \<in> {[], SettlementTargetBadgeLedger}"
    "cp_ValidationAuthority (nepr_ContributionPolicy p) = ContributionAuthorityUpstream"
    "cp_CreditAuthority (nepr_ContributionPolicy p) = ContributionAuthorityUpstream"
    "\<not> cp_MonetaryPayouts (nepr_ContributionPolicy p)"
    using product_contribution [OF assms(1)] assms(2)
    by (auto simp: ContributionPolicy_ValidateForRewardPolicy_def split: if_splits)
  have c1: "nepr_CryptoRewardRouting p = zero_CryptoRewardRoutingPolicy"
    using routing_accepted(1) [OF product_routing [OF assms(1)]] kind
    by (cases "nepr_CryptoRewardRouting p = zero_CryptoRewardRoutingPolicy") (auto simp: enum)
  have c2: "nepr_OperatingMode p \<in> {NetworkModeWarmService, NetworkModeNodeService}"
    using product_upstream [OF assms] by auto
  show ?thesis using kind c1 c2 by blast
qed

text \<open>Crypto rewards go to one treasury: if a product routes them, its settlement target is a treasury wallet,
  routing, target and placement constraints name the same wallet, a \<open>wallet://\<close> reference on the
  same network and account, the fee is at most 100 per cent, and workers need chain, role and
  positive disk, memory and bandwidth.\<close>

theorem crypto_routing_names_one_wallet:
  assumes "NetworkProduct_Validate p = None" and "nepr_CryptoRewardRouting p \<noteq> zero_CryptoRewardRoutingPolicy"
  shows "st_Kind (nepr_SettlementTarget p) = SettlementTargetTreasuryWallet \<and>
    crrp_TreasuryWalletRef (nepr_CryptoRewardRouting p) = st_WalletRef (nepr_SettlementTarget p) \<and>
    plco_WalletRef (nepr_PlacementConstraints p) = st_WalletRef (nepr_SettlementTarget p) \<and>
    has_prefix (st_WalletRef (nepr_SettlementTarget p)) ''wallet://'' \<and>
    crrp_Network (nepr_CryptoRewardRouting p) = st_Network (nepr_SettlementTarget p) \<and>
    crrp_TreasuryAccountID (nepr_CryptoRewardRouting p) = st_AccountID (nepr_SettlementTarget p) \<and>
    crrp_ManagementFeeBps (nepr_CryptoRewardRouting p) \<in> {0..10000} \<and>
    plain_id (plco_Chain (nepr_PlacementConstraints p)) \<and> plain_id (plco_Role (nepr_PlacementConstraints p)) \<and>
    0 < plco_MinDiskBytes (nepr_PlacementConstraints p) \<and> 0 < plco_MinMemoryBytes (nepr_PlacementConstraints p) \<and>
         0 < plco_MinBandwidthMbps (nepr_PlacementConstraints p)"
proof -
  note routing = routing_accepted [OF product_routing [OF assms(1)] assms(2)]
  note target = target_accepted [OF product_target [OF assms(1)] routing(1)]
  have "PlacementConstraints_Validate (nepr_PlacementConstraints p) True (nepr_SettlementTarget p) = None"
    using product_constraints [OF assms(1)] routing(1) by simp
  note constraints = constraints_accepted [OF this target(3)]
  have c1: "st_Kind (nepr_SettlementTarget p) = SettlementTargetTreasuryWallet" by (rule routing(1))
  have c2: "crrp_TreasuryWalletRef (nepr_CryptoRewardRouting p) = st_WalletRef (nepr_SettlementTarget p)"
    "crrp_Network (nepr_CryptoRewardRouting p) = st_Network (nepr_SettlementTarget p)"
    "crrp_TreasuryAccountID (nepr_CryptoRewardRouting p) = st_AccountID (nepr_SettlementTarget p)"
    using routing(2-4) target by blast+
  then have c3: "has_prefix (st_WalletRef (nepr_SettlementTarget p)) ''wallet://''" using routing(5) by simp
  have c4: "crrp_ManagementFeeBps (nepr_CryptoRewardRouting p) \<in> {0..10000}" using routing(6) by simp
  have c5: "plco_WalletRef (nepr_PlacementConstraints p) = st_WalletRef (nepr_SettlementTarget p)"
    "plain_id (plco_Chain (nepr_PlacementConstraints p)) \<and> plain_id (plco_Role (nepr_PlacementConstraints p))"
    "0 < plco_MinDiskBytes (nepr_PlacementConstraints p) \<and> 0 < plco_MinMemoryBytes (nepr_PlacementConstraints p) \<and>
         0 < plco_MinBandwidthMbps (nepr_PlacementConstraints p)"
    using constraints by auto
  show ?thesis using c1 c2 c3 c4 c5 by blast
qed

text \<open>The security floor of a product is never the weakest: its tier is known and not trusted-native, its
  proof tier known and not receipt-only, and a quorum tier comes with a quorum of at least two.\<close>

theorem product_security_floor:
  assumes "NetworkProduct_Validate p = None"
  shows "pr_ExecutionSecurityTier (nepr_SecurityFloor p) \<in> {ExecutionHardenedContainer, ExecutionSandboxedContainer,
      ExecutionMicroVM, ExecutionConfidentialCPU, ExecutionConfidentialGPU, ExecutionWASMCapability} \<and>
    pr_ProofTier (nepr_SecurityFloor p) \<in> {ProofArtifactHash, ProofReplicatedQuorum, ProofAttestedReceipt,
      ProofAttestedQuorum, ProofZKReplay, ProofStreamSegmentManifest} \<and>
    (pr_ProofTier (nepr_SecurityFloor p) \<in> {ProofReplicatedQuorum, ProofAttestedQuorum} \<longleftrightarrow>
      2 \<le> prpo_Quorum (nepr_ProofPolicy p))"
proof -
  have c1: "pr_ExecutionSecurityTier (nepr_SecurityFloor p) \<in> {ExecutionHardenedContainer, ExecutionSandboxedContainer,
      ExecutionMicroVM, ExecutionConfidentialCPU, ExecutionConfidentialGPU, ExecutionWASMCapability}"
    using product_tier [OF assms] by (auto simp: validExecutionSecurityTier_def)
  have c2: "pr_ProofTier (nepr_SecurityFloor p) \<in> {ProofArtifactHash, ProofReplicatedQuorum, ProofAttestedReceipt,
      ProofAttestedQuorum, ProofZKReplay, ProofStreamSegmentManifest}"
    using product_proof [OF assms] by (auto simp: validProofTier_def)
  have c3: "pr_ProofTier (nepr_SecurityFloor p) \<in> {ProofReplicatedQuorum, ProofAttestedQuorum} \<longleftrightarrow>
      2 \<le> prpo_Quorum (nepr_ProofPolicy p)"
    using product_proof(3) [OF assms] by (auto simp: ValidateProofPolicy_def split: if_splits)
  show ?thesis using c1 c2 c3 by blast
qed

definition demo_product :: NetworkProduct where
  "demo_product = \<lparr>nepr_ProtocolVersion = Version, nepr_ID = ''crypto'', nepr_DisplayName = [], nepr_Purpose = [],
     nepr_OperatingMode = NetworkModeNodeService, nepr_OrgID = ''org'', nepr_PoolID = ''pool'',
     nepr_WorkloadKinds = [WorkloadNodeService],
     nepr_SecurityFloor = \<lparr>pr_ExecutorProvider = ''oci'', pr_ExecutionSecurityTier = ExecutionHardenedContainer,
       pr_ProofTier = ProofReplicatedQuorum, pr_HardwareClass = [], pr_RequiredCapabilities = []\<rparr>,
     nepr_ProofPolicy = \<lparr>prpo_Quorum = 2, prpo_MaxAttempts = 3\<rparr>,
     nepr_SessionPolicy = \<lparr>sepo_WarmSeconds = 60, sepo_MinRenewals = 0, sepo_MaxBatchRequests = 0\<rparr>,
     nepr_ProviderConfig = zero_ProviderConfig, nepr_NetworkModes = [NetworkModeP2P],
     nepr_PlacementConstraints = \<lparr>plco_Chain = ''eth'', plco_Role = ''full'', plco_MinDiskBytes = 1, plco_MinMemoryBytes = 1,
       plco_MinBandwidthMbps = 1, plco_RequiresIngress = False, plco_RequiredCapabilities = [],
       plco_WalletRef = ''wallet://main'', plco_StorageGuidance = zero_StorageGuidance\<rparr>,
     nepr_RewardPolicy = ''profit-share'', nepr_AbusePolicy = ''strict'', nepr_SettlementAccountID = ''acct'',
     nepr_SettlementTarget = \<lparr>st_Kind = SettlementTargetTreasuryWallet, st_AccountID = ''acct'', st_Network = ''eth'',
       st_WalletRef = ''wallet://main''\<rparr>,
     nepr_CryptoRewardRouting = \<lparr>crrp_Network = ''eth'', crrp_TreasuryAccountID = ''acct'',
       crrp_TreasuryWalletRef = ''wallet://main'', crrp_CustodyMode = CryptoRewardCustodyTreasuryThenDistribute,
       crrp_DistributionMode = CryptoRewardDistributionContributionShare,
       crrp_ParticipantWalletSource = CryptoRewardParticipantAccountWallet, crrp_ManagementFeeBps = 250\<rparr>,
     nepr_ContributionPolicy = zero_ContributionPolicy,
     nepr_AccessPolicy = \<lparr>ap_ProviderUsageVisibility = [], ap_WorkloadVisibility = [], ap_ArtifactVisibility = []\<rparr>,
     nepr_ResiduePolicy = \<lparr>rp_Mode = [], rp_AllowedModes = [], rp_SessionKey = [], rp_PolicyHash = [], rp_MaxAgeSeconds = 0,
       rp_MaxReuseCount = 0, rp_WipeOnFailure = False, rp_ExplicitWorkerBound = False\<rparr>,
     nepr_AdmissionMode = [], nepr_AllowPublic = False, nepr_CreatedAt = 0\<rparr>"

definition demo_upstream :: NetworkProduct where
  "demo_upstream = demo_product\<lparr>nepr_RewardPolicy := ''Upstream-Credit'', nepr_SettlementTarget := zero_SettlementTarget,
     nepr_CryptoRewardRouting := zero_CryptoRewardRoutingPolicy,
     nepr_PlacementConstraints := \<lparr>plco_Chain = [], plco_Role = [], plco_MinDiskBytes = 0, plco_MinMemoryBytes = 0,
       plco_MinBandwidthMbps = 0, plco_RequiresIngress = False, plco_RequiredCapabilities = [],
       plco_WalletRef = [], plco_StorageGuidance = zero_StorageGuidance\<rparr>,
     nepr_ContributionPolicy := \<lparr>cp_ValidationAuthority = ContributionAuthorityUpstream,
       cp_CreditAuthority = ContributionAuthorityUpstream, cp_MonetaryPayouts = False\<rparr>\<rparr>"

lemma demo_product_accepted: "NetworkProduct_Validate demo_product = None"
  by code_simp

lemma demo_upstream_accepted: "NetworkProduct_Validate demo_upstream = None" "upstream_credit demo_upstream"
  by code_simp+

lemma upstream_credit_pays_nothing_witness: "st_Kind (nepr_SettlementTarget demo_upstream) \<in> {[], SettlementTargetBadgeLedger}"
  using upstream_credit_pays_nothing [OF demo_upstream_accepted] by blast

lemma crypto_routing_names_one_wallet_witness:
  "plco_WalletRef (nepr_PlacementConstraints demo_product) = st_WalletRef (nepr_SettlementTarget demo_product)"
proof -
  have "nepr_CryptoRewardRouting demo_product \<noteq> zero_CryptoRewardRoutingPolicy" by code_simp
  from crypto_routing_names_one_wallet [OF demo_product_accepted this] show ?thesis by blast
qed

lemma product_security_floor_witness: "2 \<le> prpo_Quorum (nepr_ProofPolicy demo_product)"
  using product_security_floor [OF demo_product_accepted] by (simp add: demo_product_def)

end
