(* ===== verification/RuntimeProfiles.thy ===== *)
theory RuntimeProfiles
  imports Products
begin

text \<open>
  \<open>protocol/types.go\<close>, lines 4739 to 4979 and 5053 to 5133: the runtime profiles of a provider
  contract, their validation, the search for the profile that fits a product's security floor, and
  the default profiles and contracts a provider starts from.

  Capability names are compared with \<open>strings.ToUpper\<close> of themselves, which depends on the Unicode
  tables: that function is the parameter \<open>upper\<close>.
\<close>

section \<open>Records\<close>

record WASMRuntimeContract =
  wasmrc_ABI :: string
  wasmrc_ComponentRef :: string
  wasmrc_ComponentDigest :: string
  wasmrc_Features :: "string list"
  wasmrc_MaxMemoryBytes :: int
  wasmrc_MaxRuntimeSeconds :: int
  wasmrc_Filesystem :: RuntimePermission
  wasmrc_Network :: RuntimePermission
  wasmrc_NativeHostUpdates :: RuntimePermission
  wasmrc_BrowserWorker :: bool

record ProviderRuntimeProfile =
  prp_ID :: string
  prp_RuntimeProfile :: RuntimeProfile
  prp_ExecutorProvider :: string
  prp_ExecutionSecurityTier :: ExecutionSecurityTier
  prp_ProofTier :: ProofTier
  prp_AllowedRuntimeTools :: "ContainerRuntimeTool list"
  prp_ImageDigestRequired :: bool
  prp_RootFSDigestRequired :: bool
  prp_AllowedMountRefs :: "string list"
  prp_WritablePaths :: "string list"
  prp_WritableRootFS :: RuntimePermission
  prp_Privileged :: RuntimePermission
  prp_HostNamespaces :: RuntimePermission
  prp_HostSocket :: RuntimePermission
  prp_SeccompDisable :: RuntimePermission
  prp_NoNewPrivilegesDisable :: RuntimePermission
  prp_AllowedCapabilities :: "string list"
  prp_ConformanceProfiles :: "string list"
  prp_UpstreamClientConformance :: UpstreamClientConformance
  prp_UpstreamClientEvidenceRef :: string
  prp_UpstreamClientEvidenceDigest :: string
  prp_HostWorkspaceSupported :: bool
  prp_ResiduePolicy :: ResiduePolicy
  prp_WASM :: WASMRuntimeContract

record ProviderRuntimeContract =
  prruco_Profiles :: "ProviderRuntimeProfile list"

record ProviderRuntimeContractOptions =
  prrucoop_ConformanceProfiles :: "string list"
  prrucoop_UpstreamClientConformance :: UpstreamClientConformance
  prrucoop_UpstreamClientEvidenceRef :: string
  prrucoop_UpstreamClientEvidenceDigest :: string

definition zero_ResiduePolicy :: ResiduePolicy where
  "zero_ResiduePolicy = \<lparr>rp_Mode = [], rp_AllowedModes = [], rp_SessionKey = [], rp_PolicyHash = [], rp_MaxAgeSeconds = 0, rp_MaxReuseCount = 0, rp_WipeOnFailure = False, rp_ExplicitWorkerBound = False\<rparr>"

definition zero_WASMRuntimeContract :: WASMRuntimeContract where
  "zero_WASMRuntimeContract = \<lparr>wasmrc_ABI = [], wasmrc_ComponentRef = [], wasmrc_ComponentDigest = [], wasmrc_Features = [], wasmrc_MaxMemoryBytes = 0, wasmrc_MaxRuntimeSeconds = 0, wasmrc_Filesystem = [], wasmrc_Network = [], wasmrc_NativeHostUpdates = [], wasmrc_BrowserWorker = False\<rparr>"

section \<open>Validation\<close>

definition WASMRuntimeContract_Validate :: "WASMRuntimeContract \<Rightarrow> RuntimeProfile \<Rightarrow> error" where
  "WASMRuntimeContract_Validate w profile =
     join
     (fails (trim_space (wasmrc_ABI w) = [])
        (New ''abi is required'') @
      reports (validateComponentRef ''component_ref'' (wasmrc_ComponentRef w)) @
      fails (\<not> validSHA256Ref (wasmrc_ComponentDigest w))
        (New ''component_digest must be sha256:<64 hex chars>'') @
      fails (wasmrc_MaxMemoryBytes w \<le> 0)
        (New ''max_memory_bytes must be positive'') @
      fails (wasmrc_MaxRuntimeSeconds w \<le> 0)
        (New ''max_runtime_seconds must be positive'') @
      fails (\<not> validRuntimePermission (wasmrc_Filesystem w))
        (Errorf ''filesystem %q is unsupported'' [Str (wasmrc_Filesystem w)]) @
      fails (\<not> validRuntimePermission (wasmrc_Network w))
        (Errorf ''network %q is unsupported'' [Str (wasmrc_Network w)]) @
      fails (wasmrc_NativeHostUpdates w \<noteq> [] \<and> \<not> validRuntimePermission (wasmrc_NativeHostUpdates w))
        (Errorf ''native_host_updates %q is unsupported'' [Str (wasmrc_NativeHostUpdates w)]) @
      (if profile = RuntimeProfileBrowserWorker then
         fails (\<not> wasmrc_BrowserWorker w)
           (New ''browser_worker must be true for browser worker runtime profile'') @
         fails (wasmrc_Filesystem w \<noteq> RuntimePermissionForbidden)
           (New ''filesystem must be forbidden for browser worker runtime profile'') @
         fails (wasmrc_NativeHostUpdates w \<noteq> [] \<and> wasmrc_NativeHostUpdates w \<noteq> RuntimePermissionForbidden)
           (New ''native_host_updates must be forbidden for browser worker runtime profile'')
       else []))"

definition ProviderRuntimeProfile_Validate :: "(string \<Rightarrow> string) \<Rightarrow> ProviderRuntimeProfile \<Rightarrow> error" where
  "ProviderRuntimeProfile_Validate upper p =
     join
     (reports (validateIdentifier ''id'' (prp_ID p)) @
      fails (\<not> validRuntimeProfile (prp_RuntimeProfile p))
        (Errorf ''runtime_profile %q is unsupported'' [Str (prp_RuntimeProfile p)]) @
      reports (validateIdentifier ''executor_provider'' (prp_ExecutorProvider p)) @
      fails (\<not> validExecutionSecurityTier (prp_ExecutionSecurityTier p) \<or> prp_ExecutionSecurityTier p = ExecutionTrustedNative)
        (Errorf ''execution_security_tier %q is unsupported'' [Str (prp_ExecutionSecurityTier p)]) @
      fails (\<not> validProofTier (prp_ProofTier p) \<or> prp_ProofTier p = ProofReceiptOnly)
        (Errorf ''proof_tier %q is unsupported'' [Str (prp_ProofTier p)]) @
      wraps ''residue_policy: %w'' [] (ResiduePolicy_Validate (prp_ResiduePolicy p) \<lparr>rpv_NoWorkspaceAllowed = \<not> prp_HostWorkspaceSupported p, rpv_RequireSessionKey = False, rpv_RequireExplicitWorkerBound = False, rpv_RequirePolicyHash = False\<rparr>) @
      (if prp_RuntimeProfile p = RuntimeProfileWASMComponent \<or> prp_RuntimeProfile p = RuntimeProfileBrowserWorker then
         fails (prp_HostWorkspaceSupported p)
           (New ''host workspace must be unsupported for wasm runtime profiles'') @
         fails (prp_ExecutionSecurityTier p \<noteq> ExecutionWASMCapability)
           (New ''wasm runtime_profile requires execution_security_tier wasm-capability'') @
         fails (prp_ImageDigestRequired p \<or> prp_RootFSDigestRequired p)
           (New ''image and rootfs digests must be disabled for wasm runtime profiles'') @
         fails ((prp_AllowedRuntimeTools p) \<noteq> [] \<or> (prp_AllowedMountRefs p) \<noteq> [] \<or> (prp_WritablePaths p) \<noteq> [])
           (New ''container runtime tools, mounts, and writable paths must be empty for wasm runtime profiles'') @
         wraps ''wasm: %w'' [] (WASMRuntimeContract_Validate (prp_WASM p) (prp_RuntimeProfile p))
       else fails (prp_ExecutionSecurityTier p = ExecutionWASMCapability)
              (New ''execution_security_tier wasm-capability requires wasm runtime_profile'') @
            fails ((prp_AllowedRuntimeTools p) = [])
              (New ''allowed_runtime_tools is required'') @
            each (\<lambda>i tool.
               fails (\<not> validContainerRuntimeTool tool)
                 (Errorf ''allowed_runtime_tools[%d] %q is unsupported'' [Num (int i), Str tool])) (prp_AllowedRuntimeTools p) @
            fails (\<not> prp_ImageDigestRequired p \<or> \<not> prp_RootFSDigestRequired p)
              (New ''image and rootfs digests are required'') @
            fails ((prp_AllowedMountRefs p) = [])
              (New ''allowed_mount_refs is required'') @
            each (\<lambda>i ref.
               reports (validateIdentifier (at_index ''allowed_mount_refs'' i []) ref)) (prp_AllowedMountRefs p)) @
      each (\<lambda>i path.
         fails (\<not> validContainerAbsolutePath path)
           (Errorf ''writable_paths[%d] %q is invalid'' [Num (int i), Str path])) (prp_WritablePaths p) @
      (if \<not> validRuntimePermission (prp_WritableRootFS p) then [Errorf ''%s %q is unsupported'' [Str ''writable_rootfs'', Str (prp_WritableRootFS p)]]
       else fails (''writable_rootfs'' \<noteq> ''writable_rootfs'' \<and> prp_WritableRootFS p \<noteq> RuntimePermissionForbidden)
              (Errorf ''%s must be forbidden'' [Str ''writable_rootfs''])) @
      (if \<not> validRuntimePermission (prp_Privileged p) then [Errorf ''%s %q is unsupported'' [Str ''privileged'', Str (prp_Privileged p)]]
       else fails (''privileged'' \<noteq> ''writable_rootfs'' \<and> prp_Privileged p \<noteq> RuntimePermissionForbidden)
              (Errorf ''%s must be forbidden'' [Str ''privileged''])) @
      (if \<not> validRuntimePermission (prp_HostNamespaces p) then [Errorf ''%s %q is unsupported'' [Str ''host_namespaces'', Str (prp_HostNamespaces p)]]
       else fails (''host_namespaces'' \<noteq> ''writable_rootfs'' \<and> prp_HostNamespaces p \<noteq> RuntimePermissionForbidden)
              (Errorf ''%s must be forbidden'' [Str ''host_namespaces''])) @
      (if \<not> validRuntimePermission (prp_HostSocket p) then [Errorf ''%s %q is unsupported'' [Str ''host_socket'', Str (prp_HostSocket p)]]
       else fails (''host_socket'' \<noteq> ''writable_rootfs'' \<and> prp_HostSocket p \<noteq> RuntimePermissionForbidden)
              (Errorf ''%s must be forbidden'' [Str ''host_socket''])) @
      (if \<not> validRuntimePermission (prp_SeccompDisable p) then [Errorf ''%s %q is unsupported'' [Str ''seccomp_disable'', Str (prp_SeccompDisable p)]]
       else fails (''seccomp_disable'' \<noteq> ''writable_rootfs'' \<and> prp_SeccompDisable p \<noteq> RuntimePermissionForbidden)
              (Errorf ''%s must be forbidden'' [Str ''seccomp_disable''])) @
      (if \<not> validRuntimePermission (prp_NoNewPrivilegesDisable p) then [Errorf ''%s %q is unsupported'' [Str ''no_new_privileges_disable'', Str (prp_NoNewPrivilegesDisable p)]]
       else fails (''no_new_privileges_disable'' \<noteq> ''writable_rootfs'' \<and> prp_NoNewPrivilegesDisable p \<noteq> RuntimePermissionForbidden)
              (Errorf ''%s must be forbidden'' [Str ''no_new_privileges_disable''])) @
      each (\<lambda>i capability.
         fails (capability = [] \<or> upper capability \<noteq> capability \<or> contains_any capability (ws_chars @ ch_nul))
           (Errorf ''allowed_capabilities[%d] %q is invalid'' [Num (int i), Str capability])) (prp_AllowedCapabilities p) @
      fails ((prp_ConformanceProfiles p) = [])
        (New ''conformance_profiles is required'') @
      each (\<lambda>i profile.
         reports (validateIdentifier (at_index ''conformance_profiles'' i []) profile)) (prp_ConformanceProfiles p) @
      (if prp_UpstreamClientConformance p \<noteq> [] then
         fails (\<not> validUpstreamClientConformance (prp_UpstreamClientConformance p))
           (Errorf ''upstream_client_conformance %q is unsupported'' [Str (prp_UpstreamClientConformance p)]) @
         fails (prp_UpstreamClientConformance p = UpstreamClientConformanceRealClient \<and> \<not> ''upstream-client-v1'' \<in> set (prp_ConformanceProfiles p))
           (New ''upstream_client_conformance real-client requires upstream-client-v1 conformance profile'') @
         (if prp_UpstreamClientConformance p = UpstreamClientConformanceRealClient then
            (if prp_UpstreamClientEvidenceRef p = [] then
               [New ''upstream_client_evidence_ref is required for real-client upstream conformance'']
             else reports (validateScopedRef ''upstream_client_evidence_ref'' (prp_UpstreamClientEvidenceRef p) ''artifact://'')) @
            (if prp_UpstreamClientEvidenceDigest p = [] then
               [New ''upstream_client_evidence_digest is required for real-client upstream conformance'']
             else fails (\<not> validSHA256Ref (prp_UpstreamClientEvidenceDigest p))
                    (New ''upstream_client_evidence_digest must be sha256:<64 hex chars>''))
          else [])
       else []))"

definition ProviderRuntimeContract_Validate :: "(string \<Rightarrow> string) \<Rightarrow> ProviderRuntimeContract \<Rightarrow> error" where
  "ProviderRuntimeContract_Validate upper c =
     join
     (fails (prruco_Profiles c = []) (New ''runtime_contract.profiles is required'') @
      each_seen 0
        (\<lambda>i dup profile.
           wraps ''runtime_contract.profiles[%d]: %w'' [Num (int i)] (ProviderRuntimeProfile_Validate upper profile) @
           fails dup (Errorf ''runtime_contract.profiles[%d].id %q is duplicated'' [Num (int i), Str (prp_ID profile)]))
        (\<lambda>profile. prp_ID profile \<noteq> []) prp_ID {} (prruco_Profiles c))"

text \<open>The zero profile and \<open>false\<close> of the source are \<open>None\<close>.\<close>

definition ProviderRuntimeContract_RuntimeProfileForRequirements ::
  "ProviderRuntimeContract \<Rightarrow> PlacementRequirements \<Rightarrow> ProviderRuntimeProfile option" where
  "ProviderRuntimeContract_RuntimeProfileForRequirements c req =
     find (\<lambda>profile. prp_ExecutorProvider profile = pr_ExecutorProvider req \<and>
        prp_ExecutionSecurityTier profile = pr_ExecutionSecurityTier req \<and>
        prp_ProofTier profile = pr_ProofTier req) (prruco_Profiles c)"

definition ProviderRuntimeContract_SupportsProduct :: "ProviderRuntimeContract \<Rightarrow> NetworkProduct \<Rightarrow> bool" where
  "ProviderRuntimeContract_SupportsProduct c product \<longleftrightarrow>
     ProviderRuntimeContract_RuntimeProfileForRequirements c (nepr_SecurityFloor product) \<noteq> None"

section \<open>Defaults\<close>

text \<open>
  Each local variable of the source starts with the value for sandboxed OCI and is overwritten in the
  branches of the switch on the executor; here it is one conditional per variable.
\<close>

definition DefaultProviderRuntimeProfile :: "string \<Rightarrow> ExecutionSecurityTier \<Rightarrow> ProofTier \<Rightarrow> ProviderRuntimeProfile" where
  "DefaultProviderRuntimeProfile executorProvider tier prf =
     (let build = (executorProvider = ''sandboxed-container-build'');
          nodeService = (executorProvider = ''node-service-sandboxed-container'');
          service = (executorProvider = ''service-sandboxed-container'' \<or> nodeService);
          wasm = (executorProvider = ''wasm-component'');
          runtimeProfile =
            (if build then RuntimeProfileContainerBuild else if service then RuntimeProfileServiceOCI
             else if wasm then RuntimeProfileWASMComponent else RuntimeProfileSandboxedOCI);
          conformance =
            (if build then [''container-build-v1''] else if service then [''service-oci-v1'']
             else if wasm then [''wasm-component-v1''] else [''sandboxed-oci-v1'']);
          mountRefs = (if nodeService then [''workspace'', ''node-data''] else if wasm then [] else [''workspace'']);
          writablePaths = (if build then [''/tmp'', ''/wfcompute-build''] else if wasm then [] else [''/tmp''])
      in \<lparr>prp_ID = executorProvider @ ''-'' @ tier @ ''-'' @ prf @ ''-runtime'',
          prp_RuntimeProfile = runtimeProfile,
          prp_ExecutorProvider = executorProvider,
          prp_ExecutionSecurityTier = tier,
          prp_ProofTier = prf,
          prp_AllowedRuntimeTools =
            (if wasm then [] else [ContainerRuntimePodman, ContainerRuntimeDocker, ContainerRuntimeNerdctl]),
          prp_ImageDigestRequired = (\<not> wasm),
          prp_RootFSDigestRequired = (\<not> wasm),
          prp_AllowedMountRefs = mountRefs,
          prp_WritablePaths = writablePaths,
          prp_WritableRootFS = (if build then RuntimePermissionExplicit else RuntimePermissionForbidden),
          prp_Privileged = RuntimePermissionForbidden,
          prp_HostNamespaces = RuntimePermissionForbidden,
          prp_HostSocket = RuntimePermissionForbidden,
          prp_SeccompDisable = RuntimePermissionForbidden,
          prp_NoNewPrivilegesDisable = RuntimePermissionForbidden,
          prp_AllowedCapabilities = (if build then [''CHOWN'', ''FOWNER''] else []),
          prp_ConformanceProfiles = conformance,
          prp_UpstreamClientConformance = [],
          prp_UpstreamClientEvidenceRef = [],
          prp_UpstreamClientEvidenceDigest = [],
          prp_HostWorkspaceSupported =
            (runtimeProfile \<noteq> RuntimeProfileWASMComponent \<and> runtimeProfile \<noteq> RuntimeProfileBrowserWorker),
          prp_ResiduePolicy = zero_ResiduePolicy,
          prp_WASM = zero_WASMRuntimeContract\<rparr>)"

definition with_options :: "ProviderRuntimeContractOptions \<Rightarrow> ProviderRuntimeProfile \<Rightarrow> ProviderRuntimeProfile" where
  \<comment> \<open>the body of the innermost loop\<close>
  "with_options options profile =
     (let profile = profile\<lparr>prp_ConformanceProfiles := prp_ConformanceProfiles profile @ prrucoop_ConformanceProfiles options\<rparr>;
          profile = (if prrucoop_UpstreamClientConformance options \<noteq> []
                     then profile\<lparr>prp_UpstreamClientConformance := prrucoop_UpstreamClientConformance options\<rparr> else profile)
      in profile\<lparr>prp_UpstreamClientEvidenceRef := prrucoop_UpstreamClientEvidenceRef options,
                 prp_UpstreamClientEvidenceDigest := prrucoop_UpstreamClientEvidenceDigest options\<rparr>)"

definition DefaultProviderRuntimeContract ::
  "string list \<Rightarrow> ExecutionSecurityTier list \<Rightarrow> ProofTier list \<Rightarrow> ProviderRuntimeContractOptions \<Rightarrow> ProviderRuntimeContract" where
  "DefaultProviderRuntimeContract executors tiers proofs options =
     \<lparr>prruco_Profiles =
        [with_options options (DefaultProviderRuntimeProfile executorProvider tier prf).
           executorProvider \<leftarrow> executors, tier \<leftarrow> tiers, prf \<leftarrow> proofs]\<rparr>"

section \<open>What an accepted profile guarantees\<close>

definition wasm_profile :: "ProviderRuntimeProfile \<Rightarrow> bool" where
  "wasm_profile p \<longleftrightarrow> prp_RuntimeProfile p = RuntimeProfileWASMComponent \<or> prp_RuntimeProfile p = RuntimeProfileBrowserWorker"

definition privileges_forbidden :: "ProviderRuntimeProfile \<Rightarrow> bool" where
  \<comment> \<open>the five permissions that validation wants forbidden; capabilities and a writable root are not among them\<close>
  "privileges_forbidden p \<longleftrightarrow>
     prp_Privileged p = RuntimePermissionForbidden \<and> prp_HostNamespaces p = RuntimePermissionForbidden \<and>
     prp_HostSocket p = RuntimePermissionForbidden \<and> prp_SeccompDisable p = RuntimePermissionForbidden \<and>
     prp_NoNewPrivilegesDisable p = RuntimePermissionForbidden"

definition container_settings :: "ProviderRuntimeProfile \<Rightarrow> bool" where
  "container_settings p \<longleftrightarrow>
     prp_ExecutionSecurityTier p \<noteq> ExecutionWASMCapability \<and> prp_AllowedRuntimeTools p \<noteq> [] \<and>
     (\<forall>t \<in> set (prp_AllowedRuntimeTools p). validContainerRuntimeTool t) \<and>
     prp_ImageDigestRequired p \<and> prp_RootFSDigestRequired p \<and> prp_AllowedMountRefs p \<noteq> [] \<and>
     (\<forall>r \<in> set (prp_AllowedMountRefs p). plain_id r)"

definition wasm_settings :: "ProviderRuntimeProfile \<Rightarrow> bool" where
  "wasm_settings p \<longleftrightarrow>
     \<not> prp_HostWorkspaceSupported p \<and> prp_ExecutionSecurityTier p = ExecutionWASMCapability \<and>
     \<not> prp_ImageDigestRequired p \<and> \<not> prp_RootFSDigestRequired p \<and>
     prp_AllowedRuntimeTools p = [] \<and> prp_AllowedMountRefs p = [] \<and> prp_WritablePaths p = [] \<and>
     WASMRuntimeContract_Validate (prp_WASM p) (prp_RuntimeProfile p) = None"

definition contract_tier :: "ExecutionSecurityTier \<Rightarrow> bool" where
  "contract_tier t \<longleftrightarrow> validExecutionSecurityTier t \<and> t \<noteq> ExecutionTrustedNative"

definition contract_proof :: "ProofTier \<Rightarrow> bool" where
  "contract_proof t \<longleftrightarrow> validProofTier t \<and> t \<noteq> ProofReceiptOnly"

definition capability_name :: "(string \<Rightarrow> string) \<Rightarrow> string \<Rightarrow> bool" where
  "capability_name upper c \<longleftrightarrow> c \<noteq> [] \<and> upper c = c \<and> \<not> contains_any c (ws_chars @ ch_nul)"

definition profile_core :: "(string \<Rightarrow> string) \<Rightarrow> ProviderRuntimeProfile \<Rightarrow> bool" where
  \<comment> \<open>everything but the conformance fields\<close>
  "profile_core upper p \<longleftrightarrow>
     plain_id (prp_ID p) \<and> validRuntimeProfile (prp_RuntimeProfile p) \<and> plain_id (prp_ExecutorProvider p) \<and>
     contract_tier (prp_ExecutionSecurityTier p) \<and> contract_proof (prp_ProofTier p) \<and>
     ResiduePolicy_Validate (prp_ResiduePolicy p)
       (zero_ResiduePolicyValidation\<lparr>rpv_NoWorkspaceAllowed := \<not> prp_HostWorkspaceSupported p\<rparr>) = None \<and>
     (if wasm_profile p then wasm_settings p else container_settings p) \<and>
     (\<forall>path \<in> set (prp_WritablePaths p). validContainerAbsolutePath path) \<and>
     validRuntimePermission (prp_WritableRootFS p) \<and> privileges_forbidden p \<and>
     (\<forall>c \<in> set (prp_AllowedCapabilities p). capability_name upper c)"

definition real_client_evidence :: "ProviderRuntimeProfile \<Rightarrow> bool" where
  "real_client_evidence p \<longleftrightarrow>
     ''upstream-client-v1'' \<in> set (prp_ConformanceProfiles p) \<and>
     validateScopedRef ''upstream_client_evidence_ref'' (prp_UpstreamClientEvidenceRef p) ''artifact://'' = None \<and>
     validSHA256Ref (prp_UpstreamClientEvidenceDigest p)"

definition conformance_ok :: "ProviderRuntimeProfile \<Rightarrow> bool" where
  "conformance_ok p \<longleftrightarrow>
     prp_ConformanceProfiles p \<noteq> [] \<and> (\<forall>c \<in> set (prp_ConformanceProfiles p). plain_id c) \<and>
     prp_UpstreamClientConformance p \<in> {[], UpstreamClientConformanceShapeOnly, UpstreamClientConformanceRealClient} \<and>
     (prp_UpstreamClientConformance p = UpstreamClientConformanceRealClient \<longrightarrow> real_client_evidence p)"

lemma forbidden_valid:
  "validRuntimePermission v \<and> v = RuntimePermissionForbidden \<longleftrightarrow> v = RuntimePermissionForbidden"
  "validRuntimePermission v \<and> v = RuntimePermissionForbidden \<and> P \<longleftrightarrow> v = RuntimePermissionForbidden \<and> P"
  by (auto simp: validRuntimePermission_def)

lemma validateScopedRef_Nil [simp]: "scheme \<noteq> [] \<Longrightarrow> validateScopedRef name [] scheme \<noteq> None"
  by (simp add: validateScopedRef_def)

lemma ProviderRuntimeProfile_Validate_iff:
  "ProviderRuntimeProfile_Validate upper p = None \<longleftrightarrow> profile_core upper p \<and> conformance_ok p"
proof -
  define errs where "errs = (if prp_UpstreamClientConformance p \<noteq> [] then
         fails (\<not> validUpstreamClientConformance (prp_UpstreamClientConformance p))
           (Errorf ''upstream_client_conformance %q is unsupported'' [Str (prp_UpstreamClientConformance p)]) @
         fails (prp_UpstreamClientConformance p = UpstreamClientConformanceRealClient \<and> \<not> ''upstream-client-v1'' \<in> set (prp_ConformanceProfiles p))
           (New ''upstream_client_conformance real-client requires upstream-client-v1 conformance profile'') @
         (if prp_UpstreamClientConformance p = UpstreamClientConformanceRealClient then
            (if prp_UpstreamClientEvidenceRef p = [] then
               [New ''upstream_client_evidence_ref is required for real-client upstream conformance'']
             else reports (validateScopedRef ''upstream_client_evidence_ref'' (prp_UpstreamClientEvidenceRef p) ''artifact://'')) @
            (if prp_UpstreamClientEvidenceDigest p = [] then
               [New ''upstream_client_evidence_digest is required for real-client upstream conformance'']
             else fails (\<not> validSHA256Ref (prp_UpstreamClientEvidenceDigest p))
                    (New ''upstream_client_evidence_digest must be sha256:<64 hex chars>''))
          else [])
       else [])"
  have upstream: "errs = [] \<longleftrightarrow>
      prp_UpstreamClientConformance p \<in> {[], UpstreamClientConformanceShapeOnly, UpstreamClientConformanceRealClient} \<and>
      (prp_UpstreamClientConformance p = UpstreamClientConformanceRealClient \<longrightarrow> real_client_evidence p)"
    by (auto simp: errs_def validUpstreamClientConformance_def real_client_evidence_def enum)
  have residue: "zero_ResiduePolicyValidation\<lparr>rpv_NoWorkspaceAllowed := b\<rparr> =
      \<lparr>rpv_NoWorkspaceAllowed = b, rpv_RequireSessionKey = False, rpv_RequireExplicitWorkerBound = False, rpv_RequirePolicyHash = False\<rparr>" for b
    by (simp add: zero_ResiduePolicyValidation_def)
  show ?thesis
    unfolding ProviderRuntimeProfile_Validate_def errs_def [symmetric] join_None append_is_Nil_conv upstream profile_core_def residue
      conformance_ok_def
    by (simp only: wasm_profile_def [symmetric]; cases "wasm_profile p";
        simp add: forbidden_valid privileges_forbidden_def wasm_settings_def container_settings_def contract_tier_def contract_proof_def
          capability_name_def if_checked_Nil;
        intro iffI; elim conjE; intro conjI; (assumption | simp))
qed

text \<open>What validation leaves to a profile: its capabilities, if they are spelled in upper case, and a writable root.\<close>

lemma profile_free_fields:
  assumes "ProviderRuntimeProfile_Validate upper p = None"
    and "\<forall>cap \<in> set caps. capability_name upper cap" and "validRuntimePermission root"
  shows "ProviderRuntimeProfile_Validate upper (p\<lparr>prp_AllowedCapabilities := caps, prp_WritableRootFS := root\<rparr>) = None"
proof -
  let ?p = "p\<lparr>prp_AllowedCapabilities := caps, prp_WritableRootFS := root\<rparr>"
  have "wasm_profile ?p = wasm_profile p" "wasm_settings ?p = wasm_settings p" "container_settings ?p = container_settings p"
    "privileges_forbidden ?p = privileges_forbidden p" "conformance_ok ?p = conformance_ok p"
    by (simp_all add: wasm_profile_def wasm_settings_def container_settings_def privileges_forbidden_def conformance_ok_def real_client_evidence_def)
  then show ?thesis using assms by (simp add: ProviderRuntimeProfile_Validate_iff profile_core_def)
qed

lemma ProviderRuntimeContract_Validate_iff:
  "ProviderRuntimeContract_Validate upper c = None \<longleftrightarrow>
     prruco_Profiles c \<noteq> [] \<and> distinct (map prp_ID (prruco_Profiles c)) \<and>
     (\<forall>p \<in> set (prruco_Profiles c). profile_core upper p \<and> conformance_ok p)"
proof -
  have ids: "\<forall>p \<in> set ps. profile_core upper p \<Longrightarrow> filter (\<lambda>p. prp_ID p \<noteq> []) ps = ps" for ps
    by (rule filter_True) (auto simp: profile_core_def)
  have "each_seen 0
        (\<lambda>i dup profile.
           wraps ''runtime_contract.profiles[%d]: %w'' [Num (int i)] (ProviderRuntimeProfile_Validate upper profile) @
           fails dup (Errorf ''runtime_contract.profiles[%d].id %q is duplicated'' [Num (int i), Str (prp_ID profile)]))
        (\<lambda>profile. prp_ID profile \<noteq> []) prp_ID {} (prruco_Profiles c) = [] \<longleftrightarrow>
      (\<forall>p \<in> set (prruco_Profiles c). profile_core upper p \<and> conformance_ok p) \<and>
      distinct (map prp_ID (filter (\<lambda>p. prp_ID p \<noteq> []) (prruco_Profiles c)))"
    by (subst each_seen_Nil [where Q = "\<lambda>i p. profile_core upper p \<and> conformance_ok p"])
      (simp_all add: ProviderRuntimeProfile_Validate_iff)
  then show ?thesis using ids [of "prruco_Profiles c"]
    by (auto simp: ProviderRuntimeContract_Validate_def)
qed

section \<open>The default contract\<close>

lemma find_only:
  assumes "\<And>x. x \<in> set xs \<Longrightarrow> Q x \<Longrightarrow> x = a"
  shows "find Q xs = (if a \<in> set xs \<and> Q a then Some a else None)"
  using assms by (induction xs) auto

lemma with_options_simps [simp]:
  "prp_ID (with_options opts p) = prp_ID p" "prp_ExecutorProvider (with_options opts p) = prp_ExecutorProvider p"
  "prp_ExecutionSecurityTier (with_options opts p) = prp_ExecutionSecurityTier p"
  "prp_ProofTier (with_options opts p) = prp_ProofTier p"
  by (simp_all add: with_options_def Let_def)

lemma DefaultProviderRuntimeProfile_simps [simp]:
  "prp_ID (DefaultProviderRuntimeProfile e t p) = e @ ''-'' @ t @ ''-'' @ p @ ''-runtime''"
  "prp_ExecutorProvider (DefaultProviderRuntimeProfile e t p) = e"
  "prp_ExecutionSecurityTier (DefaultProviderRuntimeProfile e t p) = t"
  "prp_ProofTier (DefaultProviderRuntimeProfile e t p) = p"
  by (simp_all add: DefaultProviderRuntimeProfile_def Let_def)

lemma default_profile_eq:
  "with_options opts (DefaultProviderRuntimeProfile e t p) = with_options opts (DefaultProviderRuntimeProfile e' t' p') \<longleftrightarrow>
     e = e' \<and> t = t' \<and> p = p'"
  by (metis DefaultProviderRuntimeProfile_simps(2-4) with_options_simps(2-4))

text \<open>Searching the default contract for a security floor finds a profile exactly when executor, tier and proof
  tier are among those it was built from, and then the default profile of that executor, tier and proof
  tier with the options applied.\<close>

theorem default_contract_lookup:
  "ProviderRuntimeContract_RuntimeProfileForRequirements (DefaultProviderRuntimeContract executors tiers proofs options) req =
     (if pr_ExecutorProvider req \<in> set executors \<and> pr_ExecutionSecurityTier req \<in> set tiers \<and> pr_ProofTier req \<in> set proofs
      then Some (with_options options
        (DefaultProviderRuntimeProfile (pr_ExecutorProvider req) (pr_ExecutionSecurityTier req) (pr_ProofTier req)))
      else None)"
  unfolding ProviderRuntimeContract_RuntimeProfileForRequirements_def
  by (subst find_only [where a = "with_options options
        (DefaultProviderRuntimeProfile (pr_ExecutorProvider req) (pr_ExecutionSecurityTier req) (pr_ProofTier req))"])
    (auto simp: DefaultProviderRuntimeContract_def default_profile_eq)

text \<open>The identifiers of the default profiles are told apart because no tier ends another.\<close>

lemma append_suffix_free:
  assumes "a @ x = b @ y" and "\<And>u v. u \<in> S \<Longrightarrow> v \<in> S \<Longrightarrow> suffix u v \<Longrightarrow> u = v" and "x \<in> S" "y \<in> S"
  shows "a = b \<and> x = y"
proof -
  have "suffix x (a @ x)" by (rule suffixI) simp
  moreover have "suffix y (a @ x)" unfolding assms(1) by (rule suffixI) simp
  ultimately have "suffix x y \<or> suffix y x" by (meson suffix_same_cases)
  then have "x = y" using assms(2) [OF assms(3,4)] assms(2) [OF assms(4,3)] by auto
  then show ?thesis using assms(1) by simp
qed

definition tier_tails :: "string list" where
  "tier_tails = map (\<lambda>t. ''-'' @ t) [ExecutionHardenedContainer, ExecutionSandboxedContainer, ExecutionMicroVM,
     ExecutionConfidentialCPU, ExecutionConfidentialGPU, ExecutionWASMCapability]"

definition proof_tails :: "string list" where
  "proof_tails = map (\<lambda>p. ''-'' @ p @ ''-runtime'') [ProofArtifactHash, ProofReplicatedQuorum, ProofAttestedReceipt,
     ProofAttestedQuorum, ProofZKReplay, ProofStreamSegmentManifest]"

lemma tails_suffix_free:
  "u \<in> set tier_tails \<Longrightarrow> v \<in> set tier_tails \<Longrightarrow> suffix u v \<Longrightarrow> u = v"
  "u \<in> set proof_tails \<Longrightarrow> v \<in> set proof_tails \<Longrightarrow> suffix u v \<Longrightarrow> u = v"
proof -
  have "list_all (\<lambda>u. list_all (\<lambda>v. suffix u v \<longrightarrow> u = v) tier_tails) tier_tails" by code_simp
  then show "u \<in> set tier_tails \<Longrightarrow> v \<in> set tier_tails \<Longrightarrow> suffix u v \<Longrightarrow> u = v" by (simp only: list_all_iff)
  have "list_all (\<lambda>u. list_all (\<lambda>v. suffix u v \<longrightarrow> u = v) proof_tails) proof_tails" by code_simp
  then show "u \<in> set proof_tails \<Longrightarrow> v \<in> set proof_tails \<Longrightarrow> suffix u v \<Longrightarrow> u = v" by (simp only: list_all_iff)
qed

lemma contract_tails: "contract_tier t \<Longrightarrow> ''-'' @ t \<in> set tier_tails" "contract_proof p \<Longrightarrow> ''-'' @ p @ ''-runtime'' \<in> set proof_tails"
  by (auto simp: contract_tier_def contract_proof_def validExecutionSecurityTier_def validProofTier_def tier_tails_def proof_tails_def)

lemma default_id_inj:
  assumes "contract_tier t" "contract_tier t'" "contract_proof p" "contract_proof p'"
    and "e @ ''-'' @ t @ ''-'' @ p @ ''-runtime'' = e' @ ''-'' @ t' @ ''-'' @ p' @ ''-runtime''"
  shows "e = e' \<and> t = t' \<and> p = p'"
proof -
  have "(e @ ''-'' @ t) @ (''-'' @ p @ ''-runtime'') = (e' @ ''-'' @ t') @ (''-'' @ p' @ ''-runtime'')"
    using assms(5) by simp
  from append_suffix_free [OF this tails_suffix_free(2) contract_tails(2) [OF assms(3)] contract_tails(2) [OF assms(4)]]
  have "e @ ''-'' @ t = e' @ ''-'' @ t'" and p: "p = p'" by simp_all
  from append_suffix_free [OF this(1) tails_suffix_free(1) contract_tails(1) [OF assms(1)] contract_tails(1) [OF assms(2)]]
  show ?thesis using p by simp
qed

lemma default_ids_distinct:
  assumes "distinct executors" "distinct tiers" "distinct proofs"
    and "\<forall>t \<in> set tiers. contract_tier t" "\<forall>p \<in> set proofs. contract_proof p"
  shows "distinct (map prp_ID (prruco_Profiles (DefaultProviderRuntimeContract executors tiers proofs options)))"
proof -
  let ?id = "\<lambda>(e, t, p). e @ ''-'' @ t @ ''-'' @ p @ ''-runtime''"
  have prod: "[f e t p. e \<leftarrow> es, t \<leftarrow> ts, p \<leftarrow> ps] = map (\<lambda>(e, t, p). f e t p) (List.product es (List.product ts ps))"
    for f :: "string \<Rightarrow> string \<Rightarrow> string \<Rightarrow> 'a" and es ts ps
  proof -
    have "[g t p. t \<leftarrow> ts, p \<leftarrow> ps] = map (\<lambda>(t, p). g t p) (List.product ts ps)" for g :: "string \<Rightarrow> string \<Rightarrow> 'a"
      by (induction ts) (simp_all add: comp_def)
    then show ?thesis by (induction es) (simp_all add: comp_def case_prod_unfold)
  qed
  have "map prp_ID (prruco_Profiles (DefaultProviderRuntimeContract executors tiers proofs options)) =
      map ?id (List.product executors (List.product tiers proofs))"
    unfolding DefaultProviderRuntimeContract_def ProviderRuntimeContract.simps prod by (simp add: comp_def case_prod_unfold)
  moreover have "inj_on ?id (set (List.product executors (List.product tiers proofs)))"
  proof (rule inj_onI)
    fix x y
    assume xy: "x \<in> set (List.product executors (List.product tiers proofs))"
      "y \<in> set (List.product executors (List.product tiers proofs))" "?id x = ?id y"
    obtain e t p where x: "x = (e, t, p)" by (rule prod_cases3)
    obtain e' t' p' where y: "y = (e', t', p')" by (rule prod_cases3)
    from xy have "e = e' \<and> t = t' \<and> p = p'" using default_id_inj [of t t' p p' e e'] assms(4,5) by (simp add: x y)
    then show "x = y" by (simp add: x y)
  qed
  ultimately show ?thesis using assms(1-3) by (simp add: distinct_map distinct_product)
qed

definition options_ok :: "ProviderRuntimeContractOptions \<Rightarrow> bool" where
  "options_ok opts \<longleftrightarrow>
     (\<forall>c \<in> set (prrucoop_ConformanceProfiles opts). plain_id c) \<and>
     prrucoop_UpstreamClientConformance opts \<in> {[], UpstreamClientConformanceShapeOnly, UpstreamClientConformanceRealClient} \<and>
     (prrucoop_UpstreamClientConformance opts = UpstreamClientConformanceRealClient \<longrightarrow>
        ''upstream-client-v1'' \<in> set (prrucoop_ConformanceProfiles opts) \<and>
        validateScopedRef ''upstream_client_evidence_ref'' (prrucoop_UpstreamClientEvidenceRef opts) ''artifact://'' = None \<and>
        validSHA256Ref (prrucoop_UpstreamClientEvidenceDigest opts))"

lemma with_options_conformance:
  "prp_ConformanceProfiles (with_options opts p) = prp_ConformanceProfiles p @ prrucoop_ConformanceProfiles opts"
  "prp_UpstreamClientConformance (with_options opts p) =
     (if prrucoop_UpstreamClientConformance opts \<noteq> [] then prrucoop_UpstreamClientConformance opts else prp_UpstreamClientConformance p)"
  "prp_UpstreamClientEvidenceRef (with_options opts p) = prrucoop_UpstreamClientEvidenceRef opts"
  "prp_UpstreamClientEvidenceDigest (with_options opts p) = prrucoop_UpstreamClientEvidenceDigest opts"
  by (simp_all add: with_options_def Let_def)

lemma default_conformance:
  assumes "options_ok opts"
  shows "conformance_ok (with_options opts (DefaultProviderRuntimeProfile e t p))"
proof -
  have ids: "plain_id ''container-build-v1''" "plain_id ''service-oci-v1''" "plain_id ''wasm-component-v1''" "plain_id ''sandboxed-oci-v1''"
    by code_simp+
  let ?c = "prp_ConformanceProfiles (DefaultProviderRuntimeProfile e t p)"
  have "?c \<in> {[''container-build-v1''], [''service-oci-v1''], [''wasm-component-v1''], [''sandboxed-oci-v1'']}"
    unfolding DefaultProviderRuntimeProfile_def Let_def ProviderRuntimeProfile.simps by (simp split: if_splits)
  with ids have c: "?c \<noteq> []" "\<forall>c \<in> set ?c. plain_id c" by auto
  have u: "prp_UpstreamClientConformance (DefaultProviderRuntimeProfile e t p) = []"
    by (simp add: DefaultProviderRuntimeProfile_def Let_def)
  show ?thesis
    using assms c unfolding options_ok_def conformance_ok_def real_client_evidence_def with_options_conformance u
    by (auto simp: enum)
qed

lemma plain_id_tails: "contract_tier t \<Longrightarrow> plain_id t" "contract_proof p \<Longrightarrow> plain_id p"
proof -
  have "list_all plain_id [ExecutionTrustedNative, ExecutionHardenedContainer, ExecutionSandboxedContainer, ExecutionMicroVM,
      ExecutionConfidentialCPU, ExecutionConfidentialGPU, ExecutionWASMCapability]" by code_simp
  then show "contract_tier t \<Longrightarrow> plain_id t" by (auto simp: contract_tier_def validExecutionSecurityTier_def)
  have "list_all plain_id [ProofReceiptOnly, ProofArtifactHash, ProofReplicatedQuorum, ProofAttestedReceipt, ProofAttestedQuorum,
      ProofZKReplay, ProofStreamSegmentManifest]" by code_simp
  then show "contract_proof p \<Longrightarrow> plain_id p" by (auto simp: contract_proof_def validProofTier_def)
qed

lemma default_id_plain:
  assumes "plain_id e" "contract_tier t" "contract_proof p"
  shows "plain_id (e @ ''-'' @ t @ ''-'' @ p @ ''-runtime'')"
proof -
  have "plain_id ''runtime''" by code_simp
  then show ?thesis using plain_id_hyphen [of e] plain_id_hyphen [of t] plain_id_hyphen [of p "''runtime''"] plain_id_tails assms by simp
qed

lemma with_options_core [simp]: "profile_core upper (with_options opts p) = profile_core upper p"
proof -
  have "prp_RuntimeProfile (with_options opts p) = prp_RuntimeProfile p" "prp_AllowedRuntimeTools (with_options opts p) = prp_AllowedRuntimeTools p"
    "prp_ImageDigestRequired (with_options opts p) = prp_ImageDigestRequired p" "prp_RootFSDigestRequired (with_options opts p) = prp_RootFSDigestRequired p"
    "prp_AllowedMountRefs (with_options opts p) = prp_AllowedMountRefs p" "prp_WritablePaths (with_options opts p) = prp_WritablePaths p"
    "prp_WritableRootFS (with_options opts p) = prp_WritableRootFS p" "prp_Privileged (with_options opts p) = prp_Privileged p"
    "prp_HostNamespaces (with_options opts p) = prp_HostNamespaces p" "prp_HostSocket (with_options opts p) = prp_HostSocket p"
    "prp_SeccompDisable (with_options opts p) = prp_SeccompDisable p" "prp_NoNewPrivilegesDisable (with_options opts p) = prp_NoNewPrivilegesDisable p"
    "prp_AllowedCapabilities (with_options opts p) = prp_AllowedCapabilities p" "prp_HostWorkspaceSupported (with_options opts p) = prp_HostWorkspaceSupported p"
    "prp_ResiduePolicy (with_options opts p) = prp_ResiduePolicy p" "prp_WASM (with_options opts p) = prp_WASM p"
    by (simp_all add: with_options_def Let_def)
  then show ?thesis
    by (simp add: profile_core_def wasm_profile_def wasm_settings_def container_settings_def privileges_forbidden_def)
qed

lemma default_core:
  assumes "plain_id e" "contract_tier t" "contract_proof p" and "upper ''CHOWN'' = ''CHOWN''" "upper ''FOWNER'' = ''FOWNER''"
  shows "profile_core upper (DefaultProviderRuntimeProfile e t p) \<longleftrightarrow> e \<noteq> ''wasm-component'' \<and> t \<noteq> ExecutionWASMCapability"
proof -
  let ?d = "DefaultProviderRuntimeProfile e t p"
  have residue: "ResiduePolicy_Validate zero_ResiduePolicy (zero_ResiduePolicyValidation\<lparr>rpv_NoWorkspaceAllowed := False\<rparr>) = None"
    by code_simp
  have wasm: "WASMRuntimeContract_Validate zero_WASMRuntimeContract RuntimeProfileWASMComponent \<noteq> None" by code_simp
  have known: "validContainerAbsolutePath ''/tmp''" "validContainerAbsolutePath ''/wfcompute-build''" "plain_id ''workspace''" "plain_id ''node-data''"
    "validRuntimePermission RuntimePermissionForbidden" "validRuntimePermission RuntimePermissionExplicit"
    "validContainerRuntimeTool ContainerRuntimePodman" "validContainerRuntimeTool ContainerRuntimeDocker" "validContainerRuntimeTool ContainerRuntimeNerdctl"
    "validRuntimeProfile RuntimeProfileContainerBuild" "validRuntimeProfile RuntimeProfileServiceOCI" "validRuntimeProfile RuntimeProfileSandboxedOCI"
    by code_simp+
  have "\<not> contains_any ''CHOWN'' (ws_chars @ ch_nul)" "\<not> contains_any ''FOWNER'' (ws_chars @ ch_nul)" by code_simp+
  then have caps: "capability_name upper ''CHOWN''" "capability_name upper ''FOWNER''"
    using assms(4,5) unfolding capability_name_def by blast+
  have profiles: "RuntimeProfileContainerBuild \<noteq> RuntimeProfileWASMComponent" "RuntimeProfileContainerBuild \<noteq> RuntimeProfileBrowserWorker"
    "RuntimeProfileServiceOCI \<noteq> RuntimeProfileWASMComponent" "RuntimeProfileServiceOCI \<noteq> RuntimeProfileBrowserWorker"
    "RuntimeProfileSandboxedOCI \<noteq> RuntimeProfileWASMComponent" "RuntimeProfileSandboxedOCI \<noteq> RuntimeProfileBrowserWorker"
    by (simp_all add: enum)
  show ?thesis
  proof (cases "e = ''wasm-component''")
    case True
    then have "wasm_profile ?d" "\<not> wasm_settings ?d"
      using wasm by (simp_all add: wasm_profile_def wasm_settings_def DefaultProviderRuntimeProfile_def)
    then show ?thesis using True by (simp add: profile_core_def)
  next
    case False
    have id: "plain_id (prp_ID ?d)" using default_id_plain [OF assms(1-3)] by simp
    consider "e = ''sandboxed-container-build''" | "e = ''service-sandboxed-container''" | "e = ''node-service-sandboxed-container''"
      | "e \<notin> {''sandboxed-container-build'', ''service-sandboxed-container'', ''node-service-sandboxed-container''}" by blast
    then show ?thesis
      using False assms id
      by cases (simp_all add: profile_core_def wasm_profile_def container_settings_def privileges_forbidden_def caps
          DefaultProviderRuntimeProfile_def Let_def profiles known residue)
  qed
qed

text \<open>C38. The default contract validates, given non-empty lists without repetitions of admissible executors,
  tiers and proof tiers and consistent options, exactly when it is not for WebAssembly: the default
  profile of \<open>wasm-component\<close> leaves the WASM settings empty, and the WASM tier needs a WASM profile.\<close>

theorem default_contract_valid_iff:
  assumes "executors \<noteq> []" "distinct executors" "\<forall>e \<in> set executors. plain_id e"
    and "tiers \<noteq> []" "distinct tiers" "\<forall>t \<in> set tiers. contract_tier t"
    and "proofs \<noteq> []" "distinct proofs" "\<forall>p \<in> set proofs. contract_proof p"
    and "options_ok options" and "upper ''CHOWN'' = ''CHOWN''" "upper ''FOWNER'' = ''FOWNER''"
  shows "ProviderRuntimeContract_Validate upper (DefaultProviderRuntimeContract executors tiers proofs options) = None \<longleftrightarrow>
     ''wasm-component'' \<notin> set executors \<and> ExecutionWASMCapability \<notin> set tiers"
proof -
  let ?ps = "prruco_Profiles (DefaultProviderRuntimeContract executors tiers proofs options)"
  have core: "profile_core upper (DefaultProviderRuntimeProfile e t p) \<longleftrightarrow> e \<noteq> ''wasm-component'' \<and> t \<noteq> ExecutionWASMCapability"
    if "e \<in> set executors" "t \<in> set tiers" "p \<in> set proofs" for e t p
    using default_core [of e t p upper] assms that by blast
  have mem: "(\<forall>x \<in> set ?ps. P x) \<longleftrightarrow> (\<forall>e \<in> set executors. \<forall>t \<in> set tiers. \<forall>p \<in> set proofs.
      P (with_options options (DefaultProviderRuntimeProfile e t p)))" for P
    by (auto simp: DefaultProviderRuntimeContract_def)
  obtain e0 t0 p0 where mem0: "e0 \<in> set executors" "t0 \<in> set tiers" "p0 \<in> set proofs"
    using assms(1,4,7) by (meson list.set_sel(1))
  then have "with_options options (DefaultProviderRuntimeProfile e0 t0 p0) \<in> set ?ps"
    by (auto simp: DefaultProviderRuntimeContract_def)
  then have "?ps \<noteq> []" by auto
  moreover have "(\<forall>x \<in> set ?ps. profile_core upper x \<and> conformance_ok x) \<longleftrightarrow>
      (\<forall>e \<in> set executors. \<forall>t \<in> set tiers. \<forall>p \<in> set proofs. e \<noteq> ''wasm-component'' \<and> t \<noteq> ExecutionWASMCapability)"
    unfolding mem using core default_conformance [OF assms(10)] by simp
  moreover have "\<dots> \<longleftrightarrow> ''wasm-component'' \<notin> set executors \<and> ExecutionWASMCapability \<notin> set tiers"
    using mem0 by blast
  ultimately show ?thesis
    unfolding ProviderRuntimeContract_Validate_iff using default_ids_distinct [OF assms(2,5,8,6,9), of options] by simp
qed

definition demo_options :: ProviderRuntimeContractOptions where
  "demo_options = \<lparr>prrucoop_ConformanceProfiles = [''gpu-v1''], prrucoop_UpstreamClientConformance = UpstreamClientConformanceShapeOnly,
     prrucoop_UpstreamClientEvidenceRef = [], prrucoop_UpstreamClientEvidenceDigest = []\<rparr>"

definition demo_runtime :: ProviderRuntimeContract where
  "demo_runtime = DefaultProviderRuntimeContract [''oci'', ''sandboxed-container-build''] [ExecutionHardenedContainer, ExecutionMicroVM]
     [ProofReplicatedQuorum] demo_options"

lemma default_contract_valid_iff_witness: "ProviderRuntimeContract_Validate to_upper demo_runtime = None"
proof -
  have "options_ok demo_options" by code_simp
  moreover have "\<forall>e \<in> set [''oci'', ''sandboxed-container-build'']. plain_id e" by code_simp
  moreover have "contract_tier ExecutionHardenedContainer" "contract_tier ExecutionMicroVM" "contract_proof ProofReplicatedQuorum"
    "ExecutionHardenedContainer \<noteq> ExecutionMicroVM" "ExecutionWASMCapability \<notin> set [ExecutionHardenedContainer, ExecutionMicroVM]"
    "to_upper ''CHOWN'' = ''CHOWN''" "to_upper ''FOWNER'' = ''FOWNER''" by code_simp+
  ultimately show ?thesis
    unfolding demo_runtime_def
    by (subst default_contract_valid_iff) simp_all
qed

end
