(* ===== verification/GoMime.thy ===== *)
theory GoMime
  imports GoStrings
begin

text \<open>
  Whether Go's \<open>mime.ParseMediaType\<close> accepts a string: a media type \<open>token[/token]\<close> followed by
  parameters \<open>; key=value\<close>, the value a token or a quoted string, trailing semicolons
  ignored, a repeated key allowed only with the same value.
\<close>

definition tspecials :: string where
  "tspecials = ''()<>@,;:'' @ [CHR 0x5C, CHR 0x22] @ ''/[]?=''"

definition token_char :: "char \<Rightarrow> bool" where
  "token_char c \<longleftrightarrow> 0x20 < (of_char c :: nat) \<and> (of_char c :: nat) < 0x7F \<and> c \<notin> set tspecials"

definition consume_token :: "string \<Rightarrow> string \<times> string" where
  "consume_token v = (takeWhile token_char v, dropWhile token_char v)"

definition media_type_ok :: "string \<Rightarrow> bool" where
  \<comment> \<open>\<open>checkMediaTypeDisposition\<close> returns no error\<close>
  "media_type_ok s =
     (let (typ, rest) = consume_token s
      in typ \<noteq> [] \<and>
         (rest = [] \<or>
          hd rest = CHR ''/'' \<and> (let (subtype, rest) = consume_token (tl rest) in subtype \<noteq> [] \<and> rest = [])))"

text \<open>The inside of a quoted string: the value and what follows the closing quote, if there is one.\<close>

fun consume_quoted :: "string \<Rightarrow> (string \<times> string) option" where
  "consume_quoted [] = None"
| "consume_quoted (r # v) =
     (if r = CHR 0x22 then Some ([], v)
      else if r = CHR 0x5C \<and> v \<noteq> [] \<and> hd v \<in> set tspecials
      then map_option (map_prod ((#) (hd v)) id) (consume_quoted (tl v))
      else if r = CHR 0x0D \<or> r = CHR 0x0A then None
      else map_option (map_prod ((#) r) id) (consume_quoted v))"

text \<open>\<open>None\<close> where Go returns an empty value and consumes nothing.\<close>

definition consume_value :: "string \<Rightarrow> (string \<times> string) option" where
  "consume_value v =
     (if v = [] then None
      else if hd v \<noteq> CHR 0x22
      then (let (value, rest) = consume_token v in if value = [] then None else Some (value, rest))
      else consume_quoted (tl v))"

definition consume_param :: "string \<Rightarrow> (string \<times> string \<times> string) option" where
  \<comment> \<open>\<open>None\<close> where \<open>consumeMediaParam\<close> returns an empty key\<close>
  "consume_param v =
     (let rest = trim_left v
      in if rest = [] \<or> hd rest \<noteq> CHR '';'' then None
         else (let (param, rest) = consume_token (trim_left (tl rest)); param = to_lower param; rest = trim_left rest
               in if param = [] \<or> rest = [] \<or> hd rest \<noteq> CHR ''='' then None
                  else (case consume_value (trim_left (tl rest)) of
                          None \<Rightarrow> None
                        | Some (value, rest) \<Rightarrow> Some (param, value, rest))))"

lemma length_trim_left: "length (trim_left s) \<le> length s"
  unfolding trim_left_def using strip_suffix suffix_length_le by blast

lemma length_consume_quoted: "consume_quoted v = Some (val, rest) \<Longrightarrow> length rest < length v"
proof (induction v arbitrary: val rest rule: consume_quoted.induct)
  case (2 r v)
  show ?case
  proof (cases "r = CHR 0x22")
    case True
    with 2 show ?thesis by simp
  next
    case r: False
    show ?thesis
    proof (cases "r = CHR 0x5C \<and> v \<noteq> [] \<and> hd v \<in> set tspecials")
      case True
      with 2(3) r obtain a where "consume_quoted (tl v) = Some (a, rest)" by (auto split: if_splits)
      from 2(1) [OF r True this] have "length rest < length (tl v)" .
      then show ?thesis by simp
    next
      case False
      with 2(3) r obtain a where "\<not> (r = CHR 0x0D \<or> r = CHR 0x0A)" "consume_quoted v = Some (a, rest)"
        by (auto split: if_splits)
      from 2(2) [OF r False this] show ?thesis by simp
    qed
  qed
qed simp

lemma length_consume_value: "consume_value v = Some (val, rest) \<Longrightarrow> length rest < length v"
proof (cases v)
  case (Cons c cs)
  assume v: "consume_value v = Some (val, rest)"
  show ?thesis
  proof (cases "c = CHR 0x22")
    case True
    with v Cons show ?thesis using length_consume_quoted [of cs val rest] by (simp add: consume_value_def)
  next
    case False
    with v Cons have "takeWhile token_char v \<noteq> []" "rest = dropWhile token_char v"
      by (auto simp: consume_value_def consume_token_def Let_def split: if_splits)
    then show ?thesis using Cons by (auto simp: length_dropWhile_le less_Suc_eq_le split: if_splits)
  qed
qed (simp add: consume_value_def)

lemma length_consume_param: "consume_param v = Some (param, val, rest) \<Longrightarrow> length rest < length v"
proof -
  assume "consume_param v = Some (param, val, rest)"
  then obtain r1 r2 where r: "trim_left v = r1" "r1 \<noteq> []"
    "trim_left (dropWhile token_char (trim_left (tl r1))) = r2" "consume_value (trim_left (tl r2)) = Some (val, rest)"
    by (auto simp: consume_param_def consume_token_def Let_def split: if_splits option.splits)
  have "length rest < length (trim_left (tl r2))" using r(4) by (rule length_consume_value)
  also have "\<dots> \<le> length r2" using length_trim_left [of "tl r2"] by simp
  also have "\<dots> \<le> length (dropWhile token_char (trim_left (tl r1)))" using length_trim_left r(3) by blast
  also have "\<dots> \<le> length (trim_left (tl r1))" by (rule length_dropWhile_le)
  also have "\<dots> \<le> length r1" using length_trim_left [of "tl r1"] by simp
  also have "\<dots> \<le> length v" using length_trim_left [of v] r(1) by simp
  finally show ?thesis .
qed

function media_params_ok :: "(string \<times> string) list \<Rightarrow> string \<Rightarrow> bool" where
  "media_params_ok params v =
     (let v = trim_left v
      in v = [] \<or>
         (case consume_param v of
            None \<Rightarrow> trim_space v = '';''
          | Some (key, val, rest) \<Rightarrow>
              (case map_of params key of None \<Rightarrow> True | Some val' \<Rightarrow> val' = val) \<and>
              media_params_ok ((key, val) # params) rest))"
  by pat_completeness auto
termination
  by (relation "measure (\<lambda>(params, v). length v)")
    (auto dest!: length_consume_param intro: less_le_trans length_trim_left)

declare media_params_ok.simps [simp del]

definition parse_media_type_ok :: "string \<Rightarrow> bool" where
  "parse_media_type_ok v =
     (let base = takeWhile (\<lambda>c. c \<noteq> CHR '';'') v
      in media_type_ok (trim_space (to_lower base)) \<and> media_params_ok [] (drop (length base) v))"

end
