(* ===== verification/Paths.thy ===== *)
theory Paths
  imports Identifiers
begin

text \<open>
  Path safety: the workspace path check of \<open>protocol/handoff.go\<close> and the container path check of
  \<open>protocol/types.go\<close>, against what the file system does with the path. \<open>walk\<close> follows a relative path
  element by element from a directory at a given depth below the workspace root and gives up as
  soon as it would leave the root.
\<close>

definition validRelativeWorkspacePath :: "string \<Rightarrow> bool" where
  "validRelativeWorkspacePath v =
     (let trimmed = trim_space v
      in if trimmed = [] \<or> trimmed \<noteq> v \<or> has_prefix trimmed ''/'' \<or> contains_str trimmed [CHR 0x5C] \<or>
           contains_str trimmed ch_nul
         then False
         else (let clean = path_clean trimmed
               in clean \<noteq> ''.'' \<and> clean \<noteq> ''..'' \<and> \<not> has_prefix clean ''../''))"

fun walk :: "nat \<Rightarrow> string list \<Rightarrow> nat option" where
  "walk d [] = Some d"
| "walk d (w # ws) =
     (if w = [] \<or> w = ''.'' then walk d ws
      else if w = ''..'' then (case d of 0 \<Rightarrow> None | Suc d' \<Rightarrow> walk d' ws)
      else walk (Suc d) ws)"

section \<open>Splitting and cleaning\<close>

lemma split_char_append_sep:
  "c \<notin> set w \<Longrightarrow> split_char c (w @ c # s) = w # split_char c s"
  by (induction w) auto

lemma split_char_absent: "c \<notin> set w \<Longrightarrow> split_char c w = [w]"
  by (induction w) auto

lemma split_join_char:
  "ws \<noteq> [] \<Longrightarrow> \<forall>w \<in> set ws. c \<notin> set w \<Longrightarrow> split_char c (join_char c ws) = ws"
  by (induction ws rule: join_char.induct) (simp_all add: split_char_absent split_char_append_sep)

definition plain_elem :: "string \<Rightarrow> bool" where
  "plain_elem w \<longleftrightarrow> w \<noteq> [] \<and> w \<noteq> ''.'' \<and> w \<noteq> ''..''"

text \<open>An escaped stack keeps \<open>..\<close> at its bottom.\<close>

lemma clean_elems_escaped:
  "stk \<noteq> [] \<Longrightarrow> last stk = ''..'' \<Longrightarrow> clean_elems False stk ws \<noteq> [] \<and> hd (clean_elems False stk ws) = ''..''"
proof (induction False stk ws rule: clean_elems.induct)
  case (1 stk)
  then show ?case by (simp add: hd_rev)
next
  case (2 stk w ws)
  show ?case
  proof (cases stk)
    case (Cons t ts)
    with 2 show ?thesis by (cases ts) (auto split: if_splits)
  qed (use 2 in simp)
qed

lemma clean_elems_walk:
  assumes "list_all plain_elem stk"
  shows "case walk (length stk) ws of
      None \<Rightarrow> clean_elems False stk ws \<noteq> [] \<and> hd (clean_elems False stk ws) = ''..''
    | Some d \<Rightarrow> list_all plain_elem (clean_elems False stk ws) \<and> length (clean_elems False stk ws) = d"
  using assms
proof (induction ws arbitrary: stk)
  case (Cons w ws)
  consider "w = [] \<or> w = ''.''" | "w = ''..''" "stk = []" | t ts where "w = ''..''" "stk = t # ts"
    | "plain_elem w" by (cases stk) (auto simp: plain_elem_def)
  then show ?case
  proof cases
    case 2
    then show ?thesis using clean_elems_escaped [of "[''..'']" ws] by simp
  next
    case 3
    then show ?thesis using Cons.IH [of ts] Cons.prems by (simp add: plain_elem_def cong: option.case_cong)
  next
    case 4
    then show ?thesis using Cons.IH [of "w # stk"] Cons.prems
      by (simp add: plain_elem_def cong: option.case_cong)
  qed (use Cons in \<open>auto cong: option.case_cong\<close>)
qed simp

lemma clean_elems_rooted:
  "list_all plain_elem stk \<Longrightarrow> list_all plain_elem (clean_elems True stk ws)"
proof (induction True stk ws rule: clean_elems.induct)
  case (2 stk w ws)
  then show ?case by (cases stk) (auto simp: plain_elem_def)
qed simp

lemma clean_elems_subset: "set (clean_elems rooted stk ws) \<subseteq> set stk \<union> set ws"
proof (induction rooted stk ws rule: clean_elems.induct)
  case (2 rooted stk w ws)
  then show ?case by (cases stk) (auto split: if_splits)
qed simp

lemma clean_elems_plain:
  "list_all plain_elem ws \<Longrightarrow> clean_elems rooted stk ws = rev stk @ ws"
  by (induction ws arbitrary: stk) (simp_all add: plain_elem_def)

section \<open>Paths stay below their root\<close>

lemma slash_not_in: "CHR ''/'' \<notin> set t \<Longrightarrow> w @ CHR ''/'' # s \<noteq> t"
  by auto

lemma join_char_dotdot:
  assumes "out \<noteq> []" and "\<forall>w \<in> set out. CHR ''/'' \<notin> set w"
  shows "join_char (CHR ''/'') out = ''..'' \<or> prefix ''../'' (join_char (CHR ''/'') out) \<longleftrightarrow> hd out = ''..''"
proof (cases out)
  case out: (Cons w ws)
  have w: "CHR ''/'' \<notin> set w" using assms(2) out by simp
  show ?thesis
  proof (cases ws)
    case Nil
    with w show ?thesis by (auto simp: out prefix_def)
  next
    case (Cons w' ws')
    have "prefix ''../'' (w @ CHR ''/'' # s) \<longleftrightarrow> w = ''..''" for s
    proof
      assume "prefix ''../'' (w @ CHR ''/'' # s)"
      with w show "w = ''..''" by (cases w rule: list.exhaust; cases "tl w"; cases "tl (tl w)") auto
    qed simp
    moreover have "w @ CHR ''/'' # s \<noteq> ''..''" for s
      by (rule slash_not_in) simp
    ultimately show ?thesis using Cons by (simp add: out)
  qed
qed (use assms in simp)

lemma join_char_dot:
  assumes "list_all plain_elem out" and "out \<noteq> []"
  shows "join_char (CHR ''/'') out \<noteq> ''.''"
proof (cases out)
  case out: (Cons w ws)
  show ?thesis
  proof (cases ws)
    case Nil
    with assms show ?thesis by (simp add: out plain_elem_def)
  next
    case (Cons w' ws')
    then show ?thesis using slash_not_in [of "''.''" w] by (simp add: out)
  qed
qed (use assms in simp)

lemma clean_relative:
  assumes "\<not> has_prefix v ''/''"
  shows "path_clean v \<noteq> ''.'' \<and> path_clean v \<noteq> ''..'' \<and> \<not> has_prefix (path_clean v) ''../'' \<longleftrightarrow>
    (\<exists>d. walk 0 (split_char (CHR ''/'') v) = Some d \<and> 0 < d)"
proof -
  let ?ws = "split_char (CHR ''/'') v" and ?out = "clean_elems False [] (split_char (CHR ''/'') v)"
  have clean: "path_clean v = (if ?out = [] then ''.'' else join_char (CHR ''/'') ?out)"
    using assms by (simp add: path_clean_def Let_def)
  have slash: "\<forall>w \<in> set ?out. CHR ''/'' \<notin> set w"
    using clean_elems_subset [of False "[]" ?ws] split_char_no_sep by fastforce
  show ?thesis
  proof (cases "walk 0 ?ws")
    case None
    then have "?out \<noteq> []" "hd ?out = ''..''" using clean_elems_walk [of "[]" ?ws] by simp_all
    then show ?thesis using None join_char_dotdot [OF _ slash] by (simp add: clean)
  next
    case (Some d)
    then have out: "list_all plain_elem ?out" "length ?out = d" using clean_elems_walk [of "[]" ?ws] by simp_all
    then have "?out \<noteq> [] \<longrightarrow> hd ?out \<noteq> ''..''" by (cases ?out) (auto simp: plain_elem_def)
    then show ?thesis
      using Some out join_char_dotdot [OF _ slash] join_char_dot [OF out(1)] by (auto simp: clean)
  qed
qed

lemma contains_str_single: "contains_str v [c] \<longleftrightarrow> c \<in> set v"
  by (induction v) auto

text \<open>C36. A workspace path is accepted exactly when it is trimmed, relative, free of backslashes and
  NUL bytes, and following it element by element from the workspace root never leaves the root
  and ends strictly below it.\<close>

theorem validRelativeWorkspacePath_iff:
  "validRelativeWorkspacePath v \<longleftrightarrow>
     v \<noteq> [] \<and> trim_space v = v \<and> \<not> has_prefix v ''/'' \<and> CHR 0x5C \<notin> set v \<and> CHR 0x00 \<notin> set v \<and>
     (\<exists>d. walk 0 (split_char (CHR ''/'') v) = Some d \<and> 0 < d)"
proof (cases "v \<noteq> [] \<and> trim_space v = v \<and> \<not> has_prefix v ''/''")
  case True
  then show ?thesis
    using clean_relative [of v]
    by (auto simp: validRelativeWorkspacePath_def Let_def contains_str_single ch_nul_def)
qed (auto simp: validRelativeWorkspacePath_def Let_def)

lemma join_char_part: "w \<in> set ws \<Longrightarrow> \<exists>a b. join_char c ws = a @ w @ b"
proof (induction c ws rule: join_char.induct)
  case (3 c w' x xs)
  show ?case
  proof (cases "w = w'")
    case True
    then show ?thesis by (intro exI [of _ "[]"] exI [of _ "c # join_char c (x # xs)"]) simp
  next
    case False
    with 3 obtain a b where "join_char c (x # xs) = a @ w @ b" by auto
    then show ?thesis by (intro exI [of _ "w' @ c # a"] exI [of _ b]) simp
  qed
next
  case (2 c w')
  then show ?case by (intro exI [of _ "[]"]) simp
qed simp

lemma contains_join_char: "w \<in> set ws \<Longrightarrow> contains_str (c # join_char c ws) w"
  unfolding contains_str_iff by (metis append_Cons join_char_part)

lemma path_clean_canonical:
  assumes "list_all plain_elem ws" and "\<forall>w \<in> set ws. CHR ''/'' \<notin> set w"
  shows "path_clean (CHR ''/'' # join_char (CHR ''/'') ws) = CHR ''/'' # join_char (CHR ''/'') ws"
proof (cases "ws = []")
  case False
  then have "split_char (CHR ''/'') (CHR ''/'' # join_char (CHR ''/'') ws) = [] # ws"
    using assms(2) by (simp add: split_join_char)
  then show ?thesis
    using clean_elems_plain [OF assms(1), of True "[]"] by (simp add: path_clean_def Let_def del: split_char.simps)
qed (simp add: path_clean_def)

text \<open>The container paths accepted are exactly the root and the canonical absolute paths: a slash
  before each element, no element empty or \<open>.\<close>, no two dots in a row, no NUL byte.\<close>

theorem validContainerAbsolutePath_iff:
  "validContainerAbsolutePath v \<longleftrightarrow>
     \<not> contains_str v ''..'' \<and> CHR 0x00 \<notin> set v \<and>
     (\<exists>ws. v = CHR ''/'' # join_char (CHR ''/'') ws \<and>
        (\<forall>w \<in> set ws. w \<noteq> [] \<and> w \<noteq> ''.'' \<and> CHR ''/'' \<notin> set w))"
proof
  assume v: "validContainerAbsolutePath v"
  then have pre: "has_prefix v ''/''" and clean: "path_clean v = v" and dots: "\<not> contains_str v ''..''"
    and nul: "CHR 0x00 \<notin> set v"
    by (simp_all add: validContainerAbsolutePath_def contains_str_single ch_nul_def)
  let ?ws = "split_char (CHR ''/'') v" and ?out = "clean_elems True [] (split_char (CHR ''/'') v)"
  have "v = CHR ''/'' # join_char (CHR ''/'') ?out" using pre clean by (simp add: path_clean_def Let_def)
  moreover have "\<forall>w \<in> set ?out. plain_elem w"
    using clean_elems_rooted [of "[]" ?ws] by (simp add: list_all_iff)
  moreover have "\<forall>w \<in> set ?out. CHR ''/'' \<notin> set w"
    using clean_elems_subset [of True "[]" ?ws] split_char_no_sep by fastforce
  ultimately show "\<not> contains_str v ''..'' \<and> CHR 0x00 \<notin> set v \<and>
     (\<exists>ws. v = CHR ''/'' # join_char (CHR ''/'') ws \<and>
        (\<forall>w \<in> set ws. w \<noteq> [] \<and> w \<noteq> ''.'' \<and> CHR ''/'' \<notin> set w))"
    using dots nul unfolding plain_elem_def by blast
next
  assume r: "\<not> contains_str v ''..'' \<and> CHR 0x00 \<notin> set v \<and>
     (\<exists>ws. v = CHR ''/'' # join_char (CHR ''/'') ws \<and>
        (\<forall>w \<in> set ws. w \<noteq> [] \<and> w \<noteq> ''.'' \<and> CHR ''/'' \<notin> set w))"
  then obtain ws where v: "v = CHR ''/'' # join_char (CHR ''/'') ws"
    and ws: "\<forall>w \<in> set ws. w \<noteq> [] \<and> w \<noteq> ''.'' \<and> CHR ''/'' \<notin> set w" by blast
  have "w \<noteq> ''..''" if "w \<in> set ws" for w using contains_join_char [OF that] r v by metis
  then have "path_clean v = v" unfolding v using ws by (intro path_clean_canonical) (auto simp: list_all_iff plain_elem_def)
  with r v show "validContainerAbsolutePath v"
    by (simp add: validContainerAbsolutePath_def contains_str_single ch_nul_def)
qed

end
