(* ===== verification/Contracts.thy ===== *)
theory Contracts
  imports RuntimeProfiles GoMime Paths
begin

text \<open>
  \<open>protocol/types.go\<close>, lines 4230 to 4735, 5725 to 5809 and 6602 to 6702: provider contracts,
  their operations and artifacts, the delivery of returned artifacts, and conformance evidence,
  whose application changes a contract in place.
\<close>

section \<open>Artifacts\<close>

record ProviderArtifactReturnSpec =
  pars_StepType :: string
  pars_Contract :: string
  pars_ContractVersion :: string
  pars_SubmitEndpoint :: string
  pars_RequiredConfig :: "string list"
  pars_OutputHandling :: "string list"

record ProviderArtifactSpec =
  pas_Name :: string
  pas_Required :: bool
  pas_ContentType :: string
  pas_MaxBytes :: int
  pas_RetentionSeconds :: int
  pas_Forwardable :: bool
  pas_ProviderReturn :: "ProviderArtifactReturnSpec option"

record ProviderOperation =
  po_ID :: string
  po_InputSchemaRef :: string
  po_InputSchemaDigest :: string
  po_OutputSchemaRef :: string
  po_OutputSchemaDigest :: string
  po_Artifacts :: "string list"
  po_ArtifactSpecs :: "ProviderArtifactSpec list"

definition ProviderArtifactReturnSpec_Enabled :: "ProviderArtifactReturnSpec \<Rightarrow> bool" where
  "ProviderArtifactReturnSpec_Enabled s =
     (pars_StepType s \<noteq> [] \<or> pars_Contract s \<noteq> [] \<or> pars_ContractVersion s \<noteq> [] \<or> pars_SubmitEndpoint s \<noteq> [] \<or> (pars_RequiredConfig s) \<noteq> [] \<or> (pars_OutputHandling s) \<noteq> [])"

definition ProviderArtifactReturnSpec_Validate :: "ProviderArtifactReturnSpec \<Rightarrow> error" where
  "ProviderArtifactReturnSpec_Validate s =
     join
     (reports (validateIdentifier ''step_type'' (pars_StepType s)) @
      (if trim_space (pars_Contract s) = [] then
         [New ''contract is required'']
       else (if trim_space (pars_Contract s) \<noteq> pars_Contract s \<or> contains_any (pars_Contract s) (ws_chars @ ch_nul) \<or> contains_str (pars_Contract s) ''://'' then
               [New ''contract must be a typed plugin contract without whitespace or URL scheme'']
             else fails (\<not> contains_str (pars_Contract s) '':'')
                    (New ''contract must include plugin and step type''))) @
      fails (pars_ContractVersion s \<noteq> [] \<and> contains_any (pars_ContractVersion s) (ws_chars @ ch_nul))
        (New ''contract_version must not contain whitespace'') @
      fails (pars_SubmitEndpoint s \<noteq> [] \<and> \<not> validProviderReturnSubmitEndpoint (pars_SubmitEndpoint s))
        (New ''submit_endpoint must be a server-relative path'') @
      each (\<lambda>i v.
         reports (validateIdentifier (at_index ''required_config'' i []) v)) (pars_RequiredConfig s) @
      each (\<lambda>i v.
         reports (validateIdentifier (at_index ''output_handling'' i []) v)) (pars_OutputHandling s))"

text \<open>\<open>legacyArtifacts\<close> is a set; \<open>len(legacyArtifacts) > 0\<close> says it is not empty.\<close>

definition validateProviderArtifactSpecs :: "string \<Rightarrow> ProviderArtifactSpec list \<Rightarrow> string list \<Rightarrow> err list" where
  "validateProviderArtifactSpecs field specs legacyArtifacts =
     each_seen 0
       (\<lambda>i dup spec.
          fails (\<not> validProviderArtifactName (pas_Name spec))
            (Errorf ''%s[%d].name %q is invalid'' [Str field, Num (int i), Str (pas_Name spec)]) @
          (if pas_Name spec \<noteq> [] then
             fails dup (Errorf ''%s[%d].name %q is duplicated'' [Str field, Num (int i), Str (pas_Name spec)]) @
             fails (legacyArtifacts \<noteq> [] \<and> pas_Name spec \<notin> set legacyArtifacts)
               (Errorf ''%s[%d].name %q must also appear in artifacts'' [Str field, Num (int i), Str (pas_Name spec)])
           else []) @
          (if pas_ContentType spec \<noteq> [] then
             (if trim_space (pas_ContentType spec) \<noteq> pas_ContentType spec \<or>
                 contains_any (pas_ContentType spec) (ch_nul @ ctl_chars)
              then [Errorf ''%s[%d].content_type is invalid'' [Str field, Num (int i)]]
              else fails (\<not> parse_media_type_ok (pas_ContentType spec))
                     (Errorf ''%s[%d].content_type is invalid'' [Str field, Num (int i)]))
           else []) @
          fails (pas_MaxBytes spec < 0) (Errorf ''%s[%d].max_bytes must not be negative'' [Str field, Num (int i)]) @
          fails (pas_RetentionSeconds spec < 0)
            (Errorf ''%s[%d].retention_seconds must not be negative'' [Str field, Num (int i)]) @
          (case pas_ProviderReturn spec of
             None \<Rightarrow> []
           | Some r \<Rightarrow> wraps ''%s[%d].provider_return: %w'' [Str field, Num (int i)] (ProviderArtifactReturnSpec_Validate r)))
       (\<lambda>spec. pas_Name spec \<noteq> []) pas_Name {} specs"

definition ValidateProviderArtifactSpecs :: "ProviderArtifactSpec list \<Rightarrow> error" where
  "ValidateProviderArtifactSpecs specs = join (validateProviderArtifactSpecs ''provider_artifact_specs'' specs [])"

definition ProviderOperation_Validate :: "ProviderOperation \<Rightarrow> error" where
  "ProviderOperation_Validate operation =
     join
     (reports (validateIdentifier ''id'' (po_ID operation)) @
      (if trim_space (po_InputSchemaRef operation) = [] then [New ''input_schema_ref is required'']
       else reports (validateScopedRef ''input_schema_ref'' (po_InputSchemaRef operation) ''schema://'')) @
      (if trim_space (po_OutputSchemaRef operation) = [] then [New ''output_schema_ref is required'']
       else reports (validateScopedRef ''output_schema_ref'' (po_OutputSchemaRef operation) ''schema://'')) @
      fails (\<not> validSHA256Ref (po_InputSchemaDigest operation)) (New ''input_schema_digest must be sha256:<64 hex chars>'') @
      fails (\<not> validSHA256Ref (po_OutputSchemaDigest operation)) (New ''output_schema_digest must be sha256:<64 hex chars>'') @
      each (\<lambda>i artifact.
        fails (\<not> validProviderArtifactName artifact) (Errorf ''artifacts[%d] %q is invalid'' [Num (int i), Str artifact]))
        (po_Artifacts operation) @
      validateProviderArtifactSpecs ''artifact_specs'' (po_ArtifactSpecs operation) (po_Artifacts operation))"

definition named_spec :: "string \<Rightarrow> ProviderArtifactSpec" where
  \<comment> \<open>\<open>ProviderArtifactSpec{Name: artifact}\<close>\<close>
  "named_spec artifact = \<lparr>pas_Name = artifact, pas_Required = False, pas_ContentType = [], pas_MaxBytes = 0,
     pas_RetentionSeconds = 0, pas_Forwardable = False, pas_ProviderReturn = None\<rparr>"

definition ProviderOperation_NormalizedArtifactSpecs :: "ProviderOperation \<Rightarrow> ProviderArtifactSpec list" where
  "ProviderOperation_NormalizedArtifactSpecs operation =
     (if po_ArtifactSpecs operation \<noteq> [] then po_ArtifactSpecs operation
      else if po_Artifacts operation = [] then [] else map named_spec (po_Artifacts operation))"

section \<open>Deliveries\<close>

definition validProviderArtifactDeliveryStatus :: "ProviderArtifactDeliveryStatus \<Rightarrow> bool" where
  "validProviderArtifactDeliveryStatus status \<longleftrightarrow> status \<in> set [ProviderArtifactDeliveryPending, ProviderArtifactDeliveryDelivered, ProviderArtifactDeliveryFailed, ProviderArtifactDeliveryDeadLetter]"

record ProviderArtifactDeliveryArtifact =
  pada_Name :: string
  pada_Ref :: string
  pada_ContentType :: string
  pada_SHA256 :: string
  pada_SizeBytes :: int
  pada_ExpiresAt :: time

record ProviderArtifactDelivery =
  pad_ProtocolVersion :: string
  pad_ID :: string
  pad_OrgID :: string
  pad_PoolID :: string
  pad_ProductID :: string
  pad_TaskID :: string
  pad_ProofID :: string
  pad_WorkerID :: string
  pad_ProviderConfig :: ProviderConfig
  pad_Operation :: string
  pad_ReturnSpec :: ProviderArtifactReturnSpec
  pad_Artifact :: ProviderArtifactDeliveryArtifact
  pad_Status :: ProviderArtifactDeliveryStatus
  pad_Attempts :: int
  pad_LastErrorHash :: string
  pad_CreatedAt :: time
  pad_UpdatedAt :: time

record ProviderArtifactDeliveryStatusUpdate =
  padsu_ProtocolVersion :: string
  padsu_DeliveryID :: string
  padsu_Status :: ProviderArtifactDeliveryStatus
  padsu_ProviderRef :: string
  padsu_ErrorHash :: string
  padsu_ObservedAt :: time

record ProviderArtifactDeliveryAction =
  padac_ProtocolVersion :: string
  padac_DeliveryID :: string
  padac_PluginID :: string
  padac_ProviderID :: string
  padac_ContractID :: string
  padac_ContractVersion :: string
  padac_StepType :: string
  padac_Operation :: string
  padac_SubmitEndpoint :: string
  padac_Artifact :: ProviderArtifactDeliveryArtifact
  padac_TaskID :: string
  padac_ProofID :: string

definition ProviderArtifactDeliveryArtifact_Validate :: "ProviderArtifactDeliveryArtifact \<Rightarrow> error" where
  "ProviderArtifactDeliveryArtifact_Validate a =
     join
     (fails (\<not> validProviderArtifactName (pada_Name a))
        (New ''artifact.name is invalid'') @
      (if trim_space (pada_Ref a) = [] then
         [New ''artifact.ref is required'']
       else reports (validateScopedRef ''artifact.ref'' (pada_Ref a) ''artifact://'')) @
      (if pada_ContentType a \<noteq> [] then
         (if trim_space (pada_ContentType a) \<noteq> pada_ContentType a \<or> contains_any (pada_ContentType a) ([CHR 0x00] @ [CHR 0x0D] @ [CHR 0x0A] @ [CHR 0x09]) then
            [New ''artifact.content_type is invalid'']
          else fails (\<not> parse_media_type_ok (pada_ContentType a))
                 (New ''artifact.content_type is invalid''))
       else []) @
      fails (\<not> validSHA256Ref (pada_SHA256 a))
        (New ''artifact.sha256 must be sha256:<64 hex chars>'') @
      fails (pada_SizeBytes a < 0)
        (New ''artifact.size_bytes must not be negative''))"

definition ProviderArtifactDelivery_Validate :: "ProviderArtifactDelivery \<Rightarrow> error" where
  "ProviderArtifactDelivery_Validate d =
     join
     (fails (pad_ProtocolVersion d \<noteq> [] \<and> pad_ProtocolVersion d \<noteq> Version)
        (Errorf ''protocol_version must be %q'' [Str Version]) @
      reports (validateIdentifier ''id'' (pad_ID d)) @
      reports (validateIdentifier ''org_id'' (pad_OrgID d)) @
      reports (validateIdentifier ''pool_id'' (pad_PoolID d)) @
      reports (validateIdentifier ''task_id'' (pad_TaskID d)) @
      reports (validateIdentifier ''proof_id'' (pad_ProofID d)) @
      reports (validateIdentifier ''worker_id'' (pad_WorkerID d)) @
      reports (validateIdentifier ''operation'' (pad_Operation d)) @
      (if pad_ProductID d \<noteq> [] then
         reports (validateIdentifier ''product_id'' (pad_ProductID d))
       else []) @
      wraps ''provider_config: %w'' [] (ProviderConfig_Validate (pad_ProviderConfig d)) @
      wraps ''provider_return: %w'' [] (ProviderArtifactReturnSpec_Validate (pad_ReturnSpec d)) @
      reports (ProviderArtifactDeliveryArtifact_Validate (pad_Artifact d)) @
      fails (\<not> validProviderArtifactDeliveryStatus (pad_Status d))
        (Errorf ''status %q is unsupported'' [Str (pad_Status d)]) @
      fails (pad_Attempts d < 0)
        (New ''attempts must not be negative'') @
      fails (pad_LastErrorHash d \<noteq> [] \<and> \<not> validSHA256Ref (pad_LastErrorHash d))
        (New ''last_error_hash must be sha256:<64 hex chars>'') @
      fails (pad_CreatedAt d = 0)
        (New ''created_at is required'') @
      fails (pad_UpdatedAt d = 0)
        (New ''updated_at is required''))"

section \<open>Contracts\<close>

record ProviderContract =
  prco_ProtocolVersion :: string
  prco_ID :: string
  prco_PluginID :: string
  prco_ProviderID :: string
  prco_ContractID :: string
  prco_Version :: string
  prco_DisplayName :: string
  prco_OrgID :: string
  prco_PoolID :: string
  prco_AccessPolicy :: AccessPolicy
  prco_ConfigSchemaRef :: string
  prco_ConfigSchemaDigest :: string
  prco_OperatingModes :: "NetworkOperatingMode list"
  prco_WorkloadKinds :: "string list"
  prco_ExecutorProviders :: "string list"
  prco_ExecutionSecurityTiers :: "ExecutionSecurityTier list"
  prco_ProofTiers :: "ProofTier list"
  prco_NetworkModes :: "NetworkMode list"
  prco_Operations :: "ProviderOperation list"
  prco_RuntimeContract :: ProviderRuntimeContract
  prco_CreatedAt :: time

text \<open>\<open>ProviderContract.Validate\<close> in two steps: the terms of the contract, then its runtime part.\<close>

definition contract_terms_errs :: "ProviderContract \<Rightarrow> err list" where
  "contract_terms_errs c =
     (fails (prco_ProtocolVersion c \<noteq> Version)
        (Errorf ''protocol_version must be %q'' [Str Version]) @
      reports (validateIdentifier ''id'' (prco_ID c)) @
      reports (validateIdentifier ''plugin_id'' (prco_PluginID c)) @
      reports (validateIdentifier ''provider_id'' (prco_ProviderID c)) @
      reports (validateIdentifier ''contract_id'' (prco_ContractID c)) @
      (if prco_OrgID c \<noteq> [] then
         reports (validateIdentifier ''org_id'' (prco_OrgID c))
       else []) @
      (if prco_PoolID c \<noteq> [] then
         fails (prco_OrgID c = [])
           (New ''org_id is required when pool_id is set'') @
         reports (validateIdentifier ''pool_id'' (prco_PoolID c))
       else []) @
      wraps ''access_policy: %w'' [] (AccessPolicy_Validate (prco_AccessPolicy c)) @
      (if trim_space (prco_Version c) = [] then
         [New ''version is required'']
       else fails (contains_any (prco_Version c) (ws_chars @ ch_nul))
              (New ''version must not contain whitespace'')) @
      (if trim_space (prco_ConfigSchemaRef c) = [] then
         [New ''config_schema_ref is required'']
       else reports (validateScopedRef ''config_schema_ref'' (prco_ConfigSchemaRef c) ''schema://'')) @
      (if prco_ConfigSchemaDigest c = [] then
         [New ''config_schema_digest is required'']
       else fails (\<not> validSHA256Ref (prco_ConfigSchemaDigest c))
              (New ''config_schema_digest must be sha256:<64 hex chars>'')) @
      fails ((prco_OperatingModes c) = [])
        (New ''operating_modes is required'') @
      each (\<lambda>i mode.
         fails (\<not> validNetworkOperatingMode mode)
           (Errorf ''operating_modes[%d] %q is unsupported'' [Num (int i), Str mode])) (prco_OperatingModes c) @
      fails ((prco_WorkloadKinds c) = [])
        (New ''workload_kinds is required'') @
      each (\<lambda>i kind.
         fails (\<not> validWorkloadKind (trim_space kind))
           (Errorf ''workload_kinds[%d] %q is unknown'' [Num (int i), Str kind])) (prco_WorkloadKinds c) @
      fails ((prco_ExecutorProviders c) = [])
        (New ''executor_providers is required'') @
      each (\<lambda>i provider.
         reports (validateIdentifier (at_index ''executor_providers'' i []) provider)) (prco_ExecutorProviders c) @
      fails ((prco_ExecutionSecurityTiers c) = [])
        (New ''execution_security_tiers is required'') @
      each (\<lambda>i tier.
         fails (\<not> validExecutionSecurityTier tier \<or> tier = ExecutionTrustedNative)
           (Errorf ''execution_security_tiers[%d] %q is unsupported'' [Num (int i), Str tier])) (prco_ExecutionSecurityTiers c) @
      fails ((prco_ProofTiers c) = [])
        (New ''proof_tiers is required'') @
      each (\<lambda>i tier.
         fails (\<not> validProofTier tier \<or> tier = ProofReceiptOnly)
           (Errorf ''proof_tiers[%d] %q is unsupported'' [Num (int i), Str tier])) (prco_ProofTiers c) @
      fails ((prco_NetworkModes c) = [])
        (New ''network_modes is required'') @
      each (\<lambda>i mode.
         fails (\<not> validNetworkMode (normalizeNetworkMode mode))
           (Errorf ''network_modes[%d] %q is unsupported'' [Num (int i), Str mode])) (prco_NetworkModes c) @
      fails (WorkloadProvider \<in> set (prco_WorkloadKinds c) \<and> (prco_Operations c) = [])
        (New ''operations is required for provider workload contracts'') @
      each_seen 0
        (\<lambda>i dup operation.
           wraps ''operations[%d]: %w'' [Num (int i)] (ProviderOperation_Validate operation) @
           fails dup (Errorf ''operations[%d].id %q is duplicated'' [Num (int i), Str (po_ID operation)]))
        (\<lambda>operation. po_ID operation \<noteq> []) po_ID {} (prco_Operations c))"

definition ProviderContract_Validate :: "(string \<Rightarrow> string) \<Rightarrow> ProviderContract \<Rightarrow> error" where
  "ProviderContract_Validate upper c =
     join
     (contract_terms_errs c @
      reports (ProviderRuntimeContract_Validate upper (prco_RuntimeContract c)) @
      (if ProviderPluginRequiresUpstreamClientConformance (prco_PluginID c) then
         each (\<lambda>i profile.
            fails (prp_UpstreamClientConformance profile = [])
              (Errorf ''runtime_contract.profiles[%d].upstream_client_conformance is required for plugin %q'' [Num (int i), Str (prco_PluginID c)])) (prruco_Profiles (prco_RuntimeContract c))
       else []))"

definition ProviderContract_SupportsProduct :: "ProviderContract \<Rightarrow> NetworkProduct \<Rightarrow> error" where
  "ProviderContract_SupportsProduct c product =
     (if prco_PluginID c \<noteq> pc_PluginID (nepr_ProviderConfig product) \<or>
         prco_ProviderID c \<noteq> pc_ProviderID (nepr_ProviderConfig product) \<or>
         prco_ContractID c \<noteq> pc_ContractID (nepr_ProviderConfig product)
      then Some (New ''product provider config does not match contract'')
      else if pc_Version (nepr_ProviderConfig product) \<noteq> [] \<and> prco_Version c \<noteq> pc_Version (nepr_ProviderConfig product)
      then Some (Errorf ''product provider config version %q does not match contract version %q''
        [Str (pc_Version (nepr_ProviderConfig product)), Str (prco_Version c)])
      else if nepr_OperatingMode product \<notin> set (prco_OperatingModes c)
      then Some (Errorf ''operating mode %q is unsupported'' [Str (nepr_OperatingMode product)])
      else (case find (\<lambda>kind. kind \<notin> set (prco_WorkloadKinds c)) (nepr_WorkloadKinds product) of
        Some kind \<Rightarrow> Some (Errorf ''workload kind %q is unsupported'' [Str kind])
      | None \<Rightarrow>
          if pr_ExecutorProvider (nepr_SecurityFloor product) \<notin> set (prco_ExecutorProviders c)
          then Some (Errorf ''executor provider %q is unsupported'' [Str (pr_ExecutorProvider (nepr_SecurityFloor product))])
          else if pr_ExecutionSecurityTier (nepr_SecurityFloor product) \<notin> set (prco_ExecutionSecurityTiers c)
          then Some (Errorf ''execution security tier %q is unsupported''
            [Str (pr_ExecutionSecurityTier (nepr_SecurityFloor product))])
          else if pr_ProofTier (nepr_SecurityFloor product) \<notin> set (prco_ProofTiers c)
          then Some (Errorf ''proof tier %q is unsupported'' [Str (pr_ProofTier (nepr_SecurityFloor product))])
          else (case find (\<lambda>mode. normalizeNetworkMode mode \<notin> set (prco_NetworkModes c)) (nepr_NetworkModes product) of
            Some mode \<Rightarrow> Some (Errorf ''network mode %q is unsupported'' [Str mode])
          | None \<Rightarrow>
              if \<not> ProviderRuntimeContract_SupportsProduct (prco_RuntimeContract c) product
              then Some (Errorf ''runtime profile for executor provider %q is unsupported''
                [Str (pr_ExecutorProvider (nepr_SecurityFloor product))])
              else None)))"

definition ProviderContract_Matches :: "ProviderContract \<Rightarrow> ProviderConfig \<Rightarrow> bool" where
  "ProviderContract_Matches c config =
     (prco_PluginID c = pc_PluginID config \<and> prco_ProviderID c = pc_ProviderID config \<and> prco_ContractID c = pc_ContractID config \<and> prco_Version c = pc_Version config)"

definition ProviderContract_SupportsOperation :: "ProviderContract \<Rightarrow> string \<Rightarrow> bool" where
  "ProviderContract_SupportsOperation c operation \<longleftrightarrow>
     (let operation = trim_space operation in list_ex (\<lambda>candidate. po_ID candidate = operation) (prco_Operations c))"

section \<open>Conformance evidence\<close>

record ProviderConformanceEvidence =
  pce_ProtocolVersion :: string
  pce_ID :: string
  pce_PluginID :: string
  pce_ProviderID :: string
  pce_ContractID :: string
  pce_Version :: string
  pce_RuntimeProfileID :: string
  pce_ConformanceProfile :: string
  pce_UpstreamClientName :: string
  pce_UpstreamClientVersion :: string
  pce_EvidenceRef :: string
  pce_EvidenceDigest :: string
  pce_ObservedAt :: time
  pce_CreatedAt :: time

definition ProviderConformanceEvidence_Validate :: "ProviderConformanceEvidence \<Rightarrow> error" where
  "ProviderConformanceEvidence_Validate e =
     join
     (fails (pce_ProtocolVersion e \<noteq> Version)
        (Errorf ''protocol_version must be %q'' [Str Version]) @
      reports (validateIdentifier ''id'' (pce_ID e)) @
      reports (validateIdentifier ''plugin_id'' (pce_PluginID e)) @
      reports (validateIdentifier ''provider_id'' (pce_ProviderID e)) @
      reports (validateIdentifier ''contract_id'' (pce_ContractID e)) @
      reports (validateIdentifier ''runtime_profile_id'' (pce_RuntimeProfileID e)) @
      reports (validateIdentifier ''conformance_profile'' (pce_ConformanceProfile e)) @
      fails (trim_space (pce_Version e) = [] \<or> contains_any (pce_Version e) (ctl_chars @ ch_nul))
        (New ''version is required'') @
      fails (trim_space (pce_UpstreamClientName e) = [])
        (New ''upstream_client_name is required'') @
      fails (trim_space (pce_UpstreamClientVersion e) = [])
        (New ''upstream_client_version is required'') @
      reports (validateScopedRef ''evidence_ref'' (pce_EvidenceRef e) ''artifact://'') @
      fails (\<not> validSHA256Ref (pce_EvidenceDigest e))
        (New ''evidence_digest must be sha256:<64 hex chars>'') @
      fails (pce_ObservedAt e = 0)
        (New ''observed_at is required''))"

definition apply_to_profile :: "ProviderConformanceEvidence \<Rightarrow> ProviderRuntimeProfile \<Rightarrow> ProviderRuntimeProfile" where
  \<comment> \<open>the assignments to \<open>Profiles[i]\<close>\<close>
  "apply_to_profile evidence profile =
     (let profile = profile\<lparr>prp_UpstreamClientConformance := UpstreamClientConformanceRealClient,
            prp_UpstreamClientEvidenceRef := pce_EvidenceRef evidence,
            prp_UpstreamClientEvidenceDigest := pce_EvidenceDigest evidence\<rparr>
      in if pce_ConformanceProfile evidence \<notin> set (prp_ConformanceProfiles profile)
         then profile\<lparr>prp_ConformanceProfiles := prp_ConformanceProfiles profile @ [pce_ConformanceProfile evidence]\<rparr>
         else profile)"

fun update_first :: "('a \<Rightarrow> bool) \<Rightarrow> ('a \<Rightarrow> 'a) \<Rightarrow> 'a list \<Rightarrow> 'a list option" where
  \<comment> \<open>\<open>for i := range xs { if !P(xs[i]) { continue }; xs[i] = f(xs[i]); return nil }\<close>: \<open>None\<close> when the
    loop runs to its end\<close>
  "update_first P f [] = None"
| "update_first P f (x # xs) = (if P x then Some (f x # xs) else map_option ((#) x) (update_first P f xs))"

text \<open>
  The receiver is a pointer, \<open>None\<close> for \<open>nil\<close>; the result is what it points to afterwards, with the
  error returned.
\<close>

definition ApplyProviderConformanceEvidence ::
  "ProviderContract option \<Rightarrow> ProviderConformanceEvidence \<Rightarrow> ProviderContract option \<times> error" where
  "ApplyProviderConformanceEvidence receiver evidence =
     (case receiver of
        None \<Rightarrow> (None, Some (New ''provider contract is nil''))
      | Some c \<Rightarrow>
          (case ProviderConformanceEvidence_Validate evidence of
             Some err \<Rightarrow> (Some c, Some err)
           | None \<Rightarrow>
               if pce_PluginID evidence \<noteq> prco_PluginID c \<or> pce_ProviderID evidence \<noteq> prco_ProviderID c \<or>
                  pce_ContractID evidence \<noteq> prco_ContractID c \<or> pce_Version evidence \<noteq> prco_Version c
               then (Some c, Some (Errorf ''provider conformance evidence %q does not match provider contract tuple'' [Str (pce_ID evidence)]))
               else (case update_first (\<lambda>p. prp_ID p = pce_RuntimeProfileID evidence) (apply_to_profile evidence)
                       (prruco_Profiles (prco_RuntimeContract c)) of
                       Some profiles \<Rightarrow> (Some (c\<lparr>prco_RuntimeContract := (prco_RuntimeContract c)\<lparr>prruco_Profiles := profiles\<rparr>\<rparr>), None)
                     | None \<Rightarrow> (Some c, Some (Errorf ''provider conformance evidence %q runtime profile %q does not match provider contract''
                         [Str (pce_ID evidence), Str (pce_RuntimeProfileID evidence)])))))"

record ProviderUpstreamImagePolicy =
  puip_DigestPinnedImageRequired :: bool
  puip_OperatorSuppliedImageRequired :: bool
  puip_RecommendedImageRef :: string
  puip_KnownImageRefs :: "string list"

record ProviderUpstreamClientRequirement =
  pucr_ProtocolVersion :: string
  pucr_PluginID :: string
  pucr_ProviderID :: string
  pucr_ContractID :: string
  pucr_Version :: string
  pucr_RuntimeProfileID :: string
  pucr_ConformanceProfile :: string
  pucr_DefaultConformance :: UpstreamClientConformance
  pucr_RealClientConformance :: UpstreamClientConformance
  pucr_UpstreamClientName :: string
  pucr_VersionProbeCommand :: "string list"
  pucr_ImagePolicy :: ProviderUpstreamImagePolicy
  pucr_RequiredEvidence :: "string list"
  pucr_Notes :: "string list"

definition ProviderUpstreamImagePolicy_Validate :: "ProviderUpstreamImagePolicy \<Rightarrow> error" where
  "ProviderUpstreamImagePolicy_Validate p =
     join
     (fails (\<not> puip_DigestPinnedImageRequired p)
        (New ''digest_pinned_image_required must be true'') @
      fails (\<not> puip_OperatorSuppliedImageRequired p \<and> trim_space (puip_RecommendedImageRef p) = [])
        (New ''recommended_image_ref is required unless operator_supplied_image_required is true'') @
      fails (puip_RecommendedImageRef p \<noteq> [] \<and> (trim_space (puip_RecommendedImageRef p) = [] \<or> contains_any (puip_RecommendedImageRef p) (ctl_chars @ ch_nul)))
        (New ''recommended_image_ref is invalid'') @
      each (\<lambda>i ref.
         fails (trim_space ref = [] \<or> contains_any ref (ctl_chars @ ch_nul))
           (Errorf ''known_image_refs[%d] is required'' [Num (int i)])) (puip_KnownImageRefs p))"

definition ProviderUpstreamClientRequirement_Validate :: "ProviderUpstreamClientRequirement \<Rightarrow> error" where
  "ProviderUpstreamClientRequirement_Validate r =
     join
     (fails (trim_space (pucr_ProtocolVersion r) = [])
        (Errorf ''%s is required'' [Str ''protocol_version'']) @
      fails (trim_space (pucr_PluginID r) = [])
        (Errorf ''%s is required'' [Str ''plugin_id'']) @
      fails (trim_space (pucr_ProviderID r) = [])
        (Errorf ''%s is required'' [Str ''provider_id'']) @
      fails (trim_space (pucr_ContractID r) = [])
        (Errorf ''%s is required'' [Str ''contract_id'']) @
      fails (trim_space (pucr_Version r) = [])
        (Errorf ''%s is required'' [Str ''version'']) @
      fails (trim_space (pucr_RuntimeProfileID r) = [])
        (Errorf ''%s is required'' [Str ''runtime_profile_id'']) @
      fails (trim_space (pucr_ConformanceProfile r) = [])
        (Errorf ''%s is required'' [Str ''conformance_profile'']) @
      fails (trim_space (pucr_UpstreamClientName r) = [])
        (Errorf ''%s is required'' [Str ''upstream_client_name'']) @
      fails (trim_space (pucr_Version r) \<noteq> pucr_Version r \<or> contains_any (pucr_Version r) (ctl_chars @ ch_nul))
        (New ''version is required'') @
      fails (trim_space (pucr_UpstreamClientName r) \<noteq> pucr_UpstreamClientName r \<or> contains_any (pucr_UpstreamClientName r) (ctl_chars @ ch_nul))
        (New ''upstream_client_name is required'') @
      fails (pucr_ProtocolVersion r \<noteq> Version)
        (Errorf ''protocol_version must be %q'' [Str Version]) @
      fails (pucr_DefaultConformance r \<noteq> UpstreamClientConformanceShapeOnly)
        (New ''default_conformance must be shape-only'') @
      fails (pucr_RealClientConformance r \<noteq> UpstreamClientConformanceRealClient)
        (New ''real_client_conformance must be real-client'') @
      fails (pucr_ConformanceProfile r \<noteq> ''upstream-client-v1'')
        (New ''conformance_profile must be upstream-client-v1'') @
      reports (ProviderUpstreamImagePolicy_Validate (pucr_ImagePolicy r)) @
      each (\<lambda>i v.
         fails (trim_space v = [] \<or> contains_any v (ctl_chars @ ch_nul))
           (Errorf ''version_probe_command[%d] is required'' [Num (int i)])) (pucr_VersionProbeCommand r) @
      each (\<lambda>i v.
         fails (trim_space v = [] \<or> contains_any v (ctl_chars @ ch_nul))
           (Errorf ''required_evidence[%d] is required'' [Num (int i)])) (pucr_RequiredEvidence r) @
      each (\<lambda>i v.
         fails (trim_space v = [] \<or> contains_any v (ctl_chars @ ch_nul))
           (Errorf ''notes[%d] is required'' [Num (int i)])) (pucr_Notes r))"

section \<open>Which products a contract supports\<close>

lemma find_case_None: "(case find Q xs of Some x \<Rightarrow> Some (e x) | None \<Rightarrow> v) = None \<longleftrightarrow> (\<forall>x \<in> set xs. \<not> Q x) \<and> v = None"
  by (induction xs) auto

definition config_matches :: "ProviderContract \<Rightarrow> ProviderConfig \<Rightarrow> bool" where
  "config_matches c config \<longleftrightarrow>
     prco_PluginID c = pc_PluginID config \<and> prco_ProviderID c = pc_ProviderID config \<and>
     prco_ContractID c = pc_ContractID config \<and> (pc_Version config = [] \<or> prco_Version c = pc_Version config)"

lemma SupportsProduct_iff:
  "ProviderContract_SupportsProduct c product = None \<longleftrightarrow>
     config_matches c (nepr_ProviderConfig product) \<and>
     nepr_OperatingMode product \<in> set (prco_OperatingModes c) \<and>
     set (nepr_WorkloadKinds product) \<subseteq> set (prco_WorkloadKinds c) \<and>
     pr_ExecutorProvider (nepr_SecurityFloor product) \<in> set (prco_ExecutorProviders c) \<and>
     pr_ExecutionSecurityTier (nepr_SecurityFloor product) \<in> set (prco_ExecutionSecurityTiers c) \<and>
     pr_ProofTier (nepr_SecurityFloor product) \<in> set (prco_ProofTiers c) \<and>
     normalizeNetworkMode ` set (nepr_NetworkModes product) \<subseteq> set (prco_NetworkModes c) \<and>
     ProviderRuntimeContract_SupportsProduct (prco_RuntimeContract c) product"
  unfolding ProviderContract_SupportsProduct_def find_case_None config_matches_def
  by (auto simp: find_case_None)

lemma contract_accepted:
  assumes "ProviderContract_Validate upper c = None"
  shows contract_runtime: "ProviderRuntimeContract_Validate upper (prco_RuntimeContract c) = None"
    and contract_conformance: "ProviderPluginRequiresUpstreamClientConformance (prco_PluginID c) \<Longrightarrow>
      \<forall>p \<in> set (prruco_Profiles (prco_RuntimeContract c)). prp_UpstreamClientConformance p \<noteq> []"
    and contract_operations: "\<forall>op \<in> set (prco_Operations c). ProviderOperation_Validate op = None"
proof -
  have each: "\<forall>op \<in> set (prco_Operations c). ProviderOperation_Validate op = None"
    if "each_seen 0
        (\<lambda>i dup operation.
           wraps ''operations[%d]: %w'' [Num (int i)] (ProviderOperation_Validate operation) @
           fails dup (Errorf ''operations[%d].id %q is duplicated'' [Num (int i), Str (po_ID operation)]))
        (\<lambda>operation. po_ID operation \<noteq> []) po_ID {} (prco_Operations c) = []"
    using that by (subst (asm) each_seen_Nil [where Q = "\<lambda>i op. ProviderOperation_Validate op = None"]) auto
  show "\<forall>p \<in> set (prruco_Profiles (prco_RuntimeContract c)). prp_UpstreamClientConformance p \<noteq> []"
    if "ProviderPluginRequiresUpstreamClientConformance (prco_PluginID c)"
    using assms that by (simp add: ProviderContract_Validate_def)
  show "ProviderRuntimeContract_Validate upper (prco_RuntimeContract c) = None"
    using assms by (simp add: ProviderContract_Validate_def)
  have "contract_terms_errs c = []" using assms by (simp add: ProviderContract_Validate_def)
  then show "\<forall>op \<in> set (prco_Operations c). ProviderOperation_Validate op = None"
    unfolding contract_terms_errs_def append_is_Nil_conv using each by blast
qed

text \<open>C16. A product an accepted contract supports runs under a profile for its security floor, of exactly that executor,
  tier and proof tier, never the weakest. The profile forbids privileged mode, host namespaces, the host socket and the
  disabling of seccomp and of no-new-privileges; its writable paths are absolute, clean and without parent
  directories; a WASM profile has no container tools, mounts, writable paths or host workspace and pins its
  component, any other pins image and root file system. Added capabilities and a writable root file system are
  left to it: any capabilities in upper case, without white space, and any known permission for the root leave
  the profile a valid one.\<close>

theorem supported_product_profile:
  assumes "ProviderContract_Validate upper c = None" and "ProviderContract_SupportsProduct c product = None"
  shows "\<exists>p. ProviderRuntimeContract_RuntimeProfileForRequirements (prco_RuntimeContract c) (nepr_SecurityFloor product) = Some p \<and>
    prp_ExecutorProvider p = pr_ExecutorProvider (nepr_SecurityFloor product) \<and>
    prp_ExecutionSecurityTier p = pr_ExecutionSecurityTier (nepr_SecurityFloor product) \<and>
    prp_ProofTier p = pr_ProofTier (nepr_SecurityFloor product) \<and>
    prp_ExecutionSecurityTier p \<noteq> ExecutionTrustedNative \<and> prp_ProofTier p \<noteq> ProofReceiptOnly \<and>
    prp_Privileged p = RuntimePermissionForbidden \<and> prp_HostNamespaces p = RuntimePermissionForbidden \<and>
    prp_HostSocket p = RuntimePermissionForbidden \<and> prp_SeccompDisable p = RuntimePermissionForbidden \<and>
    prp_NoNewPrivilegesDisable p = RuntimePermissionForbidden \<and>
    (\<forall>path \<in> set (prp_WritablePaths p). \<not> contains_str path ''..'' \<and>
       (\<exists>ws. path = CHR ''/'' # join_char (CHR ''/'') ws \<and> (\<forall>w \<in> set ws. w \<noteq> [] \<and> w \<noteq> ''.'' \<and> CHR ''/'' \<notin> set w))) \<and>
    (if prp_ExecutionSecurityTier p = ExecutionWASMCapability
     then prp_AllowedRuntimeTools p = [] \<and> prp_AllowedMountRefs p = [] \<and> prp_WritablePaths p = [] \<and>
       \<not> prp_HostWorkspaceSupported p \<and> validSHA256Ref (wasmrc_ComponentDigest (prp_WASM p))
     else prp_ImageDigestRequired p \<and> prp_RootFSDigestRequired p) \<and>
    (\<forall>caps root. (\<forall>cap \<in> set caps. cap \<noteq> [] \<and> upper cap = cap \<and> \<not> contains_any cap (ws_chars @ ch_nul)) \<and> validRuntimePermission root \<longrightarrow>
       ProviderRuntimeProfile_Validate upper (p\<lparr>prp_AllowedCapabilities := caps, prp_WritableRootFS := root\<rparr>) = None)"
proof -
  from assms(2) have "ProviderRuntimeContract_SupportsProduct (prco_RuntimeContract c) product" by (simp add: SupportsProduct_iff)
  then obtain p where p: "ProviderRuntimeContract_RuntimeProfileForRequirements (prco_RuntimeContract c) (nepr_SecurityFloor product) = Some p"
    by (auto simp: ProviderRuntimeContract_SupportsProduct_def)
  then have mem: "p \<in> set (prruco_Profiles (prco_RuntimeContract c))"
    and match: "prp_ExecutorProvider p = pr_ExecutorProvider (nepr_SecurityFloor product)"
      "prp_ExecutionSecurityTier p = pr_ExecutionSecurityTier (nepr_SecurityFloor product)"
      "prp_ProofTier p = pr_ProofTier (nepr_SecurityFloor product)"
    by (auto simp: ProviderRuntimeContract_RuntimeProfileForRequirements_def find_Some_iff)
  from contract_runtime [OF assms(1)] mem have core: "profile_core upper p" and conf: "conformance_ok p"
    by (simp_all add: ProviderRuntimeContract_Validate_iff)
  have tiers: "prp_ExecutionSecurityTier p \<noteq> ExecutionTrustedNative" "prp_ProofTier p \<noteq> ProofReceiptOnly"
    using core by (simp_all add: profile_core_def contract_tier_def contract_proof_def)
  have flags: "prp_Privileged p = RuntimePermissionForbidden" "prp_HostNamespaces p = RuntimePermissionForbidden"
    "prp_HostSocket p = RuntimePermissionForbidden" "prp_SeccompDisable p = RuntimePermissionForbidden"
    "prp_NoNewPrivilegesDisable p = RuntimePermissionForbidden"
    using core by (simp_all add: profile_core_def privileges_forbidden_def)
  have paths: "\<forall>path \<in> set (prp_WritablePaths p). validContainerAbsolutePath path"
    using core unfolding profile_core_def by blast
  have settings: "if prp_ExecutionSecurityTier p = ExecutionWASMCapability
     then prp_AllowedRuntimeTools p = [] \<and> prp_AllowedMountRefs p = [] \<and> prp_WritablePaths p = [] \<and>
       \<not> prp_HostWorkspaceSupported p \<and> validSHA256Ref (wasmrc_ComponentDigest (prp_WASM p))
     else prp_ImageDigestRequired p \<and> prp_RootFSDigestRequired p"
    using core by (auto simp: profile_core_def wasm_settings_def container_settings_def WASMRuntimeContract_Validate_def split: if_splits)
  have free: "ProviderRuntimeProfile_Validate upper (p\<lparr>prp_AllowedCapabilities := caps, prp_WritableRootFS := root\<rparr>) = None"
    if "\<forall>cap \<in> set caps. cap \<noteq> [] \<and> upper cap = cap \<and> \<not> contains_any cap (ws_chars @ ch_nul)" "validRuntimePermission root" for caps root
    using core conf that by (intro profile_free_fields) (simp_all add: ProviderRuntimeProfile_Validate_iff capability_name_def)
  show ?thesis
    using p match tiers flags paths settings free unfolding validContainerAbsolutePath_iff by (intro exI [of _ p] conjI) (assumption | blast)+
qed

lemma normalize_idem [simp]: "normalizeNetworkMode (normalizeNetworkMode m) = normalizeNetworkMode m"
proof -
  have "trim_space NetworkModeDirect = NetworkModeDirect" by code_simp
  moreover have "NetworkModeDirect \<noteq> []" by (simp add: enum)
  ultimately show ?thesis by (simp add: normalizeNetworkMode_def Let_def)
qed

text \<open>A network mode a contract does not spell in normal form is dead: validation accepts it after trimming and
  defaulting, but only the product's modes are normalised for the comparison, so dropping every such
  mode from the contract changes no answer.\<close>

theorem unnormalised_modes_are_dead:
  "ProviderContract_SupportsProduct (c\<lparr>prco_NetworkModes := filter (\<lambda>m. normalizeNetworkMode m = m) (prco_NetworkModes c)\<rparr>) product =
   ProviderContract_SupportsProduct c product"
proof -
  have "find (\<lambda>mode. normalizeNetworkMode mode \<notin> set (filter (\<lambda>m. normalizeNetworkMode m = m) (prco_NetworkModes c))) modes =
      find (\<lambda>mode. normalizeNetworkMode mode \<notin> set (prco_NetworkModes c)) modes" for modes
    by (rule find_cong) simp_all
  then show ?thesis by (simp add: ProviderContract_SupportsProduct_def cong: option.case_cong)
qed

section \<open>Applying conformance evidence\<close>

lemma update_first_Some:
  "update_first P f xs = Some ys \<Longrightarrow> \<exists>us x vs. xs = us @ x # vs \<and> (\<forall>u \<in> set us. \<not> P u) \<and> P x \<and> ys = us @ f x # vs"
proof (induction xs arbitrary: ys)
  case (Cons x xs)
  show ?case
  proof (cases "P x")
    case True
    with Cons.prems show ?thesis by (intro exI [of _ "[]"]) auto
  next
    case False
    with Cons.prems obtain zs where "update_first P f xs = Some zs" "ys = x # zs" by auto
    with Cons.IH [of zs] obtain us y vs where "xs = us @ y # vs" "\<forall>u \<in> set us. \<not> P u" "P y" "ys = x # us @ f y # vs" by auto
    with False show ?thesis by (intro exI [of _ "x # us"] exI [of _ y] exI [of _ vs]) auto
  qed
qed simp

lemma update_first_None: "update_first P f xs = None \<longleftrightarrow> (\<forall>x \<in> set xs. \<not> P x)"
  by (induction xs) auto

lemma validateScopedRef_name: "validateScopedRef name v scheme = None \<longleftrightarrow> validateScopedRef name' v scheme = None"
  by (simp add: validateScopedRef_def)

lemma apply_to_profile_simps [simp]:
  "prp_ID (apply_to_profile e p) = prp_ID p" "prp_UpstreamClientConformance (apply_to_profile e p) = UpstreamClientConformanceRealClient"
  "prp_UpstreamClientEvidenceRef (apply_to_profile e p) = pce_EvidenceRef e"
  "prp_UpstreamClientEvidenceDigest (apply_to_profile e p) = pce_EvidenceDigest e"
  "set (prp_ConformanceProfiles (apply_to_profile e p)) = insert (pce_ConformanceProfile e) (set (prp_ConformanceProfiles p))"
  by (auto simp: apply_to_profile_def Let_def)

lemma evidence_accepted:
  assumes "ProviderConformanceEvidence_Validate e = None"
  shows "validateScopedRef n (pce_EvidenceRef e) ''artifact://'' = None" "validSHA256Ref (pce_EvidenceDigest e)"
    "plain_id (pce_ConformanceProfile e)" "pce_ObservedAt e \<noteq> 0"
  using assms validateScopedRef_name [of "''evidence_ref''" "pce_EvidenceRef e" "''artifact://''" n]
  by (simp_all add: ProviderConformanceEvidence_Validate_def)

definition erase_conformance :: "ProviderRuntimeProfile \<Rightarrow> ProviderRuntimeProfile" where
  \<comment> \<open>a profile up to the four fields evidence may change\<close>
  "erase_conformance p = p\<lparr>prp_ConformanceProfiles := [], prp_UpstreamClientConformance := [],
     prp_UpstreamClientEvidenceRef := [], prp_UpstreamClientEvidenceDigest := []\<rparr>"

lemma erase_apply [simp]: "erase_conformance (apply_to_profile e p) = erase_conformance p"
  by (simp add: erase_conformance_def apply_to_profile_def Let_def)

lemma profile_core_erase [simp]: "profile_core upper (erase_conformance p) = profile_core upper p"
  by (simp add: erase_conformance_def profile_core_def wasm_profile_def wasm_settings_def container_settings_def privileges_forbidden_def)

lemma profile_core_apply [simp]: "profile_core upper (apply_to_profile e p) = profile_core upper p"
  by (metis erase_apply profile_core_erase)

lemma conformance_apply:
  assumes "ProviderConformanceEvidence_Validate e = None" and "conformance_ok p"
  shows "conformance_ok (apply_to_profile e p) \<longleftrightarrow>
    pce_ConformanceProfile e = ''upstream-client-v1'' \<or> ''upstream-client-v1'' \<in> set (prp_ConformanceProfiles p)"
proof -
  have "prp_ConformanceProfiles (apply_to_profile e p) \<noteq> []"
    by (metis apply_to_profile_simps(5) empty_not_insert list.set(1))
  then show ?thesis
    using evidence_accepted [OF assms(1)] assms(2) by (auto simp: conformance_ok_def real_client_evidence_def)
qed

text \<open>What a successful application did, and that a failed one did nothing.\<close>

lemma apply_evidence_Some:
  assumes "ApplyProviderConformanceEvidence (Some c) e = (Some c', None)"
  obtains us p vs where "ProviderConformanceEvidence_Validate e = None"
    "pce_PluginID e = prco_PluginID c" "pce_ProviderID e = prco_ProviderID c" "pce_ContractID e = prco_ContractID c" "pce_Version e = prco_Version c"
    "prruco_Profiles (prco_RuntimeContract c) = us @ p # vs" "\<forall>u \<in> set us. prp_ID u \<noteq> pce_RuntimeProfileID e"
    "prp_ID p = pce_RuntimeProfileID e"
    "c' = c\<lparr>prco_RuntimeContract := (prco_RuntimeContract c)\<lparr>prruco_Profiles := us @ apply_to_profile e p # vs\<rparr>\<rparr>"
  using assms by (auto simp: ApplyProviderConformanceEvidence_def split: option.splits if_splits dest!: update_first_Some)

lemma apply_evidence_error: "ApplyProviderConformanceEvidence r e = (r', Some err) \<Longrightarrow> r' = r"
  by (auto simp: ApplyProviderConformanceEvidence_def split: option.splits if_splits)

lemma contract_runtime_update:
  assumes "ProviderContract_Validate upper c = None"
  shows "ProviderContract_Validate upper (c\<lparr>prco_RuntimeContract := r\<rparr>) = None \<longleftrightarrow>
     ProviderRuntimeContract_Validate upper r = None \<and>
     (ProviderPluginRequiresUpstreamClientConformance (prco_PluginID c) \<longrightarrow>
        (\<forall>p \<in> set (prruco_Profiles r). prp_UpstreamClientConformance p \<noteq> []))"
proof -
  have "contract_terms_errs (c\<lparr>prco_RuntimeContract := r\<rparr>) = contract_terms_errs c" by (simp add: contract_terms_errs_def)
  then show ?thesis using assms by (simp add: ProviderContract_Validate_def)
qed

text \<open>C35. Applying evidence to a valid contract keeps it valid exactly when \<open>upstream-client-v1\<close> ends up among the
  conformance profiles of the runtime profile: the evidence names it, or the profile already did. For
  evidence of any other conformance profile the call succeeds and leaves an invalid contract.\<close>

theorem evidence_keeps_contract_valid_iff:
  assumes "ProviderContract_Validate upper c = None" and "ApplyProviderConformanceEvidence (Some c) e = (Some c', None)"
  shows "ProviderContract_Validate upper c' = None \<longleftrightarrow>
    pce_ConformanceProfile e = ''upstream-client-v1'' \<or>
    (\<exists>p \<in> set (prruco_Profiles (prco_RuntimeContract c)). prp_ID p = pce_RuntimeProfileID e \<and>
       ''upstream-client-v1'' \<in> set (prp_ConformanceProfiles p))"
proof -
  from assms(2) obtain us p vs where e: "ProviderConformanceEvidence_Validate e = None"
    and ps: "prruco_Profiles (prco_RuntimeContract c) = us @ p # vs" and id: "prp_ID p = pce_RuntimeProfileID e"
    and c': "c' = c\<lparr>prco_RuntimeContract := (prco_RuntimeContract c)\<lparr>prruco_Profiles := us @ apply_to_profile e p # vs\<rparr>\<rparr>"
    by (rule apply_evidence_Some)
  note runtime = contract_runtime [OF assms(1), unfolded ProviderRuntimeContract_Validate_iff ps]
  from runtime have others: "q = p" if "q \<in> set (us @ p # vs)" "prp_ID q = pce_RuntimeProfileID e" for q
    using that id by (auto simp: image_iff)
  have "ProviderRuntimeContract_Validate upper ((prco_RuntimeContract c)\<lparr>prruco_Profiles := us @ apply_to_profile e p # vs\<rparr>) = None \<longleftrightarrow>
      conformance_ok (apply_to_profile e p)"
    using runtime by (auto simp: ProviderRuntimeContract_Validate_iff)
  moreover have "ProviderPluginRequiresUpstreamClientConformance (prco_PluginID c) \<longrightarrow>
      (\<forall>q \<in> set (us @ apply_to_profile e p # vs). prp_UpstreamClientConformance q \<noteq> [])"
    using contract_conformance [OF assms(1)] by (auto simp: ps enum)
  moreover have "conformance_ok p" using runtime by simp
  ultimately have "ProviderContract_Validate upper c' = None \<longleftrightarrow>
      pce_ConformanceProfile e = ''upstream-client-v1'' \<or> ''upstream-client-v1'' \<in> set (prp_ConformanceProfiles p)"
    by (simp add: c' contract_runtime_update [OF assms(1)] conformance_apply [OF e])
  then show ?thesis unfolding ps using others id by auto
qed

text \<open>The contracts reachable by applying evidence, with the evidence that was accepted on the way.\<close>

inductive certified :: "ProviderContract \<Rightarrow> ProviderConformanceEvidence list \<Rightarrow> ProviderContract \<Rightarrow> bool" for c where
  untouched: "certified c [] c"
| applied: "certified c es c' \<Longrightarrow> ApplyProviderConformanceEvidence (Some c') e = (Some c'', None) \<Longrightarrow> certified c (es @ [e]) c''"
| refused: "certified c es c' \<Longrightarrow> ApplyProviderConformanceEvidence (Some c') e = (Some c'', Some err) \<Longrightarrow> certified c es c''"

inductive_simps certified_Nil: "certified c [] c'"
inductive_cases certified_applied: "certified c (es @ [e]) c'"

definition vouched :: "ProviderContract \<Rightarrow> ProviderConformanceEvidence \<Rightarrow> ProviderRuntimeProfile \<Rightarrow> bool" where
  \<comment> \<open>the conformance a profile claims is what the evidence showed\<close>
  "vouched c e p \<longleftrightarrow>
     ProviderConformanceEvidence_Validate e = None \<and> pce_RuntimeProfileID e = prp_ID p \<and>
     pce_PluginID e = prco_PluginID c \<and> pce_ProviderID e = prco_ProviderID c \<and>
     pce_ContractID e = prco_ContractID c \<and> pce_Version e = prco_Version c \<and>
     prp_UpstreamClientConformance p = UpstreamClientConformanceRealClient \<and>
     prp_UpstreamClientEvidenceRef p = pce_EvidenceRef e \<and> prp_UpstreamClientEvidenceDigest p = pce_EvidenceDigest e \<and>
     pce_ConformanceProfile e \<in> set (prp_ConformanceProfiles p)"

definition evolved :: "ProviderContract \<Rightarrow> ProviderConformanceEvidence list \<Rightarrow> ProviderRuntimeProfile \<Rightarrow> ProviderRuntimeProfile \<Rightarrow> bool" where
  "evolved c es p p' \<longleftrightarrow>
     erase_conformance p' = erase_conformance p \<and> set (prp_ConformanceProfiles p) \<subseteq> set (prp_ConformanceProfiles p') \<and>
     (p' = p \<or> (\<exists>e \<in> set es. vouched c e p'))"

lemma evolved_more: "evolved c es p p' \<Longrightarrow> evolved c (es @ es') p p'"
  by (auto simp: evolved_def)

lemma certified_invariants:
  assumes "certified c es c'"
  shows "c' = c\<lparr>prco_RuntimeContract := (prco_RuntimeContract c')\<rparr>"
    and "list_all2 (evolved c es) (prruco_Profiles (prco_RuntimeContract c)) (prruco_Profiles (prco_RuntimeContract c'))"
  using assms
proof (induction rule: certified.induct)
  case untouched
  { case 1 show ?case by simp }
  { case 2 show ?case by (simp add: list_all2_refl evolved_def) }
next
  case (applied es c' e c'')
  from applied.hyps(2) obtain us p vs where e: "ProviderConformanceEvidence_Validate e = None"
      "pce_PluginID e = prco_PluginID c'" "pce_ProviderID e = prco_ProviderID c'" "pce_ContractID e = prco_ContractID c'" "pce_Version e = prco_Version c'"
    and ps: "prruco_Profiles (prco_RuntimeContract c') = us @ p # vs" and id: "prp_ID p = pce_RuntimeProfileID e"
    and c'': "c'' = c'\<lparr>prco_RuntimeContract := (prco_RuntimeContract c')\<lparr>prruco_Profiles := us @ apply_to_profile e p # vs\<rparr>\<rparr>"
    by (rule apply_evidence_Some)
  have same: "prco_PluginID c' = prco_PluginID c" "prco_ProviderID c' = prco_ProviderID c"
    "prco_ContractID c' = prco_ContractID c" "prco_Version c' = prco_Version c"
    by (subst applied.IH(1), simp)+
  { case 1 show ?case unfolding c'' by (subst applied.IH(1)) simp }
  { case 2
    from applied.IH(2) obtain us0 p0 vs0 where ps0: "prruco_Profiles (prco_RuntimeContract c) = us0 @ p0 # vs0"
      and l: "list_all2 (evolved c es) us0 us" "evolved c es p0 p" "list_all2 (evolved c es) vs0 vs"
      unfolding ps by (auto simp: list_all2_append2 list_all2_Cons2)
    have "vouched c e (apply_to_profile e p)" using e id same by (simp add: vouched_def)
    then have "evolved c (es @ [e]) p0 (apply_to_profile e p)" using l(2) by (auto simp: evolved_def)
    then show ?case unfolding ps0 c'' using l(1,3) by (auto simp: list_all2_append intro!: list_all2_appendI elim!: list_all2_mono evolved_more) }
next
  case (refused es c' e c'' err)
  then have "c'' = c'" using apply_evidence_error by blast
  { case 1 show ?case using refused.IH(1) \<open>c'' = c'\<close> by simp }
  { case 2 show ?case using refused.IH(2) \<open>c'' = c'\<close> by simp }
qed

text \<open>C8. Real-client conformance is only ever gained by evidence: however much evidence is applied or refused, the
  terms of the contract stay, no runtime profile changes outside its conformance fields, none loses a
  conformance profile, and each is as it was or claims what one accepted piece of evidence for this
  very contract and profile showed.\<close>

theorem certified_contract:
  assumes "certified c es c'"
  shows "c' = c\<lparr>prco_RuntimeContract := prco_RuntimeContract c'\<rparr> \<and>
    list_all2 (evolved c es) (prruco_Profiles (prco_RuntimeContract c)) (prruco_Profiles (prco_RuntimeContract c'))"
  using certified_invariants [OF assms] by blast

section \<open>Artifact specifications\<close>

definition spec_ok :: "ProviderArtifactSpec \<Rightarrow> bool" where
  "spec_ok spec \<longleftrightarrow>
     validProviderArtifactName (pas_Name spec) \<and>
     (pas_ContentType spec \<noteq> [] \<longrightarrow> trim_space (pas_ContentType spec) = pas_ContentType spec \<and>
        \<not> contains_any (pas_ContentType spec) (ch_nul @ ctl_chars) \<and> parse_media_type_ok (pas_ContentType spec)) \<and>
     0 \<le> pas_MaxBytes spec \<and> 0 \<le> pas_RetentionSeconds spec \<and>
     (case pas_ProviderReturn spec of None \<Rightarrow> True | Some r \<Rightarrow> ProviderArtifactReturnSpec_Validate r = None)"

lemma validProviderArtifactName_Nil [simp]: "\<not> validProviderArtifactName []"
  by (simp add: validProviderArtifactName_def)

lemma case_option_Nil: "(case x of None \<Rightarrow> [] | Some y \<Rightarrow> f y) = [] \<longleftrightarrow> (case x of None \<Rightarrow> True | Some y \<Rightarrow> f y = [])"
  by (cases x) simp_all

lemma artifact_specs_iff:
  "validateProviderArtifactSpecs field specs legacy = [] \<longleftrightarrow>
     (\<forall>s \<in> set specs. spec_ok s) \<and> distinct (map pas_Name specs) \<and> (legacy = [] \<or> pas_Name ` set specs \<subseteq> set legacy)"
proof -
  have "validateProviderArtifactSpecs field specs legacy = [] \<longleftrightarrow>
      all_from 0 (\<lambda>i s. spec_ok s \<and> (legacy = [] \<or> pas_Name s \<in> set legacy)) specs \<and>
      distinct (map pas_Name (filter (\<lambda>s. pas_Name s \<noteq> []) specs)) \<and> pas_Name ` set (filter (\<lambda>s. pas_Name s \<noteq> []) specs) \<inter> {} = {}"
    unfolding validateProviderArtifactSpecs_def
  proof (rule each_seen_Nil, goal_cases)
    case (1 i d s)
    show ?case
    proof (cases "pas_Name s = []")
      case False
      then show ?thesis
        unfolding append_is_Nil_conv spec_ok_def case_option_Nil wraps_Nil by (simp add: if_checked_Nil not_less) argo
    qed (simp add: spec_ok_def)
  qed
  moreover have "filter (\<lambda>s. pas_Name s \<noteq> []) specs = specs" if "\<forall>s \<in> set specs. spec_ok s"
    using that by (intro filter_True) (auto simp: spec_ok_def)
  ultimately show ?thesis by (auto simp: image_subset_iff)
qed

text \<open>Normalising a valid operation's artifacts gives valid specifications unless it is written in the legacy form
  with a name listed twice: legacy names are checked one by one but never against each other.\<close>

theorem normalized_specs_valid_iff:
  assumes "ProviderOperation_Validate operation = None"
  shows "ValidateProviderArtifactSpecs (ProviderOperation_NormalizedArtifactSpecs operation) = None \<longleftrightarrow>
    po_ArtifactSpecs operation \<noteq> [] \<or> distinct (po_Artifacts operation)"
proof -
  from assms have names: "\<forall>a \<in> set (po_Artifacts operation). validProviderArtifactName a"
    and specs: "validateProviderArtifactSpecs ''artifact_specs'' (po_ArtifactSpecs operation) (po_Artifacts operation) = []"
    unfolding ProviderOperation_Validate_def join_None append_is_Nil_conv by simp_all
  have named: "spec_ok (named_spec a) \<longleftrightarrow> validProviderArtifactName a" "pas_Name (named_spec a) = a" for a
    by (simp_all add: spec_ok_def named_spec_def)
  then have "map pas_Name (map named_spec xs) = xs" for xs by (simp add: comp_def)
  then show ?thesis using names specs
    by (simp add: ValidateProviderArtifactSpecs_def ProviderOperation_NormalizedArtifactSpecs_def artifact_specs_iff named del: map_map)
qed

section \<open>Examples\<close>

definition demo_config :: ProviderConfig where
  "demo_config = zero_ProviderConfig\<lparr>pc_PluginID := ''workflow-plugin-crypto'', pc_ProviderID := ''node'', pc_ContractID := ''full'',
     pc_Version := ''v1'', pc_ConfigRef := ''config://node''\<rparr>"

definition demo_operation :: "string list \<Rightarrow> ProviderOperation" where
  "demo_operation artifacts = \<lparr>po_ID = ''sync'', po_InputSchemaRef = ''schema://in'', po_InputSchemaDigest = demo_sha,
     po_OutputSchemaRef = ''schema://out'', po_OutputSchemaDigest = demo_sha, po_Artifacts = artifacts, po_ArtifactSpecs = []\<rparr>"

definition demo_contract :: ProviderContract where
  "demo_contract = \<lparr>prco_ProtocolVersion = Version, prco_ID = ''contract'', prco_PluginID = ''workflow-plugin-crypto'',
     prco_ProviderID = ''node'', prco_ContractID = ''full'', prco_Version = ''v1'', prco_DisplayName = [], prco_OrgID = [], prco_PoolID = [],
     prco_AccessPolicy = \<lparr>ap_ProviderUsageVisibility = [], ap_WorkloadVisibility = [], ap_ArtifactVisibility = []\<rparr>,
     prco_ConfigSchemaRef = ''schema://node'', prco_ConfigSchemaDigest = demo_sha, prco_OperatingModes = [NetworkModeNodeService],
     prco_WorkloadKinds = [WorkloadNodeService], prco_ExecutorProviders = [''oci''],
     prco_ExecutionSecurityTiers = [ExecutionHardenedContainer], prco_ProofTiers = [ProofReplicatedQuorum],
     prco_NetworkModes = [NetworkModeP2P], prco_Operations = [demo_operation [''out'']], prco_RuntimeContract = demo_runtime,
     prco_CreatedAt = 0\<rparr>"

definition demo_evidence :: "string \<Rightarrow> ProviderConformanceEvidence" where
  "demo_evidence profile = \<lparr>pce_ProtocolVersion = Version, pce_ID = ''evidence'', pce_PluginID = ''workflow-plugin-crypto'',
     pce_ProviderID = ''node'', pce_ContractID = ''full'', pce_Version = ''v1'',
     pce_RuntimeProfileID = ''oci-'' @ ExecutionHardenedContainer @ ''-'' @ ProofReplicatedQuorum @ ''-runtime'',
     pce_ConformanceProfile = profile, pce_UpstreamClientName = ''geth'', pce_UpstreamClientVersion = ''1.14'',
     pce_EvidenceRef = ''artifact://run'', pce_EvidenceDigest = demo_sha, pce_ObservedAt = Time 1, pce_CreatedAt = 0\<rparr>"

lemma demo_runtime_accepted: "ProviderRuntimeContract_Validate to_upper demo_runtime = None"
  by code_simp

lemma demo_contract_accepted: "ProviderContract_Validate to_upper demo_contract = None"
proof -
  have "contract_terms_errs demo_contract = []" by code_simp
  moreover have "ProviderPluginRequiresUpstreamClientConformance (prco_PluginID demo_contract) \<longrightarrow>
      (\<forall>p \<in> set (prruco_Profiles (prco_RuntimeContract demo_contract)). prp_UpstreamClientConformance p \<noteq> [])" by code_simp
  moreover have "ProviderRuntimeContract_Validate to_upper (prco_RuntimeContract demo_contract) = None"
    by (simp add: demo_contract_def demo_runtime_accepted)
  ultimately show ?thesis by (simp add: ProviderContract_Validate_def)
qed

lemma demo_supported: "ProviderContract_SupportsProduct demo_contract (demo_product\<lparr>nepr_ProviderConfig := demo_config\<rparr>) = None"
  by code_simp

text \<open>The demonstration profile stays valid with capabilities that undo the sandbox.\<close>

lemma supported_product_profile_witness:
  "\<exists>p. prp_ExecutorProvider p = ''oci'' \<and> prp_Privileged p = RuntimePermissionForbidden \<and>
     ProviderRuntimeProfile_Validate to_upper (p\<lparr>prp_AllowedCapabilities := [''SYS_ADMIN''], prp_WritableRootFS := RuntimePermissionExplicit\<rparr>) = None"
proof -
  have cap: "\<forall>cap \<in> set [''SYS_ADMIN'']. cap \<noteq> [] \<and> to_upper cap = cap \<and> \<not> contains_any cap (ws_chars @ ch_nul)"
    "validRuntimePermission RuntimePermissionExplicit" by code_simp+
  from supported_product_profile [OF demo_contract_accepted demo_supported]
  obtain p where "prp_ExecutorProvider p = pr_ExecutorProvider (nepr_SecurityFloor demo_product)" "prp_Privileged p = RuntimePermissionForbidden"
    "ProviderRuntimeProfile_Validate to_upper (p\<lparr>prp_AllowedCapabilities := [''SYS_ADMIN''], prp_WritableRootFS := RuntimePermissionExplicit\<rparr>) = None"
    using cap by auto
  then show ?thesis by (intro exI [of _ p]) (simp add: demo_product_def)
qed

definition demo_certified :: "string \<Rightarrow> ProviderContract" where
  "demo_certified profile = the (fst (ApplyProviderConformanceEvidence (Some demo_contract) (demo_evidence profile)))"

lemma demo_applied:
  "ApplyProviderConformanceEvidence (Some demo_contract) (demo_evidence ''upstream-client-v1'') = (Some (demo_certified ''upstream-client-v1''), None)"
  "ApplyProviderConformanceEvidence (Some demo_contract) (demo_evidence ''gpu-v2'') = (Some (demo_certified ''gpu-v2''), None)"
  by code_simp+

lemma evidence_keeps_contract_valid_iff_witness:
  "ProviderContract_Validate to_upper (demo_certified ''upstream-client-v1'') = None \<and>
   ProviderContract_Validate to_upper (demo_certified ''gpu-v2'') \<noteq> None"
proof -
  have "\<forall>p \<in> set (prruco_Profiles (prco_RuntimeContract demo_contract)). ''upstream-client-v1'' \<notin> set (prp_ConformanceProfiles p)"
    by code_simp
  then show ?thesis
    using evidence_keeps_contract_valid_iff [OF demo_contract_accepted demo_applied(1)]
      evidence_keeps_contract_valid_iff [OF demo_contract_accepted demo_applied(2)]
    by (auto simp: demo_evidence_def)
qed

lemma certified_contract_witness:
  "list_all2 (evolved demo_contract [demo_evidence ''upstream-client-v1''])
     (prruco_Profiles (prco_RuntimeContract demo_contract))
     (prruco_Profiles (prco_RuntimeContract (demo_certified ''upstream-client-v1'')))"
  using certified_contract [OF applied [OF untouched demo_applied(1)]] by simp

lemma normalized_specs_valid_iff_witness:
  "ValidateProviderArtifactSpecs (ProviderOperation_NormalizedArtifactSpecs (demo_operation [''out''])) = None \<and>
   ValidateProviderArtifactSpecs (ProviderOperation_NormalizedArtifactSpecs (demo_operation [''out'', ''out''])) \<noteq> None"
proof -
  have "ProviderOperation_Validate (demo_operation [''out'']) = None" "ProviderOperation_Validate (demo_operation [''out'', ''out'']) = None"
    by code_simp+
  from this [THEN normalized_specs_valid_iff] show ?thesis by (simp add: demo_operation_def)
qed

end
