(* ===== verification/ScopedRefs.thy ===== *)
theory ScopedRefs
  imports Identifiers
begin

text \<open>
  References of one of several schemes. Several validators look for the first scheme of a list the
  reference starts with and leave the rest to \<open>validateScopedRef\<close>. As no scheme of such a list is
  a prefix of another, the choice of the first is no choice.
\<close>

definition prefix_free :: "string list \<Rightarrow> bool" where
  "prefix_free ss \<longleftrightarrow> list_all (\<lambda>s. list_all (\<lambda>s'. prefix s s' \<longrightarrow> s = s') ss) ss"

definition scoped_by :: "string list \<Rightarrow> string \<Rightarrow> bool" where
  "scoped_by schemes v \<longleftrightarrow> (\<exists>scheme \<in> set schemes. \<exists>path. v = scheme @ path \<and> path \<noteq> []) \<and> \<not> contains_str v ''..''"

lemma validateScopedRef_None [validation]: "validateScopedRef name v scheme = None \<longleftrightarrow> scoped_by [scheme] v"
  by (auto simp: validateScopedRef_def scoped_by_def trim_prefix_def prefix_def)

lemma scheme_unique:
  assumes "prefix_free schemes" and "s \<in> set schemes" "s' \<in> set schemes" and "prefix s v" "prefix s' v"
  shows "s = s'"
  using assms prefix_same_cases [OF assms(4,5)] unfolding prefix_free_def list_all_iff by metis

lemma first_scheme_scoped:
  assumes "prefix_free schemes"
  shows "(case find (has_prefix v) schemes of None \<Rightarrow> False | Some scheme \<Rightarrow> scoped_by [scheme] v) \<longleftrightarrow> scoped_by schemes v"
proof (cases "find (has_prefix v) schemes")
  case None
  then have "\<not> has_prefix v s" if "s \<in> set schemes" for s using that by (auto simp: find_None_iff)
  then show ?thesis using None by (auto simp: scoped_by_def prefix_def)
next
  case (Some scheme)
  then have s: "scheme \<in> set schemes" "has_prefix v scheme"
    unfolding find_Some_iff by (metis nth_mem)+
  then have "(\<exists>s \<in> set schemes. \<exists>path. v = s @ path \<and> path \<noteq> []) \<longleftrightarrow> (\<exists>path. v = scheme @ path \<and> path \<noteq> [])"
    using scheme_unique [OF assms _ s(1)] by (metis prefixI)
  then show ?thesis using Some by (simp add: scoped_by_def)
qed

lemma scoped_by_nonempty: "scoped_by schemes v \<Longrightarrow> v \<noteq> []"
  by (auto simp: scoped_by_def)

end
