(* ===== verification/Marketplace.thy ===== *)
theory Marketplace
  imports ScopedRefs Attestation
begin

text \<open>
  \<open>protocol/types.go\<close>, lines 5811 to 6601: the marketplace contracts of a control plane, settlement holds,
  payout requests, suspensions, operator and operations policies with their key rotations, reputation
  events and summaries, and abuse cases with their evidence. All are validators of data; a Go map
  is the list of its entries in the order of iteration.
\<close>

section \<open>Records\<close>

record SettlementHold =
  sh_ProtocolVersion :: string
  sh_ID :: string
  sh_OrgID :: string
  sh_ProductID :: string
  sh_AccountID :: string
  sh_ContributionEventID :: string
  sh_Reason :: string
  sh_Status :: SettlementHoldStatus
  sh_HoldUntil :: time
  sh_CreatedAt :: time
  sh_ResolvedAt :: time
  sh_CorrectionEventID :: string

record SettlementPayoutRequest =
  spr_ProtocolVersion :: string
  spr_OrgID :: string
  spr_ProductID :: string
  spr_AccountID :: string
  spr_Provider :: string
  spr_IdempotencyKey :: string
  spr_HoldbackUntil :: time
  spr_ExternalSettlementRoutes :: "(string \<times> string) list"

record MarketplaceSuspension =
  ms_ProtocolVersion :: string
  ms_ID :: string
  ms_OrgID :: string
  ms_Scope :: SuspensionScope
  ms_SubjectID :: string
  ms_ProductID :: string
  ms_Reason :: string
  ms_Status :: SuspensionStatus
  ms_CreatedAt :: time
  ms_LiftedAt :: time

record MarketplaceOperatorPolicy =
  mop_ProtocolVersion :: string
  mop_ID :: string
  mop_Enabled :: bool
  mop_Version :: int
  mop_OperatorID :: string
  mop_AllowedOrgIDs :: "string list"
  mop_AllowedProductIDs :: "string list"
  mop_TrustedFederationKeyIDs :: "string list"
  mop_CreatedAt :: time
  mop_UpdatedAt :: time

record MarketplaceTrustRootRotationRequest =
  mtrrr_ProtocolVersion :: string
  mtrrr_AddTrustedFederationKeyIDs :: "string list"
  mtrrr_RemoveTrustedFederationKeyIDs :: "string list"
  mtrrr_RequireCurrentVersion :: int
  mtrrr_Reason :: string

record MarketplaceOperationsPolicy =
  maoppo_ProtocolVersion :: string
  maoppo_ID :: string
  maoppo_Enabled :: bool
  maoppo_Version :: int
  maoppo_TermsVersion :: string
  maoppo_RewardPolicyVersion :: string
  maoppo_DisputeWindowHours :: int
  maoppo_AbuseContact :: string
  maoppo_PayoutProvider :: string
  maoppo_ActivePayoutKeyID :: string
  maoppo_PreviousPayoutKeyIDs :: "string list"
  maoppo_CreatedAt :: time
  maoppo_UpdatedAt :: time

record MarketplacePayoutKeyRotationRequest =
  mpkrr_ProtocolVersion :: string
  mpkrr_NewPayoutKeyID :: string
  mpkrr_RequireCurrentVersion :: int
  mpkrr_Reason :: string

record ReputationEvent =
  re_ProtocolVersion :: string
  re_ID :: string
  re_OrgID :: string
  re_SubjectKind :: ReputationSubjectKind
  re_SubjectID :: string
  re_ProductID :: string
  re_TaskID :: string
  re_ProofID :: string
  re_Type :: ReputationEventType
  re_ScoreDelta :: int
  re_Reason :: string
  re_RecordedAt :: time

record ReputationSummary =
  rs_OrgID :: string
  rs_SubjectKind :: ReputationSubjectKind
  rs_SubjectID :: string
  rs_ProductID :: string
  rs_Score :: int
  rs_EventCount :: int

record MarketplaceAbuseEvidenceRef =
  maer_Ref :: string
  maer_Digest :: string
  maer_Note :: string

record MarketplaceAbuseCase =
  mac_ProtocolVersion :: string
  mac_ID :: string
  mac_OrgID :: string
  mac_ProductID :: string
  mac_SubjectKind :: MarketplaceAbuseSubjectKind
  mac_SubjectID :: string
  mac_Severity :: MarketplaceAbuseSeverity
  mac_Status :: MarketplaceAbuseStatus
  mac_Reason :: string
  mac_EvidenceRefs :: "MarketplaceAbuseEvidenceRef list"
  mac_TaskID :: string
  mac_ProofID :: string
  mac_RouteRef :: string
  mac_CreatedAt :: time
  mac_UpdatedAt :: time
  mac_ResolvedAt :: time

section \<open>Settlement\<close>

definition SettlementHold_Validate :: "SettlementHold \<Rightarrow> error" where
  "SettlementHold_Validate h =
     join
     (fails (sh_ProtocolVersion h \<noteq> [] \<and> sh_ProtocolVersion h \<noteq> Version)
        (Errorf ''protocol_version must be %q'' [Str Version]) @
      reports (validateIdentifier ''id'' (sh_ID h)) @
      reports (validateIdentifier ''org_id'' (sh_OrgID h)) @
      reports (validateIdentifier ''account_id'' (sh_AccountID h)) @
      reports (validateIdentifier ''contribution_event_id'' (sh_ContributionEventID h)) @
      wraps ''product_id: %w'' [] (validateNetworkProductID (sh_ProductID h)) @
      fails (trim_space (sh_Reason h) = [])
        (New ''reason is required'') @
      (if sh_Status h = SettlementHoldPending then
         fails (\<not> sh_ResolvedAt h = 0)
           (New ''resolved_at must be empty for pending hold'') @
         fails (sh_CorrectionEventID h \<noteq> [])
           (New ''correction_event_id must be empty for pending hold'')
       else if sh_Status h = SettlementHoldReleased then
         fails (sh_ResolvedAt h = 0)
           (New ''resolved_at is required for released hold'') @
         fails (sh_CorrectionEventID h \<noteq> [])
           (New ''correction_event_id must be empty for released hold'')
       else if sh_Status h = SettlementHoldReversed then
         fails (sh_ResolvedAt h = 0)
           (New ''resolved_at is required for reversed hold'') @
         fails (sh_CorrectionEventID h = [])
           (New ''correction_event_id is required for reversed hold'')
       else if sh_Status h = [] then
         [New ''status is required'']
       else [Errorf ''status %q is unsupported'' [Str (sh_Status h)]]) @
      (if sh_CorrectionEventID h \<noteq> [] then
         reports (validateIdentifier ''correction_event_id'' (sh_CorrectionEventID h))
       else []))"

definition SettlementPayoutRequest_Validate :: "SettlementPayoutRequest \<Rightarrow> error" where
  "SettlementPayoutRequest_Validate r =
     join
     (fails (spr_ProtocolVersion r \<noteq> [] \<and> spr_ProtocolVersion r \<noteq> Version)
        (Errorf ''protocol_version must be %q'' [Str Version]) @
      reports (validateIdentifier ''org_id'' (spr_OrgID r)) @
      reports (validateIdentifier ''account_id'' (spr_AccountID r)) @
      wraps ''product_id: %w'' [] (validateNetworkProductID (spr_ProductID r)) @
      reports (validateIdentifier ''provider'' (spr_Provider r)) @
      (if trim_space (spr_IdempotencyKey r) = [] then
         [New ''idempotency_key is required'']
       else fails (spr_IdempotencyKey r \<noteq> trim_space (spr_IdempotencyKey r))
              (New ''idempotency_key must not contain leading or trailing whitespace'') @
            fails (contains_any (spr_IdempotencyKey r) (ctl_chars @ ch_nul))
              (New ''idempotency_key must not contain control whitespace'')) @
      each (\<lambda>i (accountID, routeID).
         reports (validateIdentifier ''external_settlement_routes account_id'' accountID) @
         reports (validateIdentifier ''external_settlement_routes route_id'' routeID)) (spr_ExternalSettlementRoutes r))"

definition MarketplaceSuspension_Validate :: "MarketplaceSuspension \<Rightarrow> error" where
  "MarketplaceSuspension_Validate s =
     join
     (fails (ms_ProtocolVersion s \<noteq> [] \<and> ms_ProtocolVersion s \<noteq> Version)
        (Errorf ''protocol_version must be %q'' [Str Version]) @
      reports (validateIdentifier ''id'' (ms_ID s)) @
      reports (validateIdentifier ''org_id'' (ms_OrgID s)) @
      reports (validateIdentifier ''subject_id'' (ms_SubjectID s)) @
      (if ms_ProductID s \<noteq> [] then
         wraps ''product_id: %w'' [] (validateNetworkProductID (ms_ProductID s))
       else []) @
      fails (trim_space (ms_Reason s) = [])
        (New ''reason is required'') @
      (if ms_Scope s = SuspensionProduct then
         fails (ms_ProductID s = [])
           (New ''product_id is required for product suspension'')
       else if ms_Scope s \<in> set [SuspensionRequestor, SuspensionProvider] then
         []
       else if ms_Scope s = [] then
         [New ''scope is required'']
       else [Errorf ''scope %q is unsupported'' [Str (ms_Scope s)]]) @
      (if ms_Status s = SuspensionActive then
         fails (\<not> ms_LiftedAt s = 0)
           (New ''lifted_at must be empty for active suspension'')
       else if ms_Status s = SuspensionLifted then
         fails (ms_LiftedAt s = 0)
           (New ''lifted_at is required for lifted suspension'')
       else if ms_Status s = [] then
         [New ''status is required'']
       else [Errorf ''status %q is unsupported'' [Str (ms_Status s)]]))"

section \<open>Operator and operations policies\<close>

definition MarketplaceOperatorPolicy_Validate :: "MarketplaceOperatorPolicy \<Rightarrow> error" where
  "MarketplaceOperatorPolicy_Validate p =
     join
     (fails (mop_ProtocolVersion p \<noteq> [] \<and> mop_ProtocolVersion p \<noteq> Version)
        (Errorf ''protocol_version must be %q'' [Str Version]) @
      (if \<not> mop_Enabled p then []
       else fails (mop_Version p \<le> 0)
              (New ''version must be positive when enabled'') @
            reports (validateIdentifier ''id'' (mop_ID p)) @
            reports (validateIdentifier ''operator_id'' (mop_OperatorID p)) @
            fails ((mop_AllowedOrgIDs p) = [])
              (New ''allowed_org_ids is required when enabled'') @
            each_unique 0
              (\<lambda>i orgID. validateIdentifier (at_index ''allowed_org_ids'' i []) orgID)
              (\<lambda>orgID. orgID)
              (\<lambda>i orgID. Errorf ''allowed_org_ids[%d] %q is duplicated'' [Num (int i), Str orgID]) {} (mop_AllowedOrgIDs p) @
            fails ((mop_AllowedProductIDs p) = [])
              (New ''allowed_product_ids is required when enabled'') @
            each_unique 0
              (\<lambda>i productID. map_option (\<lambda>err. Errorf ''allowed_product_ids[%d]: %w'' [Num (int i), Wrapped err]) (validateNetworkProductID productID))
              (\<lambda>productID. productID)
              (\<lambda>i productID. Errorf ''allowed_product_ids[%d] %q is duplicated'' [Num (int i), Str productID]) {} (mop_AllowedProductIDs p) @
            fails ((mop_TrustedFederationKeyIDs p) = [])
              (New ''trusted_federation_key_ids is required when enabled'') @
            each_unique 0
              (\<lambda>i keyID. validateIdentifier (at_index ''trusted_federation_key_ids'' i []) keyID)
              (\<lambda>keyID. keyID)
              (\<lambda>i keyID. Errorf ''trusted_federation_key_ids[%d] %q is duplicated'' [Num (int i), Str keyID]) {} (mop_TrustedFederationKeyIDs p)))"

text \<open>
  The two loops of the trust-root rotation, over the map \<open>seen\<close> from a key to the list that named
  it last; each returns the errors it appends and the map it leaves.
\<close>

fun rotation_adds :: "nat \<Rightarrow> (string \<rightharpoonup> string) \<Rightarrow> string list \<Rightarrow> err list \<times> (string \<rightharpoonup> string)" where
  "rotation_adds i seen [] = ([], seen)"
| "rotation_adds i seen (keyID # keys) =
     (case validateIdentifier (at_index ''add_trusted_federation_key_ids'' i []) keyID of
        Some err \<Rightarrow> (let (errs, seen) = rotation_adds (Suc i) seen keys in (err # errs, seen))
      | None \<Rightarrow>
          (let (errs, seen') = rotation_adds (Suc i) (seen(keyID \<mapsto> ''add'')) keys
           in (fails (seen keyID = Some ''add'')
                 (Errorf ''add_trusted_federation_key_ids[%d] %q is duplicated'' [Num (int i), Str keyID]) @ errs, seen')))"

fun rotation_removes :: "nat \<Rightarrow> (string \<rightharpoonup> string) \<Rightarrow> string list \<Rightarrow> err list" where
  "rotation_removes i seen [] = []"
| "rotation_removes i seen (keyID # keys) =
     (case validateIdentifier (at_index ''remove_trusted_federation_key_ids'' i []) keyID of
        Some err \<Rightarrow> err # rotation_removes (Suc i) seen keys
      | None \<Rightarrow>
          fails (seen keyID = Some ''remove'')
            (Errorf ''remove_trusted_federation_key_ids[%d] %q is duplicated'' [Num (int i), Str keyID]) @
          fails (seen keyID = Some ''add'')
            (Errorf ''trusted federation key %q cannot be both added and removed'' [Str keyID]) @
          rotation_removes (Suc i) (seen(keyID \<mapsto> ''remove'')) keys)"

definition MarketplaceTrustRootRotationRequest_Validate :: "MarketplaceTrustRootRotationRequest \<Rightarrow> error" where
  "MarketplaceTrustRootRotationRequest_Validate r =
     (let (added, seen) = rotation_adds 0 Map.empty (mtrrr_AddTrustedFederationKeyIDs r)
      in join
     (fails (mtrrr_ProtocolVersion r \<noteq> [] \<and> mtrrr_ProtocolVersion r \<noteq> Version)
        (Errorf ''protocol_version must be %q'' [Str Version]) @
      fails (mtrrr_AddTrustedFederationKeyIDs r = [] \<and> mtrrr_RemoveTrustedFederationKeyIDs r = [])
        (New ''add_trusted_federation_key_ids or remove_trusted_federation_key_ids is required'') @
      added @
      rotation_removes 0 seen (mtrrr_RemoveTrustedFederationKeyIDs r) @
      fails (mtrrr_RequireCurrentVersion r < 0)
        (New ''require_current_version cannot be negative'') @
      fails (trim_space (mtrrr_Reason r) = [])
        (New ''reason is required'')))"

definition versioned_text :: "string \<Rightarrow> string \<Rightarrow> err list" where
  \<comment> \<open>the loop body over \<open>terms_version\<close> and \<open>reward_policy_version\<close>\<close>
  "versioned_text name v =
     (if trim_space v = [] then [Errorf ''%s is required when enabled'' [Str name]]
      else fails (trim_space v \<noteq> v \<or> contains_any v (ctl_chars @ ch_nul))
             (Errorf ''%s must not contain leading, trailing, or control whitespace'' [Str name]))"

definition MarketplaceOperationsPolicy_Validate :: "MarketplaceOperationsPolicy \<Rightarrow> error" where
  "MarketplaceOperationsPolicy_Validate p =
     join
     (fails (maoppo_ProtocolVersion p \<noteq> [] \<and> maoppo_ProtocolVersion p \<noteq> Version)
        (Errorf ''protocol_version must be %q'' [Str Version]) @
      (if \<not> maoppo_Enabled p then []
       else reports (validateIdentifier ''id'' (maoppo_ID p)) @
            reports (validateIdentifier ''payout_provider'' (maoppo_PayoutProvider p)) @
            reports (validateIdentifier ''active_payout_key_id'' (maoppo_ActivePayoutKeyID p)) @
            versioned_text ''terms_version'' (maoppo_TermsVersion p) @
            versioned_text ''reward_policy_version'' (maoppo_RewardPolicyVersion p) @
            fails (maoppo_Version p \<le> 0)
              (New ''version must be positive when enabled'') @
            fails (maoppo_DisputeWindowHours p \<le> 0)
              (New ''dispute_window_hours must be positive when enabled'') @
            (if trim_space (maoppo_AbuseContact p) = [] then
               [New ''abuse_contact is required when enabled'']
             else fails (trim_space (maoppo_AbuseContact p) \<noteq> maoppo_AbuseContact p \<or> contains_any (maoppo_AbuseContact p) (ctl_chars @ ch_nul))
                    (New ''abuse_contact must not contain leading, trailing, or control whitespace'')) @
            each_unique 0
              (\<lambda>i keyID. validateIdentifier (at_index ''previous_payout_key_ids'' i []) keyID)
              (\<lambda>keyID. keyID)
              (\<lambda>i keyID. Errorf ''previous_payout_key_ids[%d] duplicates active or previous payout key'' [Num (int i)])
              (if maoppo_ActivePayoutKeyID p \<noteq> [] then {maoppo_ActivePayoutKeyID p} else {}) (maoppo_PreviousPayoutKeyIDs p)))"

definition MarketplacePayoutKeyRotationRequest_Validate :: "MarketplacePayoutKeyRotationRequest \<Rightarrow> error" where
  "MarketplacePayoutKeyRotationRequest_Validate r =
     join
     (fails (mpkrr_ProtocolVersion r \<noteq> [] \<and> mpkrr_ProtocolVersion r \<noteq> Version)
        (Errorf ''protocol_version must be %q'' [Str Version]) @
      reports (validateIdentifier ''new_payout_key_id'' (mpkrr_NewPayoutKeyID r)) @
      fails (mpkrr_RequireCurrentVersion r < 0)
        (New ''require_current_version cannot be negative'') @
      fails (trim_space (mpkrr_Reason r) = [])
        (New ''reason is required''))"

section \<open>Reputation\<close>

definition validateReputationSubjectKind :: "ReputationSubjectKind \<Rightarrow> error" where
  "validateReputationSubjectKind kind =
     (if kind \<in> set [ReputationSubjectProvider, ReputationSubjectRequestor, ReputationSubjectRouter, ReputationSubjectVerifier] then None
      else if kind = [] then Some (New ''subject_kind is required'')
      else Some (Errorf ''subject_kind %q is unsupported'' [Str kind]))"

definition ReputationEvent_Validate :: "ReputationEvent \<Rightarrow> error" where
  "ReputationEvent_Validate e =
     join
     (fails (re_ProtocolVersion e \<noteq> [] \<and> re_ProtocolVersion e \<noteq> Version)
        (Errorf ''protocol_version must be %q'' [Str Version]) @
      reports (validateIdentifier ''id'' (re_ID e)) @
      reports (validateIdentifier ''org_id'' (re_OrgID e)) @
      reports (validateIdentifier ''subject_id'' (re_SubjectID e)) @
      reports (validateReputationSubjectKind (re_SubjectKind e)) @
      (if re_Type e \<in> set [ReputationProofAccepted, ReputationProofRejected, ReputationDisputeWon, ReputationDisputeLost, ReputationKillComplied, ReputationKillIgnored, ReputationPolicyViolation, ReputationManualAdjustment, ReputationAvailabilityPenalty] then
         []
       else if re_Type e = [] then
         [New ''type is required'']
       else [Errorf ''type %q is unsupported'' [Str (re_Type e)]]) @
      (if re_ProductID e \<noteq> [] then
         wraps ''product_id: %w'' [] (validateNetworkProductID (re_ProductID e))
       else []) @
      (if re_TaskID e = [] then []
       else reports (validateIdentifier ''task_id'' (re_TaskID e))) @
      (if re_ProofID e = [] then []
       else reports (validateIdentifier ''proof_id'' (re_ProofID e))) @
      fails (re_ScoreDelta e = 0)
        (New ''score_delta must be non-zero'') @
      fails (re_ScoreDelta e < - 1000 \<or> re_ScoreDelta e > 1000)
        (New ''score_delta must be between -1000 and 1000'') @
      fails (trim_space (re_Reason e) = [])
        (New ''reason is required''))"

definition ReputationSummary_Validate :: "ReputationSummary \<Rightarrow> error" where
  "ReputationSummary_Validate s =
     join
     (reports (validateIdentifier ''org_id'' (rs_OrgID s)) @
      reports (validateReputationSubjectKind (rs_SubjectKind s)) @
      reports (validateIdentifier ''subject_id'' (rs_SubjectID s)) @
      (if rs_ProductID s \<noteq> [] then
         wraps ''product_id: %w'' [] (validateNetworkProductID (rs_ProductID s))
       else []) @
      fails (rs_EventCount s < 0)
        (New ''event_count must not be negative'') @
      fails (rs_Score s < - 1000000 \<or> rs_Score s > 1000000)
        (New ''score must be between -1000000 and 1000000''))"

section \<open>Abuse cases\<close>

definition containsSecretLikeValue :: "string \<Rightarrow> bool" where
  "containsSecretLikeValue v \<longleftrightarrow>
     (let upper = to_upper v
      in list_ex (contains_str upper)
           [''SECRET'', ''PRIVATE_KEY'', ''ACCESS_KEY'', ''AUTHORIZATION'', ''BEARER'', ''TOKEN='', ''PASSWORD='', ''CLIENT_SECRET''])"

definition evidence_schemes :: "string list" where
  "evidence_schemes = [''artifact://'', ''audit://'', ''proof://'', ''task://'', ''route://'']"

definition validateMarketplaceEvidenceRef :: "string \<Rightarrow> string \<Rightarrow> error" where
  "validateMarketplaceEvidenceRef name v =
     (if trim_space v = [] then Some (Errorf ''%s is required'' [Str name])
      else if trim_space v \<noteq> v
      then Some (Errorf ''%s must not contain leading or trailing whitespace'' [Str name])
      else if contains_any v (ws_chars @ ch_nul @ ''?&#'')
      then Some (Errorf ''%s must not contain whitespace, query, fragment, or parameter delimiters'' [Str name])
      else if containsSecretLikeValue v
      then Some (Errorf ''%s must not contain raw secret-looking values'' [Str name])
      else (case find (has_prefix v) evidence_schemes of
              Some scheme \<Rightarrow> validateScopedRef name v scheme
            | None \<Rightarrow> Some (Errorf ''%s must use artifact://, audit://, proof://, task://, or route:// scoped ref'' [Str name])))"

definition MarketplaceAbuseEvidenceRef_Validate :: "MarketplaceAbuseEvidenceRef \<Rightarrow> error" where
  "MarketplaceAbuseEvidenceRef_Validate r =
     join
     (reports (validateMarketplaceEvidenceRef ''ref'' (maer_Ref r)) @
      fails (maer_Digest r \<noteq> [] \<and> \<not> validSHA256Ref (maer_Digest r))
        (New ''digest must be sha256:<64 hex chars>'') @
      fails (contains_any (maer_Note r) (ctl_chars @ ch_nul))
        (New ''note must not contain control whitespace''))"

definition MarketplaceAbuseCase_Validate :: "MarketplaceAbuseCase \<Rightarrow> error" where
  "MarketplaceAbuseCase_Validate c =
     join
     (fails (mac_ProtocolVersion c \<noteq> [] \<and> mac_ProtocolVersion c \<noteq> Version)
        (Errorf ''protocol_version must be %q'' [Str Version]) @
      reports (validateIdentifier ''id'' (mac_ID c)) @
      reports (validateIdentifier ''org_id'' (mac_OrgID c)) @
      reports (validateIdentifier ''subject_id'' (mac_SubjectID c)) @
      (if mac_ProductID c \<noteq> [] then
         wraps ''product_id: %w'' [] (validateNetworkProductID (mac_ProductID c))
       else []) @
      (if mac_SubjectKind c = MarketplaceAbuseSubjectProduct then
         fails (mac_ProductID c = [])
           (New ''product_id is required for product abuse case'')
       else if mac_SubjectKind c \<in> set [MarketplaceAbuseSubjectRequestor, MarketplaceAbuseSubjectProvider, MarketplaceAbuseSubjectRouter, MarketplaceAbuseSubjectVerifier] then
         []
       else if mac_SubjectKind c = [] then
         [New ''subject_kind is required'']
       else [Errorf ''subject_kind %q is unsupported'' [Str (mac_SubjectKind c)]]) @
      (if mac_Severity c \<in> set [MarketplaceAbuseSeverityLow, MarketplaceAbuseSeverityMedium, MarketplaceAbuseSeverityHigh, MarketplaceAbuseSeverityCritical] then
         []
       else if mac_Severity c = [] then
         [New ''severity is required'']
       else [Errorf ''severity %q is unsupported'' [Str (mac_Severity c)]]) @
      (if mac_Status c \<in> set [MarketplaceAbuseStatusOpen, MarketplaceAbuseStatusInReview, MarketplaceAbuseStatusActioned] then
         fails (\<not> mac_ResolvedAt c = 0)
           (New ''resolved_at must be empty before terminal status'')
       else if mac_Status c \<in> set [MarketplaceAbuseStatusDismissed, MarketplaceAbuseStatusResolved] then
         fails (mac_ResolvedAt c = 0)
           (New ''resolved_at is required for terminal status'')
       else if mac_Status c = [] then
         [New ''status is required'']
       else [Errorf ''status %q is unsupported'' [Str (mac_Status c)]]) @
      fails (trim_space (mac_Reason c) = [])
        (New ''reason is required'') @
      (if mac_TaskID c = [] then []
       else reports (validateIdentifier ''task_id'' (mac_TaskID c))) @
      (if mac_ProofID c = [] then []
       else reports (validateIdentifier ''proof_id'' (mac_ProofID c))) @
      (if mac_RouteRef c \<noteq> [] then
         reports (validateMarketplaceEvidenceRef ''route_ref'' (mac_RouteRef c))
       else []) @
      each (\<lambda>i ref.
         wraps ''evidence_refs[%d]: %w'' [Num (int i)] (MarketplaceAbuseEvidenceRef_Validate ref)) (mac_EvidenceRefs c))"

section \<open>Settlement holds\<close>

definition version_ok :: "string \<Rightarrow> bool" where
  "version_ok v \<longleftrightarrow> v = [] \<or> v = Version"

lemma product_id_None [validation, simp]:
  "validateNetworkProductID i = None \<longleftrightarrow> trim_space i \<noteq> [] \<and> \<not> contains_any (trim_space i) url_chars"
  by (simp add: validateNetworkProductID_def Let_def)

text \<open>What a hold is: pending, released at a time, or reversed at a time by a correction.\<close>

datatype hold_state = Pending | Released time | Reversed time string

text \<open>A state and the four fields of a hold that carry it, in both directions.\<close>

fun hold_fields :: "hold_state \<Rightarrow> SettlementHold \<Rightarrow> SettlementHold" where
  "hold_fields Pending h = h\<lparr>sh_Status := SettlementHoldPending, sh_ResolvedAt := 0, sh_CorrectionEventID := []\<rparr>"
| "hold_fields (Released t) h = h\<lparr>sh_Status := SettlementHoldReleased, sh_ResolvedAt := t, sh_CorrectionEventID := []\<rparr>"
| "hold_fields (Reversed t c) h = h\<lparr>sh_Status := SettlementHoldReversed, sh_ResolvedAt := t, sh_CorrectionEventID := c\<rparr>"

definition hold_state :: "SettlementHold \<Rightarrow> hold_state" where
  "hold_state h =
     (if sh_Status h = SettlementHoldPending then Pending
      else if sh_Status h = SettlementHoldReleased then Released (sh_ResolvedAt h)
      else Reversed (sh_ResolvedAt h) (sh_CorrectionEventID h))"

fun proper_state :: "hold_state \<Rightarrow> bool" where
  "proper_state Pending \<longleftrightarrow> True"
| "proper_state (Released t) \<longleftrightarrow> t \<noteq> 0"
| "proper_state (Reversed t c) \<longleftrightarrow> t \<noteq> 0 \<and> plain_id c"

definition hold_header :: "SettlementHold \<Rightarrow> bool" where
  "hold_header h \<longleftrightarrow> version_ok (sh_ProtocolVersion h) \<and> plain_id (sh_ID h) \<and> plain_id (sh_OrgID h) \<and>
     plain_id (sh_AccountID h) \<and> plain_id (sh_ContributionEventID h) \<and>
     validateNetworkProductID (sh_ProductID h) = None \<and> trim_space (sh_Reason h) \<noteq> []"

lemma ex_hold_state: "(\<exists>s. P s) \<longleftrightarrow> P Pending \<or> (\<exists>t. P (Released t)) \<or> (\<exists>t c. P (Reversed t c))"
  by (metis hold_state.exhaust)

lemma hold_header_fields [simp]: "hold_header (hold_fields s h) = hold_header h"
  by (cases s) (simp_all add: hold_header_def)

lemma hold_state_fields [simp]: "hold_state (hold_fields s h) = s"
  by (cases s) (simp_all add: hold_state_def enum)

lemma SettlementHold_Validate_status:
  "SettlementHold_Validate h = None \<longleftrightarrow> hold_header h \<and>
     (sh_Status h = SettlementHoldPending \<and> sh_ResolvedAt h = 0 \<and> sh_CorrectionEventID h = [] \<or>
      sh_Status h = SettlementHoldReleased \<and> sh_ResolvedAt h \<noteq> 0 \<and> sh_CorrectionEventID h = [] \<or>
      sh_Status h = SettlementHoldReversed \<and> sh_ResolvedAt h \<noteq> 0 \<and> plain_id (sh_CorrectionEventID h))"
  by (auto simp: SettlementHold_Validate_def hold_header_def version_ok_def enum)

text \<open>C10. A hold is accepted exactly when its header is and its status, resolution time and correction are
  those of a proper state: pending with neither, released with a time, reversed with a time and a
  correction; and the state a hold was written with is the state read from it.\<close>

theorem SettlementHold_refines:
  "(SettlementHold_Validate h = None \<longleftrightarrow> hold_header h \<and> (\<exists>s. proper_state s \<and> h = hold_fields s h)) \<and>
   hold_state (hold_fields s h) = s"
proof -
  have "h = hold_fields s h \<longleftrightarrow>
      (case s of Pending \<Rightarrow> sh_Status h = SettlementHoldPending \<and> sh_ResolvedAt h = 0 \<and> sh_CorrectionEventID h = []
       | Released t \<Rightarrow> sh_Status h = SettlementHoldReleased \<and> sh_ResolvedAt h = t \<and> sh_CorrectionEventID h = []
       | Reversed t c \<Rightarrow> sh_Status h = SettlementHoldReversed \<and> sh_ResolvedAt h = t \<and> sh_CorrectionEventID h = c)" for s
    by (cases s; cases h) auto
  then show ?thesis by (auto simp: SettlementHold_Validate_status ex_hold_state)
qed

section \<open>Trust-root rotation\<close>

lemma accepted_id: "plain_id k \<Longrightarrow> validateIdentifier name k = None"
  by simp

lemma rejected_id: "\<not> plain_id k \<Longrightarrow> \<exists>e. validateIdentifier name k = Some e"
  by (cases "validateIdentifier name k") simp_all

lemma rotation_adds_accepts:
  "fst (rotation_adds i seen keys) = [] \<longleftrightarrow>
     list_all plain_id keys \<and> distinct keys \<and> (\<forall>k \<in> set keys. seen k \<noteq> Some ''add'')"
proof (induction keys arbitrary: i seen)
  case (Cons k keys)
  show ?case
  proof (cases "plain_id k")
    case True
    then show ?thesis by (auto simp: accepted_id Cons.IH Let_def case_prod_beta)
  next
    case False
    with rejected_id [OF False, of "at_index ''add_trusted_federation_key_ids'' i []"]
    show ?thesis by (auto simp: Let_def case_prod_beta)
  qed
qed simp

lemma rotation_adds_seen:
  "list_all plain_id keys \<Longrightarrow> snd (rotation_adds i seen keys) = (\<lambda>k. if k \<in> set keys then Some ''add'' else seen k)"
proof (induction keys arbitrary: i seen)
  case (Cons k keys)
  then have "snd (rotation_adds i seen (k # keys)) = snd (rotation_adds (Suc i) (seen(k \<mapsto> ''add'')) keys)"
    by (simp add: accepted_id Let_def case_prod_beta)
  also have "\<dots> = (\<lambda>k'. if k' \<in> set keys then Some ''add'' else (seen(k \<mapsto> ''add'')) k')"
    using Cons by simp
  finally show ?case by (auto simp: fun_eq_iff)
qed simp

lemma rotation_removes_Nil:
  "rotation_removes i seen keys = [] \<longleftrightarrow>
     list_all plain_id keys \<and> distinct keys \<and> (\<forall>k \<in> set keys. seen k \<noteq> Some ''add'' \<and> seen k \<noteq> Some ''remove'')"
proof (induction keys arbitrary: i seen)
  case (Cons k keys)
  show ?case
  proof (cases "plain_id k")
    case True
    then show ?thesis by (auto simp: accepted_id Cons.IH)
  next
    case False
    with rejected_id [OF False, of "at_index ''remove_trusted_federation_key_ids'' i []"]
    show ?thesis by auto
  qed
qed simp

text \<open>C25. A trust-root rotation is accepted exactly when it names at least one key, all its keys are identifiers
  and no key occurs twice in the additions and removals together, under a non-negative version and a
  reason. So the order in which additions and removals are applied to the trusted keys is irrelevant.\<close>

theorem trust_root_rotation_iff:
  "(MarketplaceTrustRootRotationRequest_Validate r = None \<longleftrightarrow>
     version_ok (mtrrr_ProtocolVersion r) \<and>
     mtrrr_AddTrustedFederationKeyIDs r @ mtrrr_RemoveTrustedFederationKeyIDs r \<noteq> [] \<and>
     list_all plain_id (mtrrr_AddTrustedFederationKeyIDs r @ mtrrr_RemoveTrustedFederationKeyIDs r) \<and>
     distinct (mtrrr_AddTrustedFederationKeyIDs r @ mtrrr_RemoveTrustedFederationKeyIDs r) \<and>
     0 \<le> mtrrr_RequireCurrentVersion r \<and> trim_space (mtrrr_Reason r) \<noteq> []) \<and>
   (MarketplaceTrustRootRotationRequest_Validate r = None \<longrightarrow>
     (trusted - set (mtrrr_RemoveTrustedFederationKeyIDs r)) \<union> set (mtrrr_AddTrustedFederationKeyIDs r) =
     (trusted \<union> set (mtrrr_AddTrustedFederationKeyIDs r)) - set (mtrrr_RemoveTrustedFederationKeyIDs r))"
proof -
  let ?adds = "mtrrr_AddTrustedFederationKeyIDs r" and ?removes = "mtrrr_RemoveTrustedFederationKeyIDs r"
  obtain added seen where loop: "rotation_adds 0 Map.empty ?adds = (added, seen)" by fastforce
  have added: "added = [] \<longleftrightarrow> list_all plain_id ?adds \<and> distinct ?adds"
    using rotation_adds_accepts [of 0 Map.empty ?adds] by (simp add: loop)
  have seen: "seen = (\<lambda>k. if k \<in> set ?adds then Some ''add'' else None)" if "list_all plain_id ?adds"
    using rotation_adds_seen [OF that, of 0 Map.empty] by (simp add: loop fun_eq_iff)
  have iff: "MarketplaceTrustRootRotationRequest_Validate r = None \<longleftrightarrow>
     version_ok (mtrrr_ProtocolVersion r) \<and> ?adds @ ?removes \<noteq> [] \<and> list_all plain_id (?adds @ ?removes) \<and>
     distinct (?adds @ ?removes) \<and> 0 \<le> mtrrr_RequireCurrentVersion r \<and> trim_space (mtrrr_Reason r) \<noteq> []"
  proof (cases "list_all plain_id ?adds")
    case True
    then show ?thesis
      by (auto simp: MarketplaceTrustRootRotationRequest_Validate_def loop added seen rotation_removes_Nil version_ok_def)
  qed (simp add: MarketplaceTrustRootRotationRequest_Validate_def loop added)
  then show ?thesis by auto
qed

section \<open>Operator and operations policies\<close>

text \<open>An enabled operator policy: what each list must be.\<close>

lemma MarketplaceOperatorPolicy_iff:
  "MarketplaceOperatorPolicy_Validate p = None \<longleftrightarrow>
     version_ok (mop_ProtocolVersion p) \<and>
     (mop_Enabled p \<longrightarrow>
        0 < mop_Version p \<and> plain_id (mop_ID p) \<and> plain_id (mop_OperatorID p) \<and>
        mop_AllowedOrgIDs p \<noteq> [] \<and> (\<forall>o' \<in> set (mop_AllowedOrgIDs p). plain_id o') \<and> distinct (mop_AllowedOrgIDs p) \<and>
        mop_AllowedProductIDs p \<noteq> [] \<and> (\<forall>i \<in> set (mop_AllowedProductIDs p). validateNetworkProductID i = None) \<and>
        distinct (mop_AllowedProductIDs p) \<and>
        mop_TrustedFederationKeyIDs p \<noteq> [] \<and> (\<forall>k \<in> set (mop_TrustedFederationKeyIDs p). plain_id k) \<and>
        distinct (mop_TrustedFederationKeyIDs p))"
  unfolding MarketplaceOperatorPolicy_Validate_def join_None append_is_Nil_conv
  by (cases "mop_Enabled p") (auto simp: version_ok_def not_le)

definition clean_text :: "string \<Rightarrow> bool" where
  "clean_text v \<longleftrightarrow> v \<noteq> [] \<and> trim_space v = v \<and> \<not> contains_any v (ctl_chars @ ch_nul)"

lemma clean_text_iff: "clean_text v \<longleftrightarrow> trim_space v \<noteq> [] \<and> trim_space v = v \<and> \<not> contains_any v (ctl_chars @ ch_nul)"
  by (auto simp: clean_text_def)

lemma versioned_text_Nil [validation, simp]: "versioned_text name v = [] \<longleftrightarrow> clean_text v"
  by (auto simp: versioned_text_def clean_text_def)

definition operations_terms :: "MarketplaceOperationsPolicy \<Rightarrow> bool" where
  "operations_terms p \<longleftrightarrow> plain_id (maoppo_ID p) \<and> plain_id (maoppo_PayoutProvider p) \<and>
     clean_text (maoppo_TermsVersion p) \<and> clean_text (maoppo_RewardPolicyVersion p) \<and> clean_text (maoppo_AbuseContact p) \<and>
     0 < maoppo_Version p \<and> 0 < maoppo_DisputeWindowHours p"

definition payout_keys :: "MarketplaceOperationsPolicy \<Rightarrow> string list" where
  "payout_keys p = maoppo_ActivePayoutKeyID p # maoppo_PreviousPayoutKeyIDs p"

lemma MarketplaceOperationsPolicy_iff:
  "MarketplaceOperationsPolicy_Validate p = None \<longleftrightarrow>
     version_ok (maoppo_ProtocolVersion p) \<and>
     (maoppo_Enabled p \<longrightarrow> operations_terms p \<and> list_all plain_id (payout_keys p) \<and> distinct (payout_keys p))"
proof -
  have ids: "list_all plain_id (payout_keys p) \<and> distinct (payout_keys p) \<longleftrightarrow> plain_id (maoppo_ActivePayoutKeyID p) \<and>
      (\<forall>k \<in> set (maoppo_PreviousPayoutKeyIDs p). plain_id k) \<and> distinct (maoppo_PreviousPayoutKeyIDs p) \<and>
      set (maoppo_PreviousPayoutKeyIDs p) \<inter> (if maoppo_ActivePayoutKeyID p \<noteq> [] then {maoppo_ActivePayoutKeyID p} else {}) = {}"
    by (cases "plain_id (maoppo_ActivePayoutKeyID p)") (auto simp: payout_keys_def list_all_iff)
  show ?thesis
    unfolding MarketplaceOperationsPolicy_Validate_def join_None append_is_Nil_conv ids
    by (cases "maoppo_Enabled p") (simp_all add: version_ok_def operations_terms_def clean_text_iff not_le conj_ac)
qed

text \<open>Payout keys rotate without being reused: an accepted rotation request, applied to an accepted, enabled
  operations policy by making its key the active one and the former active key a previous one, gives
  an accepted policy exactly when its key was neither active nor previous. The request alone does
  not ensure it.\<close>

theorem payout_key_rotation_fresh:
  assumes "MarketplaceOperationsPolicy_Validate p = None" and "maoppo_Enabled p"
    and "MarketplacePayoutKeyRotationRequest_Validate r = None"
  shows "MarketplaceOperationsPolicy_Validate (p\<lparr>maoppo_ActivePayoutKeyID := mpkrr_NewPayoutKeyID r,
      maoppo_PreviousPayoutKeyIDs := maoppo_PreviousPayoutKeyIDs p @ [maoppo_ActivePayoutKeyID p]\<rparr>) = None \<longleftrightarrow>
    mpkrr_NewPayoutKeyID r \<notin> set (payout_keys p)"
proof -
  have "plain_id (mpkrr_NewPayoutKeyID r)"
    using assms(3) by (simp add: MarketplacePayoutKeyRotationRequest_Validate_def)
  then show ?thesis
    using assms(1,2) by (auto simp: MarketplaceOperationsPolicy_iff operations_terms_def payout_keys_def)
qed

section \<open>Reputation\<close>

lemma ReputationEvent_accepted:
  "ReputationEvent_Validate e = None \<Longrightarrow> \<bar>re_ScoreDelta e\<bar> \<le> 1000 \<and> re_ScoreDelta e \<noteq> 0 \<and> plain_id (re_OrgID e) \<and>
     plain_id (re_SubjectID e) \<and> validateReputationSubjectKind (re_SubjectKind e) = None"
  unfolding ReputationEvent_Validate_def join_None append_is_Nil_conv by (auto simp: abs_le_iff)

lemma sum_list_abs_le: "\<forall>x \<in> set xs. \<bar>x\<bar> \<le> (b :: int) \<Longrightarrow> \<bar>sum_list xs\<bar> \<le> b * int (length xs)"
proof (induction xs)
  case (Cons x xs)
  then have "\<bar>x + sum_list xs\<bar> \<le> b + b * int (length xs)" by fastforce
  then show ?case by (simp add: algebra_simps)
qed simp

text \<open>The bounds of events and summaries fit: the summary of at most a thousand accepted events of a subject,
  their number with the sum of their deltas, is accepted. With one event more it may not be.\<close>

theorem reputation_summary_fits:
  assumes "\<forall>e \<in> set es. ReputationEvent_Validate e = None" and "es \<noteq> []" and "length es \<le> 1000"
  shows "ReputationSummary_Validate \<lparr>rs_OrgID = re_OrgID (hd es), rs_SubjectKind = re_SubjectKind (hd es),
    rs_SubjectID = re_SubjectID (hd es), rs_ProductID = [], rs_Score = sum_list (map re_ScoreDelta es),
    rs_EventCount = int (length es)\<rparr> = None"
proof -
  have "\<bar>sum_list (map re_ScoreDelta es)\<bar> \<le> 1000 * int (length es)"
    using sum_list_abs_le [of "map re_ScoreDelta es" 1000] assms(1) ReputationEvent_accepted by fastforce
  then have "\<bar>sum_list (map re_ScoreDelta es)\<bar> \<le> 1000000" using assms(3) by linarith
  moreover have "ReputationEvent_Validate (hd es) = None" using assms(1,2) by simp
  ultimately show ?thesis
    using ReputationEvent_accepted [of "hd es"] by (auto simp: ReputationSummary_Validate_def abs_le_iff)
qed

section \<open>Abuse cases and evidence\<close>

definition evidence_ref :: "string \<Rightarrow> bool" where
  "evidence_ref v \<longleftrightarrow> scoped_by evidence_schemes v \<and> trim_space v = v \<and> \<not> contains_any v (ws_chars @ ch_nul @ ''?&#'') \<and>
     \<not> containsSecretLikeValue v"

lemma validateMarketplaceEvidenceRef_None [validation, simp]:
  "validateMarketplaceEvidenceRef name v = None \<longleftrightarrow> evidence_ref v"
proof -
  have "prefix_free evidence_schemes" by (simp add: prefix_free_def evidence_schemes_def)
  from first_scheme_scoped [OF this, of v] show ?thesis
    by (auto simp: validateMarketplaceEvidenceRef_def evidence_ref_def validateScopedRef_None
        dest: scoped_by_nonempty split: option.splits)
qed

lemma two_phase_status_Nil:
  "(if s \<in> A then fails p e1 else if s \<in> B then fails q e2 else if s = [] then [e3] else [e4]) = [] \<longleftrightarrow>
     s \<in> A \<and> \<not> p \<or> s \<notin> A \<and> s \<in> B \<and> \<not> q"
  by simp

lemma scoped_kind_Nil:
  "(if s = k then fails p e1 else if s \<in> B then [] else if s = [] then [e3] else [e4]) = [] \<longleftrightarrow> s = k \<and> \<not> p \<or> s \<noteq> k \<and> s \<in> B"
  by simp

text \<open>Evidence of an accepted abuse case is referenced, not carried: every evidence reference and the route
  reference use one of five schemes with a scoped path, without parent traversal, query, fragment or
  white space, and show no secret marker in any case of its letters; and the case is dated as resolved
  exactly in its two terminal states.\<close>

theorem abuse_case_evidence:
  assumes "MarketplaceAbuseCase_Validate c = None"
  shows "(\<forall>ref \<in> set (mac_EvidenceRefs c). evidence_ref (maer_Ref ref) \<and> (maer_Digest ref = [] \<or> validSHA256Ref (maer_Digest ref))) \<and>
    (mac_RouteRef c = [] \<or> evidence_ref (mac_RouteRef c)) \<and>
    (mac_ResolvedAt c \<noteq> 0 \<longleftrightarrow> mac_Status c \<in> {MarketplaceAbuseStatusDismissed, MarketplaceAbuseStatusResolved}) \<and>
    (mac_SubjectKind c = MarketplaceAbuseSubjectProduct \<longrightarrow> mac_ProductID c \<noteq> [])"
proof -
  note parts = assms [unfolded MarketplaceAbuseCase_Validate_def join_None append_is_Nil_conv two_phase_status_Nil scoped_kind_Nil]
  then have status: "mac_Status c \<in> set [MarketplaceAbuseStatusOpen, MarketplaceAbuseStatusInReview, MarketplaceAbuseStatusActioned] \<and>
        \<not> \<not> mac_ResolvedAt c = 0 \<or>
      mac_Status c \<notin> set [MarketplaceAbuseStatusOpen, MarketplaceAbuseStatusInReview, MarketplaceAbuseStatusActioned] \<and>
      mac_Status c \<in> set [MarketplaceAbuseStatusDismissed, MarketplaceAbuseStatusResolved] \<and> \<not> mac_ResolvedAt c = 0"
    and kind: "mac_SubjectKind c = MarketplaceAbuseSubjectProduct \<and> \<not> mac_ProductID c = [] \<or>
      mac_SubjectKind c \<noteq> MarketplaceAbuseSubjectProduct \<and>
      mac_SubjectKind c \<in> set [MarketplaceAbuseSubjectRequestor, MarketplaceAbuseSubjectProvider, MarketplaceAbuseSubjectRouter, MarketplaceAbuseSubjectVerifier]"
    and route: "(if mac_RouteRef c \<noteq> [] then reports (validateMarketplaceEvidenceRef ''route_ref'' (mac_RouteRef c)) else []) = []"
    and refs: "each (\<lambda>i ref. wraps ''evidence_refs[%d]: %w'' [Num (int i)] (MarketplaceAbuseEvidenceRef_Validate ref)) (mac_EvidenceRefs c) = []"
    by iprover+
  have c1: "evidence_ref (maer_Ref ref) \<and> (maer_Digest ref = [] \<or> validSHA256Ref (maer_Digest ref))"
    if "ref \<in> set (mac_EvidenceRefs c)" for ref
    using refs that by (auto simp: MarketplaceAbuseEvidenceRef_Validate_def)
  have c2: "mac_RouteRef c = [] \<or> evidence_ref (mac_RouteRef c)"
    using route by (simp split: if_splits)
  have c3: "mac_ResolvedAt c \<noteq> 0 \<longleftrightarrow> mac_Status c \<in> {MarketplaceAbuseStatusDismissed, MarketplaceAbuseStatusResolved}"
    using status by (auto simp: enum)
  show ?thesis using c1 c2 c3 kind by blast
qed

section \<open>Examples\<close>

definition demo_rotation :: MarketplaceTrustRootRotationRequest where
  "demo_rotation = \<lparr>mtrrr_ProtocolVersion = [], mtrrr_AddTrustedFederationKeyIDs = [''k2'', ''k3''],
     mtrrr_RemoveTrustedFederationKeyIDs = [''k1''], mtrrr_RequireCurrentVersion = 0, mtrrr_Reason = ''rotation''\<rparr>"

text \<open>A key both added and removed is rejected.\<close>

lemma trust_root_rotation_iff_witness:
  "MarketplaceTrustRootRotationRequest_Validate demo_rotation = None \<and>
   MarketplaceTrustRootRotationRequest_Validate (demo_rotation\<lparr>mtrrr_RemoveTrustedFederationKeyIDs := [''k2'']\<rparr>) \<noteq> None \<and>
   ({''k1'', ''k4''} - {''k1''}) \<union> {''k2'', ''k3''} = ({''k1'', ''k4''} \<union> {''k2'', ''k3''}) - {''k1''}"
proof -
  have "MarketplaceTrustRootRotationRequest_Validate demo_rotation = None" by code_simp
  with trust_root_rotation_iff [of demo_rotation "{''k1'', ''k4''}"]
    trust_root_rotation_iff [of "demo_rotation\<lparr>mtrrr_RemoveTrustedFederationKeyIDs := [''k2'']\<rparr>" "{}"]
  show ?thesis by (auto simp: demo_rotation_def)
qed

definition demo_operations :: MarketplaceOperationsPolicy where
  "demo_operations = \<lparr>maoppo_ProtocolVersion = [], maoppo_ID = ''ops'', maoppo_Enabled = True, maoppo_Version = 1,
     maoppo_TermsVersion = ''v1'', maoppo_RewardPolicyVersion = ''v1'', maoppo_DisputeWindowHours = 24,
     maoppo_AbuseContact = ''abuse desk'', maoppo_PayoutProvider = ''bank'', maoppo_ActivePayoutKeyID = ''p2'',
     maoppo_PreviousPayoutKeyIDs = [''p1''], maoppo_CreatedAt = 0, maoppo_UpdatedAt = 0\<rparr>"

lemma payout_key_rotation_fresh_witness:
  "MarketplaceOperationsPolicy_Validate (demo_operations\<lparr>maoppo_ActivePayoutKeyID := ''p3'', maoppo_PreviousPayoutKeyIDs := [''p1'', ''p2'']\<rparr>) = None \<and>
   MarketplaceOperationsPolicy_Validate (demo_operations\<lparr>maoppo_ActivePayoutKeyID := ''p1'', maoppo_PreviousPayoutKeyIDs := [''p1'', ''p2'']\<rparr>) \<noteq> None"
proof -
  let ?req = "\<lambda>k. \<lparr>mpkrr_ProtocolVersion = [], mpkrr_NewPayoutKeyID = k, mpkrr_RequireCurrentVersion = 0, mpkrr_Reason = ''rotation''\<rparr>"
  have p: "MarketplaceOperationsPolicy_Validate demo_operations = None" by code_simp
  have r: "MarketplacePayoutKeyRotationRequest_Validate (?req ''p3'') = None" "MarketplacePayoutKeyRotationRequest_Validate (?req ''p1'') = None"
    by code_simp+
  have e: "maoppo_Enabled demo_operations" by (simp add: demo_operations_def)
  show ?thesis
    using payout_key_rotation_fresh [OF p e r(1)] payout_key_rotation_fresh [OF p e r(2)]
    by (simp add: demo_operations_def payout_keys_def)
qed

definition demo_event :: "int \<Rightarrow> ReputationEvent" where
  "demo_event d = \<lparr>re_ProtocolVersion = [], re_ID = ''e'', re_OrgID = ''org'', re_SubjectKind = ReputationSubjectProvider,
     re_SubjectID = ''worker'', re_ProductID = [], re_TaskID = [], re_ProofID = [], re_Type = ReputationProofAccepted,
     re_ScoreDelta = d, re_Reason = ''proof'', re_RecordedAt = 0\<rparr>"

definition demo_summary :: "int \<Rightarrow> int \<Rightarrow> ReputationSummary" where
  "demo_summary score n = \<lparr>rs_OrgID = ''org'', rs_SubjectKind = ReputationSubjectProvider, rs_SubjectID = ''worker'',
     rs_ProductID = [], rs_Score = score, rs_EventCount = n\<rparr>"

lemma reputation_summary_fits_witness:
  "ReputationSummary_Validate (demo_summary 995 2) = None \<and> ReputationSummary_Validate (demo_summary 1001000 1001) \<noteq> None"
proof -
  have "\<forall>e \<in> set [demo_event 1000, demo_event (-5)]. ReputationEvent_Validate e = None" by code_simp
  from reputation_summary_fits [OF this] have "ReputationSummary_Validate (demo_summary 995 2) = None"
    by (simp add: demo_event_def demo_summary_def)
  moreover have "ReputationSummary_Validate (demo_summary 1001000 1001) \<noteq> None" by code_simp
  ultimately show ?thesis by blast
qed

definition demo_case :: "string \<Rightarrow> MarketplaceAbuseCase" where
  "demo_case ref = \<lparr>mac_ProtocolVersion = [], mac_ID = ''case'', mac_OrgID = ''org'', mac_ProductID = [],
     mac_SubjectKind = MarketplaceAbuseSubjectProvider, mac_SubjectID = ''worker'', mac_Severity = MarketplaceAbuseSeverityLow,
     mac_Status = MarketplaceAbuseStatusOpen, mac_Reason = ''spam'',
     mac_EvidenceRefs = [\<lparr>maer_Ref = ref, maer_Digest = [], maer_Note = []\<rparr>], mac_TaskID = [], mac_ProofID = [], mac_RouteRef = [],
     mac_CreatedAt = 0, mac_UpdatedAt = 0, mac_ResolvedAt = 0\<rparr>"

lemma abuse_case_evidence_witness:
  "evidence_ref ''audit://log/7'' \<and> MarketplaceAbuseCase_Validate (demo_case ''audit://log/Bearer'') \<noteq> None"
proof -
  have "MarketplaceAbuseCase_Validate (demo_case ''audit://log/7'') = None" by code_simp
  from abuse_case_evidence [OF this] have "evidence_ref ''audit://log/7''" by (simp add: demo_case_def)
  moreover have "MarketplaceAbuseCase_Validate (demo_case ''audit://log/Bearer'') \<noteq> None" by code_simp
  ultimately show ?thesis by blast
qed

text \<open>Product identifiers are trimmed before they are checked, but compared untrimmed: a policy can name one product twice.\<close>

lemma operator_policy_products_up_to_space:
  "MarketplaceOperatorPolicy_Validate \<lparr>mop_ProtocolVersion = [], mop_ID = ''op'', mop_Enabled = True, mop_Version = 1,
     mop_OperatorID = ''op'', mop_AllowedOrgIDs = [''org''], mop_AllowedProductIDs = [''prod'', '' prod''],
     mop_TrustedFederationKeyIDs = [''k1''], mop_CreatedAt = 0, mop_UpdatedAt = 0\<rparr> = None"
  by code_simp

end
