(* ===== verification/GoNet.thy ===== *)
theory GoNet
  imports Identifiers
begin

text \<open>
  The parts of Go's \<open>net\<close>, \<open>net/netip\<close> and \<open>strconv\<close> the source calls on endpoints and address
  ranges: \<open>netip.ParseAddr\<close> and \<open>netip.ParsePrefix\<close>, \<open>net.ParseIP\<close>, \<open>net.SplitHostPort\<close>,
  \<open>net.JoinHostPort\<close> and \<open>strconv.Atoi\<close>. Of an address only its form matters: which text parses,
  and whether it is of version 4 or 6 or has a zone.
\<close>

section \<open>Numbers\<close>

text \<open>\<open>strconv.Atoi\<close>: an optional sign, decimal digits, and a value of 64 bits.\<close>

definition atoi :: "string \<Rightarrow> int option" where
  "atoi s =
     (let (neg, ds) = (case s of c # cs \<Rightarrow> if c = CHR ''-'' then (True, cs) else if c = CHR ''+'' then (False, cs) else (False, s)
                       | [] \<Rightarrow> (False, []));
          v = (if neg then - int (decimal_value ds) else int (decimal_value ds))
      in if ds \<noteq> [] \<and> list_all (\<lambda>c. c \<in> set digits) ds \<and> in64 v then Some v else None)"

lemma decimal_value_Nil [simp]: "decimal_value [] = 0"
  by (simp add: decimal_value_def)

lemma decimal_value_snoc: "decimal_value (ds @ [c]) = decimal_value ds * 10 + (of_char c - of_char (CHR ''0''))"
  by (simp add: decimal_value_def)

lemma digit_nth: "n < 10 \<Longrightarrow> digits ! n \<in> set digits \<and> of_char (digits ! n) - of_char (CHR ''0'') = (n :: nat)"
proof -
  assume "n < 10"
  then have "n \<in> {0, 1, 2, 3, 4, 5, 6, 7, 8, 9}" by auto
  then show ?thesis by (auto simp: digits_def)
qed

lemma dec_digits: "dec n \<noteq> [] \<and> set (dec n) \<subseteq> set digits \<and> decimal_value (dec n) = n"
proof (induction n rule: dec.induct)
  case (1 n)
  show ?case
  proof (cases "n < 10")
    case True
    then have "dec n = [digits ! n]" by (simp add: dec.simps digits_def)
    then show ?thesis using digit_nth [OF True] by (simp add: decimal_value_def)
  next
    case False
    then have "dec n = dec (n div 10) @ [digits ! (n mod 10)]" by (simp add: dec.simps [of n] digits_def)
    then show ?thesis using 1 [OF False] digit_nth [of "n mod 10"] by (simp add: decimal_value_snoc)
  qed
qed

lemma atoi_dec: "in64 (int n) \<Longrightarrow> atoi (dec n) = Some (int n)"
proof -
  assume n: "in64 (int n)"
  obtain c cs where dec: "dec n = c # cs" using dec_digits [of n] by (cases "dec n") auto
  then have "c \<in> set digits" using dec_digits [of n] by auto
  then have "c \<noteq> CHR ''-''" "c \<noteq> CHR ''+''" by (auto simp: digits_def)
  moreover have "list_all (\<lambda>c. c \<in> set digits) (dec n)" using dec_digits [of n] by (auto simp: list_all_iff)
  ultimately show ?thesis using n dec_digits [of n] by (simp add: atoi_def dec)
qed

section \<open>Addresses\<close>

text \<open>
  The loop of \<open>netip\<close>'s parser of version 6: \<open>i\<close> of the 16 bytes are filled, \<open>ell\<close> tells whether
  a double colon was met. A group has one to four hexadecimal digits; a dotted quad may stand for
  the last four bytes; and the double colon stands for at least one group.
\<close>

definition ipv6_full :: "nat \<Rightarrow> bool \<Rightarrow> bool" where
  "ipv6_full i ell \<longleftrightarrow> (if i < 16 then ell else \<not> ell)"

function ipv6_groups :: "nat \<Rightarrow> bool \<Rightarrow> string \<Rightarrow> bool" where
  "ipv6_groups i ell s =
     (let h = takeWhile is_hex_digit s
      in if 16 \<le> i \<or> h = [] \<or> 4 < length h then False
         else (case drop (length h) s of
             [] \<Rightarrow> ipv6_full (i + 2) ell
           | c # t \<Rightarrow>
               if c = CHR ''.'' then (ell \<or> i = 12) \<and> i + 4 \<le> 16 \<and> parses_ipv4 s \<and> ipv6_full (i + 4) ell
               else if c \<noteq> CHR '':'' then False
               else (case t of
                   [] \<Rightarrow> False
                 | c' # u \<Rightarrow>
                     if c' = CHR '':''
                     then \<not> ell \<and> (if u = [] then ipv6_full (i + 2) True else ipv6_groups (i + 2) True u)
                     else ipv6_groups (i + 2) ell t)))"
  by pat_completeness auto

termination
proof (relation "measure (\<lambda>(i, ell, s). length s)")
  have shorter: "Suc (length t) \<le> length s" if "drop (length h) s = c # t" for h s :: string and c t
    using arg_cong [OF that, of length] by simp
  show "((i + 2, True, u), i, ell, s) \<in> measure (\<lambda>(i, ell, s). length s)"
    if "drop (length h) s = c # t" "t = c' # u" for h s :: string and i :: nat and c t c' u and ell :: bool
    using shorter [OF that(1)] that(2) by simp
  show "((i + 2, ell, t), i, ell, s) \<in> measure (\<lambda>(i, ell, s). length s)"
    if "drop (length h) s = c # t" for h s :: string and i :: nat and c t and ell :: bool
    using shorter [OF that(1)] by simp
qed simp

declare ipv6_groups.simps [simp del]

definition parses_ipv6 :: "string \<Rightarrow> bool" where
  "parses_ipv6 s =
     (if prefix ''::'' s then (drop 2 s = [] \<or> ipv6_groups 0 True (drop 2 s)) else ipv6_groups 0 False s)"

datatype addr = IPv4 | IPv6 | IPv6Zone

text \<open>\<open>netip.ParseAddr\<close>: the first dot, colon or percent sign decides the version.\<close>

definition parse_addr :: "string \<Rightarrow> addr option" where
  "parse_addr s =
     (case find (\<lambda>c. c \<in> set ''.:%'') s of
        None \<Rightarrow> None
      | Some c \<Rightarrow>
          if c = CHR ''.'' then (if parses_ipv4 s then Some IPv4 else None)
          else if c = CHR ''%'' then None
          else (case cut_char (CHR ''%'') s of
                  None \<Rightarrow> if parses_ipv6 s then Some IPv6 else None
                | Some (a, zone) \<Rightarrow> if zone \<noteq> [] \<and> parses_ipv6 a then Some IPv6Zone else None))"

definition parses_ip :: "string \<Rightarrow> bool" where
  \<comment> \<open>\<open>net.ParseIP(s) != nil\<close>\<close>
  "parses_ip s \<longleftrightarrow> parse_addr s = Some IPv4 \<or> parse_addr s = Some IPv6"

text \<open>\<open>strings.LastIndexByte\<close> as a cut: what is before the last separator and what is after it.\<close>

fun cut_last :: "char \<Rightarrow> string \<Rightarrow> (string \<times> string) option" where
  "cut_last c [] = None"
| "cut_last c (x # xs) =
     (case cut_last c xs of
        Some (a, b) \<Rightarrow> Some (x # a, b)
      | None \<Rightarrow> if x = c then Some ([], xs) else None)"

definition parses_prefix :: "string \<Rightarrow> bool" where
  \<comment> \<open>\<open>netip.ParsePrefix\<close> returns no error\<close>
  "parses_prefix s \<longleftrightarrow>
     (case cut_last (CHR ''/'') s of
        None \<Rightarrow> False
      | Some (a, bits) \<Rightarrow>
          (case parse_addr a of
             None \<Rightarrow> False
           | Some IPv6Zone \<Rightarrow> False
           | Some v \<Rightarrow>
               \<not> (1 < length bits \<and> (hd bits \<notin> set digits \<or> hd bits = CHR ''0'')) \<and>
               (case atoi bits of None \<Rightarrow> False | Some n \<Rightarrow> 0 \<le> n \<and> n \<le> (if v = IPv4 then 32 else 128))))"

section \<open>Hosts and ports\<close>

text \<open>\<open>net.SplitHostPort\<close>; \<open>None\<close> is any of its errors.\<close>

definition SplitHostPort :: "string \<Rightarrow> (string \<times> string) option" where
  "SplitHostPort hostport =
     (case cut_last (CHR '':'') hostport of
        None \<Rightarrow> None
      | Some (before, port) \<Rightarrow>
          if has_prefix hostport ''[''
          then (case cut_char (CHR '']'') hostport of
                  None \<Rightarrow> None
                | Some (opened, rest) \<Rightarrow>
                    (let host = drop 1 opened
                     in if before \<noteq> opened @ '']'' then None
                        else if CHR ''['' \<in> set (drop 1 hostport) then None
                        else if CHR '']'' \<in> set rest then None
                        else Some (host, port)))
          else if CHR '':'' \<in> set before then None
          else if CHR ''['' \<in> set hostport \<or> CHR '']'' \<in> set hostport then None
          else Some (before, port))"

definition JoinHostPort :: "string \<Rightarrow> string \<Rightarrow> string" where
  "JoinHostPort host port =
     (if CHR '':'' \<in> set host then ''['' @ host @ '']:'' @ port else host @ '':'' @ port)"

text \<open>\<open>strings.Trim(s, "[]")\<close>\<close>

definition trim_brackets :: "string \<Rightarrow> string" where
  "trim_brackets s = (let b = (\<lambda>c. c \<in> set ''[]'') in rev (dropWhile b (rev (dropWhile b s))))"

lemma cut_last_None: "cut_last c s = None \<longleftrightarrow> c \<notin> set s"
  by (induction s) (auto split: option.splits)

lemma cut_last_parts: "cut_last c s = Some (a, b) \<Longrightarrow> s = a @ c # b \<and> c \<notin> set b"
  by (induction s arbitrary: a) (auto simp: cut_last_None split: option.splits if_splits)

lemma cut_last_append: "c \<notin> set b \<Longrightarrow> cut_last c (a @ c # b) = Some (a, b)"
proof (induction a)
  case Nil
  then have "cut_last c b = None" by (simp add: cut_last_None)
  then show ?case by simp
qed simp

lemma cut_last_Some: "cut_last c s = Some (a, b) \<longleftrightarrow> s = a @ c # b \<and> c \<notin> set b"
  using cut_last_parts cut_last_append by metis

text \<open>Splitting undoes joining.\<close>

lemma SplitHostPort_JoinHostPort:
  assumes "set host \<inter> set ''[]'' = {}" and "set port \<inter> set '':[]'' = {}"
  shows "SplitHostPort (JoinHostPort host port) = Some (host, port)"
proof (cases "CHR '':'' \<in> set host")
  case True
  have "cut_last (CHR '':'') (''['' @ host @ '']:'' @ port) = Some (''['' @ host @ '']'', port)"
    unfolding cut_last_Some using assms(2) by auto
  moreover have "cut_char (CHR '']'') (''['' @ host @ '']:'' @ port) = Some (''['' @ host, '':'' @ port)"
    unfolding cut_char_Some using assms(1) by auto
  ultimately show ?thesis using True assms by (auto simp: JoinHostPort_def SplitHostPort_def)
next
  case False
  have "cut_last (CHR '':'') (host @ '':'' @ port) = Some (host, port)"
    unfolding cut_last_Some using assms(2) by auto
  moreover have "\<not> has_prefix (host @ '':'' @ port) ''[''"
    using assms(1) by (cases host) auto
  ultimately show ?thesis using False assms by (auto simp: JoinHostPort_def SplitHostPort_def)
qed

text \<open>Examples.\<close>

lemma addr_examples:
  "parse_addr ''10.0.0.1'' = Some IPv4" "parse_addr ''10.0.0.01'' = None" "parse_addr ''::1'' = Some IPv6"
  "parse_addr ''fe80::1%eth0'' = Some IPv6Zone" "parse_addr ''::ffff:10.0.0.1'' = Some IPv6" "parse_addr ''1::2::3'' = None"
  "parse_addr ''1:2:3:4:5:6:7:8'' = Some IPv6" "parse_addr ''1:2:3:4:5:6:7'' = None" "parse_addr ''1:2:3:4:5:6:7::'' = Some IPv6"
  by code_simp+

lemma prefix_examples:
  "parses_prefix ''10.0.0.0/8''" "\<not> parses_prefix ''10.0.0.0/08''" "\<not> parses_prefix ''10.0.0.0/33''"
  "parses_prefix ''fd00::/64''" "\<not> parses_prefix ''10.0.0.0''"
  by code_simp+

lemma split_examples:
  "SplitHostPort ''[::1]:80'' = Some (''::1'', ''80'')" "SplitHostPort ''a:b:80'' = None"
  "SplitHostPort ''host'' = None" "SplitHostPort ''[::1]'' = None"
  by code_simp+

end
