(* ===== verification/GoDate.thy ===== *)
theory GoDate
  imports GoNet
begin

text \<open>
  \<open>time.Parse(time.RFC3339, s)\<close>, as far as whether it returns an error. Each step consumes a piece
  of the text and gives the rest; \<open>None\<close> is an error. As in Go the hour may have one digit, a
  fraction may follow the seconds after a dot or a comma, and an offset may be as large as 24:60.
\<close>

type_synonym 'a reader = "string \<Rightarrow> ('a \<times> string) option"

definition read_lit :: "char \<Rightarrow> string \<Rightarrow> string option" where
  "read_lit c s = (case s of [] \<Rightarrow> None | x # xs \<Rightarrow> if x = c then Some xs else None)"

definition is_digit :: "char \<Rightarrow> bool" where
  "is_digit c \<longleftrightarrow> c \<in> set digits"

definition read_digits :: "nat \<Rightarrow> nat reader" where
  \<comment> \<open>exactly \<open>n\<close> digits\<close>
  "read_digits n s =
     (if n \<le> length s \<and> list_all is_digit (take n s) then Some (decimal_value (take n s), drop n s) else None)"

definition read_hour :: "nat reader" where
  \<comment> \<open>\<open>getnum(s, false)\<close>\<close>
  "read_hour s =
     (case read_digits 2 s of
        Some r \<Rightarrow> Some r
      | None \<Rightarrow> read_digits 1 s)"

definition skip_fraction :: "string \<Rightarrow> string" where
  "skip_fraction s =
     (case s of
        c # d # xs \<Rightarrow> if c \<in> set ''.,'' \<and> is_digit d then dropWhile is_digit xs else s
      | _ \<Rightarrow> s)"

definition zone_ok :: "string \<Rightarrow> bool" where
  \<comment> \<open>the zone is the rest of the text\<close>
  "zone_ok s \<longleftrightarrow>
     s = ''Z'' \<or>
     length s = 6 \<and> hd s \<in> set ''+-'' \<and> s ! 3 = CHR '':'' \<and>
     list_all is_digit [s ! 1, s ! 2, s ! 4, s ! 5] \<and>
     decimal_value [s ! 1, s ! 2] \<le> 24 \<and> decimal_value [s ! 4, s ! 5] \<le> 60"

definition leap_year :: "nat \<Rightarrow> bool" where
  "leap_year y \<longleftrightarrow> y mod 4 = 0 \<and> (y mod 100 \<noteq> 0 \<or> y mod 400 = 0)"

definition days_in :: "nat \<Rightarrow> nat \<Rightarrow> nat" where
  "days_in month year =
     (if month = 2 then if leap_year year then 29 else 28
      else if month \<in> {4, 6, 9, 11} then 30 else 31)"

definition bind_read :: "'a reader \<Rightarrow> string \<Rightarrow> ('a \<Rightarrow> string \<Rightarrow> bool) \<Rightarrow> bool" where
  "bind_read r s k = (case r s of None \<Rightarrow> False | Some (v, rest) \<Rightarrow> k v rest)"

definition bind_lit :: "char \<Rightarrow> string \<Rightarrow> (string \<Rightarrow> bool) \<Rightarrow> bool" where
  "bind_lit c s k = (case read_lit c s of None \<Rightarrow> False | Some rest \<Rightarrow> k rest)"

definition rfc3339_ok :: "string \<Rightarrow> bool" where
  "rfc3339_ok s \<longleftrightarrow>
     bind_read (read_digits 4) s (\<lambda>year s. bind_lit (CHR ''-'') s (\<lambda>s.
     bind_read (read_digits 2) s (\<lambda>month s. 1 \<le> month \<and> month \<le> 12 \<and> bind_lit (CHR ''-'') s (\<lambda>s.
     bind_read (read_digits 2) s (\<lambda>day s. bind_lit (CHR ''T'') s (\<lambda>s.
     bind_read read_hour s (\<lambda>hour s. hour < 24 \<and> bind_lit (CHR '':'') s (\<lambda>s.
     bind_read (read_digits 2) s (\<lambda>minute s. minute < 60 \<and> bind_lit (CHR '':'') s (\<lambda>s.
     bind_read (read_digits 2) s (\<lambda>sec s. sec < 60 \<and> zone_ok (skip_fraction s) \<and>
       1 \<le> day \<and> day \<le> days_in month year)))))))))))"

lemma rfc3339_examples:
  "rfc3339_ok ''2026-02-28T03:04:05Z''" "rfc3339_ok ''2024-02-29T3:04:05.25+01:00''" "\<not> rfc3339_ok ''2026-02-29T03:04:05Z''"
  "\<not> rfc3339_ok ''2026-02-28 03:04:05Z''" "\<not> rfc3339_ok ''2026-02-28T03:04:05''" "\<not> rfc3339_ok []"
  by (simp_all add: rfc3339_ok_def bind_read_def bind_lit_def read_lit_def read_digits_def read_hour_def is_digit_def digits_def
      decimal_value_def zone_ok_def skip_fraction_def days_in_def leap_year_def)

end
