(* ===== verification/Handoff.thy ===== *)
theory Handoff
  imports GoDate GoMime Paths ScopedRefs
begin

text \<open>
  \<open>protocol/handoff.go\<close>, \<open>protocol/media.go\<close> and \<open>protocol/stream.go\<close>: the data a workload
  takes in and hands on, as stream handles, content and stream inputs, forwardable artifacts,
  redundancy policies, media transformations and stream specifications. \<open>url.Parse\<close> is the parameter
  \<open>url\<close>: it gives the parts of a URL the source reads, or \<open>None\<close> for an error. Where the source
  wraps an error of a library its text is left out.
\<close>

section \<open>URLs\<close>

record URL =
  url_Scheme :: string
  url_User :: bool
    \<comment> \<open>whether the field is not \<open>nil\<close>\<close>
  url_Host :: string
  url_Hostname :: string
    \<comment> \<open>the result of the method: the host without the port\<close>
  url_Path :: string
  url_RawQuery :: string
  url_ForceQuery :: bool
  url_Fragment :: string

section \<open>Records\<close>

record StreamHandle =
  stha_URL :: string
  stha_Protocol :: string
  stha_AuthTokenRef :: string
  stha_Codecs :: "string list"
  stha_ExpiresAt :: string

record ContentInputRef =
  cir_Name :: string
  cir_Ref :: string
  cir_TargetPath :: string
  cir_SHA256 :: string
  cir_ContentType :: string
  cir_SizeBytes :: int
  cir_ProviderID :: string

record StreamInputRef =
  sir_Name :: string
  sir_Handle :: StreamHandle
  sir_ProviderID :: string

record ForwardableArtifactRef =
  far_Handle :: string
  far_Digest :: string
  far_ContentType :: string
  far_TransferTokenRef :: string

record RedundancyPolicy =
  repo_Tier :: RedundancyTier
  repo_StandbyCount :: int
  repo_CutoverDeadlineMS :: int

record Rendition =
  re2_Name :: string
  re2_Scale :: string
  re2_BitrateKbps :: int

record MediaTransformSpec =
  mts_Scale :: string
  mts_Crop :: string
  mts_Pan :: string
  mts_FPS :: int
  mts_Codec :: string
  mts_Container :: string
  mts_BitrateKbps :: int
  mts_Transpose :: string
  mts_RotateDegrees :: int
  mts_Renditions :: "Rendition list"

record StreamDestination =
  sd_TargetRef :: string
  sd_Transform :: "MediaTransformSpec option"
  sd_Rendition :: string

record ViewerEgressConfig =
  vec_HLS :: bool
  vec_WHEP :: bool

record StreamSpec =
  ss_IngestProtocols :: "string list"
  ss_Destinations :: "StreamDestination list"
  ss_ViewerEgress :: ViewerEgressConfig
  ss_Recording :: bool
  ss_Redundancy :: RedundancyPolicy

section \<open>Stream handles and inputs\<close>

definition validStreamProtocol :: "string \<Rightarrow> bool" where
  "validStreamProtocol protocol =
     (if protocol \<in> set [''rtmp'', ''srt'', ''whip'', ''webrtc'', ''hls'', ''dash''] then True
      else False)"

definition StreamHandle_Validate :: "StreamHandle \<Rightarrow> error" where
  "StreamHandle_Validate h =
     join
     (fails (trim_space (stha_URL h) = [])
        (New ''url is required'') @
      (if trim_space (stha_Protocol h) = [] then
         [New ''protocol is required'']
       else fails (\<not> validStreamProtocol (stha_Protocol h))
              (Errorf ''protocol %q is unsupported'' [Str (stha_Protocol h)])) @
      (if trim_space (stha_AuthTokenRef h) = [] then
         [New ''auth_token_ref is required'']
       else reports (validateScopedRef ''auth_token_ref'' (stha_AuthTokenRef h) ''secret://'')) @
      fails (stha_Codecs h = [])
        (New ''codecs is required'') @
      each (\<lambda>i codec.
         fails (trim_space codec = [])
           (Errorf ''codecs[%d] is required'' [Num (int i)])) (stha_Codecs h) @
      (if trim_space (stha_ExpiresAt h) = [] then
         [New ''expires_at is required'']
       else fails (\<not> rfc3339_ok (stha_ExpiresAt h))
              (New ''expires_at must be RFC3339'')))"

definition content_schemes :: "string list" where
  "content_schemes = [''content://'', ''s3://'', ''gs://'', ''spaces://'']"

definition credential_markers :: "string list" where
  "credential_markers = [''access_key='', ''secret_key='', ''token='', ''password='', ''credential='', ''aws_secret_access_key'']"

definition validateContentInputRef :: "(string \<Rightarrow> URL option) \<Rightarrow> string \<Rightarrow> string \<Rightarrow> error" where
  "validateContentInputRef url name v =
     (if trim_space v = [] then Some (Errorf ''%s is required'' [Str name])
      else if trim_space v \<noteq> v then Some (Errorf ''%s must not contain surrounding whitespace'' [Str name])
      else (case find (has_prefix v) content_schemes of
        None \<Rightarrow> Some (Errorf ''%s must use content://, s3://, gs://, or spaces:// scoped ref'' [Str name])
      | Some scheme \<Rightarrow>
          (case validateScopedRef name v scheme of
            Some err \<Rightarrow> Some err
          | None \<Rightarrow>
              (case url v of
                None \<Rightarrow> Some (Errorf ''%s is invalid: %w'' [Str name])
              | Some parsed \<Rightarrow>
                  if url_User parsed
                  then Some (Errorf ''%s must not contain raw credential material'' [Str name])
                  else if url_RawQuery parsed \<noteq> [] \<or> url_Fragment parsed \<noteq> []
                  then Some (Errorf ''%s must not contain query or fragment'' [Str name])
                  else if list_ex (contains_str (to_lower v)) credential_markers
                  then Some (Errorf ''%s must not contain raw credential material'' [Str name])
                  else None))))"

definition ContentInputRef_Validate :: "(string \<Rightarrow> URL option) \<Rightarrow> ContentInputRef \<Rightarrow> error" where
  "ContentInputRef_Validate url r =
     join
     (reports (validateIdentifier ''name'' (cir_Name r)) @
      reports (validateContentInputRef url ''ref'' (cir_Ref r)) @
      fails (\<not> validRelativeWorkspacePath (cir_TargetPath r))
        (New ''target_path must be a relative workspace path'') @
      fails (cir_SHA256 r \<noteq> [] \<and> \<not> validSHA256Ref (cir_SHA256 r))
        (New ''sha256 must be sha256:<64 hex chars>'') @
      (if cir_ContentType r \<noteq> [] then
         fails (\<not> parse_media_type_ok (cir_ContentType r))
           (Errorf ''content_type is invalid: %w'' [])
       else []) @
      fails (cir_SizeBytes r < 0)
        (New ''size_bytes cannot be negative'') @
      (if cir_ProviderID r \<noteq> [] then
         reports (validateIdentifier ''provider_id'' (cir_ProviderID r))
       else []))"

definition StreamInputRef_Validate :: "StreamInputRef \<Rightarrow> error" where
  "StreamInputRef_Validate r =
     join
     (reports (validateIdentifier ''name'' (sir_Name r)) @
      wraps ''handle: %w'' [] (StreamHandle_Validate (sir_Handle r)) @
      (if sir_ProviderID r \<noteq> [] then
         reports (validateIdentifier ''provider_id'' (sir_ProviderID r))
       else []))"

definition ForwardableArtifactRef_Validate :: "ForwardableArtifactRef \<Rightarrow> error" where
  "ForwardableArtifactRef_Validate r =
     join
     (fails (trim_space (far_Handle r) = [])
        (New ''handle is required'') @
      fails (\<not> validSHA256Ref (far_Digest r))
        (New ''digest must be sha256:<64 hex chars>'') @
      fails (trim_space (far_ContentType r) = [])
        (New ''content_type is required'') @
      fails (trim_space (far_TransferTokenRef r) = [])
        (New ''transfer_token_ref is required''))"

section \<open>Redundancy and streams\<close>

definition ErrRedundancyTierNotEnabledV1 :: error where
  "ErrRedundancyTierNotEnabledV1 = Some (New ''redundancy tier is not enabled in v1'')"

definition RedundancyPolicy_Validate :: "RedundancyPolicy \<Rightarrow> error" where
  "RedundancyPolicy_Validate p =
     (if repo_Tier p \<in> set [[], RedundancyNone] then None
     else if repo_Tier p = RedundancyWarmStandby then join
       (fails (repo_StandbyCount p \<le> 0)
          (New ''standby_count must be positive for warm-standby'') @
        fails (repo_CutoverDeadlineMS p < 0)
          (New ''cutover_deadline_ms cannot be negative''))
     else if repo_Tier p = RedundancyActiveActive then ErrRedundancyTierNotEnabledV1
     else Some (Errorf ''tier %q is unsupported'' [Str (repo_Tier p)]))"

definition MediaTransformSpec_Validate :: "MediaTransformSpec \<Rightarrow> error" where
  "MediaTransformSpec_Validate m =
     join
     (fails (mts_FPS m < 0)
        (New ''fps cannot be negative'') @
      fails (mts_BitrateKbps m < 0)
        (New ''bitrate_kbps cannot be negative'') @
      (if mts_Transpose m \<in> set [[], ''clock'', ''cclock'', ''clock_flip'', ''cclock_flip''] then
         []
       else [New ''transpose must be clock, cclock, clock_flip, or cclock_flip'']) @
      (if mts_RotateDegrees m \<in> set [0, 90, 180, 270] then
         []
       else [New ''rotate_degrees must be 0, 90, 180, or 270'']) @
      concat (map (\<lambda>r.
         fails (re2_Name r = [])
           (New ''rendition name is required'') @
         fails (re2_BitrateKbps r < 0)
           (New ''rendition bitrate_kbps cannot be negative'')) (mts_Renditions m)))"

definition StreamSpec_Validate :: "StreamSpec \<Rightarrow> error" where
  "StreamSpec_Validate s =
     join
     (fails ((ss_IngestProtocols s) = [])
        (New ''ingest_protocols must not be empty'') @
      each (\<lambda>i d.
         fails (sd_TargetRef d = [])
           (Errorf ''destinations[%d]: target_ref is required'' [Num (int i)]) @
         (if sd_Transform d \<noteq> None then
            wraps ''destinations[%d].transform: %w'' [Num (int i)] (MediaTransformSpec_Validate (the (sd_Transform d)))
          else [])) (ss_Destinations s) @
      wraps ''redundancy: %w'' [] (RedundancyPolicy_Validate (ss_Redundancy s)))"

section \<open>What is accepted\<close>

definition clean_url :: "URL \<Rightarrow> bool" where
  "clean_url u \<longleftrightarrow> \<not> url_User u \<and> url_RawQuery u = [] \<and> url_Fragment u = []"

lemma validateContentInputRef_None [validation]:
  "validateContentInputRef url name v = None \<longleftrightarrow>
     trim_space v = v \<and> scoped_by content_schemes v \<and> (\<exists>u. url v = Some u \<and> clean_url u) \<and>
     (\<forall>m \<in> set credential_markers. \<not> contains_str (to_lower v) m)"
proof -
  have "prefix_free content_schemes" by (simp add: prefix_free_def content_schemes_def)
  from first_scheme_scoped [OF this, of v] show ?thesis
    by (auto simp: validateContentInputRef_def validateScopedRef_None clean_url_def list_ex_iff
        dest: scoped_by_nonempty split: option.splits)
qed

lemma workspace_path_walk:
  assumes "validRelativeWorkspacePath v"
  shows "\<exists>d. walk 0 (split_char (CHR ''/'') v) = Some d \<and> 0 < d"
proof -
  from assms have "trim_space v = v \<and> \<not> has_prefix v ''/''"
    unfolding validRelativeWorkspacePath_def Let_def by (metis (full_types))
  moreover from this have "path_clean v \<noteq> ''.'' \<and> path_clean v \<noteq> ''..'' \<and> \<not> has_prefix (path_clean v) ''../''"
    using assms by (simp add: validRelativeWorkspacePath_def Let_def split: if_splits)
  ultimately show ?thesis using clean_relative by blast
qed

text \<open>A content input names immutable data and stays in the workspace: its reference has one of four
  schemes, parses as a URL without user, query and fragment, and shows no credential marker in any
  case of its letters; its target, followed from the workspace root, never leaves it and ends below
  it; a digest, where given, has the form of one.\<close>

theorem content_input_confined:
  assumes "ContentInputRef_Validate url r = None"
  shows "scoped_by content_schemes (cir_Ref r) \<and> (\<exists>u. url (cir_Ref r) = Some u \<and> clean_url u) \<and>
    (\<forall>m \<in> set credential_markers. \<not> contains_str (to_lower (cir_Ref r)) m) \<and>
    (\<exists>d. walk 0 (split_char (CHR ''/'') (cir_TargetPath r)) = Some d \<and> 0 < d) \<and>
    (cir_SHA256 r = [] \<or> validSHA256Ref (cir_SHA256 r)) \<and> 0 \<le> cir_SizeBytes r"
proof -
  from assms have ref: "validateContentInputRef url ''ref'' (cir_Ref r) = None"
    and path: "validRelativeWorkspacePath (cir_TargetPath r)"
    and digest: "cir_SHA256 r = [] \<or> validSHA256Ref (cir_SHA256 r)" and size: "0 \<le> cir_SizeBytes r"
    unfolding ContentInputRef_Validate_def join_None append_is_Nil_conv by auto
  have "\<exists>d. walk 0 (split_char (CHR ''/'') (cir_TargetPath r)) = Some d \<and> 0 < d" using path by (rule workspace_path_walk)
  then show ?thesis using ref digest size unfolding validateContentInputRef_None by blast
qed

text \<open>A stream is redundant in at most one way: the accepted redundancy policies are none at all and warm
  standby with a positive number of standbys.\<close>

lemma RedundancyPolicy_iff:
  "RedundancyPolicy_Validate p = None \<longleftrightarrow>
     repo_Tier p \<in> {[], RedundancyNone} \<or>
     repo_Tier p = RedundancyWarmStandby \<and> 0 < repo_StandbyCount p \<and> 0 \<le> repo_CutoverDeadlineMS p"
  by (auto simp: RedundancyPolicy_Validate_def ErrRedundancyTierNotEnabledV1_def enum)

section \<open>Examples\<close>

definition demo_content :: ContentInputRef where
  "demo_content = \<lparr>cir_Name = ''weights'', cir_Ref = ''s3://bucket/weights'', cir_TargetPath = ''models/../models/w'',
     cir_SHA256 = [], cir_ContentType = [], cir_SizeBytes = 0, cir_ProviderID = []\<rparr>"

definition demo_url :: "string \<Rightarrow> URL option" where
  \<comment> \<open>a parser that knows one URL\<close>
  "demo_url s = (if s = ''s3://bucket/weights''
     then Some \<lparr>url_Scheme = ''s3'', url_User = False, url_Host = ''bucket'', url_Hostname = ''bucket'',
       url_Path = ''/weights'', url_RawQuery = [], url_ForceQuery = False, url_Fragment = []\<rparr>
     else None)"

lemma content_input_confined_witness:
  "scoped_by content_schemes ''s3://bucket/weights'' \<and> ContentInputRef_Validate demo_url (demo_content\<lparr>cir_TargetPath := ''../w''\<rparr>) \<noteq> None"
proof -
  have "ContentInputRef_Validate demo_url demo_content = None" by code_simp
  from content_input_confined [OF this] have "scoped_by content_schemes ''s3://bucket/weights''" by (simp add: demo_content_def)
  moreover have "ContentInputRef_Validate demo_url (demo_content\<lparr>cir_TargetPath := ''../w''\<rparr>) \<noteq> None" by code_simp
  ultimately show ?thesis by blast
qed

end
