(* ===== verification/GoBase64.thy ===== *)
theory GoBase64
  imports GoStrings
begin

text \<open>
  Go's \<open>base64.StdEncoding\<close>. Encoding pads with \<open>=\<close>. Decoding skips carriage returns and line
  feeds wherever they stand, requires the padding, and does not look at the bits that the last digit
  has to spare, so it is a left inverse of encoding but accepts more than what encoding gives.
\<close>

definition b64_alphabet :: string where
  "b64_alphabet = ''ABCDEFGHIJKLMNOPQRSTUVWXYZabcdefghijklmnopqrstuvwxyz0123456789+/''"

definition b64_digit :: "nat \<Rightarrow> char" where
  "b64_digit n = b64_alphabet ! n"

definition b64_value :: "char \<Rightarrow> nat option" where
  "b64_value c =
     (let n = of_char c :: nat
      in if 65 \<le> n \<and> n \<le> 90 then Some (n - 65)
         else if 97 \<le> n \<and> n \<le> 122 then Some (n - 71)
         else if 48 \<le> n \<and> n \<le> 57 then Some (n + 4)
         else if n = 43 then Some 62
         else if n = 47 then Some 63
         else None)"

definition b64_triple :: "nat \<Rightarrow> nat \<Rightarrow> nat \<Rightarrow> nat list" where
  "b64_triple a b c = [a div 4, (a mod 4) * 16 + b div 16, (b mod 16) * 4 + c div 64, c mod 64]"

fun b64_encode :: "string \<Rightarrow> string" where
  "b64_encode [] = []"
| "b64_encode [a] = map b64_digit (take 2 (b64_triple (of_char a) 0 0)) @ ''==''"
| "b64_encode [a, b] = map b64_digit (take 3 (b64_triple (of_char a) (of_char b) 0)) @ ''=''"
| "b64_encode (a # b # c # s) = map b64_digit (b64_triple (of_char a) (of_char b) (of_char c)) @ b64_encode s"

text \<open>The three bytes of four digits.\<close>

definition b64_bytes :: "nat \<Rightarrow> nat \<Rightarrow> nat \<Rightarrow> nat \<Rightarrow> string" where
  "b64_bytes v w x y = map char_of [v * 4 + w div 16, (w mod 16) * 16 + x div 4, (x mod 4) * 64 + y]"

fun b64_quads :: "string \<Rightarrow> string option" where
  "b64_quads [] = Some []"
| "b64_quads (c # d # e # f # s) =
     (case (b64_value c, b64_value d) of
        (Some v, Some w) \<Rightarrow>
          (case (b64_value e, b64_value f) of
             (Some x, Some y) \<Rightarrow> map_option ((@) (b64_bytes v w x y)) (b64_quads s)
           | (Some x, None) \<Rightarrow> if f = CHR ''='' \<and> s = [] then Some (take 2 (b64_bytes v w x 0)) else None
           | (None, None) \<Rightarrow> if e = CHR ''='' \<and> f = CHR ''='' \<and> s = [] then Some (take 1 (b64_bytes v w 0 0)) else None
           | (None, Some y) \<Rightarrow> None)
      | _ \<Rightarrow> None)"
| "b64_quads _ = None"

definition b64_decode :: "string \<Rightarrow> string option" where
  "b64_decode s = b64_quads (filter (\<lambda>c. c \<noteq> CHR 0x0D \<and> c \<noteq> CHR 0x0A) s)"

section \<open>Decoding what was encoded\<close>

lemma of_char_less: "of_char c < (256 :: nat)"
  by simp

lemma b64_values: "map b64_value b64_alphabet = map Some [0..<64]"
  by (simp add: b64_alphabet_def b64_value_def upt_rec)

lemma b64_lines: "CHR 0x0D \<notin> set b64_alphabet" "CHR 0x0A \<notin> set b64_alphabet" "length b64_alphabet = 64"
  by (simp_all add: b64_alphabet_def)

lemma b64_value_digit [simp]: "n < 64 \<Longrightarrow> b64_value (b64_digit n) = Some n"
  using arg_cong [OF b64_values, of "\<lambda>xs. xs ! n"] by (simp add: b64_digit_def b64_lines)

lemma b64_digit_line: "n < 64 \<Longrightarrow> b64_digit n \<noteq> CHR 0x0D \<and> b64_digit n \<noteq> CHR 0x0A"
  using b64_lines nth_mem [of n b64_alphabet] unfolding b64_digit_def by metis

lemma b64_value_pad [simp]: "b64_value (CHR ''='') = None"
  by (simp add: b64_value_def)

lemma b64_digits_small:
  assumes "a < 256" "b < 256" "c < 256"
  shows "a div 4 < 64" "(a mod 4) * 16 + b div 16 < 64" "(b mod 16) * 4 + c div 64 < 64" "c mod 64 < (64 :: nat)"
proof -
  have "a mod 4 < 4" "b div 16 < 16" "b mod 16 < 16" "c div 64 < 4" using assms by auto
  then show "(a mod 4) * 16 + b div 16 < 64" "(b mod 16) * 4 + c div 64 < 64" by linarith+
qed (use assms in auto)

lemma b64_bytes_triple:
  assumes "a < 256" "b < 256" "c < 256"
  shows "b64_bytes (a div 4) ((a mod 4) * 16 + b div 16) ((b mod 16) * 4 + c div 64) (c mod 64) = map char_of [a, b, c]"
proof -
  have "b div 16 < 16" "c div 64 < 4" using assms by auto
  then have "((a mod 4) * 16 + b div 16) div 16 = a mod 4" "((a mod 4) * 16 + b div 16) mod 16 = b div 16"
    "((b mod 16) * 4 + c div 64) div 4 = b mod 16" "((b mod 16) * 4 + c div 64) mod 4 = c div 64" by simp_all
  then show ?thesis by (simp add: b64_bytes_def)
qed

lemma b64_plain: "c \<in> set (b64_encode s) \<Longrightarrow> c \<noteq> CHR 0x0D \<and> c \<noteq> CHR 0x0A"
proof (induction s rule: b64_encode.induct)
  case (2 a)
  then show ?case using b64_digit_line b64_digits_small [of "of_char a" 0 0] by (auto simp: b64_triple_def of_char_less)
next
  case (3 a b)
  then show ?case using b64_digit_line b64_digits_small [of "of_char a" "of_char b" 0] by (auto simp: b64_triple_def of_char_less)
next
  case (4 a b c s)
  then show ?case using b64_digit_line b64_digits_small [of "of_char a" "of_char b" "of_char c"]
    by (auto simp: b64_triple_def of_char_less)
qed simp

lemma b64_quads_encode: "b64_quads (b64_encode s) = Some s"
proof (induction s rule: b64_encode.induct)
  case (2 a)
  have "a' mod 4 * 16 < (64 :: nat)" for a' using mod_less_divisor [of 4 a'] by simp
  then show ?case using b64_bytes_triple [of "of_char a" 0 0] b64_digits_small [of "of_char a" 0 0]
    by (simp add: b64_triple_def of_char_less numeral_2_eq_2)
next
  case (3 a b)
  then show ?case using b64_bytes_triple [of "of_char a" "of_char b" 0] b64_digits_small [of "of_char a" "of_char b" 0]
    by (simp add: b64_triple_def of_char_less numeral_2_eq_2 numeral_3_eq_3)
next
  case (4 a b c s)
  then show ?case using b64_bytes_triple [of "of_char a" "of_char b" "of_char c"] b64_digits_small [of "of_char a" "of_char b" "of_char c"]
    by (simp add: b64_triple_def of_char_less)
qed simp

theorem b64_decode_encode [simp]: "b64_decode (b64_encode s) = Some s"
proof -
  have "filter (\<lambda>c. c \<noteq> CHR 0x0D \<and> c \<noteq> CHR 0x0A) (b64_encode s) = b64_encode s"
    using b64_plain by (simp add: filter_id_conv)
  then show ?thesis by (simp add: b64_decode_def b64_quads_encode)
qed

text \<open>Line breaks are skipped.\<close>

lemma b64_decode_lines: "b64_decode (s @ [CHR 0x0A]) = b64_decode s"
  by (simp add: b64_decode_def)

end
