(* ===== verification/UnixTime.thy ===== *)
theory UnixTime
  imports GoTime
begin

text \<open>
  The two helpers of \<open>protocol/types.go\<close> (lines 1973 to 1985) by which times travel in protobuf
  messages: nanoseconds since 1970 in an \<open>int64\<close>, with the zero time at 0. \<open>UnixNano\<close> wraps
  around outside the years 1678 to 2262.
\<close>

definition unixNanoOrZero :: "time \<Rightarrow> int" where
  "unixNanoOrZero v = (if v = 0 then 0 else wrap64 (instant v - unix_epoch))"

definition timeFromUnixNano :: "int \<Rightarrow> time" where
  "timeFromUnixNano v = (if v = 0 then 0 else Time (v + unix_epoch))"

lemma time_of_unix_in_range:
  assumes "in64 (instant t - unix_epoch)" "instant t \<noteq> unix_epoch"
  shows "timeFromUnixNano (unixNanoOrZero t) = t"
  using assms by (cases t) (auto simp: timeFromUnixNano_def unixNanoOrZero_def)

lemma unix_of_time: "in64 v \<Longrightarrow> unixNanoOrZero (timeFromUnixNano v) = v"
  by (auto simp: timeFromUnixNano_def unixNanoOrZero_def in64_def unix_epoch_def wrap64_def)

text \<open>The first instant of 1970 is lost: it travels as the zero time.\<close>

lemma epoch_lost: "timeFromUnixNano (unixNanoOrZero (Time unix_epoch)) = 0"
  by (simp add: timeFromUnixNano_def unixNanoOrZero_def wrap64_def)

lemma time_round_trip_iff:
  "timeFromUnixNano (unixNanoOrZero t) = t \<longleftrightarrow> t = 0 \<or> in64 (instant t - unix_epoch) \<and> instant t \<noteq> unix_epoch"
proof (cases "t = 0 \<or> in64 (instant t - unix_epoch)")
  case True
  then show ?thesis using time_of_unix_in_range epoch_lost
    by (cases "instant t = unix_epoch"; cases t) (auto simp: timeFromUnixNano_def unixNanoOrZero_def)
next
  case False
  have "in64 (wrap64 (instant t - unix_epoch))" by (simp add: in64_def wrap64_def)
  then have "wrap64 (instant t - unix_epoch) \<noteq> instant t - unix_epoch" using False by metis
  then show ?thesis using False by (cases t) (auto simp: timeFromUnixNano_def unixNanoOrZero_def)
qed

end
