(* ===== verification/ProtoFields.thy ===== *)
theory ProtoFields
  imports Prelude
begin

text \<open>
  \<open>protocol/types.go\<close>, \<open>rejectUnknownProtoFields\<close>: the walk over a decoded protobuf message that refuses
  fields the decoder did not know. A message is seen by reflection: its full name, the bytes of its
  unknown fields, and the populated fields in the order in which \<open>Range\<close> visits them, which the protobuf
  library leaves open. A field is a scalar (or a list or map of scalars), a map to messages, a list of
  messages or one message; a message it holds is never missing. The recursion is on the message, so it
  terminates; \<open>nested_calls\<close> counts the calls that are open at once.
\<close>

datatype message = Message (full_name: string) (unknown_bytes: string) (message_fields: "field list")
  and field = ScalarField | MapField "(string \<times> message) list" | ListField "message list" | MessageField message

definition unknown_error :: "string \<Rightarrow> err" where
  "unknown_error name = Errorf ''proto message %s contains unknown fields'' [Str name]"

fun reject_message :: "message \<Rightarrow> error"
  and reject_fields :: "field list \<Rightarrow> error"
  and reject_entries :: "(string \<times> message) list \<Rightarrow> error"
  and reject_elements :: "message list \<Rightarrow> error" where
  "reject_message (Message name bytes fields) =
     (if bytes \<noteq> [] then Some (unknown_error name) else reject_fields fields)"
| "reject_fields [] = None"
| "reject_fields (ScalarField # fields) = reject_fields fields"
| "reject_fields (MapField entries # fields) =
     (case reject_entries entries of Some err \<Rightarrow> Some err | None \<Rightarrow> reject_fields fields)"
| "reject_fields (ListField elements # fields) =
     (case reject_elements elements of Some err \<Rightarrow> Some err | None \<Rightarrow> reject_fields fields)"
| "reject_fields (MessageField message # fields) =
     (case reject_message message of Some err \<Rightarrow> Some err | None \<Rightarrow> reject_fields fields)"
| "reject_entries [] = None"
| "reject_entries ((key, message) # entries) =
     (case reject_message message of Some nestedErr \<Rightarrow> Some nestedErr | None \<Rightarrow> reject_entries entries)"
| "reject_elements [] = None"
| "reject_elements (message # elements) =
     (case reject_message message of Some nestedErr \<Rightarrow> Some nestedErr | None \<Rightarrow> reject_elements elements)"

definition rejectUnknownProtoFields :: "message option \<Rightarrow> error" where
  "rejectUnknownProtoFields message = (case message of None \<Rightarrow> None | Some message \<Rightarrow> reject_message message)"

fun_cases reject_message_None: "reject_message (Message name bytes fields) = None"

section \<open>The messages inside a message\<close>

text \<open>\<open>nested\<close> lists the messages that a field holds, \<open>preorder\<close> a message and all those inside it, each
  before the ones it holds, and \<open>height\<close> is the length of the longest chain of them.\<close>

fun nested :: "field \<Rightarrow> message list" where
  "nested ScalarField = []"
| "nested (MapField entries) = map snd entries"
| "nested (ListField elements) = elements"
| "nested (MessageField message) = [message]"

definition children :: "message \<Rightarrow> message list" where
  "children m = concat (map nested (message_fields m))"

lemma nested_size: "m \<in> set (nested f) \<Longrightarrow> size m < size f"
proof (cases f)
  case (MapField entries)
  then show "m \<in> set (nested f) \<Longrightarrow> size m < size f"
    by (auto dest!: size_list_estimation' [of _ _ "size m" "size_prod (\<lambda>_. 0) size"])
qed (auto simp: less_Suc_eq_le intro: size_list_estimation')

lemma child_size: "c \<in> set (children m) \<Longrightarrow> size c < size m"
proof -
  assume "c \<in> set (children m)"
  then obtain f where f: "f \<in> set (message_fields m)" "c \<in> set (nested f)" by (auto simp: children_def)
  have "size f \<le> size_list size (message_fields m)" using f(1) by (rule size_list_estimation') simp
  then show "size c < size m" using nested_size [OF f(2)] by (cases m) simp
qed

function preorder :: "message \<Rightarrow> message list" where
  "preorder m = m # concat (map preorder (children m))"
  by pat_completeness auto
termination by (relation "measure size") (auto intro: child_size)

function height :: "message \<Rightarrow> nat" where
  "height m = Suc (Max (insert 0 (height ` set (children m))))"
  by pat_completeness auto
termination by (relation "measure size") (auto intro: child_size)

declare preorder.simps [simp del] height.simps [simp del]

section \<open>What is refused\<close>

lemma reject_append [simp]:
  "reject_elements (ms @ ms') = (case reject_elements ms of Some err \<Rightarrow> Some err | None \<Rightarrow> reject_elements ms')"
  by (induction ms) (auto split: option.split)

lemma reject_entries_elements: "reject_entries entries = reject_elements (map snd entries)"
  by (induction entries) (auto split: option.split)

lemma reject_fields_elements: "reject_fields fields = reject_elements (concat (map nested fields))"
proof (induction fields)
  case (Cons f fields)
  then show ?case by (cases f) (auto simp: reject_entries_elements split: option.split)
qed simp

lemma reject_children:
  "reject_message m = (if unknown_bytes m \<noteq> [] then Some (unknown_error (full_name m)) else reject_elements (children m))"
  by (cases m) (simp add: children_def reject_fields_elements)

lemma find_append: "find P (xs @ ys) = (case find P xs of Some x \<Rightarrow> Some x | None \<Rightarrow> find P ys)"
  by (induction xs) auto

text \<open>The reference: the first message, in preorder, with bytes of an unknown field.\<close>

definition first_unknown :: "message list \<Rightarrow> error" where
  "first_unknown ms = map_option (\<lambda>m. unknown_error (full_name m)) (find (\<lambda>m. unknown_bytes m \<noteq> []) ms)"

lemma first_unknown_append: "first_unknown (ms @ ms') = (case first_unknown ms of Some err \<Rightarrow> Some err | None \<Rightarrow> first_unknown ms')"
  by (simp add: first_unknown_def find_append split: option.split)

lemma reject_message_first: "reject_message m = first_unknown (preorder m)"
proof (induction m rule: preorder.induct)
  case (1 m)
  have "reject_elements ms = first_unknown (concat (map preorder ms))" if "set ms \<subseteq> set (children m)" for ms
    using that by (induction ms) (auto simp: 1 first_unknown_append first_unknown_def [of "[]"] split: option.split)
  then show ?case by (subst preorder.simps) (simp add: reject_children first_unknown_def)
qed

section \<open>How deep the calls nest\<close>

text \<open>The walk with at most \<open>n\<close> calls open at once; \<open>None\<close> is a walk that was cut off.\<close>

fun visit :: "(message \<Rightarrow> error option) \<Rightarrow> message list \<Rightarrow> error option" where
  "visit call [] = Some None"
| "visit call (m # ms) =
     (case call m of
        None \<Rightarrow> None
      | Some (Some err) \<Rightarrow> Some (Some err)
      | Some None \<Rightarrow> visit call ms)"

primrec nested_calls :: "nat \<Rightarrow> message \<Rightarrow> error option" where
  "nested_calls 0 m = None"
| "nested_calls (Suc n) m = (if unknown_bytes m \<noteq> [] then Some (Some (unknown_error (full_name m))) else visit (nested_calls n) (children m))"

lemma visit_done: "(\<And>m. m \<in> set ms \<Longrightarrow> call m = Some (reject_message m)) \<Longrightarrow> visit call ms = Some (reject_elements ms)"
  by (induction ms) (auto split: option.split)

lemma visit_cut:
  "\<forall>m \<in> set ms. call m = None \<or> call m = Some None \<Longrightarrow> m \<in> set ms \<Longrightarrow> call m = None \<Longrightarrow> visit call ms = None"
  by (induction ms) (auto split: option.split)

lemma height_child: "c \<in> set (children m) \<Longrightarrow> height c < height m"
  by (subst (2) height.simps) (simp add: less_Suc_eq_le)

lemma height_chain: "0 < n \<Longrightarrow> n < height m \<Longrightarrow> \<exists>c \<in> set (children m). n \<le> height c"
  by (subst (asm) height.simps) (auto simp: less_Suc_eq_le Max_ge_iff)

lemma walk_done: "height m \<le> n \<Longrightarrow> nested_calls n m = Some (reject_message m)"
proof (induction n arbitrary: m)
  case 0
  then show ?case by (simp add: height.simps [of m])
next
  case (Suc n)
  then have "nested_calls n c = Some (reject_message c)" if "c \<in> set (children m)" for c
    using height_child [OF that] by simp
  then show ?case by (simp add: reject_children visit_done)
qed

lemma rejected_child: "reject_message m = None \<Longrightarrow> c \<in> set (children m) \<Longrightarrow> reject_message c = None"
proof -
  have "reject_elements ms = None \<Longrightarrow> c \<in> set ms \<Longrightarrow> reject_message c = None" for ms
    by (induction ms) (auto split: option.splits)
  then show "reject_message m = None \<Longrightarrow> c \<in> set (children m) \<Longrightarrow> reject_message c = None"
    by (simp add: reject_children [of m] split: if_splits)
qed

lemma walk_cut: "reject_message m = None \<Longrightarrow> n < height m \<Longrightarrow> nested_calls n m = None"
proof (induction n arbitrary: m)
  case (Suc n)
  have "\<forall>c \<in> set (children m). nested_calls n c = None \<or> nested_calls n c = Some None"
  proof
    fix c assume "c \<in> set (children m)"
    then show "nested_calls n c = None \<or> nested_calls n c = Some None"
      using Suc.IH [of c] rejected_child [OF Suc.prems(1)] walk_done [of c n] by (cases "height c \<le> n") auto
  qed
  moreover obtain c where c: "c \<in> set (children m)" "n < height c" using height_chain [of "Suc n" m] Suc.prems(2) by auto
  moreover have "nested_calls n c = None" using Suc.IH [of c] rejected_child [OF Suc.prems(1) c(1)] c(2) by simp
  ultimately have "visit (nested_calls n) (children m) = None" by (blast intro: visit_cut)
  then show ?case using Suc.prems(1) by (simp add: reject_children split: if_splits)
qed simp

text \<open>C34. The walk that refuses unknown fields ends, however messages are nested in maps, lists and fields: with as many
  calls open at once as messages nest it gives its answer, the error of the first message in preorder
  that holds an unknown field or none, and when there is none it needs that many.\<close>

theorem unknown_fields_walk_ends:
  assumes "height m \<le> n"
  shows "nested_calls n m = Some (rejectUnknownProtoFields (Some m)) \<and>
    rejectUnknownProtoFields (Some m) = first_unknown (preorder m) \<and>
    (rejectUnknownProtoFields (Some m) = None \<longrightarrow> (\<forall>k < height m. nested_calls k m = None))"
  using walk_done [OF assms] walk_cut [of m] by (simp add: rejectUnknownProtoFields_def reject_message_first)

lemma height_Message: "height (Message name bytes fields) = Suc (Max (insert 0 (height ` set (concat (map nested fields)))))"
  by (subst height.simps) (simp add: children_def)

definition demo_message :: "string \<Rightarrow> message" where
  "demo_message bytes = Message ''a'' [] [ScalarField, MapField [(''key'', Message ''b'' [] [])], ListField [Message ''c'' [] [MessageField (Message ''d'' bytes [])]]]"

lemma unknown_fields_walk_ends_witness:
  "nested_calls 3 (demo_message ''x'') = Some (Some (unknown_error ''d'')) \<and> nested_calls 2 (demo_message []) = None"
proof -
  have h: "height (demo_message bytes) = 3" for bytes
    by (simp add: demo_message_def height_Message)
  have "rejectUnknownProtoFields (Some (demo_message ''x'')) = Some (unknown_error ''d'')"
    "rejectUnknownProtoFields (Some (demo_message [])) = None"
    by (simp_all add: demo_message_def rejectUnknownProtoFields_def)
  then show ?thesis
    using unknown_fields_walk_ends [of "demo_message ''x''" 3] unknown_fields_walk_ends [of "demo_message []" 3] by (simp add: h)
qed

end
