(* ===== verification/Bootstrap.thy ===== *)
theory Bootstrap
  imports Handoff Attestation GoBase64 UnixTime ProtoFields
begin

text \<open>
  \<open>protocol/bootstrap.go\<close> and \<open>protocol/package_artifact.go\<close>: what a machine trusts when it is set up.
  A bootstrap manifest names the artifacts, digests and package signing keys, an install receipt reports
  what was installed, and a package artifact tuple is signed on its own. \<open>ComputeBootstrapManifest\<close> and
  \<open>AgentSetupInstallReceipt\<close> have the operations of the code: validate, sign, verify.

  Parameters: \<open>url\<close> is \<open>url.Parse\<close>, \<open>sha\<close> SHA-256, \<open>sign\<close> and \<open>ver\<close> are
  \<open>ed25519.Sign\<close> and \<open>ed25519.Verify\<close>, \<open>json\<close> and \<open>proto\<close> the encoders (an error of theirs is
  \<open>Inl\<close>). An operation that returns a value and an error is a sum; one that writes through its
  receiver returns the error and the new value. The locale \<open>signed_message\<close> is the contract that
  makes signing and verifying fit together; the lifecycle messages share it.
\<close>

section \<open>Records\<close>

record BootstrapAssetRef =
  bar_URL :: string
  bar_Digest :: string

record BootstrapPlatformAsset =
  bpa_OS :: string
  bpa_Arch :: string
  bpa_Asset :: BootstrapAssetRef

record BootstrapSigningKey =
  bsk_KeyID :: string
  bsk_PublicKey :: string

record ComputeBootstrapManifest =
  cbm_ProtocolVersion :: string
  cbm_SchemaVersion :: string
  cbm_Version :: string
  cbm_ServerOrigin :: string
  cbm_WFCTLVersion :: string
  cbm_WFCTLAssets :: "BootstrapPlatformAsset list"
  cbm_PluginComputeVersion :: string
  cbm_PluginComputeArchive :: BootstrapAssetRef
  cbm_Bootstrap :: BootstrapAssetRef
  cbm_PackageID :: string
  cbm_PackageVersion :: string
  cbm_PackageManifestDigest :: string
  cbm_BootstrapEpoch :: nat
  cbm_PackageEpoch :: nat
  cbm_KeysetEpoch :: nat
  cbm_KeysetDigest :: string
  cbm_PackageSigningKeys :: "BootstrapSigningKey list"
  cbm_ExpiresAt :: time

record AgentSetupInstallReceipt =
  asir_ProtocolVersion :: string
  asir_ReceiptID :: string
  asir_Challenge :: string
  asir_InviteID :: string
  asir_InstallSessionID :: string
  asir_WorkerID :: string
  asir_PackageID :: string
  asir_PackageVersion :: string
  asir_PackageDigest :: string
  asir_ManifestDigest :: string
  asir_BootstrapEpoch :: nat
  asir_PackageEpoch :: nat
  asir_KeysetEpoch :: nat
  asir_LauncherDigest :: string
  asir_SlotID :: string
  asir_SlotDigest :: string
  asir_ServiceUnitDigest :: string
  asir_ServiceMode :: string
  asir_StartedPID :: int
  asir_HeartbeatID :: string
  asir_HeartbeatAt :: time
  asir_CloudFinalUnit :: string
  asir_ScrubUnit :: string
  asir_WrapperHash :: string
  asir_ScanHitCount :: nat
  asir_CodeDigest :: string
  asir_CompletedAt :: time
  asir_ExpiresAt :: time
  asir_Signature :: SignatureEnvelope

record AgentSetupInstallReceiptBinding =
  asirb_Challenge :: string
  asirb_InviteID :: string
  asirb_InstallSessionID :: string
  asirb_WorkerID :: string
  asirb_PackageID :: string
  asirb_PackageVersion :: string
  asirb_PackageDigest :: string
  asirb_ManifestDigest :: string
  asirb_BootstrapEpoch :: nat
  asirb_PackageEpoch :: nat
  asirb_KeysetEpoch :: nat
  asirb_ExpiresAt :: time

record AgentSetupInstallReceiptPayload =
  asirp_Domain :: string
  asirp_ProtocolVersion :: string
  asirp_ReceiptID :: string
  asirp_Challenge :: string
  asirp_InviteID :: string
  asirp_InstallSessionID :: string
  asirp_WorkerID :: string
  asirp_PackageID :: string
  asirp_PackageVersion :: string
  asirp_PackageDigest :: string
  asirp_ManifestDigest :: string
  asirp_BootstrapEpoch :: nat
  asirp_PackageEpoch :: nat
  asirp_KeysetEpoch :: nat
  asirp_LauncherDigest :: string
  asirp_SlotID :: string
  asirp_SlotDigest :: string
  asirp_ServiceUnitDigest :: string
  asirp_ServiceMode :: string
  asirp_StartedPID :: int
  asirp_HeartbeatID :: string
  asirp_HeartbeatAtUnixNano :: int
  asirp_CloudFinalUnit :: string
  asirp_ScrubUnit :: string
  asirp_WrapperHash :: string
  asirp_ScanHitCount :: nat
  asirp_CodeDigest :: string
  asirp_CompletedAtUnixNano :: int
  asirp_ExpiresAtUnixNano :: int
  asirp_Unknown :: string

record PackageArtifactSignaturePayload =
  pasp_Component :: string
  pasp_PluginID :: string
  pasp_Version :: string
  pasp_URL :: string
  pasp_SHA256 :: string

definition ComputeBootstrapManifestSchema :: string where
  "ComputeBootstrapManifestSchema = ''compute-bootstrap-manifest.v1''"
definition AgentSetupInstallReceiptSchema :: string where
  "AgentSetupInstallReceiptSchema = ''agent-setup-install-receipt.v1''"

section \<open>Keys and signatures\<close>

definition PublicKeySize :: nat where "PublicKeySize = 32"
definition PrivateKeySize :: nat where "PrivateKeySize = 64"
definition SignatureSize :: nat where "SignatureSize = 64"

text \<open>A private key is its seed followed by the public key.\<close>

definition public_of :: "string \<Rightarrow> string" where
  "public_of key = drop 32 key"

definition Ed25519KeyID :: "(string \<Rightarrow> string) \<Rightarrow> string \<Rightarrow> string" where
  "Ed25519KeyID sha public =
     (if length public \<noteq> PublicKeySize then []
      else (let sum = sha public in ''sha256:'' @ hex_encode sum))"

definition signRecoveryBytes :: "(string \<Rightarrow> string) \<Rightarrow> (string \<Rightarrow> string \<Rightarrow> string) \<Rightarrow> string \<Rightarrow> string \<Rightarrow> SignatureEnvelope \<times> error" where
  "signRecoveryBytes sha sign data key =
     (if length key \<noteq> PrivateKeySize then (zero_SignatureEnvelope, Some (New ''Ed25519 private key has invalid size''))
      else (\<lparr>se_Algorithm = ''ed25519'', se_KeyID = Ed25519KeyID sha (public_of key), se_Value = b64_encode (sign key data),
             se_Verified = False\<rparr>, None))"

definition verifyRecoveryBytes :: "(string \<Rightarrow> string) \<Rightarrow> (string \<Rightarrow> string \<Rightarrow> string \<Rightarrow> bool) \<Rightarrow> string \<Rightarrow> SignatureEnvelope \<Rightarrow> string \<Rightarrow> error" where
  "verifyRecoveryBytes sha ver data signature public =
     (if length public \<noteq> PublicKeySize \<or> se_Algorithm signature \<noteq> ''ed25519'' \<or> se_KeyID signature \<noteq> Ed25519KeyID sha public
      then Some (New ''signature must use the expected Ed25519 public-key fingerprint'')
      else (case b64_decode (se_Value signature) of
              None \<Rightarrow> Some (New ''Ed25519 signature is invalid'')
            | Some decoded \<Rightarrow>
                if length decoded \<noteq> SignatureSize \<or> b64_encode decoded \<noteq> se_Value signature \<or> \<not> ver public data decoded
                then Some (New ''Ed25519 signature is invalid'')
                else None))"

text \<open>\<open>data, err := r.SigningBytes(); if err != nil { return err }; r.Signature, err = signRecoveryBytes(data, key); return err\<close>\<close>

definition sign_into :: "(string \<Rightarrow> string) \<Rightarrow> (string \<Rightarrow> string \<Rightarrow> string) \<Rightarrow> (SignatureEnvelope \<Rightarrow> 'm \<Rightarrow> 'm) \<Rightarrow> err + string \<Rightarrow> 'm \<Rightarrow> string \<Rightarrow> error \<times> 'm" where
  "sign_into sha sign set_sig bytes r key =
     (case bytes of
        Inl e \<Rightarrow> (Some e, r)
      | Inr data \<Rightarrow> (case signRecoveryBytes sha sign data key of (sig, err) \<Rightarrow> (err, set_sig sig r)))"

section \<open>Shared checks\<close>

definition recoveryProtocolError :: "string \<Rightarrow> error" where
  "recoveryProtocolError version =
     (if version \<noteq> Version then Some (New ''protocol_version is not supported'') else None)"

definition recoveryExpiryError :: "time \<Rightarrow> time \<Rightarrow> error" where
  "recoveryExpiryError expires now =
     (if now = 0 \<or> expires = 0 \<or> \<not> now < expires
      then Some (New ''validation time must be nonzero and precede expires_at'') else None)"

definition recoveryHTTPSURL :: "(string \<Rightarrow> URL option) \<Rightarrow> string \<Rightarrow> err + URL" where
  "recoveryHTTPSURL url v =
     (case url v of
        None \<Rightarrow> Inl (New ''URL must be HTTPS without credentials, query, or fragment'')
      | Some u \<Rightarrow>
          if url_Scheme u \<noteq> ''https'' \<or> url_Hostname u = [] \<or> url_User u \<or> url_RawQuery u \<noteq> [] \<or> url_ForceQuery u \<or>
             url_Fragment u \<noteq> [] \<or> trim_space v \<noteq> v
          then Inl (New ''URL must be HTTPS without credentials, query, or fragment'')
          else Inr u)"

definition validateBootstrapAsset :: "(string \<Rightarrow> URL option) \<Rightarrow> string \<Rightarrow> BootstrapAssetRef \<Rightarrow> error" where
  "validateBootstrapAsset url name asset =
     join
     ((case recoveryHTTPSURL url (bar_URL asset) of
         Inl _ \<Rightarrow> [Errorf ''%s.url must be HTTPS without credentials, query, or fragment'' [Str name]]
       | Inr _ \<Rightarrow> []) @
      reports (join (validateRequiredSHA256Digest (name @ ''.digest'') (bar_Digest asset))))"

section \<open>The bootstrap manifest\<close>

definition platform_errs :: "(string \<Rightarrow> URL option) \<Rightarrow> nat \<Rightarrow> bool \<Rightarrow> BootstrapPlatformAsset \<Rightarrow> err list" where
  "platform_errs url i repeated asset =
     reports (validateIdentifier (at_index ''wfctl_assets'' i ''.os'') (bpa_OS asset)) @
     reports (validateIdentifier (at_index ''wfctl_assets'' i ''.arch'') (bpa_Arch asset)) @
     reports (validateBootstrapAsset url (at_index ''wfctl_assets'' i ''.asset'') (bpa_Asset asset)) @
     fails repeated (New ''wfctl_assets must not repeat a platform'')"

definition platform :: "BootstrapPlatformAsset \<Rightarrow> string" where
  "platform asset = bpa_OS asset @ ''/'' @ bpa_Arch asset"

definition signing_key_errs :: "(string \<Rightarrow> string) \<Rightarrow> bool \<Rightarrow> BootstrapSigningKey \<Rightarrow> err list" where
  "signing_key_errs sha repeated key =
     (case b64_decode (bsk_PublicKey key) of
        None \<Rightarrow> [New ''package_signing_keys must contain Ed25519 public keys with matching SHA256 key IDs'']
      | Some public \<Rightarrow> fails (length public \<noteq> PublicKeySize \<or> bsk_KeyID key \<noteq> Ed25519KeyID sha public)
          (New ''package_signing_keys must contain Ed25519 public keys with matching SHA256 key IDs'')) @
     fails repeated (New ''package_signing_keys must not repeat a key ID'')"

definition ComputeBootstrapManifest_validate :: "(string \<Rightarrow> URL option) \<Rightarrow> (string \<Rightarrow> string) \<Rightarrow> ComputeBootstrapManifest \<Rightarrow> error" where
  "ComputeBootstrapManifest_validate url sha m =
     join
     (reports (recoveryProtocolError (cbm_ProtocolVersion m)) @
      fails (cbm_SchemaVersion m \<noteq> ComputeBootstrapManifestSchema)
        (New ''schema_version must identify the compute bootstrap manifest'') @
      concat (map (\<lambda>(name, v). reports (validateIdentifier name v))
        [(''version'', cbm_Version m), (''wfctl_version'', cbm_WFCTLVersion m), (''plugin_compute_version'', cbm_PluginComputeVersion m),
         (''package_id'', cbm_PackageID m), (''package_version'', cbm_PackageVersion m)]) @
      (case recoveryHTTPSURL url (cbm_ServerOrigin m) of
         Inl _ \<Rightarrow> [New ''server_origin must be an HTTPS origin without path, credentials, query, or fragment'']
       | Inr u \<Rightarrow> fails (url_Path u \<noteq> [])
           (New ''server_origin must be an HTTPS origin without path, credentials, query, or fragment'')) @
      fails (cbm_WFCTLAssets m = [])
        (New ''wfctl_assets is required'') @
      each_seen 0 (platform_errs url) (\<lambda>_. True) platform {} (cbm_WFCTLAssets m) @
      reports (validateBootstrapAsset url ''plugin_compute_archive'' (cbm_PluginComputeArchive m)) @
      reports (validateBootstrapAsset url ''bootstrap'' (cbm_Bootstrap m)) @
      validateRequiredSHA256Digest ''package_manifest_digest'' (cbm_PackageManifestDigest m) @
      validateRequiredSHA256Digest ''keyset_digest'' (cbm_KeysetDigest m) @
      fails (cbm_BootstrapEpoch m = 0 \<or> cbm_PackageEpoch m = 0 \<or> cbm_KeysetEpoch m = 0)
        (New ''bootstrap_epoch, package_epoch, and keyset_epoch must be positive'') @
      fails (cbm_PackageSigningKeys m = [])
        (New ''package_signing_keys is required'') @
      each_seen 0 (\<lambda>_. signing_key_errs sha) (\<lambda>_. True) bsk_KeyID {} (cbm_PackageSigningKeys m) @
      fails (cbm_ExpiresAt m = 0)
        (New ''expires_at is required''))"

definition ComputeBootstrapManifest_ValidateAt :: "(string \<Rightarrow> URL option) \<Rightarrow> (string \<Rightarrow> string) \<Rightarrow> ComputeBootstrapManifest \<Rightarrow> time \<Rightarrow> error" where
  "ComputeBootstrapManifest_ValidateAt url sha m now =
     join (reports (ComputeBootstrapManifest_validate url sha m) @ reports (recoveryExpiryError (cbm_ExpiresAt m) now))"

definition ComputeBootstrapManifest_CanonicalBytes :: "(string \<Rightarrow> URL option) \<Rightarrow> (string \<Rightarrow> string) \<Rightarrow>
    (ComputeBootstrapManifest \<Rightarrow> err + string) \<Rightarrow> ComputeBootstrapManifest \<Rightarrow> err + string" where
  "ComputeBootstrapManifest_CanonicalBytes url sha json m =
     (case ComputeBootstrapManifest_validate url sha m of
        Some e \<Rightarrow> Inl e
      | None \<Rightarrow> json m)"

definition ComputeBootstrapManifest_Sign :: "(string \<Rightarrow> URL option) \<Rightarrow> (string \<Rightarrow> string) \<Rightarrow> (string \<Rightarrow> string \<Rightarrow> string) \<Rightarrow>
    (ComputeBootstrapManifest \<Rightarrow> err + string) \<Rightarrow> ComputeBootstrapManifest \<Rightarrow> string \<Rightarrow> SignatureEnvelope \<times> error" where
  "ComputeBootstrapManifest_Sign url sha sign json m key =
     (case ComputeBootstrapManifest_CanonicalBytes url sha json m of
        Inl e \<Rightarrow> (zero_SignatureEnvelope, Some e)
      | Inr data \<Rightarrow> signRecoveryBytes sha sign data key)"

definition ComputeBootstrapManifest_Verify :: "(string \<Rightarrow> URL option) \<Rightarrow> (string \<Rightarrow> string) \<Rightarrow> (string \<Rightarrow> string \<Rightarrow> string \<Rightarrow> bool) \<Rightarrow>
    (ComputeBootstrapManifest \<Rightarrow> err + string) \<Rightarrow> ComputeBootstrapManifest \<Rightarrow> SignatureEnvelope \<Rightarrow> string \<Rightarrow> time \<Rightarrow> error" where
  "ComputeBootstrapManifest_Verify url sha ver json m signature public now =
     (case ComputeBootstrapManifest_ValidateAt url sha m now of
        Some e \<Rightarrow> Some e
      | None \<Rightarrow>
          (case ComputeBootstrapManifest_CanonicalBytes url sha json m of
             Inl e \<Rightarrow> Some e
           | Inr data \<Rightarrow> verifyRecoveryBytes sha ver data signature public))"

section \<open>The install receipt\<close>

definition AgentSetupInstallReceipt_Binding :: "AgentSetupInstallReceipt \<Rightarrow> AgentSetupInstallReceiptBinding" where
  "AgentSetupInstallReceipt_Binding r =
     \<lparr>asirb_Challenge = asir_Challenge r, asirb_InviteID = asir_InviteID r, asirb_InstallSessionID = asir_InstallSessionID r,
      asirb_WorkerID = asir_WorkerID r, asirb_PackageID = asir_PackageID r, asirb_PackageVersion = asir_PackageVersion r,
      asirb_PackageDigest = asir_PackageDigest r, asirb_ManifestDigest = asir_ManifestDigest r,
      asirb_BootstrapEpoch = asir_BootstrapEpoch r, asirb_PackageEpoch = asir_PackageEpoch r, asirb_KeysetEpoch = asir_KeysetEpoch r,
      asirb_ExpiresAt = asir_ExpiresAt r\<rparr>"

definition AgentSetupInstallReceipt_validate :: "AgentSetupInstallReceipt \<Rightarrow> error" where
  "AgentSetupInstallReceipt_validate r =
     join
     (reports (recoveryProtocolError (asir_ProtocolVersion r)) @
      concat (map (\<lambda>(name, v). reports (validateIdentifier name v))
        [(''receipt_id'', asir_ReceiptID r), (''invite_id'', asir_InviteID r), (''install_session_id'', asir_InstallSessionID r),
         (''worker_id'', asir_WorkerID r), (''package_id'', asir_PackageID r), (''package_version'', asir_PackageVersion r),
         (''service_mode'', asir_ServiceMode r), (''heartbeat_id'', asir_HeartbeatID r), (''cloud_final_unit'', asir_CloudFinalUnit r),
         (''scrub_unit'', asir_ScrubUnit r)]) @
      (case b64_decode (asir_Challenge r) of
         None \<Rightarrow> [New ''challenge must encode 256 bits'']
       | Some challenge \<Rightarrow> fails (length challenge \<noteq> 32) (New ''challenge must encode 256 bits'')) @
      concat (map (\<lambda>(name, v). validateRequiredSHA256Digest name v)
        [(''package_digest'', asir_PackageDigest r), (''manifest_digest'', asir_ManifestDigest r), (''launcher_digest'', asir_LauncherDigest r),
         (''slot_digest'', asir_SlotDigest r), (''service_unit_digest'', asir_ServiceUnitDigest r), (''wrapper_hash'', asir_WrapperHash r),
         (''code_digest'', asir_CodeDigest r)]) @
      fails (asir_BootstrapEpoch r = 0 \<or> asir_PackageEpoch r = 0 \<or> asir_KeysetEpoch r = 0)
        (New ''bootstrap_epoch, package_epoch, and keyset_epoch must be positive'') @
      fails (asir_SlotID r \<noteq> ''A'' \<and> asir_SlotID r \<noteq> ''B'')
        (New ''slot_id must identify A or B'') @
      fails (asir_StartedPID r \<le> 0 \<or> asir_ScanHitCount r \<noteq> 0)
        (New ''started_pid must be positive and scan_hit_count must be zero'') @
      concat (map (\<lambda>(name, v). fails (v = 0 \<or> timeFromUnixNano (unixNanoOrZero v) \<noteq> v)
          (Errorf ''%s must be a nonzero nanosecond timestamp'' [Str name]))
        [(''heartbeat_at'', asir_HeartbeatAt r), (''completed_at'', asir_CompletedAt r), (''expires_at'', asir_ExpiresAt r)]) @
      fails (asir_CompletedAt r < asir_HeartbeatAt r \<or> \<not> asir_CompletedAt r < asir_ExpiresAt r)
        (New ''heartbeat_at must not exceed completed_at, which must precede expires_at''))"

definition AgentSetupInstallReceipt_ValidateAt :: "AgentSetupInstallReceipt \<Rightarrow> time \<Rightarrow> error" where
  "AgentSetupInstallReceipt_ValidateAt r now =
     join (reports (AgentSetupInstallReceipt_validate r) @ reports (recoveryExpiryError (asir_ExpiresAt r) now) @
           fails (now < asir_CompletedAt r) (New ''completed_at must not be in the future''))"

definition AgentSetupInstallReceipt_SigningPayload :: "AgentSetupInstallReceipt \<Rightarrow> AgentSetupInstallReceiptPayload" where
  "AgentSetupInstallReceipt_SigningPayload r =
     \<lparr>asirp_Domain = AgentSetupInstallReceiptSchema, asirp_ProtocolVersion = asir_ProtocolVersion r,
      asirp_ReceiptID = asir_ReceiptID r, asirp_Challenge = asir_Challenge r, asirp_InviteID = asir_InviteID r,
      asirp_InstallSessionID = asir_InstallSessionID r, asirp_WorkerID = asir_WorkerID r, asirp_PackageID = asir_PackageID r,
      asirp_PackageVersion = asir_PackageVersion r, asirp_PackageDigest = asir_PackageDigest r,
      asirp_ManifestDigest = asir_ManifestDigest r, asirp_BootstrapEpoch = asir_BootstrapEpoch r,
      asirp_PackageEpoch = asir_PackageEpoch r, asirp_KeysetEpoch = asir_KeysetEpoch r, asirp_LauncherDigest = asir_LauncherDigest r,
      asirp_SlotID = asir_SlotID r, asirp_SlotDigest = asir_SlotDigest r, asirp_ServiceUnitDigest = asir_ServiceUnitDigest r,
      asirp_ServiceMode = asir_ServiceMode r, asirp_StartedPID = asir_StartedPID r, asirp_HeartbeatID = asir_HeartbeatID r,
      asirp_HeartbeatAtUnixNano = unixNanoOrZero (asir_HeartbeatAt r), asirp_CloudFinalUnit = asir_CloudFinalUnit r,
      asirp_ScrubUnit = asir_ScrubUnit r, asirp_WrapperHash = asir_WrapperHash r, asirp_ScanHitCount = asir_ScanHitCount r,
      asirp_CodeDigest = asir_CodeDigest r, asirp_CompletedAtUnixNano = unixNanoOrZero (asir_CompletedAt r),
      asirp_ExpiresAtUnixNano = unixNanoOrZero (asir_ExpiresAt r), asirp_Unknown = []\<rparr>"

definition AgentSetupInstallReceipt_SigningBytes :: "(AgentSetupInstallReceiptPayload \<Rightarrow> err + string) \<Rightarrow> AgentSetupInstallReceipt \<Rightarrow> err + string" where
  "AgentSetupInstallReceipt_SigningBytes proto r =
     (case AgentSetupInstallReceipt_validate r of
        Some e \<Rightarrow> Inl e
      | None \<Rightarrow> proto (AgentSetupInstallReceipt_SigningPayload r))"

text \<open>
  The strict decoder; \<open>unproto\<close> is \<open>proto.Unmarshal\<close>. The payload has no nested message, so the
  rejection of unknown fields looks at the message itself only.
\<close>

definition reflected_payload :: "AgentSetupInstallReceiptPayload \<Rightarrow> message" where
  \<comment> \<open>the message by reflection: all its fields are scalars\<close>
  "reflected_payload payload = Message ''workflow_plugin_compute_core.protocol.v1.AgentSetupInstallReceiptPayload'' (asirp_Unknown payload) []"

definition UnmarshalAgentSetupInstallReceiptPayloadStrict :: "(string \<Rightarrow> err + AgentSetupInstallReceiptPayload) \<Rightarrow> string \<Rightarrow> err + AgentSetupInstallReceiptPayload" where
  "UnmarshalAgentSetupInstallReceiptPayloadStrict unproto data =
     (case unproto data of
        Inl e \<Rightarrow> Inl e
      | Inr payload \<Rightarrow>
          (case rejectUnknownProtoFields (Some (reflected_payload payload)) of
             Some e \<Rightarrow> Inl e
           | None \<Rightarrow>
               if asirp_Domain payload \<noteq> AgentSetupInstallReceiptSchema \<or> asirp_ProtocolVersion payload \<noteq> Version
               then Inl (New ''receipt payload domain/protocol is not supported'')
               else Inr payload))"

definition AgentSetupInstallReceipt_Sign :: "(string \<Rightarrow> string) \<Rightarrow> (string \<Rightarrow> string \<Rightarrow> string) \<Rightarrow>
    (AgentSetupInstallReceiptPayload \<Rightarrow> err + string) \<Rightarrow> AgentSetupInstallReceipt \<Rightarrow> string \<Rightarrow> error \<times> AgentSetupInstallReceipt" where
  "AgentSetupInstallReceipt_Sign sha sign proto r key =
     sign_into sha sign (\<lambda>sig r. r\<lparr>asir_Signature := sig\<rparr>) (AgentSetupInstallReceipt_SigningBytes proto r) r key"

definition AgentSetupInstallReceipt_Verify :: "(string \<Rightarrow> string) \<Rightarrow> (string \<Rightarrow> string \<Rightarrow> string \<Rightarrow> bool) \<Rightarrow>
    (AgentSetupInstallReceiptPayload \<Rightarrow> err + string) \<Rightarrow> AgentSetupInstallReceipt \<Rightarrow> string \<Rightarrow> AgentSetupInstallReceiptBinding \<Rightarrow> time \<Rightarrow> error" where
  "AgentSetupInstallReceipt_Verify sha ver proto r public expected now =
     (case AgentSetupInstallReceipt_ValidateAt r now of
        Some e \<Rightarrow> Some e
      | None \<Rightarrow>
          if AgentSetupInstallReceipt_Binding r \<noteq> expected
          then Some (New ''install receipt does not match the stored setup binding'')
          else (case AgentSetupInstallReceipt_SigningBytes proto r of
                  Inl e \<Rightarrow> Some e
                | Inr data \<Rightarrow> verifyRecoveryBytes sha ver data (asir_Signature r) public))"

section \<open>Package artifacts\<close>

text \<open>\<open>keys\<close> is the map of trusted keys; \<open>marshal\<close> the canonical JSON of the tuple.\<close>

definition PackageArtifactSignaturePayload_SigningBytes :: "(string \<Rightarrow> string) \<Rightarrow> (PackageArtifactSignaturePayload \<Rightarrow> string) \<Rightarrow> PackageArtifactSignaturePayload \<Rightarrow> string" where
  "PackageArtifactSignaturePayload_SigningBytes sha marshal p = CanonicalHash sha (marshal p)"

definition PackageArtifactSignaturePayload_Verify :: "(string \<Rightarrow> string) \<Rightarrow> (string \<Rightarrow> string \<Rightarrow> string \<Rightarrow> bool) \<Rightarrow>
    (PackageArtifactSignaturePayload \<Rightarrow> string) \<Rightarrow> PackageArtifactSignaturePayload \<Rightarrow> SignatureEnvelope \<Rightarrow> (string \<rightharpoonup> string) \<Rightarrow> error" where
  "PackageArtifactSignaturePayload_Verify sha ver marshal p signature keys =
     (if se_Algorithm signature \<noteq> ''ed25519'' then Some (New ''artifact signature algorithm is unsupported'')
      else (case keys (se_KeyID signature) of
              None \<Rightarrow> Some (New ''artifact signature key is not trusted'')
            | Some key \<Rightarrow>
                if length key \<noteq> PublicKeySize then Some (New ''artifact signature public key has invalid size'')
                else (case b64_decode (se_Value signature) of
                        None \<Rightarrow> Some (Errorf ''artifact signature is not base64: %w'' [])
                      | Some v \<Rightarrow>
                          if \<not> ver key (PackageArtifactSignaturePayload_SigningBytes sha marshal p) v
                          then Some (New ''artifact signature verification failed'')
                          else None)))"

section \<open>What a signature says\<close>

text \<open>What \<open>crypto/ed25519\<close> promises of a key it has made: signatures have 64 bytes and verify under the
  public half.\<close>

definition good_key :: "(string \<Rightarrow> string \<Rightarrow> string) \<Rightarrow> (string \<Rightarrow> string \<Rightarrow> string \<Rightarrow> bool) \<Rightarrow> string \<Rightarrow> bool" where
  "good_key sign ver key \<longleftrightarrow> length key = PrivateKeySize \<and>
     (\<forall>data. length (sign key data) = SignatureSize \<and> ver (public_of key) data (sign key data))"

lemma sizes: "PublicKeySize = 32" "PrivateKeySize = 64" "SignatureSize = 64"
  by (simp_all add: PublicKeySize_def PrivateKeySize_def SignatureSize_def)

lemma verifyRecoveryBytes_None:
  "verifyRecoveryBytes sha ver data s public = None \<longleftrightarrow>
     length public = PublicKeySize \<and> se_Algorithm s = ''ed25519'' \<and> se_KeyID s = Ed25519KeyID sha public \<and>
     (\<exists>raw. se_Value s = b64_encode raw \<and> length raw = SignatureSize \<and> ver public data raw)"
  by (auto simp: verifyRecoveryBytes_def split: option.splits) (metis+)

lemma signed_bytes_verify:
  assumes "good_key sign ver key"
  shows "\<exists>s. signRecoveryBytes sha sign data key = (s, None) \<and> verifyRecoveryBytes sha ver data s (public_of key) = None"
  using assms by (auto simp: signRecoveryBytes_def verifyRecoveryBytes_None good_key_def public_of_def sizes)

text \<open>A recovery signature has one spelling: two accepted envelopes whose values decode to the same bytes
  differ in the \<open>Verified\<close> flag at most, which nothing reads.\<close>

theorem signature_spelling_unique:
  assumes "verifyRecoveryBytes sha ver data s public = None" "verifyRecoveryBytes sha ver data' s' public = None"
    and "b64_decode (se_Value s) = b64_decode (se_Value s')"
  shows "s' = s\<lparr>se_Verified := se_Verified s'\<rparr> \<and> verifyRecoveryBytes sha ver data (s\<lparr>se_Verified := v\<rparr>) public = None"
  using assms by (auto simp: verifyRecoveryBytes_None intro!: SignatureEnvelope.equality)

text \<open>
  The contract of a message with a signature: \<open>check\<close> is its validation at the time in question and
  \<open>bytes\<close> what it signs. Neither looks at the signature, signing stores it and verifying checks it.
\<close>

locale signed_message =
  fixes sha :: "string \<Rightarrow> string" and sign :: "string \<Rightarrow> string \<Rightarrow> string" and ver :: "string \<Rightarrow> string \<Rightarrow> string \<Rightarrow> bool"
    and check :: "'m \<Rightarrow> error" and bytes :: "'m \<Rightarrow> err + string"
    and sig :: "'m \<Rightarrow> SignatureEnvelope" and set_sig :: "SignatureEnvelope \<Rightarrow> 'm \<Rightarrow> 'm"
    and Sign :: "'m \<Rightarrow> string \<Rightarrow> error \<times> 'm" and Verify :: "'m \<Rightarrow> string \<Rightarrow> error"
  assumes check_set: "check (set_sig s m) = check m"
    and bytes_set: "bytes (set_sig s m) = bytes m"
    and sig_set: "sig (set_sig s m) = s"
    and Sign_into: "Sign m key = sign_into sha sign set_sig (bytes m) m key"
    and Verify_None: "Verify m public = None \<longleftrightarrow>
      check m = None \<and> (\<exists>data. bytes m = Inr data \<and> verifyRecoveryBytes sha ver data (sig m) public = None)"
begin

lemma signed_verifies:
  assumes "good_key sign ver key" "bytes m = Inr data" "check m = None"
  shows "fst (Sign m key) = None \<and> Verify (snd (Sign m key)) (public_of key) = None"
proof -
  obtain s where s: "signRecoveryBytes sha sign data key = (s, None)" "verifyRecoveryBytes sha ver data s (public_of key) = None"
    using signed_bytes_verify [OF assms(1)] by blast
  then show ?thesis using assms(2, 3) by (simp add: Sign_into sign_into_def Verify_None check_set bytes_set sig_set)
qed

lemma verified:
  assumes "Verify m public = None"
  shows "check m = None \<and> (\<exists>data raw. bytes m = Inr data \<and> se_Value (sig m) = b64_encode raw \<and> ver public data raw)"
  using assms by (auto simp: Verify_None verifyRecoveryBytes_None)

lemma failed_sign:
  "fst (Sign m key) \<noteq> None \<Longrightarrow> snd (Sign m key) = m \<or> snd (Sign m key) = set_sig zero_SignatureEnvelope m"
  by (auto simp: Sign_into sign_into_def signRecoveryBytes_def split: sum.splits if_splits)

end

lemma receipt_bytes_Inr:
  "AgentSetupInstallReceipt_SigningBytes proto r = Inr data \<longleftrightarrow>
     AgentSetupInstallReceipt_validate r = None \<and> proto (AgentSetupInstallReceipt_SigningPayload r) = Inr data"
  by (simp add: AgentSetupInstallReceipt_SigningBytes_def split: option.split)

lemma receipt_unsigned:
  "AgentSetupInstallReceipt_validate (r\<lparr>asir_Signature := s\<rparr>) = AgentSetupInstallReceipt_validate r"
  "AgentSetupInstallReceipt_ValidateAt (r\<lparr>asir_Signature := s\<rparr>) now = AgentSetupInstallReceipt_ValidateAt r now"
  "AgentSetupInstallReceipt_SigningPayload (r\<lparr>asir_Signature := s\<rparr>) = AgentSetupInstallReceipt_SigningPayload r"
  "AgentSetupInstallReceipt_Binding (r\<lparr>asir_Signature := s\<rparr>) = AgentSetupInstallReceipt_Binding r"
  by (simp_all add: AgentSetupInstallReceipt_validate_def AgentSetupInstallReceipt_ValidateAt_def
      AgentSetupInstallReceipt_SigningPayload_def AgentSetupInstallReceipt_Binding_def)

definition receipt_check :: "AgentSetupInstallReceiptBinding \<Rightarrow> time \<Rightarrow> AgentSetupInstallReceipt \<Rightarrow> error" where
  "receipt_check expected now r =
     (case AgentSetupInstallReceipt_ValidateAt r now of
        Some e \<Rightarrow> Some e
      | None \<Rightarrow> if AgentSetupInstallReceipt_Binding r \<noteq> expected
          then Some (New ''install receipt does not match the stored setup binding'') else None)"

interpretation install: signed_message sha sign ver "receipt_check expected now" "AgentSetupInstallReceipt_SigningBytes proto"
  asir_Signature "\<lambda>s r. r\<lparr>asir_Signature := s\<rparr>" "AgentSetupInstallReceipt_Sign sha sign proto"
  "\<lambda>r public. AgentSetupInstallReceipt_Verify sha ver proto r public expected now"
  for sha sign ver expected now proto
  by unfold_locales
    (auto simp: receipt_check_def receipt_unsigned AgentSetupInstallReceipt_SigningBytes_def AgentSetupInstallReceipt_Sign_def
      AgentSetupInstallReceipt_Verify_def split: option.splits sum.splits)

text \<open>Signing and verifying fit together: a manifest or receipt that is valid now, and that the encoder accepts,
  is signed by a good key without error and then verifies under the public half of the key.\<close>

theorem bootstrap_signed_verifies:
  assumes "good_key sign ver key"
    and "ComputeBootstrapManifest_ValidateAt url sha m now = None" "json m = Inr data"
    and "AgentSetupInstallReceipt_ValidateAt r now = None" "proto (AgentSetupInstallReceipt_SigningPayload r) = Inr data'"
  shows "(case ComputeBootstrapManifest_Sign url sha sign json m key of (s, e) \<Rightarrow>
      e = None \<and> ComputeBootstrapManifest_Verify url sha ver json m s (public_of key) now = None) \<and>
    (case AgentSetupInstallReceipt_Sign sha sign proto r key of (e, r') \<Rightarrow>
      e = None \<and> AgentSetupInstallReceipt_Verify sha ver proto r' (public_of key) (AgentSetupInstallReceipt_Binding r) now = None)"
proof
  have "ComputeBootstrapManifest_validate url sha m = None" using assms(2) by (simp add: ComputeBootstrapManifest_ValidateAt_def)
  then have "ComputeBootstrapManifest_CanonicalBytes url sha json m = Inr data"
    using assms(3) by (simp add: ComputeBootstrapManifest_CanonicalBytes_def)
  then show "case ComputeBootstrapManifest_Sign url sha sign json m key of (s, e) \<Rightarrow>
      e = None \<and> ComputeBootstrapManifest_Verify url sha ver json m s (public_of key) now = None"
    using signed_bytes_verify [OF assms(1), of sha data] assms(2)
    by (auto simp: ComputeBootstrapManifest_Sign_def ComputeBootstrapManifest_Verify_def)
  have "AgentSetupInstallReceipt_SigningBytes proto r = Inr data'"
    using assms(4, 5) by (simp add: receipt_bytes_Inr AgentSetupInstallReceipt_ValidateAt_def)
  from install.signed_verifies [OF assms(1) this, of "AgentSetupInstallReceipt_Binding r" now sha] assms(4)
  show "case AgentSetupInstallReceipt_Sign sha sign proto r key of (e, r') \<Rightarrow>
      e = None \<and> AgentSetupInstallReceipt_Verify sha ver proto r' (public_of key) (AgentSetupInstallReceipt_Binding r) now = None"
    by (simp add: receipt_check_def case_prod_beta)
qed

section \<open>Receipts\<close>

lemma receipt_times:
  assumes "AgentSetupInstallReceipt_validate r = None"
  shows "timeFromUnixNano (unixNanoOrZero (asir_HeartbeatAt r)) = asir_HeartbeatAt r"
    "timeFromUnixNano (unixNanoOrZero (asir_CompletedAt r)) = asir_CompletedAt r"
    "timeFromUnixNano (unixNanoOrZero (asir_ExpiresAt r)) = asir_ExpiresAt r"
    "asir_HeartbeatAt r \<le> asir_CompletedAt r \<and> asir_CompletedAt r < asir_ExpiresAt r"
proof -
  note parts = assms [unfolded AgentSetupInstallReceipt_validate_def join_None append_is_Nil_conv]
  from parts have "fails (asir_CompletedAt r < asir_HeartbeatAt r \<or> \<not> asir_CompletedAt r < asir_ExpiresAt r)
      (New ''heartbeat_at must not exceed completed_at, which must precede expires_at'') = []" by (elim conjE)
  then show "asir_HeartbeatAt r \<le> asir_CompletedAt r \<and> asir_CompletedAt r < asir_ExpiresAt r"
    unfolding fails_Nil by (metis not_less)
  from parts have "concat (map (\<lambda>(name, v). fails (v = 0 \<or> timeFromUnixNano (unixNanoOrZero v) \<noteq> v)
          (Errorf ''%s must be a nonzero nanosecond timestamp'' [Str name]))
        [(''heartbeat_at'', asir_HeartbeatAt r), (''completed_at'', asir_CompletedAt r), (''expires_at'', asir_ExpiresAt r)]) = []"
    by (elim conjE)
  then show "timeFromUnixNano (unixNanoOrZero (asir_HeartbeatAt r)) = asir_HeartbeatAt r"
    "timeFromUnixNano (unixNanoOrZero (asir_CompletedAt r)) = asir_CompletedAt r"
    "timeFromUnixNano (unixNanoOrZero (asir_ExpiresAt r)) = asir_ExpiresAt r" by simp_all
qed

text \<open>C20. The signed payload covers the receipt: two valid receipts with the same payload are the same up to their
  signatures. It rests on the check of the times, since \<open>UnixNano\<close> alone wraps around.\<close>

theorem payload_covers_receipt:
  assumes "AgentSetupInstallReceipt_validate r = None" "AgentSetupInstallReceipt_validate r' = None"
    and "AgentSetupInstallReceipt_SigningPayload r = AgentSetupInstallReceipt_SigningPayload r'"
  shows "r' = r\<lparr>asir_Signature := asir_Signature r'\<rparr>"
proof -
  from assms(3) have "unixNanoOrZero (asir_HeartbeatAt r) = unixNanoOrZero (asir_HeartbeatAt r')"
    "unixNanoOrZero (asir_CompletedAt r) = unixNanoOrZero (asir_CompletedAt r')"
    "unixNanoOrZero (asir_ExpiresAt r) = unixNanoOrZero (asir_ExpiresAt r')"
    by (simp_all add: AgentSetupInstallReceipt_SigningPayload_def)
  then have "asir_HeartbeatAt r = asir_HeartbeatAt r'" "asir_CompletedAt r = asir_CompletedAt r'" "asir_ExpiresAt r = asir_ExpiresAt r'"
    using receipt_times [OF assms(1)] receipt_times [OF assms(2)] by metis+
  then show ?thesis using assms(3) by (simp add: AgentSetupInstallReceipt_SigningPayload_def)
qed

text \<open>C9. A verified install receipt answers the stored setup: every field of the binding is the expected one, the
  heartbeat precedes completion, completion is not in the future, the setup has not expired, nothing was
  found by the scan, and the signature is the key's over the payload.\<close>

theorem install_receipt_verified:
  assumes "AgentSetupInstallReceipt_Verify sha ver proto r public expected now = None"
  shows "AgentSetupInstallReceipt_Binding r = expected \<and>
    asir_HeartbeatAt r \<le> asir_CompletedAt r \<and> asir_CompletedAt r \<le> now \<and> now < asirb_ExpiresAt expected \<and>
    asir_ScanHitCount r = 0 \<and> asir_SlotID r \<in> {''A'', ''B''} \<and>
    (\<exists>data raw. proto (AgentSetupInstallReceipt_SigningPayload r) = Inr data \<and> se_Value (asir_Signature r) = b64_encode raw \<and> ver public data raw)"
proof -
  from install.verified [OF assms] obtain data raw where v: "receipt_check expected now r = None"
    "AgentSetupInstallReceipt_SigningBytes proto r = Inr data" "se_Value (asir_Signature r) = b64_encode raw" "ver public data raw"
    by blast
  then have b: "AgentSetupInstallReceipt_Binding r = expected" and at: "AgentSetupInstallReceipt_ValidateAt r now = None"
    by (simp_all add: receipt_check_def split: option.splits if_splits)
  have "now < asir_ExpiresAt r" "asir_CompletedAt r \<le> now"
    using at by (auto simp: AgentSetupInstallReceipt_ValidateAt_def recoveryExpiryError_def split: if_splits)
  moreover have ok: "AgentSetupInstallReceipt_validate r = None" and
    "proto (AgentSetupInstallReceipt_SigningPayload r) = Inr data" using v(2) by (simp_all add: receipt_bytes_Inr)
  moreover have "asir_ScanHitCount r = 0" "asir_SlotID r = ''A'' \<or> asir_SlotID r = ''B''"
    using ok unfolding AgentSetupInstallReceipt_validate_def by auto
  moreover have "asirb_ExpiresAt expected = asir_ExpiresAt r" using b by (auto simp: AgentSetupInstallReceipt_Binding_def)
  ultimately show ?thesis using b v(3, 4) receipt_times(4) [OF ok] by auto
qed

section \<open>The roots of a manifest\<close>

lemma platforms_accepted:
  assumes "each_seen 0 (platform_errs url) (\<lambda>_. True) platform {} xs = []"
  shows "\<forall>a \<in> set xs. plain_id (bpa_OS a) \<and> plain_id (bpa_Arch a)" "distinct (map platform xs)"
proof -
  have "platform_errs url i d x = [] \<longleftrightarrow> platform_errs url i False x = [] \<and> \<not> d" for i d x
    by (simp add: platform_errs_def)
  note accepted = assms [unfolded each_seen_Nil [OF this]]
  then show "distinct (map platform xs)" by simp
  from accepted have "all_from 0 (\<lambda>i x. platform_errs url i False x = []) xs" by iprover
  then have "all_from 0 (\<lambda>i x. plain_id (bpa_OS x) \<and> plain_id (bpa_Arch x)) xs"
    unfolding all_from_def by (simp add: platform_errs_def)
  then show "\<forall>a \<in> set xs. plain_id (bpa_OS a) \<and> plain_id (bpa_Arch a)" unfolding all_from_const .
qed

lemma keys_accepted:
  assumes "each_seen 0 (\<lambda>_. signing_key_errs sha) (\<lambda>_. True) bsk_KeyID {} ks = []"
  shows "\<forall>k \<in> set ks. \<exists>public. b64_decode (bsk_PublicKey k) = Some public \<and> length public = 32 \<and> bsk_KeyID k = Ed25519KeyID sha public"
    and "distinct (map bsk_KeyID ks)"
proof -
  have "signing_key_errs sha d x = [] \<longleftrightarrow> signing_key_errs sha False x = [] \<and> \<not> d" for d x
    by (simp add: signing_key_errs_def)
  note accepted = assms [unfolded each_seen_Nil [OF this, of _ "\<lambda>_. id" for i, simplified] all_from_const]
  then show "distinct (map bsk_KeyID ks)" by simp
  from accepted have "\<forall>x \<in> set ks. signing_key_errs sha False x = []" by simp
  then show "\<forall>k \<in> set ks. \<exists>public. b64_decode (bsk_PublicKey k) = Some public \<and> length public = 32 \<and> bsk_KeyID k = Ed25519KeyID sha public"
    by (fastforce simp: signing_key_errs_def PublicKeySize_def split: option.splits)
qed

lemma manifest_keys:
  assumes "ComputeBootstrapManifest_validate url sha m = None"
  shows "\<forall>k \<in> set (cbm_PackageSigningKeys m). \<exists>public. b64_decode (bsk_PublicKey k) = Some public \<and> length public = 32 \<and>
      bsk_KeyID k = Ed25519KeyID sha public"
    and "inj_on bsk_KeyID (set (cbm_PackageSigningKeys m))"
proof -
  have "each_seen 0 (\<lambda>_. signing_key_errs sha) (\<lambda>_. True) bsk_KeyID {} (cbm_PackageSigningKeys m) = []"
    using assms [unfolded ComputeBootstrapManifest_validate_def join_None append_is_Nil_conv] by (elim conjE)
  note keys = keys_accepted [OF this]
  from keys(1) show "\<forall>k \<in> set (cbm_PackageSigningKeys m). \<exists>public. b64_decode (bsk_PublicKey k) = Some public \<and> length public = 32 \<and>
      bsk_KeyID k = Ed25519KeyID sha public" .
  from keys(2) show "inj_on bsk_KeyID (set (cbm_PackageSigningKeys m))" by (simp add: distinct_map)
qed

text \<open>C21. The roots of an accepted manifest are unambiguous: an operating system and architecture name one asset
  at most, every package key is 32 bytes long and carries its own fingerprint, and no two entries hold the
  same key, however they spell it.\<close>

theorem manifest_roots_unambiguous:
  assumes "ComputeBootstrapManifest_validate url sha m = None"
  shows "distinct (map (\<lambda>a. (bpa_OS a, bpa_Arch a)) (cbm_WFCTLAssets m)) \<and>
    (\<forall>k \<in> set (cbm_PackageSigningKeys m). \<exists>public. b64_decode (bsk_PublicKey k) = Some public \<and>
       length public = 32 \<and> bsk_KeyID k = Ed25519KeyID sha public) \<and>
    distinct (map (\<lambda>k. b64_decode (bsk_PublicKey k)) (cbm_PackageSigningKeys m))"
proof -
  note parts = assms [unfolded ComputeBootstrapManifest_validate_def join_None append_is_Nil_conv]
  from parts have "each_seen 0 (platform_errs url) (\<lambda>_. True) platform {} (cbm_WFCTLAssets m) = []" by (elim conjE)
  from platforms_accepted(2) [OF this]
  have "distinct (map (\<lambda>a. (bpa_OS a, bpa_Arch a)) (cbm_WFCTLAssets m))"
    by (auto simp: distinct_map platform_def inj_on_def)
  moreover from parts have "each_seen 0 (\<lambda>_. signing_key_errs sha) (\<lambda>_. True) bsk_KeyID {} (cbm_PackageSigningKeys m) = []"
    by (elim conjE)
  note keys = keys_accepted [OF this]
  moreover have "inj_on (\<lambda>k. b64_decode (bsk_PublicKey k)) (set (cbm_PackageSigningKeys m))"
  proof (rule inj_onI)
    fix k l assume k: "k \<in> set (cbm_PackageSigningKeys m)" and l: "l \<in> set (cbm_PackageSigningKeys m)"
      and same: "b64_decode (bsk_PublicKey k) = b64_decode (bsk_PublicKey l)"
    then have "bsk_KeyID k = bsk_KeyID l" using bspec [OF keys(1) k] bspec [OF keys(1) l] by auto
    then show "k = l" using keys(2) k l unfolding distinct_map by (elim conjE) (rule inj_onD)
  qed
  then have "distinct (map (\<lambda>k. b64_decode (bsk_PublicKey k)) (cbm_PackageSigningKeys m))"
    using keys(2) by (simp add: distinct_map)
  ultimately show ?thesis by blast
qed

section \<open>Package signatures\<close>

lemma package_accepted:
  "PackageArtifactSignaturePayload_Verify sha ver marshal p s keys = None \<longleftrightarrow>
     se_Algorithm s = ''ed25519'' \<and> (\<exists>key raw. keys (se_KeyID s) = Some key \<and> length key = 32 \<and>
       b64_decode (se_Value s) = Some raw \<and> ver key (CanonicalHash sha (marshal p)) raw)"
  by (auto simp: PackageArtifactSignaturePayload_Verify_def PackageArtifactSignaturePayload_SigningBytes_def
      PublicKeySize_def split: option.splits)

text \<open>Of the envelope of a package artifact the verifier reads the algorithm, the key's name and the decoded value
  only: line breaks in the value and the \<open>Verified\<close> flag change nothing, and an accepted one was made by the
  trusted key of that name over the canonical hash of the tuple.\<close>

theorem package_verify_reads:
  "PackageArtifactSignaturePayload_Verify sha ver marshal p (s\<lparr>se_Value := se_Value s @ [CHR 0x0A], se_Verified := v\<rparr>) keys =
     PackageArtifactSignaturePayload_Verify sha ver marshal p s keys \<and>
   (PackageArtifactSignaturePayload_Verify sha ver marshal p s keys = None \<longleftrightarrow>
     se_Algorithm s = ''ed25519'' \<and> (\<exists>key raw. keys (se_KeyID s) = Some key \<and> length key = 32 \<and>
       b64_decode (se_Value s) = Some raw \<and> ver key (CanonicalHash sha (marshal p)) raw))"
  by (simp only: package_accepted)
    (auto simp: PackageArtifactSignaturePayload_Verify_def PackageArtifactSignaturePayload_SigningBytes_def b64_decode_lines split: option.splits)

text \<open>C17. A package is rooted in the manifest: when the root's signature of a manifest verifies and the trusted keys
  are taken from it, an accepted package signature was made by exactly one entry of the manifest, the one
  whose fingerprint the envelope names, over the canonical hash of the tuple, before the manifest expired.\<close>

theorem package_rooted_in_manifest:
  assumes "ComputeBootstrapManifest_Verify url sha ver json m s root now = None"
    and from_manifest: "\<And>i key. keys i = Some key \<Longrightarrow>
      \<exists>k \<in> set (cbm_PackageSigningKeys m). bsk_KeyID k = i \<and> b64_decode (bsk_PublicKey k) = Some key"
    and "PackageArtifactSignaturePayload_Verify sha ver marshal p s' keys = None"
  shows "(\<exists>!k. k \<in> set (cbm_PackageSigningKeys m) \<and> bsk_KeyID k = se_KeyID s') \<and>
    (\<exists>k \<in> set (cbm_PackageSigningKeys m). \<exists>public raw. b64_decode (bsk_PublicKey k) = Some public \<and>
       se_KeyID s' = Ed25519KeyID sha public \<and> b64_decode (se_Value s') = Some raw \<and> ver public (CanonicalHash sha (marshal p)) raw) \<and>
    now < cbm_ExpiresAt m \<and> (\<exists>data raw. json m = Inr data \<and> se_Value s = b64_encode raw \<and> ver root data raw)"
proof -
  from assms(1) obtain data where m: "ComputeBootstrapManifest_ValidateAt url sha m now = None"
    "ComputeBootstrapManifest_CanonicalBytes url sha json m = Inr data" "verifyRecoveryBytes sha ver data s root = None"
    by (auto simp: ComputeBootstrapManifest_Verify_def split: option.splits sum.splits)
  from m(1) have valid: "ComputeBootstrapManifest_validate url sha m = None" and now: "now < cbm_ExpiresAt m"
    by (auto simp: ComputeBootstrapManifest_ValidateAt_def recoveryExpiryError_def split: if_splits)
  obtain key raw where key: "keys (se_KeyID s') = Some key" "b64_decode (se_Value s') = Some raw" "ver key (CanonicalHash sha (marshal p)) raw"
    using assms(3) by (auto simp: package_accepted)
  from from_manifest [OF key(1)] obtain k where k: "k \<in> set (cbm_PackageSigningKeys m)" "bsk_KeyID k = se_KeyID s'"
    "b64_decode (bsk_PublicKey k) = Some key" by blast
  with manifest_keys(1) [OF valid] have "se_KeyID s' = Ed25519KeyID sha key" by force
  moreover have "\<exists>!k. k \<in> set (cbm_PackageSigningKeys m) \<and> bsk_KeyID k = se_KeyID s'"
    using k(1, 2) manifest_keys(2) [OF valid] by (metis inj_onD)
  moreover have "json m = Inr data" using m(2) valid by (simp add: ComputeBootstrapManifest_CanonicalBytes_def)
  ultimately show ?thesis using k key now m(3) by (auto simp: verifyRecoveryBytes_None)
qed

section \<open>Examples\<close>

definition demo_sign :: "string \<Rightarrow> string \<Rightarrow> string" where
  "demo_sign key data = take 64 (public_of key @ data @ replicate 64 CHR ''.'')"

definition demo_verify :: "string \<Rightarrow> string \<Rightarrow> string \<Rightarrow> bool" where
  "demo_verify public data raw \<longleftrightarrow> raw = take 64 (public @ data @ replicate 64 CHR ''.'')"

definition demo_key :: string where
  "demo_key = replicate 64 CHR ''k''"

definition demo_hash :: "string \<Rightarrow> string" where
  "demo_hash s = take 32 (s @ replicate 32 CHR ''h'')"

lemma demo_key_good: "good_key demo_sign demo_verify demo_key"
  by (simp add: good_key_def demo_sign_def demo_verify_def demo_key_def public_of_def sizes min_def le_diff_conv)

lemma signature_spelling_unique_witness:
  "\<exists>s. verifyRecoveryBytes demo_hash demo_verify ''data'' s (public_of demo_key) = None \<and>
     verifyRecoveryBytes demo_hash demo_verify ''data'' (s\<lparr>se_Verified := True\<rparr>) (public_of demo_key) = None"
proof -
  obtain s where s: "verifyRecoveryBytes demo_hash demo_verify ''data'' s (public_of demo_key) = None"
    using signed_bytes_verify [OF demo_key_good] by blast
  from signature_spelling_unique [OF s s refl, of True] s show ?thesis by blast
qed

definition demo_origin :: "string \<Rightarrow> URL option" where
  "demo_origin s = Some \<lparr>url_Scheme = ''https'', url_User = False, url_Host = s, url_Hostname = s, url_Path = [],
     url_RawQuery = [], url_ForceQuery = False, url_Fragment = []\<rparr>"

definition demo_asset :: BootstrapAssetRef where
  "demo_asset = \<lparr>bar_URL = ''asset'', bar_Digest = demo_sha\<rparr>"

definition demo_roots :: "string \<Rightarrow> ComputeBootstrapManifest" where
  "demo_roots arch = \<lparr>cbm_ProtocolVersion = Version, cbm_SchemaVersion = ComputeBootstrapManifestSchema, cbm_Version = ''v1'',
     cbm_ServerOrigin = ''host'', cbm_WFCTLVersion = ''v1'',
     cbm_WFCTLAssets = [\<lparr>bpa_OS = ''linux'', bpa_Arch = ''amd64'', bpa_Asset = demo_asset\<rparr>, \<lparr>bpa_OS = ''linux'', bpa_Arch = arch, bpa_Asset = demo_asset\<rparr>],
     cbm_PluginComputeVersion = ''v1'', cbm_PluginComputeArchive = demo_asset, cbm_Bootstrap = demo_asset, cbm_PackageID = ''p'',
     cbm_PackageVersion = ''v1'', cbm_PackageManifestDigest = demo_sha, cbm_BootstrapEpoch = 1, cbm_PackageEpoch = 1, cbm_KeysetEpoch = 1,
     cbm_KeysetDigest = demo_sha,
     cbm_PackageSigningKeys = [\<lparr>bsk_KeyID = Ed25519KeyID demo_hash (public_of demo_key), bsk_PublicKey = b64_encode (public_of demo_key)\<rparr>],
     cbm_ExpiresAt = Time 20\<rparr>"

lemma demo_texts:
  "plain_id ''v1''" "plain_id ''linux''" "plain_id ''amd64''" "plain_id ''arm64''" "plain_id ''user''" "validSHA256Digest demo_sha"
  "trim_space ''asset'' = ''asset''" "trim_space ''host'' = ''host''"
  by code_simp+

lemma demo_letters: "plain_id ''p''" "plain_id ''r''" "plain_id ''i''" "plain_id ''s''" "plain_id ''w''" "plain_id ''h''" "plain_id ''c''"
  by code_simp+

lemma demo_asset_valid: "validateBootstrapAsset demo_origin name demo_asset = None"
  by (simp add: validateBootstrapAsset_def recoveryHTTPSURL_def demo_origin_def demo_asset_def demo_texts)

lemma demo_public: "length (public_of demo_key) = 32"
  by (simp add: public_of_def demo_key_def)

lemma demo_roots_accepted:
  "ComputeBootstrapManifest_validate demo_origin demo_hash (demo_roots ''arm64'') = None"
  "ComputeBootstrapManifest_validate demo_origin demo_hash (demo_roots ''amd64'') \<noteq> None"
  by (simp_all add: ComputeBootstrapManifest_validate_def demo_roots_def recoveryProtocolError_def demo_texts demo_letters demo_asset_valid
      demo_public recoveryHTTPSURL_def demo_origin_def platform_errs_def platform_def signing_key_errs_def sizes)

lemma manifest_roots_unambiguous_witness:
  "(\<exists>public. b64_decode (b64_encode (public_of demo_key)) = Some public \<and> length public = 32) \<and>
   ComputeBootstrapManifest_validate demo_origin demo_hash (demo_roots ''amd64'') \<noteq> None"
  using manifest_roots_unambiguous [OF demo_roots_accepted(1)] demo_roots_accepted(2) by (auto simp: demo_roots_def)

lemma package_rooted_in_manifest_witness:
  "\<exists>s :: SignatureEnvelope. se_KeyID s = Ed25519KeyID demo_hash (public_of demo_key) \<and>
     (\<exists>!k. k \<in> set (cbm_PackageSigningKeys (demo_roots ''arm64'')) \<and> bsk_KeyID k = se_KeyID s)"
proof -
  let ?m = "demo_roots ''arm64''" and ?i = "Ed25519KeyID demo_hash (public_of demo_key)" and ?keys = "[Ed25519KeyID demo_hash (public_of demo_key) \<mapsto> public_of demo_key]"
  have valid: "ComputeBootstrapManifest_ValidateAt demo_origin demo_hash ?m (Time 10) = None"
    using demo_roots_accepted(1) by (simp add: ComputeBootstrapManifest_ValidateAt_def recoveryExpiryError_def) (simp add: demo_roots_def)
  obtain s where "verifyRecoveryBytes demo_hash demo_verify ''message'' s (public_of demo_key) = None"
    using signed_bytes_verify [OF demo_key_good] by blast
  then have root: "ComputeBootstrapManifest_Verify demo_origin demo_hash demo_verify (\<lambda>_. Inr ''message'') ?m s (public_of demo_key) (Time 10) = None"
    using valid demo_roots_accepted(1) by (simp add: ComputeBootstrapManifest_Verify_def ComputeBootstrapManifest_CanonicalBytes_def)
  obtain s' where "verifyRecoveryBytes demo_hash demo_verify (CanonicalHash demo_hash ''tuple'') s' (public_of demo_key) = None"
    using signed_bytes_verify [OF demo_key_good] by blast
  then have package: "PackageArtifactSignaturePayload_Verify demo_hash demo_verify (\<lambda>_. ''tuple'') p s' ?keys = None" and i: "se_KeyID s' = ?i" for p
    using demo_public by (auto simp: verifyRecoveryBytes_None package_accepted)
  have from_manifest: "\<exists>k \<in> set (cbm_PackageSigningKeys ?m). bsk_KeyID k = i \<and> b64_decode (bsk_PublicKey k) = Some key" if "?keys i = Some key" for i key
    using that by (simp add: demo_roots_def split: if_splits)
  have "\<exists>!k. k \<in> set (cbm_PackageSigningKeys ?m) \<and> bsk_KeyID k = se_KeyID s'"
    by (rule package_rooted_in_manifest [OF root _ package, THEN conjunct1]) (rule from_manifest)
  with i show ?thesis by blast
qed

definition demo_install :: "int \<Rightarrow> AgentSetupInstallReceipt" where
  "demo_install t = \<lparr>asir_ProtocolVersion = Version, asir_ReceiptID = ''r'', asir_Challenge = b64_encode (replicate 32 CHR ''c''),
     asir_InviteID = ''i'', asir_InstallSessionID = ''s'', asir_WorkerID = ''w'', asir_PackageID = ''p'', asir_PackageVersion = ''v1'',
     asir_PackageDigest = demo_sha, asir_ManifestDigest = demo_sha, asir_BootstrapEpoch = 1, asir_PackageEpoch = 1, asir_KeysetEpoch = 1,
     asir_LauncherDigest = demo_sha, asir_SlotID = ''A'', asir_SlotDigest = demo_sha, asir_ServiceUnitDigest = demo_sha,
     asir_ServiceMode = ''user'', asir_StartedPID = 1, asir_HeartbeatID = ''h'', asir_HeartbeatAt = Time (unix_epoch + t),
     asir_CloudFinalUnit = ''c'', asir_ScrubUnit = ''s'', asir_WrapperHash = demo_sha, asir_ScanHitCount = 0, asir_CodeDigest = demo_sha,
     asir_CompletedAt = Time (unix_epoch + t), asir_ExpiresAt = Time (unix_epoch + 20), asir_Signature = zero_SignatureEnvelope\<rparr>"

lemma demo_install_accepted:
  "AgentSetupInstallReceipt_validate (demo_install 10) = None"
  "AgentSetupInstallReceipt_ValidateAt (demo_install 10) (Time (unix_epoch + 15)) = None"
  "AgentSetupInstallReceipt_validate (demo_install 0) \<noteq> None"
  "AgentSetupInstallReceipt_validate (demo_install (- (2 ^ 63) - 1)) \<noteq> None"
  by (simp_all add: AgentSetupInstallReceipt_validate_def AgentSetupInstallReceipt_ValidateAt_def demo_install_def recoveryProtocolError_def
      recoveryExpiryError_def demo_texts demo_letters unixNanoOrZero_def timeFromUnixNano_def wrap64_def unix_epoch_def)

lemma payload_covers_receipt_witness:
  "AgentSetupInstallReceipt_validate (demo_install 0) \<noteq> None \<and>
   (demo_install 10)\<lparr>asir_Signature := demo_signature ''x''\<rparr> = (demo_install 10)\<lparr>asir_Signature := asir_Signature ((demo_install 10)\<lparr>asir_Signature := demo_signature ''x''\<rparr>)\<rparr>"
  using payload_covers_receipt [of "demo_install 10" "(demo_install 10)\<lparr>asir_Signature := demo_signature ''x''\<rparr>"] demo_install_accepted
  by (simp add: receipt_unsigned)

definition demo_encode :: "'a \<Rightarrow> err + string" where
  "demo_encode m = Inr ''message''"

lemma bootstrap_signed_verifies_witness:
  "AgentSetupInstallReceipt_Verify demo_hash demo_verify demo_encode
     (snd (AgentSetupInstallReceipt_Sign demo_hash demo_sign demo_encode (demo_install 10) demo_key)) (public_of demo_key)
     (AgentSetupInstallReceipt_Binding (demo_install 10)) (Time (unix_epoch + 15)) = None"
proof -
  have "ComputeBootstrapManifest_ValidateAt demo_origin demo_hash ((demo_roots ''arm64'')\<lparr>cbm_ExpiresAt := Time (unix_epoch + 20)\<rparr>)
      (Time (unix_epoch + 15)) = None"
    using demo_roots_accepted(1)
    by (simp add: ComputeBootstrapManifest_ValidateAt_def ComputeBootstrapManifest_validate_def demo_roots_def recoveryExpiryError_def unix_epoch_def)
  from bootstrap_signed_verifies [OF demo_key_good this _ demo_install_accepted(2), where json = demo_encode and proto = demo_encode
      and data = "''message''" and data' = "''message''"]
  show ?thesis by (simp add: demo_encode_def case_prod_beta)
qed

lemma install_receipt_verified_witness:
  "asirb_WorkerID (AgentSetupInstallReceipt_Binding (demo_install 10)) = ''w'' \<and>
   AgentSetupInstallReceipt_Verify demo_hash demo_verify demo_encode (demo_install 10) (public_of demo_key)
     ((AgentSetupInstallReceipt_Binding (demo_install 10))\<lparr>asirb_WorkerID := ''other''\<rparr>) (Time (unix_epoch + 15)) \<noteq> None"
proof -
  let ?r = "snd (AgentSetupInstallReceipt_Sign demo_hash demo_sign demo_encode (demo_install 10) demo_key)"
  have "AgentSetupInstallReceipt_SigningBytes demo_encode (demo_install 10) = Inr ''message''"
    by (simp add: receipt_bytes_Inr demo_install_accepted demo_encode_def)
  from install.signed_verifies [OF demo_key_good this, of "AgentSetupInstallReceipt_Binding (demo_install 10)" "Time (unix_epoch + 15)" demo_hash]
  have "AgentSetupInstallReceipt_Verify demo_hash demo_verify demo_encode ?r (public_of demo_key)
     (AgentSetupInstallReceipt_Binding (demo_install 10)) (Time (unix_epoch + 15)) = None"
    by (simp add: receipt_check_def demo_install_accepted)
  from install_receipt_verified [OF this] have "AgentSetupInstallReceipt_Binding ?r = AgentSetupInstallReceipt_Binding (demo_install 10)" by blast
  then have "asirb_WorkerID (AgentSetupInstallReceipt_Binding (demo_install 10)) = ''w''"
    by (simp add: AgentSetupInstallReceipt_Binding_def demo_install_def)
  moreover have "AgentSetupInstallReceipt_Verify demo_hash demo_verify demo_encode (demo_install 10) (public_of demo_key)
     ((AgentSetupInstallReceipt_Binding (demo_install 10))\<lparr>asirb_WorkerID := ''other''\<rparr>) (Time (unix_epoch + 15)) \<noteq> None"
    by (simp add: AgentSetupInstallReceipt_Verify_def AgentSetupInstallReceipt_Binding_def demo_install_def split: option.split)
  ultimately show ?thesis by blast
qed

end
