(* ===== verification/GoJson.thy ===== *)
theory GoJson
  imports GoNet
begin

text \<open>
  \<open>json.Valid\<close> of Go's \<open>encoding/json\<close>: the scanner, a function of one byte and a state. The
  state is the mode (what is expected next) and the stack of open brackets, at most 10000 of them.
  The input is valid when the scanner, fed a final space, is after a value at the top level.
  The last section shows that what a compact printer writes, without escapes and with natural numbers only, is valid.
\<close>

datatype json_context = ObjectKey | ObjectValue | ArrayValue

datatype json_mode =
    BeginValue | ValueOrClose | KeyOrClose | BeginKey | EndValue
  | InString | InEscape | InHex nat
  | AfterMinus | AfterZero | InInteger | AfterDot | InFraction | AfterE | AfterExponentSign | InExponent
  | InLiteral string

type_synonym json_state = "json_mode \<times> json_context list"

definition json_space :: "char \<Rightarrow> bool" where
  "json_space c \<longleftrightarrow> c \<in> {CHR '' '', CHR 0x09, CHR 0x0D, CHR 0x0A}"

definition json_digit :: "char \<Rightarrow> bool" where
  "json_digit c \<longleftrightarrow> c \<in> set ''0123456789''"

definition json_open :: "json_mode \<Rightarrow> json_context \<Rightarrow> json_context list \<Rightarrow> json_state option" where
  \<comment> \<open>\<open>pushParseState\<close>\<close>
  "json_open m k st = (if length st < 10000 then Some (m, k # st) else None)"

fun begin_value :: "char \<Rightarrow> json_context list \<Rightarrow> json_state option" where
  "begin_value c st =
     (if json_space c then Some (BeginValue, st)
      else if c = CHR ''{'' then json_open KeyOrClose ObjectKey st
      else if c = CHR ''['' then json_open ValueOrClose ArrayValue st
      else if c = CHR 0x22 then Some (InString, st)
      else if c = CHR ''-'' then Some (AfterMinus, st)
      else if c = CHR ''0'' then Some (AfterZero, st)
      else if json_digit c then Some (InInteger, st)
      else if c = CHR ''t'' then Some (InLiteral ''rue'', st)
      else if c = CHR ''f'' then Some (InLiteral ''alse'', st)
      else if c = CHR ''n'' then Some (InLiteral ''ull'', st)
      else None)"

fun end_value :: "char \<Rightarrow> json_context list \<Rightarrow> json_state option" where
  "end_value c [] = (if json_space c then Some (EndValue, []) else None)"
| "end_value c (k # st) =
     (if json_space c then Some (EndValue, k # st)
      else case k of
        ObjectKey \<Rightarrow> if c = CHR '':'' then Some (BeginValue, ObjectValue # st) else None
      | ObjectValue \<Rightarrow>
          if c = CHR '','' then Some (BeginKey, ObjectKey # st)
          else if c = CHR ''}'' then Some (EndValue, st) else None
      | ArrayValue \<Rightarrow>
          if c = CHR '','' then Some (BeginValue, ArrayValue # st)
          else if c = CHR '']'' then Some (EndValue, st) else None)"

fun begin_key :: "char \<Rightarrow> json_context list \<Rightarrow> json_state option" where
  "begin_key c st =
     (if json_space c then Some (BeginKey, st) else if c = CHR 0x22 then Some (InString, st) else None)"

fun json_step :: "char \<Rightarrow> json_state \<Rightarrow> json_state option" where
  "json_step c (BeginValue, st) = begin_value c st"
| "json_step c (ValueOrClose, st) =
     (if json_space c then Some (ValueOrClose, st) else if c = CHR '']'' then end_value c st else begin_value c st)"
| "json_step c (KeyOrClose, st) =
     (if json_space c then Some (KeyOrClose, st)
      else if c = CHR ''}'' then end_value c (ObjectValue # tl st) else begin_key c st)"
| "json_step c (BeginKey, st) = begin_key c st"
| "json_step c (EndValue, st) = end_value c st"
| "json_step c (InString, st) =
     (if c = CHR 0x22 then Some (EndValue, st) else if c = CHR 0x5C then Some (InEscape, st)
      else if (of_char c :: nat) < 32 then None else Some (InString, st))"
| "json_step c (InEscape, st) =
     (if c \<in> set (''bfnrt/'' @ [CHR 0x5C, CHR 0x22]) then Some (InString, st)
      else if c = CHR ''u'' then Some (InHex 3, st) else None)"
| "json_step c (InHex n, st) =
     (if is_hex_digit c then Some (case n of 0 \<Rightarrow> InString | Suc m \<Rightarrow> InHex m, st) else None)"
| "json_step c (AfterMinus, st) =
     (if c = CHR ''0'' then Some (AfterZero, st) else if json_digit c then Some (InInteger, st) else None)"
| "json_step c (InInteger, st) =
     (if json_digit c then Some (InInteger, st)
      else if c = CHR ''.'' then Some (AfterDot, st) else if c \<in> set ''eE'' then Some (AfterE, st) else end_value c st)"
| "json_step c (AfterZero, st) =
     (if c = CHR ''.'' then Some (AfterDot, st) else if c \<in> set ''eE'' then Some (AfterE, st) else end_value c st)"
| "json_step c (AfterDot, st) = (if json_digit c then Some (InFraction, st) else None)"
| "json_step c (InFraction, st) =
     (if json_digit c then Some (InFraction, st) else if c \<in> set ''eE'' then Some (AfterE, st) else end_value c st)"
| "json_step c (AfterE, st) =
     (if c \<in> set ''+-'' then Some (AfterExponentSign, st) else if json_digit c then Some (InExponent, st) else None)"
| "json_step c (AfterExponentSign, st) = (if json_digit c then Some (InExponent, st) else None)"
| "json_step c (InExponent, st) = (if json_digit c then Some (InExponent, st) else end_value c st)"
| "json_step c (InLiteral [], st) = end_value c st"
| "json_step c (InLiteral (x # xs), st) =
     (if c = x then Some (if xs = [] then EndValue else InLiteral xs, st) else None)"

fun json_run :: "string \<Rightarrow> json_state \<Rightarrow> json_state option" where
  "json_run [] s = Some s"
| "json_run (c # cs) s = (case json_step c s of None \<Rightarrow> None | Some s' \<Rightarrow> json_run cs s')"

definition json_valid :: "string \<Rightarrow> bool" where
  "json_valid input \<longleftrightarrow> json_run (input @ '' '') (BeginValue, []) = Some (EndValue, [])"

lemma json_run_append: "json_run (a @ b) s = (case json_run a s of None \<Rightarrow> None | Some s' \<Rightarrow> json_run b s')"
  by (induction a arbitrary: s) (auto split: option.splits)

section \<open>What a printer writes is valid\<close>

datatype json = JNull | JBool bool | JNat nat | JString string | JArray "json list" | JObject "(string \<times> json) list"

text \<open>Strings without quotes, backslashes and control characters need no escapes.\<close>

definition plain_text :: "string \<Rightarrow> bool" where
  "plain_text s \<longleftrightarrow> list_all (\<lambda>c. c \<noteq> CHR 0x22 \<and> c \<noteq> CHR 0x5C \<and> 32 \<le> (of_char c :: nat)) s"

definition quoted :: "string \<Rightarrow> string" where
  "quoted s = [CHR 0x22] @ s @ [CHR 0x22]"

fun commas :: "string list \<Rightarrow> string" where
  "commas [] = []"
| "commas [w] = w"
| "commas (w # ws) = w @ '','' @ commas ws"

fun print_json :: "json \<Rightarrow> string" where
  "print_json JNull = ''null''"
| "print_json (JBool b) = (if b then ''true'' else ''false'')"
| "print_json (JNat n) = dec n"
| "print_json (JString s) = quoted s"
| "print_json (JArray vs) = ''['' @ commas (map print_json vs) @ '']''"
| "print_json (JObject fs) = ''{'' @ commas (map (\<lambda>(k, v). quoted k @ '':'' @ print_json v) fs) @ ''}''"

fun printable :: "json \<Rightarrow> bool" where
  "printable (JString s) \<longleftrightarrow> plain_text s"
| "printable (JArray vs) \<longleftrightarrow> list_all printable vs"
| "printable (JObject fs) \<longleftrightarrow> list_all (\<lambda>(k, v). plain_text k \<and> printable v) fs"
| "printable _ \<longleftrightarrow> True"

fun depth :: "json \<Rightarrow> nat" where
  "depth (JArray vs) = Suc (fold max (map depth vs) 0)"
| "depth (JObject fs) = Suc (fold max (map (\<lambda>(k, v). depth v) fs) 0)"
| "depth _ = 0"

text \<open>The modes after a complete value: a number may still go on, until a terminator ends it.\<close>

definition complete :: "json_mode \<Rightarrow> bool" where
  "complete m \<longleftrightarrow> m \<in> {EndValue, AfterZero, InInteger}"

lemma complete_step:
  "complete m \<Longrightarrow> c \<in> set '',]} '' \<Longrightarrow> json_step c (m, st) = end_value c st"
  by (auto simp: complete_def json_digit_def simp del: end_value.simps)

lemma json_run_plain: "plain_text s \<Longrightarrow> json_run s (InString, st) = Some (InString, st)"
proof (induction s)
  case (Cons c s)
  then have "json_step c (InString, st) = Some (InString, st)" by (simp add: plain_text_def)
  moreover have "plain_text s" using Cons.prems by (simp add: plain_text_def)
  ultimately show ?case using Cons.IH by (simp only: json_run.simps option.case)
qed simp

lemma json_run_Cons: "json_step c s = Some s' \<Longrightarrow> json_run (c # cs) s = json_run cs s'"
  by simp

lemma quote_step:
  "json_step (CHR 0x22) (BeginValue, st) = Some (InString, st)" "json_step (CHR 0x22) (BeginKey, st) = Some (InString, st)"
  "json_step (CHR 0x22) (KeyOrClose, st) = Some (InString, st)" "json_step (CHR 0x22) (InString, st) = Some (EndValue, st)"
  by (simp_all add: json_space_def)

lemma json_run_quoted:
  assumes "plain_text s" and "m \<in> {BeginValue, BeginKey, KeyOrClose}"
  shows "json_run (quoted s) (m, st) = Some (EndValue, st)"
proof -
  have "json_step (CHR 0x22) (m, st) = Some (InString, st)" using assms(2) quote_step by blast
  then have "json_run (quoted s) (m, st) = json_run (s @ [CHR 0x22]) (InString, st)"
    unfolding quoted_def by (simp only: append_Cons append_Nil json_run_Cons)
  then show ?thesis
    by (simp only: json_run_append json_run_plain [OF assms(1)] option.case json_run.simps quote_step(4))
qed

lemma dec_head: "\<exists>c cs. dec n = c # cs \<and> list_all json_digit cs \<and> json_digit c \<and> (c = CHR ''0'' \<longrightarrow> cs = [])"
proof (induction n rule: dec.induct)
  case (1 n)
  have digit: "json_digit (''0123456789'' ! k)" if "k < 10" for k
    unfolding json_digit_def using nth_mem [of k "''0123456789''"] that by simp
  show ?case
  proof (cases "n < 10")
    case True
    then show ?thesis using digit [of n] by (simp add: dec.simps)
  next
    case False
    then obtain c cs where hd: "dec (n div 10) = c # cs" "list_all json_digit cs" "json_digit c" "c = CHR ''0'' \<longrightarrow> cs = []"
      using 1 by blast
    moreover have "c \<noteq> CHR ''0''"
    proof
      assume "c = CHR ''0''"
      then have "dec (n div 10) = ''0''" using hd by simp
      then have "n div 10 = 0" using dec_digits [of "n div 10"] by (simp add: decimal_value_def)
      then show False using False by simp
    qed
    ultimately show ?thesis using False digit [of "n mod 10"] by (simp add: dec.simps [of n])
  qed
qed

lemma json_run_digits: "list_all json_digit ds \<Longrightarrow> json_run ds (InInteger, st) = Some (InInteger, st)"
  by (induction ds) auto

lemma run_commas:
  assumes "\<And>w. w \<in> set ws \<Longrightarrow> \<exists>m. complete m \<and> json_run w s = Some (m, st)"
    and "\<And>m. complete m \<Longrightarrow> json_step (CHR '','') (m, st) = Some s" and "ws \<noteq> []"
  shows "\<exists>m. complete m \<and> json_run (commas ws) s = Some (m, st)"
  using assms(1,3)
proof (induction ws rule: commas.induct)
  case (3 w v vs)
  from 3(2) obtain m where m: "complete m" "json_run w s = Some (m, st)" by force
  from 3(1) 3(2) obtain m' where m': "complete m'" "json_run (commas (v # vs)) s = Some (m', st)" by force
  have "json_run (commas (w # v # vs)) s = json_run (commas (v # vs)) s"
    by (simp add: json_run_append m assms(2))
  with m' show ?case by metis
qed auto

lemma print_head: "\<exists>c cs. print_json v = c # cs \<and> c \<noteq> CHR '']'' \<and> \<not> json_space c"
proof (cases v)
  case (JNat n)
  then show ?thesis using dec_head [of n] by (auto simp: json_digit_def json_space_def)
qed (auto simp: quoted_def json_space_def)

lemma begin_array:
  assumes "vs \<noteq> []"
  shows "json_run (commas (map print_json vs)) (ValueOrClose, st) = json_run (commas (map print_json vs)) (BeginValue, st)"
proof -
  obtain v vs' where vs: "vs = v # vs'" using assms by (cases vs) auto
  obtain c cs where hd: "print_json v = c # cs" "c \<noteq> CHR '']''" "\<not> json_space c" using print_head by blast
  have "json_step c (ValueOrClose, st) = json_step c (BeginValue, st)" using hd by (simp del: begin_value.simps)
  moreover obtain ds where "commas (map print_json vs) = c # ds" using hd by (cases vs') (simp_all add: vs)
  ultimately show ?thesis by (simp only: json_run.simps)
qed

lemma begin_object:
  assumes "fs \<noteq> []"
  shows "json_run (commas (map (\<lambda>(k, v). quoted k @ '':'' @ f v) fs)) (KeyOrClose, st) =
    json_run (commas (map (\<lambda>(k, v). quoted k @ '':'' @ f v) fs)) (BeginKey, st)"
proof -
  obtain k v fs' where fs: "fs = (k, v) # fs'" using assms by (cases fs) auto
  obtain ds where "commas (map (\<lambda>(k, v). quoted k @ '':'' @ f v) fs) = CHR 0x22 # ds"
    by (cases fs') (simp_all add: fs quoted_def)
  then show ?thesis by (simp only: json_run.simps quote_step)
qed

lemma le_fold_max: "(x :: nat) \<in> set xs \<Longrightarrow> x \<le> fold max xs b"
proof (induction xs arbitrary: b)
  case (Cons y ys)
  have "b' \<le> fold max zs b'" for zs and b' :: nat
    by (induction zs arbitrary: b') (auto intro: order_trans [OF max.cobounded2])
  then show ?case using Cons by (auto intro: order_trans [OF max.cobounded1])
qed simp

theorem print_json_valid:
  "printable v \<Longrightarrow> depth v + length st \<le> 10000 \<Longrightarrow>
    \<exists>m. complete m \<and> json_run (print_json v) (BeginValue, st) = Some (m, st)"
proof (induction v arbitrary: st)
  case (JNat n)
  obtain c cs where hd: "dec n = c # cs" "list_all json_digit cs" "json_digit c" "c = CHR ''0'' \<longrightarrow> cs = []"
    using dec_head by blast
  show ?case
  proof (cases "c = CHR ''0''")
    case True
    then show ?thesis using hd by (auto simp: complete_def json_space_def)
  next
    case False
    then have "json_step c (BeginValue, st) = Some (InInteger, st)"
      using hd by (auto simp: json_space_def json_digit_def)
    then show ?thesis using hd json_run_digits by (auto simp: complete_def simp del: json_step.simps)
  qed
next
  case (JString s)
  then show ?case using json_run_quoted [of s BeginValue st] by (auto simp: complete_def)
next
  case (JArray vs)
  have open': "json_step (CHR ''['') (BeginValue, st) = Some (ValueOrClose, ArrayValue # st)"
    using JArray.prems by (simp add: json_space_def json_open_def)
  show ?case
  proof (cases "vs = []")
    case True
    then show ?thesis using open' by (auto simp: complete_def json_space_def simp del: begin_value.simps)
  next
    case False
    have "\<exists>m. complete m \<and> json_run w (BeginValue, ArrayValue # st) = Some (m, ArrayValue # st)" if w: "w \<in> set (map print_json vs)" for w
    proof -
      obtain v where v: "v \<in> set vs" "w = print_json v" using w by auto
      then have "depth v \<le> fold max (map depth vs) 0" by (intro le_fold_max) simp
      then show ?thesis using JArray.IH [OF v(1), of "ArrayValue # st"] JArray.prems v by (auto simp: list_all_iff)
    qed
    moreover have "json_step (CHR '','') (m, ArrayValue # st) = Some (BeginValue, ArrayValue # st)" if "complete m" for m
      using complete_step [OF that, of "CHR '',''"] by (simp add: json_space_def)
    ultimately obtain m where m: "complete m"
        "json_run (commas (map print_json vs)) (BeginValue, ArrayValue # st) = Some (m, ArrayValue # st)"
      using run_commas [of "map print_json vs" "(BeginValue, ArrayValue # st)" "ArrayValue # st"] False by auto
    have "json_step (CHR '']'') (m, ArrayValue # st) = Some (EndValue, st)"
      using complete_step [OF m(1), of "CHR '']''"] by (simp add: json_space_def)
    then have "json_run (print_json (JArray vs)) (BeginValue, st) = Some (EndValue, st)"
      using open' m begin_array [OF False] by (simp add: json_run_append del: json_step.simps)
    then show ?thesis by (auto simp: complete_def)
  qed
next
  case (JObject fs)
  have open': "json_step (CHR ''{'') (BeginValue, st) = Some (KeyOrClose, ObjectKey # st)"
    using JObject.prems by (simp add: json_space_def json_open_def)
  let ?field = "\<lambda>(k, v). quoted k @ '':'' @ print_json v"
  show ?case
  proof (cases "fs = []")
    case True
    then show ?thesis using open' by (auto simp: complete_def json_space_def simp del: begin_value.simps)
  next
    case False
    have "\<exists>m. complete m \<and> json_run w (BeginKey, ObjectKey # st) = Some (m, ObjectValue # st)" if w: "w \<in> set (map ?field fs)" for w
    proof -
      obtain k v where v: "(k, v) \<in> set fs" "w = quoted k @ '':'' @ print_json v" using w by auto
      have "depth v \<le> fold max (map (\<lambda>(k, v). depth v) fs) 0" using v(1) by (intro le_fold_max) force
      then obtain m where m: "complete m" "json_run (print_json v) (BeginValue, ObjectValue # st) = Some (m, ObjectValue # st)"
        using JObject.IH [OF v(1), of v "ObjectValue # st"] JObject.prems v(1) by (auto simp: list_all_iff)
      have "json_run (quoted k) (BeginKey, ObjectKey # st) = Some (EndValue, ObjectKey # st)"
        using json_run_quoted [of k BeginKey] JObject.prems v(1) by (auto simp: list_all_iff)
      moreover have "json_step (CHR '':'') (EndValue, ObjectKey # st) = Some (BeginValue, ObjectValue # st)"
        by (simp add: json_space_def)
      ultimately show ?thesis using m by (simp add: v(2) json_run_append del: json_step.simps)
    qed
    moreover have "json_step (CHR '','') (m, ObjectValue # st) = Some (BeginKey, ObjectKey # st)" if "complete m" for m
      using complete_step [OF that, of "CHR '',''"] by (simp add: json_space_def)
    ultimately obtain m where m: "complete m"
        "json_run (commas (map ?field fs)) (BeginKey, ObjectKey # st) = Some (m, ObjectValue # st)"
      using run_commas [of "map ?field fs" "(BeginKey, ObjectKey # st)" "ObjectValue # st"] False by auto
    have "json_step (CHR ''}'') (m, ObjectValue # st) = Some (EndValue, st)"
      using complete_step [OF m(1), of "CHR ''}''"] by (simp add: json_space_def)
    then have "json_run (print_json (JObject fs)) (BeginValue, st) = Some (EndValue, st)"
      using open' m begin_object [OF False] by (simp add: json_run_append del: json_step.simps)
    then show ?thesis by (auto simp: complete_def)
  qed
qed (auto simp: complete_def json_space_def json_digit_def)

text \<open>So a printed value is valid text.\<close>

corollary print_json_text: "printable v \<Longrightarrow> depth v \<le> 10000 \<Longrightarrow> json_valid (print_json v)"
  using print_json_valid [of v "[]"] complete_step [of _ "CHR '' ''"] by (auto simp: json_valid_def json_run_append json_space_def)

lemma json_examples:
  "json_valid ''[1, 2.5e-3, null]''" "\<not> json_valid ''[1,]''" "\<not> json_valid ''{1}''" "\<not> json_valid ''01''"
  "\<not> json_valid ''[]]''" "\<not> json_valid []"
  by (simp_all add: json_valid_def json_space_def json_digit_def json_open_def)

end
