(* ===== verification/Lifecycle.thy ===== *)
theory Lifecycle
  imports Bootstrap GoJson
begin

text \<open>
  \<open>protocol/managed_lifecycle.go\<close>: the signed messages by which a host drives the provider it manages. A
  reference names encrypted material by a server-relative URL, a request asks for an action and carries the
  references, a result answers one request, and a preflight result says what the dedicated host is like.
  References, requests and results are instances of the locale \<open>signed_message\<close> of bootstrap messages.

  Parameters are those of bootstrap messages; \<open>json\<close> is \<open>json.Marshal\<close> on a message. \<open>UTC()\<close> is the identity on instants. A \<open>*bool\<close> is
  an option.
\<close>

section \<open>Vocabulary\<close>

definition ManagedProviderLifecycleCapability :: string where "ManagedProviderLifecycleCapability = ''managed-provider-lifecycle-v1''"
definition DedicatedProviderHostPreflightVersion :: string where
  "DedicatedProviderHostPreflightVersion = ''dedicated-provider-host-preflight.v1''"

type_synonym ManagedLifecycleAction = string
definition ManagedLifecyclePrepare :: ManagedLifecycleAction where [enum]: "ManagedLifecyclePrepare = ''prepare''"
definition ManagedLifecycleActivate :: ManagedLifecycleAction where [enum]: "ManagedLifecycleActivate = ''activate''"
definition ManagedLifecycleDeactivate :: ManagedLifecycleAction where [enum]: "ManagedLifecycleDeactivate = ''deactivate''"
definition ManagedLifecycleRollback :: ManagedLifecycleAction where [enum]: "ManagedLifecycleRollback = ''rollback''"
definition ManagedLifecycleStatus :: ManagedLifecycleAction where [enum]: "ManagedLifecycleStatus = ''status''"

definition validManagedLifecycleAction :: "ManagedLifecycleAction \<Rightarrow> bool" where
  "validManagedLifecycleAction action \<longleftrightarrow> action \<in> set
     [ManagedLifecyclePrepare, ManagedLifecycleActivate, ManagedLifecycleDeactivate, ManagedLifecycleRollback, ManagedLifecycleStatus]"

type_synonym ManagedLifecycleResultStatus = string
type_synonym ManagedLifecycleRollbackResult = string
definition ManagedLifecycleSucceeded :: ManagedLifecycleResultStatus where [enum]: "ManagedLifecycleSucceeded = ''succeeded''"
definition ManagedLifecycleFailed :: ManagedLifecycleResultStatus where [enum]: "ManagedLifecycleFailed = ''failed''"
definition ManagedLifecycleRollbackNotRequired :: ManagedLifecycleRollbackResult where [enum]: "ManagedLifecycleRollbackNotRequired = ''not-required''"
definition ManagedLifecycleRollbackSucceeded :: ManagedLifecycleRollbackResult where [enum]: "ManagedLifecycleRollbackSucceeded = ''succeeded''"
definition ManagedLifecycleRollbackFailed :: ManagedLifecycleRollbackResult where [enum]: "ManagedLifecycleRollbackFailed = ''failed''"

type_synonym HostServiceState = string
definition HostServiceActive :: HostServiceState where [enum]: "HostServiceActive = ''active''"
definition HostServiceInactive :: HostServiceState where [enum]: "HostServiceInactive = ''inactive''"
definition HostServiceFailed :: HostServiceState where [enum]: "HostServiceFailed = ''failed''"
definition HostServiceActivating :: HostServiceState where [enum]: "HostServiceActivating = ''activating''"
definition HostServiceDeactivating :: HostServiceState where [enum]: "HostServiceDeactivating = ''deactivating''"
definition HostServiceNotFound :: HostServiceState where [enum]: "HostServiceNotFound = ''not-found''"

section \<open>Records\<close>

record ManagedLifecycleArtifactRef =
  mlar_ProtocolVersion :: string
  mlar_TransactionID :: string
  mlar_WorkerID :: string
  mlar_PluginID :: string
  mlar_Component :: string
  mlar_ComponentDigest :: string
  mlar_Ref :: string
  mlar_Digest :: string
  mlar_MaxBytes :: int
  mlar_EnvelopeKeyID :: string
  mlar_ExpiresAt :: time
  mlar_Signature :: SignatureEnvelope

record ManagedProviderLifecycleRequest =
  mplr_ProtocolVersion :: string
  mplr_Action :: ManagedLifecycleAction
  mplr_RequiredCapability :: string
  mplr_TransactionID :: string
  mplr_WorkerID :: string
  mplr_PluginID :: string
  mplr_Component :: string
  mplr_Version :: string
  mplr_Digest :: string
  mplr_ConfigRef :: ManagedLifecycleArtifactRef
  mplr_ConfigHash :: string
  mplr_SecretRefs :: "ManagedLifecycleArtifactRef list"
  mplr_PriorStateHash :: string
  mplr_ExpiresAt :: time
  mplr_Signature :: SignatureEnvelope

record ManagedProviderLifecycleResult =
  mplres_ProtocolVersion :: string
  mplres_TransactionID :: string
  mplres_WorkerID :: string
  mplres_PluginID :: string
  mplres_Component :: string
  mplres_Version :: string
  mplres_Digest :: string
  mplres_Action :: ManagedLifecycleAction
  mplres_RequestHash :: string
  mplres_IdempotencyState :: string
  mplres_ServiceHash :: string
  mplres_StateHash :: string
  mplres_Status :: ManagedLifecycleResultStatus
  mplres_RollbackResult :: ManagedLifecycleRollbackResult
  mplres_CompletedAt :: time
  mplres_ExpiresAt :: time
  mplres_Signature :: SignatureEnvelope

record DedicatedProviderHostPreflightResult =
  dphpr_ProtocolVersion :: string
  dphpr_WorkerID :: string
  dphpr_OS :: string
  dphpr_UID :: nat
  dphpr_HomeHash :: string
  dphpr_MachineIDHash :: string
  dphpr_AgentUnitDigest :: string
  dphpr_LauncherUnitDigest :: string
  dphpr_FirewallPolicyHash :: string
  dphpr_AgentServiceState :: HostServiceState
  dphpr_LauncherServiceState :: HostServiceState
  dphpr_UserBusAvailable :: "bool option"
  dphpr_LingeringEnabled :: "bool option"
  dphpr_RootlessPodman :: "bool option"
  dphpr_ActionsRunnerProcessPresent :: "bool option"
  dphpr_ActionsRunnerServicePresent :: "bool option"

section \<open>What is signed\<close>

text \<open>
  The marshalled struct of a domain and a payload (the function is in \<open>bootstrap.go\<close>), from the
  marshalled payload. The domains are constants without a character that JSON escapes.
\<close>

definition recoverySigningJSON :: "('m \<Rightarrow> err + string) \<Rightarrow> string \<Rightarrow> 'm \<Rightarrow> err + string" where
  "recoverySigningJSON marshal domain payload =
     (case marshal payload of
        Inl err \<Rightarrow> Inl err
      | Inr data \<Rightarrow> Inr (''{\"domain\":'' @ quoted domain @ '',\"payload\":'' @ data @ ''}''))"

lemma recoverySigningJSON_Inr:
  "recoverySigningJSON marshal domain payload = Inr data \<longleftrightarrow>
     (\<exists>body. marshal payload = Inr body \<and> data = ''{\"domain\":'' @ quoted domain @ '',\"payload\":'' @ body @ ''}'')"
  by (auto simp: recoverySigningJSON_def split: sum.split)

section \<open>Artifact references\<close>

definition backslash_or_break :: string where
  "backslash_or_break = [CHR 0x5C, CHR 0x00, CHR 0x0D, CHR 0x0A]"

definition server_relative :: "string \<Rightarrow> URL \<Rightarrow> bool" where
  "server_relative ref u \<longleftrightarrow>
     \<not> (url_Scheme u \<noteq> [] \<or> url_Host u \<noteq> [] \<or> url_User u \<or> url_RawQuery u \<noteq> [] \<or> url_ForceQuery u \<or> url_Fragment u \<noteq> [] \<or>
        \<not> has_prefix ref ''/'' \<or> has_prefix ref ''//'' \<or> contains_any ref backslash_or_break \<or>
        contains_any (url_Path u) (CHR ''%'' # backslash_or_break) \<or> has_prefix (url_Path u) ''//'')"

definition artifact_url_errs :: "(string \<Rightarrow> URL option) \<Rightarrow> string \<Rightarrow> err list" where
  "artifact_url_errs url ref =
     (case url ref of
        None \<Rightarrow> [New ''ref must be a server-relative artifact URL without query, fragment, or credentials'']
      | Some u \<Rightarrow>
          if \<not> server_relative ref u
          then [New ''ref must be a server-relative artifact URL without query, fragment, or credentials'']
          else fails (list_ex (\<lambda>segment. segment = ''..'' \<or> segment = ''.'') (split_char CHR ''/'' (url_Path u)))
                 (New ''ref must not contain traversal''))"

definition ManagedLifecycleArtifactRef_validate :: "(string \<Rightarrow> URL option) \<Rightarrow> ManagedLifecycleArtifactRef \<Rightarrow> error" where
  "ManagedLifecycleArtifactRef_validate url r =
     join
     (reports (recoveryProtocolError (mlar_ProtocolVersion r)) @
      concat (map (\<lambda>(name, v). reports (validateIdentifier name v))
        [(''transaction_id'', mlar_TransactionID r), (''worker_id'', mlar_WorkerID r), (''plugin_id'', mlar_PluginID r),
         (''component'', mlar_Component r), (''envelope_key_id'', mlar_EnvelopeKeyID r)]) @
      validateRequiredSHA256Digest ''component_digest'' (mlar_ComponentDigest r) @
      validateRequiredSHA256Digest ''digest'' (mlar_Digest r) @
      artifact_url_errs url (mlar_Ref r) @
      fails (mlar_MaxBytes r \<le> 0)
        (New ''max_bytes must be positive'') @
      fails (mlar_ExpiresAt r = 0)
        (New ''expires_at is required''))"

definition ManagedLifecycleArtifactRef_ValidateAt :: "(string \<Rightarrow> URL option) \<Rightarrow> ManagedLifecycleArtifactRef \<Rightarrow> time \<Rightarrow> error" where
  "ManagedLifecycleArtifactRef_ValidateAt url r now =
     join (reports (ManagedLifecycleArtifactRef_validate url r) @ reports (recoveryExpiryError (mlar_ExpiresAt r) now))"

definition ManagedLifecycleArtifactRef_SigningBytes :: "(string \<Rightarrow> URL option) \<Rightarrow> (ManagedLifecycleArtifactRef \<Rightarrow> err + string) \<Rightarrow>
    ManagedLifecycleArtifactRef \<Rightarrow> err + string" where
  "ManagedLifecycleArtifactRef_SigningBytes url json r =
     (case ManagedLifecycleArtifactRef_validate url r of
        Some e \<Rightarrow> Inl e
      | None \<Rightarrow> recoverySigningJSON json ''managed-lifecycle-artifact.v1'' (r\<lparr>mlar_Signature := zero_SignatureEnvelope\<rparr>))"

definition ManagedLifecycleArtifactRef_Sign :: "(string \<Rightarrow> URL option) \<Rightarrow> (string \<Rightarrow> string) \<Rightarrow> (string \<Rightarrow> string \<Rightarrow> string) \<Rightarrow>
    (ManagedLifecycleArtifactRef \<Rightarrow> err + string) \<Rightarrow> ManagedLifecycleArtifactRef \<Rightarrow> string \<Rightarrow> error \<times> ManagedLifecycleArtifactRef" where
  "ManagedLifecycleArtifactRef_Sign url sha sign json r key =
     sign_into sha sign (\<lambda>sig r. r\<lparr>mlar_Signature := sig\<rparr>) (ManagedLifecycleArtifactRef_SigningBytes url json r) r key"

definition ManagedLifecycleArtifactRef_Verify :: "(string \<Rightarrow> URL option) \<Rightarrow> (string \<Rightarrow> string) \<Rightarrow> (string \<Rightarrow> string \<Rightarrow> string \<Rightarrow> bool) \<Rightarrow>
    (ManagedLifecycleArtifactRef \<Rightarrow> err + string) \<Rightarrow> ManagedLifecycleArtifactRef \<Rightarrow> string \<Rightarrow> time \<Rightarrow> error" where
  "ManagedLifecycleArtifactRef_Verify url sha ver json r public now =
     (case ManagedLifecycleArtifactRef_ValidateAt url r now of
        Some e \<Rightarrow> Some e
      | None \<Rightarrow>
          (case ManagedLifecycleArtifactRef_SigningBytes url json r of
             Inl e \<Rightarrow> Some e
           | Inr data \<Rightarrow> verifyRecoveryBytes sha ver data (mlar_Signature r) public))"

section \<open>Requests\<close>

definition request_ref_errs :: "(string \<Rightarrow> URL option) \<Rightarrow> ManagedProviderLifecycleRequest \<Rightarrow> bool \<Rightarrow> ManagedLifecycleArtifactRef \<Rightarrow> err list" where
  "request_ref_errs url r repeated ref =
     reports (ManagedLifecycleArtifactRef_validate url ref) @
     fails (mlar_TransactionID ref \<noteq> mplr_TransactionID r \<or> mlar_WorkerID ref \<noteq> mplr_WorkerID r \<or> mlar_PluginID ref \<noteq> mplr_PluginID r \<or>
            mlar_Component ref \<noteq> mplr_Component r \<or> mlar_ComponentDigest ref \<noteq> mplr_Digest r)
       (New ''artifact ref must match request transaction, worker, plugin, component, and promoted digest'') @
     fails repeated (New ''artifact refs must not repeat a server-relative URL'')"

definition ManagedProviderLifecycleRequest_validate :: "(string \<Rightarrow> URL option) \<Rightarrow> ManagedProviderLifecycleRequest \<Rightarrow> error" where
  "ManagedProviderLifecycleRequest_validate url r =
     join
     (reports (recoveryProtocolError (mplr_ProtocolVersion r)) @
      fails (\<not> validManagedLifecycleAction (mplr_Action r))
        (New ''action must be prepare, activate, deactivate, rollback, or status'') @
      fails (mplr_RequiredCapability r \<noteq> ManagedProviderLifecycleCapability)
        (New ''required_capability must be managed-provider-lifecycle-v1'') @
      concat (map (\<lambda>(name, v). reports (validateIdentifier name v))
        [(''transaction_id'', mplr_TransactionID r), (''worker_id'', mplr_WorkerID r), (''plugin_id'', mplr_PluginID r),
         (''component'', mplr_Component r), (''version'', mplr_Version r)]) @
      concat (map (\<lambda>(name, v). validateRequiredSHA256Digest name v)
        [(''digest'', mplr_Digest r), (''config_hash'', mplr_ConfigHash r), (''prior_state_hash'', mplr_PriorStateHash r)]) @
      fails (mplr_ConfigHash r \<noteq> mlar_Digest (mplr_ConfigRef r))
        (New ''config_hash must match config_ref.digest'') @
      each_seen 0 (\<lambda>_. request_ref_errs url r) (\<lambda>_. True) mlar_Ref {} (mplr_ConfigRef r # mplr_SecretRefs r) @
      fails (mplr_ExpiresAt r = 0)
        (New ''expires_at is required''))"

definition ManagedProviderLifecycleRequest_ValidateAt :: "(string \<Rightarrow> URL option) \<Rightarrow> ManagedProviderLifecycleRequest \<Rightarrow> time \<Rightarrow> error" where
  "ManagedProviderLifecycleRequest_ValidateAt url r now =
     join
     (reports (ManagedProviderLifecycleRequest_validate url r) @
      reports (recoveryExpiryError (mplr_ExpiresAt r) now) @
      reports (ManagedLifecycleArtifactRef_ValidateAt url (mplr_ConfigRef r) now) @
      each (\<lambda>_ ref. reports (ManagedLifecycleArtifactRef_ValidateAt url ref now)) (mplr_SecretRefs r))"

definition ManagedProviderLifecycleRequest_SigningBytes :: "(string \<Rightarrow> URL option) \<Rightarrow> (ManagedProviderLifecycleRequest \<Rightarrow> err + string) \<Rightarrow>
    ManagedProviderLifecycleRequest \<Rightarrow> err + string" where
  "ManagedProviderLifecycleRequest_SigningBytes url json r =
     (case ManagedProviderLifecycleRequest_validate url r of
        Some e \<Rightarrow> Inl e
      | None \<Rightarrow> recoverySigningJSON json ''managed-provider-lifecycle-request.v1'' (r\<lparr>mplr_Signature := zero_SignatureEnvelope\<rparr>))"

definition ManagedProviderLifecycleRequest_Sign :: "(string \<Rightarrow> URL option) \<Rightarrow> (string \<Rightarrow> string) \<Rightarrow> (string \<Rightarrow> string \<Rightarrow> string) \<Rightarrow>
    (ManagedProviderLifecycleRequest \<Rightarrow> err + string) \<Rightarrow> ManagedProviderLifecycleRequest \<Rightarrow> string \<Rightarrow> error \<times> ManagedProviderLifecycleRequest" where
  "ManagedProviderLifecycleRequest_Sign url sha sign json r key =
     sign_into sha sign (\<lambda>sig r. r\<lparr>mplr_Signature := sig\<rparr>) (ManagedProviderLifecycleRequest_SigningBytes url json r) r key"

definition ManagedProviderLifecycleRequest_BindingHash :: "(string \<Rightarrow> URL option) \<Rightarrow> (string \<Rightarrow> string) \<Rightarrow>
    (ManagedProviderLifecycleRequest \<Rightarrow> err + string) \<Rightarrow> ManagedProviderLifecycleRequest \<Rightarrow> err + string" where
  "ManagedProviderLifecycleRequest_BindingHash url sha json r =
     (case ManagedProviderLifecycleRequest_SigningBytes url json r of
        Inl e \<Rightarrow> Inl e
      | Inr data \<Rightarrow> (let sum = sha data in Inr (''sha256:'' @ hex_encode sum)))"

definition ManagedProviderLifecycleRequest_Verify :: "(string \<Rightarrow> URL option) \<Rightarrow> (string \<Rightarrow> string) \<Rightarrow> (string \<Rightarrow> string \<Rightarrow> string \<Rightarrow> bool) \<Rightarrow>
    (ManagedProviderLifecycleRequest \<Rightarrow> err + string) \<Rightarrow> ManagedProviderLifecycleRequest \<Rightarrow> string \<Rightarrow> time \<Rightarrow> error" where
  "ManagedProviderLifecycleRequest_Verify url sha ver json r public now =
     (case ManagedProviderLifecycleRequest_ValidateAt url r now of
        Some e \<Rightarrow> Some e
      | None \<Rightarrow>
          (case ManagedProviderLifecycleRequest_SigningBytes url json r of
             Inl e \<Rightarrow> Some e
           | Inr data \<Rightarrow> verifyRecoveryBytes sha ver data (mplr_Signature r) public))"

section \<open>Results\<close>

definition ManagedProviderLifecycleResult_validate :: "ManagedProviderLifecycleResult \<Rightarrow> error" where
  "ManagedProviderLifecycleResult_validate r =
     join
     (reports (recoveryProtocolError (mplres_ProtocolVersion r)) @
      concat (map (\<lambda>(name, v). reports (validateIdentifier name v) @ validateRuntimeBackendPublicText name v)
        [(''transaction_id'', mplres_TransactionID r), (''worker_id'', mplres_WorkerID r), (''plugin_id'', mplres_PluginID r),
         (''component'', mplres_Component r), (''version'', mplres_Version r), (''idempotency_state'', mplres_IdempotencyState r)]) @
      concat (map (\<lambda>(name, v). validateRequiredSHA256Digest name v)
        [(''digest'', mplres_Digest r), (''request_hash'', mplres_RequestHash r), (''service_hash'', mplres_ServiceHash r),
         (''state_hash'', mplres_StateHash r)]) @
      fails (\<not> validManagedLifecycleAction (mplres_Action r) \<or>
             mplres_Status r \<noteq> ManagedLifecycleSucceeded \<and> mplres_Status r \<noteq> ManagedLifecycleFailed)
        (New ''action or status is not supported'') @
      fails (mplres_RollbackResult r \<noteq> ManagedLifecycleRollbackNotRequired \<and> mplres_RollbackResult r \<noteq> ManagedLifecycleRollbackSucceeded \<and>
             mplres_RollbackResult r \<noteq> ManagedLifecycleRollbackFailed)
        (New ''rollback_result is not supported'') @
      fails (mplres_CompletedAt r = 0 \<or> mplres_ExpiresAt r = 0 \<or> \<not> mplres_CompletedAt r < mplres_ExpiresAt r)
        (New ''completed_at must be nonzero and precede expires_at''))"

definition ManagedProviderLifecycleResult_ValidateAt :: "ManagedProviderLifecycleResult \<Rightarrow> time \<Rightarrow> error" where
  "ManagedProviderLifecycleResult_ValidateAt r now =
     join (reports (ManagedProviderLifecycleResult_validate r) @ reports (recoveryExpiryError (mplres_ExpiresAt r) now) @
           fails (now < mplres_CompletedAt r) (New ''completed_at must not be in the future''))"

definition ManagedProviderLifecycleResult_SigningBytes :: "(ManagedProviderLifecycleResult \<Rightarrow> err + string) \<Rightarrow>
    ManagedProviderLifecycleResult \<Rightarrow> err + string" where
  "ManagedProviderLifecycleResult_SigningBytes json r =
     (case ManagedProviderLifecycleResult_validate r of
        Some e \<Rightarrow> Inl e
      | None \<Rightarrow> recoverySigningJSON json ''managed-provider-lifecycle-result.v1'' (r\<lparr>mplres_Signature := zero_SignatureEnvelope\<rparr>))"

definition ManagedProviderLifecycleResult_Sign :: "(string \<Rightarrow> string) \<Rightarrow> (string \<Rightarrow> string \<Rightarrow> string) \<Rightarrow>
    (ManagedProviderLifecycleResult \<Rightarrow> err + string) \<Rightarrow> ManagedProviderLifecycleResult \<Rightarrow> string \<Rightarrow> error \<times> ManagedProviderLifecycleResult" where
  "ManagedProviderLifecycleResult_Sign sha sign json r key =
     sign_into sha sign (\<lambda>sig r. r\<lparr>mplres_Signature := sig\<rparr>) (ManagedProviderLifecycleResult_SigningBytes json r) r key"

definition answers :: "ManagedProviderLifecycleResult \<Rightarrow> ManagedProviderLifecycleRequest \<Rightarrow> string \<Rightarrow> bool" where
  "answers r request requestHash \<longleftrightarrow>
     \<not> (mplres_RequestHash r \<noteq> requestHash \<or> mplres_TransactionID r \<noteq> mplr_TransactionID request \<or> mplres_WorkerID r \<noteq> mplr_WorkerID request \<or>
        mplres_PluginID r \<noteq> mplr_PluginID request \<or> mplres_Component r \<noteq> mplr_Component request \<or> mplres_Version r \<noteq> mplr_Version request \<or>
        mplres_Digest r \<noteq> mplr_Digest request \<or> mplres_Action r \<noteq> mplr_Action request \<or> mplres_ExpiresAt r \<noteq> mplr_ExpiresAt request)"

definition ManagedProviderLifecycleResult_Verify :: "(string \<Rightarrow> URL option) \<Rightarrow> (string \<Rightarrow> string) \<Rightarrow> (string \<Rightarrow> string \<Rightarrow> string \<Rightarrow> bool) \<Rightarrow>
    (ManagedProviderLifecycleRequest \<Rightarrow> err + string) \<Rightarrow> (ManagedProviderLifecycleResult \<Rightarrow> err + string) \<Rightarrow>
    ManagedProviderLifecycleResult \<Rightarrow> string \<Rightarrow> ManagedProviderLifecycleRequest \<Rightarrow> time \<Rightarrow> error" where
  "ManagedProviderLifecycleResult_Verify url sha ver json json' r public request now =
     (case ManagedProviderLifecycleResult_ValidateAt r now of
        Some e \<Rightarrow> Some e
      | None \<Rightarrow>
          (case ManagedProviderLifecycleRequest_ValidateAt url request now of
             Some e \<Rightarrow> Some e
           | None \<Rightarrow>
               (case ManagedProviderLifecycleRequest_BindingHash url sha json request of
                  Inl e \<Rightarrow> Some e
                | Inr requestHash \<Rightarrow>
                    if \<not> answers r request requestHash
                    then Some (New ''lifecycle result does not match the request binding'')
                    else (case ManagedProviderLifecycleResult_SigningBytes json' r of
                            Inl e \<Rightarrow> Some e
                          | Inr data \<Rightarrow> verifyRecoveryBytes sha ver data (mplres_Signature r) public))))"

section \<open>Preflight\<close>

definition DedicatedProviderHostPreflightResult_Validate :: "DedicatedProviderHostPreflightResult \<Rightarrow> error" where
  "DedicatedProviderHostPreflightResult_Validate r =
     join
     (fails (dphpr_ProtocolVersion r \<noteq> DedicatedProviderHostPreflightVersion \<or> dphpr_OS r \<noteq> ''linux'')
        (New ''protocol_version and os must identify the Linux dedicated-host preflight'') @
      reports (validateIdentifier ''worker_id'' (dphpr_WorkerID r)) @
      validateRuntimeBackendPublicText ''worker_id'' (dphpr_WorkerID r) @
      concat (map (\<lambda>(name, v). validateRequiredSHA256Digest name v)
        [(''home_hash'', dphpr_HomeHash r), (''machine_id_hash'', dphpr_MachineIDHash r), (''agent_unit_digest'', dphpr_AgentUnitDigest r),
         (''launcher_unit_digest'', dphpr_LauncherUnitDigest r), (''firewall_policy_hash'', dphpr_FirewallPolicyHash r)]) @
      each (\<lambda>_ state.
         fails (state \<notin> set [HostServiceActive, HostServiceInactive, HostServiceFailed, HostServiceActivating, HostServiceDeactivating, HostServiceNotFound])
           (New ''service state is not supported'')) [dphpr_AgentServiceState r, dphpr_LauncherServiceState r] @
      fails (dphpr_UserBusAvailable r = None \<or> dphpr_LingeringEnabled r = None \<or> dphpr_RootlessPodman r = None \<or>
             dphpr_ActionsRunnerProcessPresent r = None \<or> dphpr_ActionsRunnerServicePresent r = None)
        (New ''preflight booleans must be explicitly present'') @
      fails (dphpr_ActionsRunnerProcessPresent r = Some True \<or> dphpr_ActionsRunnerServicePresent r = Some True)
        (New ''dedicated host must contain no Actions runner process or service''))"

section \<open>The contract\<close>

lemma ref_unsigned [simp]:
  "ManagedLifecycleArtifactRef_validate url (r\<lparr>mlar_Signature := s\<rparr>) = ManagedLifecycleArtifactRef_validate url r"
  "ManagedLifecycleArtifactRef_ValidateAt url (r\<lparr>mlar_Signature := s\<rparr>) now = ManagedLifecycleArtifactRef_ValidateAt url r now"
  by (simp_all add: ManagedLifecycleArtifactRef_validate_def ManagedLifecycleArtifactRef_ValidateAt_def)

lemma request_unsigned [simp]:
  "ManagedProviderLifecycleRequest_validate url (r\<lparr>mplr_Signature := s\<rparr>) = ManagedProviderLifecycleRequest_validate url r"
  "ManagedProviderLifecycleRequest_ValidateAt url (r\<lparr>mplr_Signature := s\<rparr>) now = ManagedProviderLifecycleRequest_ValidateAt url r now"
  "ManagedProviderLifecycleRequest_SigningBytes url json (r\<lparr>mplr_Signature := s\<rparr>) = ManagedProviderLifecycleRequest_SigningBytes url json r"
  "ManagedProviderLifecycleRequest_BindingHash url sha json (r\<lparr>mplr_Signature := s\<rparr>) = ManagedProviderLifecycleRequest_BindingHash url sha json r"
proof -
  have "request_ref_errs url (r\<lparr>mplr_Signature := s\<rparr>) = request_ref_errs url r" by (simp add: request_ref_errs_def fun_eq_iff)
  then show v: "ManagedProviderLifecycleRequest_validate url (r\<lparr>mplr_Signature := s\<rparr>) = ManagedProviderLifecycleRequest_validate url r"
    by (simp add: ManagedProviderLifecycleRequest_validate_def)
  then show "ManagedProviderLifecycleRequest_ValidateAt url (r\<lparr>mplr_Signature := s\<rparr>) now = ManagedProviderLifecycleRequest_ValidateAt url r now"
    by (simp add: ManagedProviderLifecycleRequest_ValidateAt_def)
  show b: "ManagedProviderLifecycleRequest_SigningBytes url json (r\<lparr>mplr_Signature := s\<rparr>) = ManagedProviderLifecycleRequest_SigningBytes url json r"
    by (simp add: ManagedProviderLifecycleRequest_SigningBytes_def v split: option.split)
  then show "ManagedProviderLifecycleRequest_BindingHash url sha json (r\<lparr>mplr_Signature := s\<rparr>) = ManagedProviderLifecycleRequest_BindingHash url sha json r"
    by (simp add: ManagedProviderLifecycleRequest_BindingHash_def)
qed

lemma result_unsigned [simp]:
  "ManagedProviderLifecycleResult_validate (r\<lparr>mplres_Signature := s\<rparr>) = ManagedProviderLifecycleResult_validate r"
  "ManagedProviderLifecycleResult_ValidateAt (r\<lparr>mplres_Signature := s\<rparr>) now = ManagedProviderLifecycleResult_ValidateAt r now"
  "answers (r\<lparr>mplres_Signature := s\<rparr>) request h = answers r request h"
  "answers r (request\<lparr>mplr_Signature := s\<rparr>) h = answers r request h"
  by (simp_all add: ManagedProviderLifecycleResult_validate_def ManagedProviderLifecycleResult_ValidateAt_def answers_def)

text \<open>What verifying a result checks before the signature.\<close>

definition result_check :: "(string \<Rightarrow> URL option) \<Rightarrow> (string \<Rightarrow> string) \<Rightarrow> (ManagedProviderLifecycleRequest \<Rightarrow> err + string) \<Rightarrow>
    ManagedProviderLifecycleRequest \<Rightarrow> time \<Rightarrow> ManagedProviderLifecycleResult \<Rightarrow> error" where
  "result_check url sha json request now r =
     (case ManagedProviderLifecycleResult_ValidateAt r now of
        Some e \<Rightarrow> Some e
      | None \<Rightarrow>
          (case ManagedProviderLifecycleRequest_ValidateAt url request now of
             Some e \<Rightarrow> Some e
           | None \<Rightarrow>
               (case ManagedProviderLifecycleRequest_BindingHash url sha json request of
                  Inl e \<Rightarrow> Some e
                | Inr h \<Rightarrow> if answers r request h then None else Some (New ''lifecycle result does not match the request binding''))))"

interpretation ref: signed_message sha sign ver "\<lambda>r. ManagedLifecycleArtifactRef_ValidateAt url r now"
  "ManagedLifecycleArtifactRef_SigningBytes url json" mlar_Signature "\<lambda>s r. r\<lparr>mlar_Signature := s\<rparr>"
  "ManagedLifecycleArtifactRef_Sign url sha sign json" "\<lambda>r public. ManagedLifecycleArtifactRef_Verify url sha ver json r public now"
  for sha sign ver url now json
  by unfold_locales
    (auto simp: ManagedLifecycleArtifactRef_SigningBytes_def ManagedLifecycleArtifactRef_Sign_def ManagedLifecycleArtifactRef_Verify_def
      split: option.splits sum.splits)

interpretation request: signed_message sha sign ver "\<lambda>r. ManagedProviderLifecycleRequest_ValidateAt url r now"
  "ManagedProviderLifecycleRequest_SigningBytes url json" mplr_Signature "\<lambda>s r. r\<lparr>mplr_Signature := s\<rparr>"
  "ManagedProviderLifecycleRequest_Sign url sha sign json" "\<lambda>r public. ManagedProviderLifecycleRequest_Verify url sha ver json r public now"
  for sha sign ver url now json
  by unfold_locales
    (auto simp: ManagedProviderLifecycleRequest_Sign_def ManagedProviderLifecycleRequest_Verify_def split: option.splits sum.splits)

interpretation result: signed_message sha sign ver "result_check url sha json request now"
  "ManagedProviderLifecycleResult_SigningBytes json'" mplres_Signature "\<lambda>s r. r\<lparr>mplres_Signature := s\<rparr>"
  "ManagedProviderLifecycleResult_Sign sha sign json'" "\<lambda>r public. ManagedProviderLifecycleResult_Verify url sha ver json json' r public request now"
  for sha sign ver url now json json' request
  by unfold_locales
    (auto simp: result_check_def ManagedProviderLifecycleResult_SigningBytes_def ManagedProviderLifecycleResult_Sign_def
      ManagedProviderLifecycleResult_Verify_def split: option.splits sum.splits)

section \<open>Signing and verifying\<close>

lemma bytes_of_valid:
  "ManagedLifecycleArtifactRef_validate url a = None \<Longrightarrow> ManagedLifecycleArtifactRef_SigningBytes url enca a =
     recoverySigningJSON enca ''managed-lifecycle-artifact.v1'' (a\<lparr>mlar_Signature := zero_SignatureEnvelope\<rparr>)"
  "ManagedProviderLifecycleRequest_validate url q = None \<Longrightarrow> ManagedProviderLifecycleRequest_SigningBytes url encq q =
     recoverySigningJSON encq ''managed-provider-lifecycle-request.v1'' (q\<lparr>mplr_Signature := zero_SignatureEnvelope\<rparr>)"
  "ManagedProviderLifecycleResult_validate r = None \<Longrightarrow> ManagedProviderLifecycleResult_SigningBytes encr r =
     recoverySigningJSON encr ''managed-provider-lifecycle-result.v1'' (r\<lparr>mplres_Signature := zero_SignatureEnvelope\<rparr>)"
  by (simp_all add: ManagedLifecycleArtifactRef_SigningBytes_def ManagedProviderLifecycleRequest_SigningBytes_def
      ManagedProviderLifecycleResult_SigningBytes_def)

lemma sign_keeps_bytes:
  "ManagedLifecycleArtifactRef_SigningBytes url json (snd (ManagedLifecycleArtifactRef_Sign url sha sign json a key)) =
     ManagedLifecycleArtifactRef_SigningBytes url json a"
  "ManagedProviderLifecycleRequest_SigningBytes url json' (snd (ManagedProviderLifecycleRequest_Sign url sha sign json' q key)) =
     ManagedProviderLifecycleRequest_SigningBytes url json' q"
  by (simp_all add: ManagedLifecycleArtifactRef_Sign_def ManagedProviderLifecycleRequest_Sign_def sign_into_def case_prod_beta
      ref.bytes_set split: sum.split)

lemma valid_now:
  "ManagedLifecycleArtifactRef_ValidateAt url a now = None \<Longrightarrow> ManagedLifecycleArtifactRef_validate url a = None \<and> now < mlar_ExpiresAt a"
  "ManagedProviderLifecycleRequest_ValidateAt url q now = None \<Longrightarrow> ManagedProviderLifecycleRequest_validate url q = None \<and> now < mplr_ExpiresAt q"
  "ManagedProviderLifecycleResult_ValidateAt r now = None \<Longrightarrow>
     ManagedProviderLifecycleResult_validate r = None \<and> now < mplres_ExpiresAt r \<and> mplres_CompletedAt r \<le> now"
  by (simp_all add: ManagedLifecycleArtifactRef_ValidateAt_def ManagedProviderLifecycleRequest_ValidateAt_def
      ManagedProviderLifecycleResult_ValidateAt_def recoveryExpiryError_def not_less not_le split: if_splits)

text \<open>C13. Every lifecycle message that is valid now, and that the encoder accepts, is signed by a good key without
  error and then verifies under the public half of the key; for a result, against the request it answers.\<close>

theorem lifecycle_signed_verifies:
  assumes key: "good_key sign ver key"
    and "ManagedLifecycleArtifactRef_ValidateAt url a now = None"
      "recoverySigningJSON enca ''managed-lifecycle-artifact.v1'' (a\<lparr>mlar_Signature := zero_SignatureEnvelope\<rparr>) = Inr data1"
    and "ManagedProviderLifecycleRequest_ValidateAt url q now = None"
      "recoverySigningJSON encq ''managed-provider-lifecycle-request.v1'' (q\<lparr>mplr_Signature := zero_SignatureEnvelope\<rparr>) = Inr data2"
    and "ManagedProviderLifecycleResult_ValidateAt r now = None" "answers r q (CanonicalHash sha data2)"
      "recoverySigningJSON encr ''managed-provider-lifecycle-result.v1'' (r\<lparr>mplres_Signature := zero_SignatureEnvelope\<rparr>) = Inr data3"
  shows "(case ManagedLifecycleArtifactRef_Sign url sha sign enca a key of (e, a') \<Rightarrow>
      e = None \<and> ManagedLifecycleArtifactRef_Verify url sha ver enca a' (public_of key) now = None) \<and>
    (case ManagedProviderLifecycleRequest_Sign url sha sign encq q key of (e, q') \<Rightarrow>
      e = None \<and> ManagedProviderLifecycleRequest_Verify url sha ver encq q' (public_of key) now = None) \<and>
    (case ManagedProviderLifecycleResult_Sign sha sign encr r key of (e, r') \<Rightarrow>
      e = None \<and> ManagedProviderLifecycleResult_Verify url sha ver encq encr r' (public_of key) q now = None)"
proof (intro conjI)
  show "case ManagedLifecycleArtifactRef_Sign url sha sign enca a key of (e, a') \<Rightarrow>
      e = None \<and> ManagedLifecycleArtifactRef_Verify url sha ver enca a' (public_of key) now = None"
    using ref.signed_verifies [OF key, of url enca a data1 now sha] assms(2, 3) valid_now(1) bytes_of_valid(1)
    by (simp add: case_prod_beta)
  show "case ManagedProviderLifecycleRequest_Sign url sha sign encq q key of (e, q') \<Rightarrow>
      e = None \<and> ManagedProviderLifecycleRequest_Verify url sha ver encq q' (public_of key) now = None"
    using request.signed_verifies [OF key, of url encq q data2 now sha] assms(4, 5) valid_now(2) bytes_of_valid(2)
    by (simp add: case_prod_beta)
  have "ManagedProviderLifecycleRequest_BindingHash url sha encq q = Inr (CanonicalHash sha data2)"
    using assms(4, 5) valid_now(2) bytes_of_valid(2) by (simp add: ManagedProviderLifecycleRequest_BindingHash_def CanonicalHash_def)
  then have "result_check url sha encq q now r = None" using assms(4, 6, 7) by (simp add: result_check_def)
  then show "case ManagedProviderLifecycleResult_Sign sha sign encr r key of (e, r') \<Rightarrow>
      e = None \<and> ManagedProviderLifecycleResult_Verify url sha ver encq encr r' (public_of key) q now = None"
    using result.signed_verifies [OF key, of encr r data3 url sha encq q now] assms(6, 8) valid_now(3) bytes_of_valid(3)
    by (simp add: case_prod_beta)
qed

lemma bytes_domain:
  "ManagedLifecycleArtifactRef_SigningBytes url enca a = Inr data \<Longrightarrow>
     \<exists>body. data = ''{\"domain\":\"managed-lifecycle-artifact.v1\",\"payload\":'' @ body"
  "ManagedProviderLifecycleRequest_SigningBytes url encq q = Inr data \<Longrightarrow>
     \<exists>body. data = ''{\"domain\":\"managed-provider-lifecycle-request.v1\",\"payload\":'' @ body"
  "ManagedProviderLifecycleResult_SigningBytes encr r = Inr data \<Longrightarrow>
     \<exists>body. data = ''{\"domain\":\"managed-provider-lifecycle-result.v1\",\"payload\":'' @ body"
  by (auto simp: ManagedLifecycleArtifactRef_SigningBytes_def ManagedProviderLifecycleRequest_SigningBytes_def
      ManagedProviderLifecycleResult_SigningBytes_def recoverySigningJSON_Inr quoted_def split: option.splits)

text \<open>C12. The three kinds of lifecycle message are signed under separate domains: whenever messages of all three verify
  under one key, their signatures are over three different texts, none of which is the text of a package
  signature, so that a signature taken from one kind and accepted on another is one that the key accepts for
  two texts.\<close>

theorem lifecycle_domains_separate:
  assumes "ManagedLifecycleArtifactRef_Verify url sha ver enca a public now = None"
    and "ManagedProviderLifecycleRequest_Verify url sha ver encq q public now = None"
    and "ManagedProviderLifecycleResult_Verify url sha ver encq encr r public q' now = None"
  shows "\<exists>data1 data2 data3 raw1 raw2 raw3. distinct [data1, data2, data3, PackageArtifactSignaturePayload_SigningBytes sha marshal p] \<and>
    ManagedLifecycleArtifactRef_SigningBytes url enca a = Inr data1 \<and> ManagedProviderLifecycleRequest_SigningBytes url encq q = Inr data2 \<and>
    ManagedProviderLifecycleResult_SigningBytes encr r = Inr data3 \<and>
    map se_Value [mlar_Signature a, mplr_Signature q, mplres_Signature r] = map b64_encode [raw1, raw2, raw3] \<and>
    ver public data1 raw1 \<and> ver public data2 raw2 \<and> ver public data3 raw3"
proof -
  obtain data1 raw1 where a: "ManagedLifecycleArtifactRef_SigningBytes url enca a = Inr data1"
    "se_Value (mlar_Signature a) = b64_encode raw1" "ver public data1 raw1" using ref.verified [OF assms(1)] by blast
  obtain data2 raw2 where q: "ManagedProviderLifecycleRequest_SigningBytes url encq q = Inr data2"
    "se_Value (mplr_Signature q) = b64_encode raw2" "ver public data2 raw2" using request.verified [OF assms(2)] by blast
  obtain data3 raw3 where r: "ManagedProviderLifecycleResult_SigningBytes encr r = Inr data3"
    "se_Value (mplres_Signature r) = b64_encode raw3" "ver public data3 raw3" using result.verified [OF assms(3)] by blast
  from bytes_domain(1) [OF a(1)] bytes_domain(2) [OF q(1)] bytes_domain(3) [OF r(1)] have "distinct [data1, data2, data3, PackageArtifactSignaturePayload_SigningBytes sha marshal p]"
    by (auto simp: PackageArtifactSignaturePayload_SigningBytes_def CanonicalHash_def)
  with a q r show ?thesis by auto
qed

section \<open>Artifacts of a request\<close>

definition confined_path :: "(string \<Rightarrow> URL option) \<Rightarrow> string \<Rightarrow> bool" where
  "confined_path url ref \<longleftrightarrow> (\<exists>u. url ref = Some u \<and> url_Scheme u = [] \<and> url_Host u = [] \<and> has_prefix ref ''/'' \<and>
     CHR 0x5C \<notin> set (url_Path u) \<and> CHR ''%'' \<notin> set (url_Path u) \<and> ''..'' \<notin> set (split_char CHR ''/'' (url_Path u)))"

lemma ref_confined: "ManagedLifecycleArtifactRef_validate url r = None \<Longrightarrow> confined_path url (mlar_Ref r)"
  by (auto simp: ManagedLifecycleArtifactRef_validate_def artifact_url_errs_def confined_path_def server_relative_def
      contains_any_def backslash_or_break_def list_ex_iff split: option.splits if_splits)

lemma request_refs:
  assumes "ManagedProviderLifecycleRequest_validate url q = None"
  shows "\<forall>a \<in> set (mplr_ConfigRef q # mplr_SecretRefs q). request_ref_errs url q False a = []"
    and "distinct (map mlar_Ref (mplr_ConfigRef q # mplr_SecretRefs q))"
    and "mplr_ConfigHash q = mlar_Digest (mplr_ConfigRef q)"
proof -
  note parts = assms [unfolded ManagedProviderLifecycleRequest_validate_def join_None append_is_Nil_conv]
  have "request_ref_errs url q d x = [] \<longleftrightarrow> request_ref_errs url q False x = [] \<and> \<not> d" for d x
    by (simp add: request_ref_errs_def)
  note seen = each_seen_Nil [where f = "\<lambda>_. request_ref_errs url q" and Q = "\<lambda>_ x. request_ref_errs url q False x = []", OF this]
  from parts have "each_seen 0 (\<lambda>_. request_ref_errs url q) (\<lambda>_. True) mlar_Ref {} (mplr_ConfigRef q # mplr_SecretRefs q) = []"
    by (elim conjE)
  note accepted = this [unfolded seen all_from_const]
  then show "\<forall>a \<in> set (mplr_ConfigRef q # mplr_SecretRefs q). request_ref_errs url q False a = []" by iprover
  from accepted show "distinct (map mlar_Ref (mplr_ConfigRef q # mplr_SecretRefs q))" by simp
  from parts have "fails (mplr_ConfigHash q \<noteq> mlar_Digest (mplr_ConfigRef q)) (New ''config_hash must match config_ref.digest'') = []"
    by (elim conjE)
  then show "mplr_ConfigHash q = mlar_Digest (mplr_ConfigRef q)" by simp
qed

text \<open>C19. The material of an accepted request belongs to it: every reference names the transaction, worker, plugin,
  component and promoted digest of the request, none has expired, the path of each stays below the server's
  root, no URL occurs twice, and the configuration is the one that was hashed.\<close>

theorem request_artifacts_bound:
  assumes "ManagedProviderLifecycleRequest_ValidateAt url q now = None"
  shows "(\<forall>a \<in> set (mplr_ConfigRef q # mplr_SecretRefs q).
      mlar_TransactionID a = mplr_TransactionID q \<and> mlar_WorkerID a = mplr_WorkerID q \<and> mlar_PluginID a = mplr_PluginID q \<and>
      mlar_Component a = mplr_Component q \<and> mlar_ComponentDigest a = mplr_Digest q \<and> now < mlar_ExpiresAt a \<and>
      confined_path url (mlar_Ref a)) \<and>
    distinct (map mlar_Ref (mplr_ConfigRef q # mplr_SecretRefs q)) \<and>
    mplr_ConfigHash q = mlar_Digest (mplr_ConfigRef q) \<and> now < mplr_ExpiresAt q"
proof -
  have valid: "ManagedProviderLifecycleRequest_validate url q = None" and "now < mplr_ExpiresAt q"
    using valid_now(2) [OF assms] by iprover+
  moreover have "\<forall>a \<in> set (mplr_ConfigRef q # mplr_SecretRefs q). ManagedLifecycleArtifactRef_ValidateAt url a now = None"
    using assms by (simp add: ManagedProviderLifecycleRequest_ValidateAt_def)
  then have "\<forall>a \<in> set (mplr_ConfigRef q # mplr_SecretRefs q). now < mlar_ExpiresAt a \<and> confined_path url (mlar_Ref a)"
    using valid_now(1) ref_confined by blast
  moreover have "\<forall>a \<in> set (mplr_ConfigRef q # mplr_SecretRefs q).
      mlar_TransactionID a = mplr_TransactionID q \<and> mlar_WorkerID a = mplr_WorkerID q \<and> mlar_PluginID a = mplr_PluginID q \<and>
      mlar_Component a = mplr_Component q \<and> mlar_ComponentDigest a = mplr_Digest q"
    using request_refs(1) [OF valid] unfolding request_ref_errs_def append_is_Nil_conv fails_Nil by blast
  ultimately show ?thesis using request_refs(2, 3) [OF valid] by blast
qed

section \<open>Results of a request\<close>

text \<open>C4. A verified result answers one request: it carries the request's identity, component, action and expiry, and a digest of
  the request's signed bytes, so that the bytes of any other request it answers collide; both are still
  valid. The signature of the request plays no part in it.\<close>

theorem result_answers_one_request:
  assumes "ManagedProviderLifecycleResult_Verify url sha ver json json' r public q now = None"
  shows "mplres_TransactionID r = mplr_TransactionID q \<and> mplres_WorkerID r = mplr_WorkerID q \<and> mplres_Action r = mplr_Action q \<and>
    mplres_PluginID r = mplr_PluginID q \<and> mplres_Component r = mplr_Component q \<and> mplres_Version r = mplr_Version q \<and>
    mplres_Digest r = mplr_Digest q \<and> mplres_ExpiresAt r = mplr_ExpiresAt q \<and> mplres_CompletedAt r \<le> now \<and> now < mplr_ExpiresAt q \<and>
    (\<exists>data. ManagedProviderLifecycleRequest_SigningBytes url json q = Inr data \<and> mplres_RequestHash r = CanonicalHash sha data \<and>
      (\<forall>q' data'. ManagedProviderLifecycleRequest_SigningBytes url json q' = Inr data' \<and>
         ManagedProviderLifecycleResult_Verify url sha ver json json' r public q' now = None \<longrightarrow> sha data' = sha data)) \<and>
    ManagedProviderLifecycleResult_Verify url sha ver json json' r public (q\<lparr>mplr_Signature := s\<rparr>) now = None"
proof -
  have check: "result_check url sha json q' now r = None"
    if "ManagedProviderLifecycleResult_Verify url sha ver json json' r public q' now = None" for q'
    using result.verified [OF that] by iprover
  have hash: "mplres_RequestHash r = CanonicalHash sha data"
    if "result_check url sha json q' now r = None" "ManagedProviderLifecycleRequest_SigningBytes url json q' = Inr data" for q' data
    using that by (auto simp: result_check_def ManagedProviderLifecycleRequest_BindingHash_def CanonicalHash_def answers_def
        split: option.splits if_splits)
  note ok = check [OF assms]
  then have at: "ManagedProviderLifecycleResult_ValidateAt r now = None" "ManagedProviderLifecycleRequest_ValidateAt url q now = None"
    and "\<exists>h. answers r q h"
    and "\<exists>data. ManagedProviderLifecycleRequest_SigningBytes url json q = Inr data"
    by (auto simp: result_check_def ManagedProviderLifecycleRequest_BindingHash_def split: option.splits sum.splits if_splits)
  then obtain h data where a: "answers r q h" and d: "ManagedProviderLifecycleRequest_SigningBytes url json q = Inr data" by blast
  have "\<forall>q' data'. ManagedProviderLifecycleRequest_SigningBytes url json q' = Inr data' \<and>
      ManagedProviderLifecycleResult_Verify url sha ver json json' r public q' now = None \<longrightarrow> sha data' = sha data"
    using hash check hash [OF ok d] by (metis CanonicalHash_def append_same_eq hex_encode_inj same_append_eq)
  moreover have "ManagedProviderLifecycleResult_Verify url sha ver json json' r public (q\<lparr>mplr_Signature := s\<rparr>) now = None"
    using assms by (simp add: ManagedProviderLifecycleResult_Verify_def cong: option.case_cong sum.case_cong)
  ultimately show ?thesis using a d hash [OF ok d] valid_now(2) [OF at(2)] valid_now(3) [OF at(1)] unfolding answers_def by blast
qed

section \<open>The dedicated host\<close>

text \<open>A preflight result is accepted exactly when it shows a dedicated Linux host: digests of the host's identity and
  units, known service states, every fact stated, and no Actions runner, as process or service.\<close>

theorem preflight_iff:
  "DedicatedProviderHostPreflightResult_Validate r = None \<longleftrightarrow>
     dphpr_ProtocolVersion r = DedicatedProviderHostPreflightVersion \<and> dphpr_OS r = ''linux'' \<and>
     plain_id (dphpr_WorkerID r) \<and> public_text (dphpr_WorkerID r) \<and>
     list_all validSHA256Digest [dphpr_HomeHash r, dphpr_MachineIDHash r, dphpr_AgentUnitDigest r, dphpr_LauncherUnitDigest r, dphpr_FirewallPolicyHash r] \<and>
     list_all (\<lambda>s. s \<in> {''active'', ''inactive'', ''failed'', ''activating'', ''deactivating'', ''not-found''})
       [dphpr_AgentServiceState r, dphpr_LauncherServiceState r] \<and>
     dphpr_UserBusAvailable r \<noteq> None \<and> dphpr_LingeringEnabled r \<noteq> None \<and> dphpr_RootlessPodman r \<noteq> None \<and>
     dphpr_ActionsRunnerProcessPresent r = Some False \<and> dphpr_ActionsRunnerServicePresent r = Some False"
proof -
  have present: "v \<noteq> None \<and> v \<noteq> Some True \<longleftrightarrow> v = Some False" for v by (cases v) auto
  have states: "[HostServiceActive, HostServiceInactive, HostServiceFailed, HostServiceActivating, HostServiceDeactivating, HostServiceNotFound] =
      [''active'', ''inactive'', ''failed'', ''activating'', ''deactivating'', ''not-found'']" by (simp add: enum)
  show ?thesis
    unfolding DedicatedProviderHostPreflightResult_Validate_def states
    by (simp add: present [symmetric] del: not_None_eq) blast
qed

section \<open>Examples\<close>

definition demo_path :: "string \<Rightarrow> URL option" where
  "demo_path s = Some \<lparr>url_Scheme = [], url_User = False, url_Host = [], url_Hostname = [], url_Path = s,
     url_RawQuery = [], url_ForceQuery = False, url_Fragment = []\<rparr>"

definition demo_ref :: "string \<Rightarrow> string \<Rightarrow> ManagedLifecycleArtifactRef" where
  "demo_ref worker path = \<lparr>mlar_ProtocolVersion = Version, mlar_TransactionID = ''i'', mlar_WorkerID = worker, mlar_PluginID = ''p'',
     mlar_Component = ''c'', mlar_ComponentDigest = demo_sha, mlar_Ref = path, mlar_Digest = demo_sha, mlar_MaxBytes = 10,
     mlar_EnvelopeKeyID = ''r'', mlar_ExpiresAt = Time 20, mlar_Signature = zero_SignatureEnvelope\<rparr>"

definition demo_request :: "string \<Rightarrow> ManagedProviderLifecycleRequest" where
  "demo_request path = \<lparr>mplr_ProtocolVersion = Version, mplr_Action = ManagedLifecycleActivate,
     mplr_RequiredCapability = ManagedProviderLifecycleCapability, mplr_TransactionID = ''i'', mplr_WorkerID = ''w'', mplr_PluginID = ''p'',
     mplr_Component = ''c'', mplr_Version = ''v1'', mplr_Digest = demo_sha, mplr_ConfigRef = demo_ref ''w'' ''/a'', mplr_ConfigHash = demo_sha,
     mplr_SecretRefs = [demo_ref ''w'' path], mplr_PriorStateHash = demo_sha, mplr_ExpiresAt = Time 20, mplr_Signature = zero_SignatureEnvelope\<rparr>"

definition demo_signed :: "string \<Rightarrow> string" where
  "demo_signed domain = ''{\"domain\":'' @ quoted domain @ '',\"payload\":message}''"

definition demo_result :: ManagedProviderLifecycleResult where
  "demo_result = \<lparr>mplres_ProtocolVersion = Version, mplres_TransactionID = ''i'', mplres_WorkerID = ''w'', mplres_PluginID = ''p'',
     mplres_Component = ''c'', mplres_Version = ''v1'', mplres_Digest = demo_sha, mplres_Action = ManagedLifecycleActivate,
     mplres_RequestHash = CanonicalHash demo_hash (demo_signed ''managed-provider-lifecycle-request.v1''), mplres_IdempotencyState = ''s'', mplres_ServiceHash = demo_sha,
     mplres_StateHash = demo_sha, mplres_Status = ManagedLifecycleSucceeded, mplres_RollbackResult = ManagedLifecycleRollbackNotRequired,
     mplres_CompletedAt = Time 9, mplres_ExpiresAt = Time 20, mplres_Signature = zero_SignatureEnvelope\<rparr>"

lemma demo_public_text: "public_text ''i''" "public_text ''w''" "public_text ''p''" "public_text ''c''" "public_text ''v1''" "public_text ''s''"
  by code_simp+

lemma demo_ref_accepted:
  "ManagedLifecycleArtifactRef_validate demo_path (demo_ref ''w'' ''/a'') = None"
  "ManagedLifecycleArtifactRef_validate demo_path (demo_ref ''w'' ''/b'') = None"
  "ManagedLifecycleArtifactRef_validate demo_path (demo_ref ''w'' ''/a/../b'') \<noteq> None"
  by (simp_all add: ManagedLifecycleArtifactRef_validate_def demo_ref_def recoveryProtocolError_def demo_texts demo_letters artifact_url_errs_def
      demo_path_def server_relative_def contains_any_def backslash_or_break_def)

lemma demo_request_accepted:
  "ManagedProviderLifecycleRequest_validate demo_path (demo_request ''/b'') = None"
  "ManagedProviderLifecycleRequest_ValidateAt demo_path (demo_request ''/b'') (Time 10) = None"
  "ManagedProviderLifecycleRequest_validate demo_path (demo_request ''/a'') \<noteq> None"
proof -
  have refs: "demo_ref ''w'' p = (demo_ref ''w'' p)\<lparr>mlar_TransactionID := ''i'', mlar_WorkerID := ''w'', mlar_PluginID := ''p'', mlar_Component := ''c'',
      mlar_ComponentDigest := demo_sha, mlar_Digest := demo_sha, mlar_Ref := p, mlar_ExpiresAt := Time 20\<rparr>" for p by (simp add: demo_ref_def)
  have fields: "mlar_TransactionID (demo_ref ''w'' p) = ''i''" "mlar_WorkerID (demo_ref ''w'' p) = ''w''" "mlar_PluginID (demo_ref ''w'' p) = ''p''"
    "mlar_Component (demo_ref ''w'' p) = ''c''" "mlar_ComponentDigest (demo_ref ''w'' p) = demo_sha" "mlar_Digest (demo_ref ''w'' p) = demo_sha"
    "mlar_Ref (demo_ref ''w'' p) = p" "mlar_ExpiresAt (demo_ref ''w'' p) = Time 20" for p by (simp_all add: demo_ref_def)
  note defs = ManagedProviderLifecycleRequest_validate_def demo_request_def recoveryProtocolError_def demo_texts demo_letters
    validManagedLifecycleAction_def request_ref_errs_def fields demo_ref_accepted
  show valid: "ManagedProviderLifecycleRequest_validate demo_path (demo_request ''/b'') = None" by (simp add: defs)
  show "ManagedProviderLifecycleRequest_validate demo_path (demo_request ''/a'') \<noteq> None" by (simp add: defs)
  show "ManagedProviderLifecycleRequest_ValidateAt demo_path (demo_request ''/b'') (Time 10) = None"
    unfolding ManagedProviderLifecycleRequest_ValidateAt_def
    by (simp add: valid) (simp add: demo_request_def ManagedLifecycleArtifactRef_ValidateAt_def demo_ref_accepted fields recoveryExpiryError_def)
qed

lemma demo_result_accepted: "ManagedProviderLifecycleResult_ValidateAt demo_result (Time 10) = None"
proof -
  have "validSHA256Digest (CanonicalHash demo_hash (demo_signed ''managed-provider-lifecycle-request.v1''))" by (rule CanonicalHash_valid) (simp add: demo_hash_def)
  then show ?thesis
    by (simp add: ManagedProviderLifecycleResult_ValidateAt_def ManagedProviderLifecycleResult_validate_def demo_result_def recoveryProtocolError_def
        demo_texts demo_letters demo_public_text validManagedLifecycleAction_def recoveryExpiryError_def)
qed

lemma demo_answers: "answers demo_result (demo_request ''/b'') (CanonicalHash demo_hash (demo_signed ''managed-provider-lifecycle-request.v1''))"
  by (simp add: answers_def demo_result_def demo_request_def)

lemma demo_ref_now: "ManagedLifecycleArtifactRef_ValidateAt demo_path (demo_ref ''w'' ''/a'') (Time 10) = None"
  using demo_ref_accepted(1) by (simp add: ManagedLifecycleArtifactRef_ValidateAt_def recoveryExpiryError_def) (simp add: demo_ref_def)

lemma demo_encode_message: "recoverySigningJSON demo_encode domain m = Inr (demo_signed domain)"
  by (simp add: recoverySigningJSON_def demo_encode_def demo_signed_def)

lemma demo_result_verified:
  "ManagedProviderLifecycleResult_Verify demo_path demo_hash demo_verify demo_encode demo_encode
     (snd (ManagedProviderLifecycleResult_Sign demo_hash demo_sign demo_encode demo_result demo_key)) (public_of demo_key)
     (demo_request ''/b'') (Time 10) = None"
proof -
  have "ManagedProviderLifecycleRequest_BindingHash demo_path demo_hash demo_encode (demo_request ''/b'') = Inr (CanonicalHash demo_hash (demo_signed ''managed-provider-lifecycle-request.v1''))"
    by (simp add: ManagedProviderLifecycleRequest_BindingHash_def bytes_of_valid demo_request_accepted demo_encode_message CanonicalHash_def)
  then have "result_check demo_path demo_hash demo_encode (demo_request ''/b'') (Time 10) demo_result = None"
    by (simp add: result_check_def demo_request_accepted demo_result_accepted demo_answers)
  moreover have "ManagedProviderLifecycleResult_SigningBytes demo_encode demo_result = Inr (demo_signed ''managed-provider-lifecycle-result.v1'')"
    using valid_now(3) [OF demo_result_accepted] by (simp add: bytes_of_valid demo_encode_message)
  ultimately show ?thesis using result.signed_verifies [OF demo_key_good] by blast
qed

lemma lifecycle_signed_verifies_witness:
  "ManagedProviderLifecycleRequest_Verify demo_path demo_hash demo_verify demo_encode
     (snd (ManagedProviderLifecycleRequest_Sign demo_path demo_hash demo_sign demo_encode (demo_request ''/b'') demo_key))
     (public_of demo_key) (Time 10) = None"
  using lifecycle_signed_verifies [where sign = demo_sign and ver = demo_verify and url = demo_path and sha = demo_hash and now = "Time 10"
      and enca = demo_encode and encq = demo_encode and encr = demo_encode,
      OF demo_key_good demo_ref_now demo_encode_message demo_request_accepted(2) demo_encode_message demo_result_accepted
      demo_answers demo_encode_message]
  by (simp add: case_prod_beta)

lemma request_artifacts_bound_witness:
  "confined_path demo_path ''/b'' \<and> ManagedProviderLifecycleRequest_validate demo_path (demo_request ''/a'') \<noteq> None"
proof -
  have "\<forall>a \<in> set (mplr_ConfigRef (demo_request ''/b'') # mplr_SecretRefs (demo_request ''/b'')). confined_path demo_path (mlar_Ref a)"
    using request_artifacts_bound [OF demo_request_accepted(2)] by blast
  then have "confined_path demo_path ''/b''" by (simp add: demo_request_def demo_ref_def)
  with demo_request_accepted(3) show ?thesis by iprover
qed

lemma result_answers_one_request_witness:
  "\<exists>r. mplres_WorkerID r = ''w'' \<and>
     ManagedProviderLifecycleResult_Verify demo_path demo_hash demo_verify demo_encode demo_encode r (public_of demo_key)
       ((demo_request ''/b'')\<lparr>mplr_Signature := demo_signature ''forged''\<rparr>) (Time 10) = None"
proof -
  let ?r = "snd (ManagedProviderLifecycleResult_Sign demo_hash demo_sign demo_encode demo_result demo_key)"
  have "mplres_WorkerID ?r = mplr_WorkerID (demo_request ''/b'')" and
    "ManagedProviderLifecycleResult_Verify demo_path demo_hash demo_verify demo_encode demo_encode ?r (public_of demo_key)
       ((demo_request ''/b'')\<lparr>mplr_Signature := demo_signature ''forged''\<rparr>) (Time 10) = None"
    using result_answers_one_request [OF demo_result_verified, of "demo_signature ''forged''"] by iprover+
  then show ?thesis by (intro exI [of _ ?r]) (simp add: demo_request_def)
qed

lemma lifecycle_domains_separate_witness:
  "\<exists>data1 data2. data1 \<noteq> data2 \<and>
     ManagedLifecycleArtifactRef_SigningBytes demo_path demo_encode (demo_ref ''w'' ''/a'') = Inr data1 \<and>
     ManagedProviderLifecycleRequest_SigningBytes demo_path demo_encode (demo_request ''/b'') = Inr data2"
proof -
  let ?a = "snd (ManagedLifecycleArtifactRef_Sign demo_path demo_hash demo_sign demo_encode (demo_ref ''w'' ''/a'') demo_key)"
  let ?q = "snd (ManagedProviderLifecycleRequest_Sign demo_path demo_hash demo_sign demo_encode (demo_request ''/b'') demo_key)"
  have a: "ManagedLifecycleArtifactRef_Verify demo_path demo_hash demo_verify demo_encode ?a (public_of demo_key) (Time 10) = None"
    using ref.signed_verifies [OF demo_key_good] demo_ref_now demo_ref_accepted by (simp add: bytes_of_valid demo_encode_message)
  have q: "ManagedProviderLifecycleRequest_Verify demo_path demo_hash demo_verify demo_encode ?q (public_of demo_key) (Time 10) = None"
    using request.signed_verifies [OF demo_key_good] demo_request_accepted by (simp add: bytes_of_valid demo_encode_message)
  let ?p = "\<lparr>pasp_Component = ''c'', pasp_PluginID = ''p'', pasp_Version = ''v1'', pasp_URL = ''u'', pasp_SHA256 = []\<rparr>"
  from lifecycle_domains_separate [OF a q demo_result_verified, of "\<lambda>_. ''tuple''" ?p] obtain data1 data2 data3 where
    "distinct [data1, data2, data3, PackageArtifactSignaturePayload_SigningBytes demo_hash (\<lambda>_. ''tuple'') ?p]"
    "ManagedLifecycleArtifactRef_SigningBytes demo_path demo_encode ?a = Inr data1"
    "ManagedProviderLifecycleRequest_SigningBytes demo_path demo_encode ?q = Inr data2" by blast
  then show ?thesis by (simp add: sign_keeps_bytes)
qed

end
