(* ===== verification/RuntimeProvider.thy ===== *)
theory RuntimeProvider
  imports GoStrings
begin

text \<open>
  \<open>protocol/runtime_provider_validate.go\<close>: the validators of the messages between a host and a
  runtime provider. A message is a pointer, so it may be missing; the records are the generated structs
  of \<open>protocol/pb\<close> without the bookkeeping of the protobuf runtime, a map being a list of pairs.
\<close>

record RunRequest =
  rr_ExecutorProvider :: string
  rr_Input :: string
  rr_Env :: "(string \<times> string) list"
  rr_TaskId :: string
  rr_LeaseId :: string

record StartSessionRequest =
  ssr_ExecutorProvider :: string
  ssr_Input :: string
  ssr_Env :: "(string \<times> string) list"
  ssr_TaskId :: string
  ssr_LeaseId :: string

record ProviderCapabilities =
  prca_ProviderId :: string
  prca_WorkloadKinds :: "string list"
  prca_ExecutorProviders :: "string list"
  prca_RuntimeProfiles :: "string list"

record SessionEvent =
  sev_EventType :: string
  sev_Evidence :: string
  sev_TsUnixNanos :: int

record ControlSessionRequest =
  csr_SessionId :: string
  csr_Action :: string
  csr_Payload :: string

definition ValidateRunRequest :: "RunRequest option \<Rightarrow> error" where
  "ValidateRunRequest r =
     (case r of
        None \<Rightarrow> Some (New ''run_request is required'')
      | Some r \<Rightarrow> join (fails (trim_space (rr_ExecutorProvider r) = []) (New ''executor_provider is required'')))"

definition ValidateStartSessionRequest :: "StartSessionRequest option \<Rightarrow> error" where
  "ValidateStartSessionRequest r =
     (case r of
        None \<Rightarrow> Some (New ''start_session_request is required'')
      | Some r \<Rightarrow> join (fails (trim_space (ssr_ExecutorProvider r) = []) (New ''executor_provider is required'')))"

definition ValidateProviderCapabilities :: "ProviderCapabilities option \<Rightarrow> error" where
  "ValidateProviderCapabilities c =
     (case c of
        None \<Rightarrow> Some (New ''provider_capabilities is required'')
      | Some c \<Rightarrow> join
          (fails (trim_space (prca_ProviderId c) = []) (New ''provider_id is required'') @
           (if prca_ExecutorProviders c = [] then [New ''executor_providers must contain at least one entry'']
            else fails (\<not> list_ex (\<lambda>p. trim_space p \<noteq> []) (prca_ExecutorProviders c))
                   (New ''executor_providers must contain at least one non-blank entry''))))"

definition ValidateSessionEvent :: "SessionEvent option \<Rightarrow> error" where
  "ValidateSessionEvent e =
     (case e of
        None \<Rightarrow> Some (New ''session_event is required'')
      | Some e \<Rightarrow> join (fails (trim_space (sev_EventType e) = []) (New ''event_type is required'')))"

definition ValidateControlSessionRequest :: "ControlSessionRequest option \<Rightarrow> error" where
  "ValidateControlSessionRequest r =
     (case r of
        None \<Rightarrow> Some (New ''control_session_request is required'')
      | Some r \<Rightarrow> join
          (fails (trim_space (csr_SessionId r) = []) (New ''session_id is required'') @
           fails (trim_space (csr_Action r) = []) (New ''action is required'')))"

section \<open>What is accepted\<close>

text \<open>Blank entries among the executor providers are harmless as long as one is not blank; whether an
  accepted name is trimmed is not checked.\<close>

lemma ValidateProviderCapabilities_iff:
  "ValidateProviderCapabilities c = None \<longleftrightarrow>
     (\<exists>m. c = Some m \<and> trim_space (prca_ProviderId m) \<noteq> [] \<and> (\<exists>p \<in> set (prca_ExecutorProviders m). trim_space p \<noteq> []))"
  by (auto simp: ValidateProviderCapabilities_def list_ex_iff split: option.split)

lemma requests_iff:
  "ValidateRunRequest r = None \<longleftrightarrow> (\<exists>m. r = Some m \<and> trim_space (rr_ExecutorProvider m) \<noteq> [])"
  "ValidateStartSessionRequest s = None \<longleftrightarrow> (\<exists>m. s = Some m \<and> trim_space (ssr_ExecutorProvider m) \<noteq> [])"
  "ValidateSessionEvent e = None \<longleftrightarrow> (\<exists>m. e = Some m \<and> trim_space (sev_EventType m) \<noteq> [])"
  "ValidateControlSessionRequest k = None \<longleftrightarrow> (\<exists>m. k = Some m \<and> trim_space (csr_SessionId m) \<noteq> [] \<and> trim_space (csr_Action m) \<noteq> [])"
  by (auto simp: ValidateRunRequest_def ValidateStartSessionRequest_def ValidateSessionEvent_def ValidateControlSessionRequest_def
      split: option.split)

end
