(* ===== verification/NetworkAudit.thy ===== *)
theory NetworkAudit
  imports Handoff Placement GoNet UnixTime ProtoFields
begin

text \<open>
  \<open>protocol/types.go\<close>, lines 1307 to 2004: the audit record of network use. A record names a
  destination, the provider, counters, labels and times; it is validated into a list of issues, projected
  to keyed references and identifiers that do not reveal it, and sent as protobuf. Lists stand for Go maps,
  in the order of the iteration.

  Parameters: \<open>url\<close> is \<open>url.Parse\<close>, \<open>sha\<close> SHA-256, \<open>hmac\<close> HMAC-SHA256, \<open>enc\<close> the
  JSON encoder (see \<open>CanonicalHash\<close>), \<open>stamp\<close> formats an instant in UTC as RFC 3339 with nanoseconds,
  \<open>trunc\<close> converts a float to \<open>int64\<close>, and \<open>unproto\<close> is \<open>proto.Unmarshal\<close>. Not modelled: the
  digest of the protobuf descriptors, which is reflection over generated code.
\<close>

section \<open>Vocabulary and records\<close>

definition NetworkAuditProtocolVersion :: string where [enum]: "NetworkAuditProtocolVersion = Version"
definition NetworkAuditMaxLabels :: nat where "NetworkAuditMaxLabels = 32"
definition NetworkAuditRefKeyEpoch :: string where "NetworkAuditRefKeyEpoch = ''network-audit-ref-v1''"

type_synonym NetworkAuditDestinationKind = string
definition NetworkAuditDestinationEndpoint :: NetworkAuditDestinationKind where [enum]: "NetworkAuditDestinationEndpoint = ''endpoint''"
definition NetworkAuditDestinationSHA256 :: NetworkAuditDestinationKind where [enum]: "NetworkAuditDestinationSHA256 = ''sha256''"
definition NetworkAuditDestinationArtifact :: NetworkAuditDestinationKind where [enum]: "NetworkAuditDestinationArtifact = ''artifact''"
definition NetworkAuditDestinationLifecycle :: NetworkAuditDestinationKind where [enum]: "NetworkAuditDestinationLifecycle = ''network-lifecycle''"

datatype NetworkAuditValidationCode =
    NetworkAuditValidationProtocolVersionInvalid | NetworkAuditValidationRecordIDRequired | NetworkAuditValidationDestinationRequired
  | NetworkAuditValidationDestinationInvalid | NetworkAuditValidationResourceUsageInvalid | NetworkAuditValidationLabelInvalid
  | NetworkAuditValidationLabelCountExceeded | NetworkAuditValidationTimeRangeInvalid | NetworkAuditValidationProviderInvalid

record NetworkAuditValidationIssue =
  navi_Code :: NetworkAuditValidationCode
  navi_Field :: string
  navi_Message :: string

definition networkAuditIssue :: "NetworkAuditValidationCode \<Rightarrow> string \<Rightarrow> string \<Rightarrow> NetworkAuditValidationIssue" where
  "networkAuditIssue code field message = \<lparr>navi_Code = code, navi_Field = field, navi_Message = message\<rparr>"

text \<open>The errors of this component: plain ones, and \<open>NetworkAuditValidationError\<close>.\<close>

datatype audit_error = Plain err | NetworkAuditValidationError "NetworkAuditValidationIssue list"

definition NetworkAuditValidationError_Error :: "NetworkAuditValidationIssue list \<Rightarrow> err" where
  "NetworkAuditValidationError_Error issues =
     (if issues = [] then New ''network audit validation failed''
      else Errorf ''network audit validation failed with %d issue(s)'' [Num (int (length issues))])"

record NetworkAuditDestination =
  nad_Kind :: NetworkAuditDestinationKind
  nad_Value :: string

record NetworkAuditProviderEvidence =
  nape_ProviderID :: string
  nape_PluginName :: string
  nape_PluginVersion :: string
  nape_ContractID :: string
  nape_ContractVersion :: string
  nape_DescriptorDigest :: string

type_synonym NetworkAuditRefStability = string
definition NetworkAuditRefStable :: NetworkAuditRefStability where [enum]: "NetworkAuditRefStable = ''stable''"
definition NetworkAuditRefEphemeral :: NetworkAuditRefStability where [enum]: "NetworkAuditRefEphemeral = ''ephemeral''"

record NetworkAuditRefOptions =
  naro_Stability :: NetworkAuditRefStability
  naro_Timestamp :: time

record NetworkAuditRefProjection =
  narp_Ref :: string
  narp_Epoch :: string
  narp_Stability :: NetworkAuditRefStability
  narp_Timestamp :: string

record NetworkAuditRefProjector =
  narpr_key :: string

record NetworkAuditRecord =
  nar_ProtocolVersion :: string
  nar_RecordID :: string
  nar_TaskID :: string
  nar_LeaseID :: string
  nar_WorkerID :: string
  nar_Provider :: NetworkAuditProviderEvidence
  nar_Destination :: NetworkAuditDestination
  nar_ResourceUsage :: ResourceUsage
  nar_Labels :: "(string \<times> string) list"
  nar_StartedAt :: time
  nar_FinishedAt :: time
  nar_ObservedAt :: time

definition zero_NetworkAuditDestination :: NetworkAuditDestination where
  "zero_NetworkAuditDestination = \<lparr>nad_Kind = [], nad_Value = []\<rparr>"

section \<open>Validation\<close>

definition audit_schemes :: "string list" where
  "audit_schemes = [''http'', ''https'', ''tcp'', ''udp'']"

definition validNetworkAuditEndpoint :: "(string \<Rightarrow> URL option) \<Rightarrow> string \<Rightarrow> bool" where
  "validNetworkAuditEndpoint url v =
     (case url v of
        None \<Rightarrow> False
      | Some parsed \<Rightarrow>
          if url_Scheme parsed \<notin> set audit_schemes then False
          else url_Host parsed \<noteq> [] \<and> \<not> url_User parsed \<and> url_RawQuery parsed = [] \<and> url_Fragment parsed = [] \<and>
               \<not> contains_str (url_Path parsed) ''..'')"

definition validNetworkLifecycleRef :: "(string \<Rightarrow> URL option) \<Rightarrow> string \<Rightarrow> bool" where
  "validNetworkLifecycleRef url v =
     (if \<not> has_prefix v ''network-lifecycle://'' then False
      else (case url v of
              None \<Rightarrow> False
            | Some parsed \<Rightarrow>
                url_Scheme parsed = ''network-lifecycle'' \<and> url_Host parsed \<noteq> [] \<and> \<not> url_User parsed \<and> url_RawQuery parsed = [] \<and>
                url_Fragment parsed = [] \<and> url_Path parsed \<noteq> [] \<and> \<not> contains_str (url_Path parsed) ''..'' \<and>
                validateIdentifier ''lease_id'' (url_Host parsed) = None \<and>
                validateIdentifier ''event'' (trim_prefix (url_Path parsed) ''/'') = None))"

definition validNetworkAuditDestination :: "(string \<Rightarrow> URL option) \<Rightarrow> NetworkAuditDestination \<Rightarrow> bool" where
  "validNetworkAuditDestination url d =
     (let v = trim_space (nad_Value d)
      in if v = [] \<or> v \<noteq> nad_Value d \<or> contains_any v (ws_chars @ ch_nul) then False
         else if nad_Kind d = NetworkAuditDestinationEndpoint then validNetworkAuditEndpoint url v
         else if nad_Kind d = NetworkAuditDestinationSHA256 then validSHA256Ref v
         else if nad_Kind d = NetworkAuditDestinationArtifact
         then validateScopedRef ''destination'' v ''artifact://'' = None \<and> \<not> contains_any v (ctl_chars @ ch_nul)
         else if nad_Kind d = NetworkAuditDestinationLifecycle then validNetworkLifecycleRef url v
         else False)"

definition NetworkAuditDestination_validateNetworkAudit :: "(string \<Rightarrow> URL option) \<Rightarrow> NetworkAuditDestination \<Rightarrow> NetworkAuditValidationIssue list" where
  "NetworkAuditDestination_validateNetworkAudit url d =
     (if nad_Kind d = [] \<and> trim_space (nad_Value d) = []
      then [networkAuditIssue NetworkAuditValidationDestinationRequired ''destination'' ''destination is required'']
      else if \<not> validNetworkAuditDestination url d
      then [networkAuditIssue NetworkAuditValidationDestinationInvalid ''destination'' ''destination is invalid'']
      else [])"

definition when_issue :: "bool \<Rightarrow> NetworkAuditValidationIssue \<Rightarrow> NetworkAuditValidationIssue list" where
  "when_issue b i = (if b then [i] else [])"

definition NetworkAuditProviderEvidence_validateNetworkAudit :: "NetworkAuditProviderEvidence \<Rightarrow> NetworkAuditValidationIssue list" where
  "NetworkAuditProviderEvidence_validateNetworkAudit p =
     concat (map (\<lambda>(name, v). when_issue (v \<noteq> [] \<and> validateIdentifier name v \<noteq> None)
         (networkAuditIssue NetworkAuditValidationProviderInvalid name ''provider evidence identifier is invalid''))
       [(''provider_id'', nape_ProviderID p), (''plugin_name'', nape_PluginName p), (''plugin_version'', nape_PluginVersion p),
        (''contract_id'', nape_ContractID p), (''contract_version'', nape_ContractVersion p)]) @
     when_issue (nape_DescriptorDigest p \<noteq> [] \<and> \<not> validSHA256Digest (nape_DescriptorDigest p))
       (networkAuditIssue NetworkAuditValidationProviderInvalid ''descriptor_digest'' ''descriptor digest is invalid'')"

definition validateNetworkAuditResourceUsage :: "ResourceUsage \<Rightarrow> error" where
  "validateNetworkAuditResourceUsage usage =
     join
     (concat (map (\<lambda>(name, v). fails (v < 0) (Errorf ''%s cannot be negative'' [Str name]))
        [(''cpu_millis'', ru_CPUMillis usage), (''gpu_millis'', ru_GPUMillis usage), (''max_memory_bytes'', ru_MaxMemoryBytes usage),
         (''network_rx_bytes'', ru_NetworkRxBytes usage), (''network_tx_bytes'', ru_NetworkTxBytes usage),
         (''workspace_bytes'', ru_WorkspaceBytes usage), (''output_bytes'', ru_OutputBytes usage)]) @
      fails (ru_LimitHit usage \<noteq> [] \<and>
             (trim_space (ru_LimitHit usage) \<noteq> ru_LimitHit usage \<or> contains_any (ru_LimitHit usage) (url_chars @ ch_nul)))
        (New ''limit_hit is invalid''))"

definition validateNetworkAuditLabels :: "(string \<times> string) list \<Rightarrow> NetworkAuditValidationIssue list" where
  "validateNetworkAuditLabels labels =
     when_issue (length labels > NetworkAuditMaxLabels)
       (networkAuditIssue NetworkAuditValidationLabelCountExceeded ''labels'' ''label count exceeds limit'') @
     concat (map (\<lambda>(key, v).
       when_issue (validateIdentifier ''label'' key \<noteq> None)
         (networkAuditIssue NetworkAuditValidationLabelInvalid ''labels'' ''label key is invalid'') @
       when_issue (v = [] \<or> trim_space v \<noteq> v \<or> contains_any v (ctl_chars @ ch_nul))
         (networkAuditIssue NetworkAuditValidationLabelInvalid ''labels'' ''label value is invalid'')) labels)"

definition NetworkAuditRecord_ValidateNetworkAudit :: "(string \<Rightarrow> URL option) \<Rightarrow> NetworkAuditRecord \<Rightarrow> NetworkAuditValidationIssue list" where
  "NetworkAuditRecord_ValidateNetworkAudit url r =
     when_issue (nar_ProtocolVersion r \<noteq> NetworkAuditProtocolVersion)
       (networkAuditIssue NetworkAuditValidationProtocolVersionInvalid ''protocol_version'' ''protocol version is not supported'') @
     when_issue (validateIdentifier ''record_id'' (nar_RecordID r) \<noteq> None)
       (networkAuditIssue NetworkAuditValidationRecordIDRequired ''record_id'' ''record id is required'') @
     concat (map (\<lambda>(name, v). when_issue (v \<noteq> [] \<and> validateIdentifier name v \<noteq> None)
         (networkAuditIssue NetworkAuditValidationRecordIDRequired name ''identifier is invalid''))
       [(''task_id'', nar_TaskID r), (''lease_id'', nar_LeaseID r), (''worker_id'', nar_WorkerID r)]) @
     NetworkAuditProviderEvidence_validateNetworkAudit (nar_Provider r) @
     NetworkAuditDestination_validateNetworkAudit url (nar_Destination r) @
     when_issue (validateNetworkAuditResourceUsage (nar_ResourceUsage r) \<noteq> None)
       (networkAuditIssue NetworkAuditValidationResourceUsageInvalid ''resource_usage'' ''resource usage contains invalid counters'') @
     validateNetworkAuditLabels (nar_Labels r) @
     when_issue (nar_StartedAt r \<noteq> 0 \<and> nar_FinishedAt r \<noteq> 0 \<and> nar_FinishedAt r < nar_StartedAt r)
       (networkAuditIssue NetworkAuditValidationTimeRangeInvalid ''finished_at'' ''finish time must not precede start time'') @
     when_issue (nar_FinishedAt r \<noteq> 0 \<and> nar_ObservedAt r \<noteq> 0 \<and> nar_ObservedAt r < nar_FinishedAt r)
       (networkAuditIssue NetworkAuditValidationTimeRangeInvalid ''observed_at'' ''observed time must not precede finish time'')"

definition NetworkAuditRecord_Validate :: "(string \<Rightarrow> URL option) \<Rightarrow> NetworkAuditRecord \<Rightarrow> audit_error option" where
  "NetworkAuditRecord_Validate url r =
     (let issues = NetworkAuditRecord_ValidateNetworkAudit url r
      in if issues = [] then None else Some (NetworkAuditValidationError issues))"

section \<open>Projections\<close>

definition ProjectNetworkAuditDestination :: "(string \<Rightarrow> URL option) \<Rightarrow> string \<Rightarrow> NetworkAuditDestination \<times> NetworkAuditValidationIssue list" where
  "ProjectNetworkAuditDestination url raw =
     (let v = trim_space raw;
          kind = (if has_prefix v ''sha256:'' then NetworkAuditDestinationSHA256
                  else if has_prefix v ''artifact://'' then NetworkAuditDestinationArtifact
                  else if has_prefix v ''network-lifecycle://'' then NetworkAuditDestinationLifecycle
                  else NetworkAuditDestinationEndpoint);
          destination = \<lparr>nad_Kind = kind, nad_Value = v\<rparr>
      in (destination, NetworkAuditDestination_validateNetworkAudit url destination))"

definition NewNetworkAuditLifecycleDestination :: "(string \<Rightarrow> URL option) \<Rightarrow> string \<Rightarrow> string \<Rightarrow> audit_error + NetworkAuditDestination" where
  "NewNetworkAuditLifecycleDestination url leaseID event =
     (case validateIdentifier ''lease_id'' leaseID of
        Some err \<Rightarrow> Inl (Plain err)
      | None \<Rightarrow>
          (case validateIdentifier ''event'' event of
             Some err \<Rightarrow> Inl (Plain err)
           | None \<Rightarrow>
               (let destination = \<lparr>nad_Kind = NetworkAuditDestinationLifecycle, nad_Value = ''network-lifecycle://'' @ leaseID @ ''/'' @ event\<rparr>;
                    issues = NetworkAuditDestination_validateNetworkAudit url destination
                in if issues \<noteq> [] then Inl (NetworkAuditValidationError issues) else Inr destination)))"

definition ProjectNetworkAuditLifecycle :: "(string \<Rightarrow> URL option) \<Rightarrow> string \<Rightarrow> string \<Rightarrow> NetworkAuditDestination \<times> NetworkAuditValidationIssue list" where
  "ProjectNetworkAuditLifecycle url leaseID event =
     (case NewNetworkAuditLifecycleDestination url leaseID event of
        Inl _ \<Rightarrow> (zero_NetworkAuditDestination,
          [networkAuditIssue NetworkAuditValidationDestinationInvalid ''destination'' ''lifecycle destination is invalid''])
      | Inr destination \<Rightarrow> (destination, []))"

definition copyStringMap :: "(string \<times> string) list \<Rightarrow> (string \<times> string) list" where
  "copyStringMap entries = (if entries = [] then [] else fold (\<lambda>(key, v) output. output @ [(key, v)]) entries [])"

definition ProjectNetworkAuditLabels :: "(string \<times> string) list \<Rightarrow> (string \<times> string) list \<times> NetworkAuditValidationIssue list" where
  "ProjectNetworkAuditLabels labels = (let projected = copyStringMap labels in (projected, validateNetworkAuditLabels projected))"

definition ProjectNetworkAuditProvider :: "string \<Rightarrow> string \<Rightarrow> string \<Rightarrow> string \<Rightarrow> string \<Rightarrow> string \<Rightarrow>
    NetworkAuditProviderEvidence \<times> NetworkAuditValidationIssue list" where
  "ProjectNetworkAuditProvider providerID pluginName pluginVersion contractID contractVersion descriptorDigest =
     (let provider = \<lparr>nape_ProviderID = trim_space providerID, nape_PluginName = trim_space pluginName, nape_PluginVersion = trim_space pluginVersion,
            nape_ContractID = trim_space contractID, nape_ContractVersion = trim_space contractVersion, nape_DescriptorDigest = trim_space descriptorDigest\<rparr>
      in (provider, NetworkAuditProviderEvidence_validateNetworkAudit provider))"

text \<open>The frame that the identifier hashes for each component.\<close>

definition frame :: "string \<Rightarrow> string" where
  "frame component = dec (length component) @ '':'' @ component @ ch_nul"

definition id_component_bad :: "string \<Rightarrow> bool" where
  "id_component_bad component \<longleftrightarrow> trim_space component = [] \<or> contains_any component (ch_nul @ [CHR 0x0D, CHR 0x0A, CHR 0x09])"

definition ProjectNetworkAuditID :: "(string \<Rightarrow> string) \<Rightarrow> string list \<Rightarrow> err + string" where
  "ProjectNetworkAuditID sha components =
     (if components = [] then Inl (New ''at least one network audit id component is required'')
      else if list_ex id_component_bad components then Inl (New ''network audit id component is invalid'')
      else Inr (''network-audit-sha256-'' @ hex_encode (sha (concat (map frame components)))))"

definition NewNetworkAuditRefProjector :: "string \<Rightarrow> err + NetworkAuditRefProjector" where
  "NewNetworkAuditRefProjector key =
     (if length key < 32 then Inl (New ''network audit ref key must be at least 32 bytes'') else Inr \<lparr>narpr_key = key\<rparr>)"

definition ref_timestamp :: "NetworkAuditRecord \<Rightarrow> NetworkAuditRefOptions \<Rightarrow> time" where
  "ref_timestamp record options =
     (let timestamp = naro_Timestamp options;
          timestamp = (if timestamp = 0 then nar_StartedAt record else timestamp);
          timestamp = (if timestamp = 0 then nar_ObservedAt record else timestamp)
      in if timestamp = 0 then nar_FinishedAt record else timestamp)"

definition NetworkAuditRefProjector_Project :: "(string \<Rightarrow> URL option) \<Rightarrow> (string \<Rightarrow> string) \<Rightarrow> (string \<Rightarrow> string \<Rightarrow> string) \<Rightarrow> (NetworkAuditRecord \<Rightarrow> string) \<Rightarrow>
    (time \<Rightarrow> string) \<Rightarrow> NetworkAuditRefProjector \<Rightarrow> NetworkAuditRecord \<Rightarrow> NetworkAuditRefOptions \<Rightarrow> audit_error + NetworkAuditRefProjection" where
  "NetworkAuditRefProjector_Project url sha hmac enc stamp p record options =
     (if length (narpr_key p) < 32 then Inl (Plain (New ''network audit ref projector key is invalid''))
      else (case NetworkAuditRecord_Validate url record of
              Some err \<Rightarrow> Inl err
            | None \<Rightarrow>
                (let stability = (if naro_Stability options = [] then NetworkAuditRefStable else naro_Stability options)
                 in if stability \<notin> set [NetworkAuditRefStable, NetworkAuditRefEphemeral]
                    then Inl (Plain (New ''network audit ref stability is invalid''))
                    else (let normalizedTimestamp = stamp (ref_timestamp record options);
                              recordDigest = CanonicalHash sha (enc record);
                              input = join_char (CHR 0x0A) [NetworkAuditRefKeyEpoch, stability, recordDigest, normalizedTimestamp, []];
                              ref = NetworkAuditRefKeyEpoch @ '':'' @ stability @ '':'' @ hex_encode (hmac (narpr_key p) input)
                          in Inr \<lparr>narp_Ref = ref, narp_Epoch = NetworkAuditRefKeyEpoch, narp_Stability = stability,
                                  narp_Timestamp = normalizedTimestamp\<rparr>))))"

section \<open>Legacy records\<close>

text \<open>A decoded JSON value, as the classification tells them apart; \<open>'f\<close> is the type of floats.\<close>

datatype 'f any = AString string | AObject "(string \<times> 'f any) list" | AInt int | AFloat 'f | ANumber string | AOther

text \<open>\<open>json.Number.Int64\<close> with the error dropped: 0 for what is no integer, the nearest bound out of range.\<close>

definition number_int64 :: "string \<Rightarrow> int" where
  "number_int64 s =
     (let (neg, ds) = (case s of c # cs \<Rightarrow> if c = CHR ''-'' then (True, cs) else if c = CHR ''+'' then (False, cs) else (False, s)
                       | [] \<Rightarrow> (False, []));
          v = (if neg then - int (decimal_value ds) else int (decimal_value ds))
      in if ds \<noteq> [] \<and> list_all (\<lambda>c. c \<in> set digits) ds then max int64_min (min int64_max v) else 0)"

definition legacyInt64 :: "('f \<Rightarrow> int) \<Rightarrow> 'f any option \<Rightarrow> int" where
  "legacyInt64 trunc v =
     (case v of
        Some (AInt n) \<Rightarrow> n
      | Some (AFloat f) \<Rightarrow> trunc f
      | Some (ANumber s) \<Rightarrow> number_int64 s
      | _ \<Rightarrow> 0)"

definition legacy_labels :: "(string \<times> 'f any) list \<Rightarrow> (string \<times> string) list" where
  "legacy_labels rawLabels = List.map_filter (\<lambda>(key, v). case v of AString s \<Rightarrow> Some (key, s) | _ \<Rightarrow> None) rawLabels"

definition legacy_usage :: "('f \<Rightarrow> int) \<Rightarrow> (string \<times> 'f any) list \<Rightarrow> ResourceUsage" where
  "legacy_usage trunc u =
     \<lparr>ru_CPUMillis = legacyInt64 trunc (map_of u ''cpu_millis''), ru_GPUMillis = legacyInt64 trunc (map_of u ''gpu_millis''),
      ru_MaxMemoryBytes = legacyInt64 trunc (map_of u ''max_memory_bytes''), ru_NetworkRxBytes = legacyInt64 trunc (map_of u ''network_rx_bytes''),
      ru_NetworkTxBytes = legacyInt64 trunc (map_of u ''network_tx_bytes''), ru_WorkspaceBytes = legacyInt64 trunc (map_of u ''workspace_bytes''),
      ru_OutputBytes = legacyInt64 trunc (map_of u ''output_bytes''), ru_LimitHit = []\<rparr>"

definition ClassifyLegacyNetworkAuditRecord :: "(string \<Rightarrow> URL option) \<Rightarrow> ('f \<Rightarrow> int) \<Rightarrow> (string \<times> 'f any) list \<Rightarrow> NetworkAuditValidationIssue list" where
  "ClassifyLegacyNetworkAuditRecord url trunc record =
     (case map_of record ''destination'' of
        Some (AString rawDestination) \<Rightarrow> snd (ProjectNetworkAuditDestination url rawDestination)
      | _ \<Rightarrow> []) @
     (case map_of record ''labels'' of
        Some (AObject rawLabels) \<Rightarrow>
          concat (map (\<lambda>(key, v). case v of AString _ \<Rightarrow> []
            | _ \<Rightarrow> [networkAuditIssue NetworkAuditValidationLabelInvalid ''labels'' ''label value is invalid'']) rawLabels) @
          snd (ProjectNetworkAuditLabels (legacy_labels rawLabels))
      | _ \<Rightarrow> []) @
     (case map_of record ''resource_usage'' of
        Some (AObject rawUsage) \<Rightarrow> when_issue (validateNetworkAuditResourceUsage (legacy_usage trunc rawUsage) \<noteq> None)
          (networkAuditIssue NetworkAuditValidationResourceUsageInvalid ''resource_usage'' ''resource usage contains invalid counters'')
      | _ \<Rightarrow> [])"

section \<open>Protobuf\<close>

text \<open>The generated messages; \<open>Unknown\<close> holds the bytes of fields the decoder did not know.\<close>

record pb_NetworkAuditProviderEvidence =
  pbp_ProviderId :: string
  pbp_PluginName :: string
  pbp_PluginVersion :: string
  pbp_ContractId :: string
  pbp_ContractVersion :: string
  pbp_DescriptorDigest :: string
  pbp_Unknown :: string

record pb_NetworkAuditDestination =
  pbd_Kind :: string
  pbd_Value :: string
  pbd_Unknown :: string

record pb_NetworkAuditResourceUsage =
  pbu_CpuMillis :: int
  pbu_GpuMillis :: int
  pbu_MaxMemoryBytes :: int
  pbu_NetworkRxBytes :: int
  pbu_NetworkTxBytes :: int
  pbu_WorkspaceBytes :: int
  pbu_OutputBytes :: int
  pbu_LimitHit :: string
  pbu_Unknown :: string

record pb_NetworkAuditRecord =
  pbr_ProtocolVersion :: string
  pbr_RecordId :: string
  pbr_TaskId :: string
  pbr_LeaseId :: string
  pbr_WorkerId :: string
  pbr_Provider :: "pb_NetworkAuditProviderEvidence option"
  pbr_Destination :: "pb_NetworkAuditDestination option"
  pbr_ResourceUsage :: "pb_NetworkAuditResourceUsage option"
  pbr_Labels :: "(string \<times> string) list"
  pbr_StartedAtUnixNano :: int
  pbr_FinishedAtUnixNano :: int
  pbr_ObservedAtUnixNano :: int
  pbr_Unknown :: string

definition NetworkAuditProviderEvidence_toProto :: "NetworkAuditProviderEvidence \<Rightarrow> pb_NetworkAuditProviderEvidence" where
  "NetworkAuditProviderEvidence_toProto p =
     \<lparr>pbp_ProviderId = nape_ProviderID p, pbp_PluginName = nape_PluginName p, pbp_PluginVersion = nape_PluginVersion p,
      pbp_ContractId = nape_ContractID p, pbp_ContractVersion = nape_ContractVersion p, pbp_DescriptorDigest = nape_DescriptorDigest p,
      pbp_Unknown = []\<rparr>"

definition networkAuditProviderFromProto :: "pb_NetworkAuditProviderEvidence option \<Rightarrow> NetworkAuditProviderEvidence" where
  "networkAuditProviderFromProto message =
     (case message of
        None \<Rightarrow> \<lparr>nape_ProviderID = [], nape_PluginName = [], nape_PluginVersion = [], nape_ContractID = [], nape_ContractVersion = [],
          nape_DescriptorDigest = []\<rparr>
      | Some m \<Rightarrow> \<lparr>nape_ProviderID = pbp_ProviderId m, nape_PluginName = pbp_PluginName m, nape_PluginVersion = pbp_PluginVersion m,
          nape_ContractID = pbp_ContractId m, nape_ContractVersion = pbp_ContractVersion m, nape_DescriptorDigest = pbp_DescriptorDigest m\<rparr>)"

definition NetworkAuditDestination_toProto :: "NetworkAuditDestination \<Rightarrow> pb_NetworkAuditDestination" where
  "NetworkAuditDestination_toProto d = \<lparr>pbd_Kind = nad_Kind d, pbd_Value = nad_Value d, pbd_Unknown = []\<rparr>"

definition networkAuditDestinationFromProto :: "pb_NetworkAuditDestination option \<Rightarrow> NetworkAuditDestination" where
  "networkAuditDestinationFromProto message =
     (case message of
        None \<Rightarrow> zero_NetworkAuditDestination
      | Some m \<Rightarrow> \<lparr>nad_Kind = pbd_Kind m, nad_Value = pbd_Value m\<rparr>)"

definition networkAuditResourceUsageToProto :: "ResourceUsage \<Rightarrow> pb_NetworkAuditResourceUsage" where
  "networkAuditResourceUsageToProto u =
     \<lparr>pbu_CpuMillis = ru_CPUMillis u, pbu_GpuMillis = ru_GPUMillis u, pbu_MaxMemoryBytes = ru_MaxMemoryBytes u,
      pbu_NetworkRxBytes = ru_NetworkRxBytes u, pbu_NetworkTxBytes = ru_NetworkTxBytes u, pbu_WorkspaceBytes = ru_WorkspaceBytes u,
      pbu_OutputBytes = ru_OutputBytes u, pbu_LimitHit = ru_LimitHit u, pbu_Unknown = []\<rparr>"

definition networkAuditResourceUsageFromProto :: "pb_NetworkAuditResourceUsage option \<Rightarrow> ResourceUsage" where
  "networkAuditResourceUsageFromProto message =
     (case message of
        None \<Rightarrow> \<lparr>ru_CPUMillis = 0, ru_GPUMillis = 0, ru_MaxMemoryBytes = 0, ru_NetworkRxBytes = 0, ru_NetworkTxBytes = 0,
          ru_WorkspaceBytes = 0, ru_OutputBytes = 0, ru_LimitHit = []\<rparr>
      | Some m \<Rightarrow> \<lparr>ru_CPUMillis = pbu_CpuMillis m, ru_GPUMillis = pbu_GpuMillis m, ru_MaxMemoryBytes = pbu_MaxMemoryBytes m,
          ru_NetworkRxBytes = pbu_NetworkRxBytes m, ru_NetworkTxBytes = pbu_NetworkTxBytes m, ru_WorkspaceBytes = pbu_WorkspaceBytes m,
          ru_OutputBytes = pbu_OutputBytes m, ru_LimitHit = pbu_LimitHit m\<rparr>)"

definition NetworkAuditRecord_ToProto :: "NetworkAuditRecord \<Rightarrow> pb_NetworkAuditRecord" where
  "NetworkAuditRecord_ToProto r =
     \<lparr>pbr_ProtocolVersion = nar_ProtocolVersion r, pbr_RecordId = nar_RecordID r, pbr_TaskId = nar_TaskID r, pbr_LeaseId = nar_LeaseID r,
      pbr_WorkerId = nar_WorkerID r, pbr_Provider = Some (NetworkAuditProviderEvidence_toProto (nar_Provider r)),
      pbr_Destination = Some (NetworkAuditDestination_toProto (nar_Destination r)),
      pbr_ResourceUsage = Some (networkAuditResourceUsageToProto (nar_ResourceUsage r)), pbr_Labels = copyStringMap (nar_Labels r),
      pbr_StartedAtUnixNano = unixNanoOrZero (nar_StartedAt r), pbr_FinishedAtUnixNano = unixNanoOrZero (nar_FinishedAt r),
      pbr_ObservedAtUnixNano = unixNanoOrZero (nar_ObservedAt r), pbr_Unknown = []\<rparr>"

definition record_of_proto :: "pb_NetworkAuditRecord \<Rightarrow> NetworkAuditRecord" where
  "record_of_proto m =
     \<lparr>nar_ProtocolVersion = pbr_ProtocolVersion m, nar_RecordID = pbr_RecordId m, nar_TaskID = pbr_TaskId m, nar_LeaseID = pbr_LeaseId m,
      nar_WorkerID = pbr_WorkerId m, nar_Provider = networkAuditProviderFromProto (pbr_Provider m),
      nar_Destination = networkAuditDestinationFromProto (pbr_Destination m),
      nar_ResourceUsage = networkAuditResourceUsageFromProto (pbr_ResourceUsage m), nar_Labels = copyStringMap (pbr_Labels m),
      nar_StartedAt = timeFromUnixNano (pbr_StartedAtUnixNano m), nar_FinishedAt = timeFromUnixNano (pbr_FinishedAtUnixNano m),
      nar_ObservedAt = timeFromUnixNano (pbr_ObservedAtUnixNano m)\<rparr>"

definition NetworkAuditRecordFromProto :: "(string \<Rightarrow> URL option) \<Rightarrow> pb_NetworkAuditRecord option \<Rightarrow> audit_error + NetworkAuditRecord" where
  "NetworkAuditRecordFromProto url message =
     (case message of
        None \<Rightarrow> Inl (NetworkAuditValidationError
          [networkAuditIssue NetworkAuditValidationRecordIDRequired ''record'' ''record is required''])
      | Some m \<Rightarrow>
          if pbr_StartedAtUnixNano m < 0 \<or> pbr_FinishedAtUnixNano m < 0 \<or> pbr_ObservedAtUnixNano m < 0
          then Inl (NetworkAuditValidationError
            [networkAuditIssue NetworkAuditValidationTimeRangeInvalid ''timestamp'' ''timestamp must not be negative''])
          else (let record = record_of_proto m
                in case NetworkAuditRecord_Validate url record of
                     Some err \<Rightarrow> Inl err
                   | None \<Rightarrow> Inr record))"

text \<open>A record by reflection: its nested messages, where they are set, and scalars, among which the labels count.\<close>

definition proto_name :: "string \<Rightarrow> string" where
  "proto_name name = ''workflow_plugin_compute_core.protocol.v1.'' @ name"

definition reflected_record :: "pb_NetworkAuditRecord \<Rightarrow> message" where
  "reflected_record m = Message (proto_name ''NetworkAuditRecord'') (pbr_Unknown m)
     ((case pbr_Provider m of None \<Rightarrow> []
       | Some p \<Rightarrow> [MessageField (Message (proto_name ''NetworkAuditProviderEvidence'') (pbp_Unknown p) [])]) @
      (case pbr_Destination m of None \<Rightarrow> []
       | Some d \<Rightarrow> [MessageField (Message (proto_name ''NetworkAuditDestination'') (pbd_Unknown d) [])]) @
      (case pbr_ResourceUsage m of None \<Rightarrow> []
       | Some u \<Rightarrow> [MessageField (Message (proto_name ''NetworkAuditResourceUsage'') (pbu_Unknown u) [])]) @
      [ScalarField])"

definition UnmarshalNetworkAuditRecordProtoStrict :: "(string \<Rightarrow> err + pb_NetworkAuditRecord) \<Rightarrow> string \<Rightarrow> err + pb_NetworkAuditRecord" where
  "UnmarshalNetworkAuditRecordProtoStrict unproto data =
     (case unproto data of
        Inl err \<Rightarrow> Inl err
      | Inr m \<Rightarrow> (case rejectUnknownProtoFields (Some (reflected_record m)) of Some err \<Rightarrow> Inl err | None \<Rightarrow> Inr m))"

text \<open>
  The digest of the schema. \<open>file\<close> is the generated file descriptor, \<open>to_proto\<close> its conversion, \<open>name_json\<close>
  gives the JSON of its name and \<open>marshal\<close> the deterministic encoder of a descriptor set.
\<close>

definition NetworkAuditDescriptorSet :: "('f \<Rightarrow> 'd) \<Rightarrow> 'f \<Rightarrow> 'd list" where
  "NetworkAuditDescriptorSet to_proto file = [to_proto file]"

definition NetworkAuditDescriptorDigest :: "(string \<Rightarrow> string) \<Rightarrow> ('d list \<Rightarrow> err + string) \<Rightarrow> ('f \<Rightarrow> 'd) \<Rightarrow> ('f \<Rightarrow> string) \<Rightarrow> 'f \<Rightarrow> string" where
  "NetworkAuditDescriptorDigest sha marshal to_proto name_json file =
     (case marshal (NetworkAuditDescriptorSet to_proto file) of
        Inl err \<Rightarrow> CanonicalHash sha (name_json file)
      | Inr data \<Rightarrow> (let sum = sha data in ''sha256:'' @ hex_encode sum))"

lemma descriptor_digest_valid:
  assumes "\<And>s. length (sha s) = 32"
  shows "validSHA256Digest (NetworkAuditDescriptorDigest sha marshal to_proto name_json file)"
  using assms by (auto simp: NetworkAuditDescriptorDigest_def CanonicalHash_valid CanonicalHash_valid [unfolded CanonicalHash_def, simplified]
      split: sum.split)

section \<open>Records over the wire\<close>

lemma when_issue_Nil [simp]: "when_issue b i = [] \<longleftrightarrow> \<not> b"
  by (simp add: when_issue_def)

lemma copyStringMap_id [simp]: "copyStringMap entries = entries"
proof -
  have "fold (\<lambda>(key, v) output. output @ [(key, v)]) entries acc = acc @ entries" for acc
    by (induction entries arbitrary: acc) auto
  then show ?thesis by (simp add: copyStringMap_def)
qed

lemma Validate_None: "NetworkAuditRecord_Validate url r = None \<longleftrightarrow> NetworkAuditRecord_ValidateNetworkAudit url r = []"
  by (simp add: NetworkAuditRecord_Validate_def Let_def)

lemma record_of_ToProto:
  "record_of_proto (NetworkAuditRecord_ToProto r) =
     r\<lparr>nar_StartedAt := timeFromUnixNano (unixNanoOrZero (nar_StartedAt r)), nar_FinishedAt := timeFromUnixNano (unixNanoOrZero (nar_FinishedAt r)),
       nar_ObservedAt := timeFromUnixNano (unixNanoOrZero (nar_ObservedAt r))\<rparr>"
  by (cases r) (simp add: record_of_proto_def NetworkAuditRecord_ToProto_def NetworkAuditProviderEvidence_toProto_def
      networkAuditProviderFromProto_def NetworkAuditDestination_toProto_def networkAuditDestinationFromProto_def
      networkAuditResourceUsageToProto_def networkAuditResourceUsageFromProto_def)

definition survives :: "time \<Rightarrow> bool" where
  "survives t \<longleftrightarrow> t = 0 \<or> unix_epoch < instant t \<and> instant t \<le> unix_epoch + int64_max"

lemma survives_iff: "timeFromUnixNano (unixNanoOrZero t) = t \<and> 0 \<le> unixNanoOrZero t \<longleftrightarrow> survives t"
  unfolding time_round_trip_iff survives_def
  by (cases t) (auto simp: unixNanoOrZero_def in64_def)

text \<open>C7. A valid audit record comes back unchanged from its protobuf message exactly when each of its times is
  unset or lies after the first instant of 1970 and in the range of an \<open>int64\<close> of nanoseconds. That
  instant itself, which validation accepts, is lost.\<close>

theorem audit_record_round_trip:
  assumes "NetworkAuditRecord_Validate url r = None"
  shows "NetworkAuditRecordFromProto url (Some (NetworkAuditRecord_ToProto r)) = Inr r \<longleftrightarrow>
    survives (nar_StartedAt r) \<and> survives (nar_FinishedAt r) \<and> survives (nar_ObservedAt r)"
proof -
  let ?m = "NetworkAuditRecord_ToProto r"
  have times: "record_of_proto ?m = r \<longleftrightarrow>
      timeFromUnixNano (unixNanoOrZero (nar_StartedAt r)) = nar_StartedAt r \<and>
      timeFromUnixNano (unixNanoOrZero (nar_FinishedAt r)) = nar_FinishedAt r \<and>
      timeFromUnixNano (unixNanoOrZero (nar_ObservedAt r)) = nar_ObservedAt r"
    unfolding record_of_ToProto by (cases r) simp
  have "NetworkAuditRecordFromProto url (Some ?m) = Inr r \<longleftrightarrow> record_of_proto ?m = r \<and>
      0 \<le> unixNanoOrZero (nar_StartedAt r) \<and> 0 \<le> unixNanoOrZero (nar_FinishedAt r) \<and> 0 \<le> unixNanoOrZero (nar_ObservedAt r)"
    using assms by (auto simp: NetworkAuditRecordFromProto_def Let_def not_less NetworkAuditRecord_ToProto_def [of r] split: option.splits)
  then show ?thesis unfolding times using survives_iff by blast
qed

lemma strict_has_no_unknown:
  assumes "UnmarshalNetworkAuditRecordProtoStrict unproto data = Inr m"
  shows "unproto data = Inr m" and "pbr_Unknown m = []"
    and "pbr_Provider m = Some p \<Longrightarrow> pbp_Unknown p = []" and "pbr_Destination m = Some d \<Longrightarrow> pbd_Unknown d = []"
    and "pbr_ResourceUsage m = Some u \<Longrightarrow> pbu_Unknown u = []"
  using assms by (auto simp: UnmarshalNetworkAuditRecordProtoStrict_def rejectUnknownProtoFields_def reflected_record_def
      split: sum.splits option.splits list.splits if_splits)

section \<open>Identifiers\<close>

lemma dec_inj: "dec m = dec n \<Longrightarrow> m = n"
  using dec_digits by metis

lemma dec_no_colon: "CHR '':'' \<notin> set (dec n)"
  using dec_digits [of n] by (auto simp: digits_def)

lemma split_at_first:
  assumes "xs @ c # ys = xs' @ c # ys'" "c \<notin> set xs" "c \<notin> set xs'"
  shows "xs = xs' \<and> ys = ys'"
  using assms by (simp add: append_eq_append_conv2) (auto simp: Cons_eq_append_conv append_eq_Cons_conv)

lemma frame_prefix:
  assumes "frame c @ xs = frame d @ ys"
  shows "c = d \<and> xs = ys"
proof -
  have "dec (length c) @ CHR '':'' # (c @ ch_nul @ xs) = dec (length d) @ CHR '':'' # (d @ ch_nul @ ys)"
    using assms by (simp add: frame_def)
  from split_at_first [OF this dec_no_colon dec_no_colon]
  have "length c = length d" "c @ ch_nul @ xs = d @ ch_nul @ ys" by (auto dest: dec_inj)
  then show ?thesis by simp
qed

lemma frames_inj: "concat (map frame cs) = concat (map frame ds) \<Longrightarrow> cs = ds"
proof (induction cs arbitrary: ds)
  case Nil
  then show ?case by (cases ds) (auto simp: frame_def)
next
  case (Cons c cs)
  then obtain d ds' where ds: "ds = d # ds'" by (cases ds) (auto simp: frame_def)
  then have "c = d \<and> concat (map frame cs) = concat (map frame ds')"
    using frame_prefix [of c "concat (map frame cs)" d "concat (map frame ds')"] Cons.prems by simp
  then show ?case using Cons.IH ds by simp
qed

text \<open>C22. An audit identifier identifies its components: the framing of what is hashed is injective, so that two
  different lists of components get the same identifier only when SHA-256 collides on the two texts they are
  hashed as, which differ.\<close>

theorem audit_id_injective:
  assumes "ProjectNetworkAuditID sha cs = Inr i" "ProjectNetworkAuditID sha ds = Inr i"
  shows "sha (concat (map frame cs)) = sha (concat (map frame ds)) \<and>
    (concat (map frame cs) = concat (map frame ds) \<longleftrightarrow> cs = ds)"
proof -
  from assms have "hex_encode (sha (concat (map frame cs))) = hex_encode (sha (concat (map frame ds)))"
    by (auto simp: ProjectNetworkAuditID_def split: if_splits)
  then have "sha (concat (map frame cs)) = sha (concat (map frame ds))" by (rule hex_encode_inj)
  then show ?thesis using frames_inj by blast
qed

section \<open>Destinations and references\<close>

lemma ProjectNetworkAuditDestination_idem:
  "ProjectNetworkAuditDestination url (nad_Value (fst (ProjectNetworkAuditDestination url raw))) = ProjectNetworkAuditDestination url raw"
  by (simp add: ProjectNetworkAuditDestination_def Let_def)

lemma stability_known: "s \<in> set [NetworkAuditRefStable, NetworkAuditRefEphemeral] \<Longrightarrow> s = ''stable'' \<or> s = ''ephemeral''"
  by (auto simp: enum)

lemma digest_one_line: "CHR 0x0A \<notin> set (CanonicalHash sha data)"
  using hex_encode_set by (auto simp: CanonicalHash_def)

definition ref_input :: "(string \<Rightarrow> string) \<Rightarrow> (NetworkAuditRecord \<Rightarrow> string) \<Rightarrow> string \<Rightarrow> NetworkAuditRecord \<Rightarrow> string \<Rightarrow> string" where
  "ref_input sha enc stability record ts = join_char (CHR 0x0A) [NetworkAuditRefKeyEpoch, stability, CanonicalHash sha (enc record), ts, []]"

lemma ref_input_inj:
  assumes "ref_input sha enc s r ts = ref_input sha enc s r' ts'"
  shows "sha (enc r) = sha (enc r') \<and> ts = ts'"
proof -
  from assms have "CanonicalHash sha (enc r) @ CHR 0x0A # (ts @ [CHR 0x0A]) = CanonicalHash sha (enc r') @ CHR 0x0A # (ts' @ [CHR 0x0A])"
    by (simp add: ref_input_def)
  from split_at_first [OF this digest_one_line digest_one_line] show ?thesis
    by (auto simp: CanonicalHash_def dest: hex_encode_inj)
qed

lemma Project_Inr:
  assumes "NetworkAuditRefProjector_Project url sha hmac enc stamp p r opts = Inr a"
  shows "NetworkAuditRecord_Validate url r = None \<and> narp_Stability a \<in> {''stable'', ''ephemeral''} \<and>
    narp_Timestamp a = stamp (ref_timestamp r opts) \<and>
    narp_Ref a = NetworkAuditRefKeyEpoch @ '':'' @ narp_Stability a @ '':'' @
      hex_encode (hmac (narpr_key p) (ref_input sha enc (narp_Stability a) r (narp_Timestamp a)))"
proof -
  let ?s = "if naro_Stability opts = [] then NetworkAuditRefStable else naro_Stability opts"
  have valid: "NetworkAuditRecord_Validate url r = None" and s: "?s \<in> set [NetworkAuditRefStable, NetworkAuditRefEphemeral]"
    using assms by (simp_all add: NetworkAuditRefProjector_Project_def Let_def split: option.splits if_splits)
  then have "a = \<lparr>narp_Ref = NetworkAuditRefKeyEpoch @ '':'' @ ?s @ '':'' @
        hex_encode (hmac (narpr_key p) (ref_input sha enc ?s r (stamp (ref_timestamp r opts)))),
      narp_Epoch = NetworkAuditRefKeyEpoch, narp_Stability = ?s, narp_Timestamp = stamp (ref_timestamp r opts)\<rparr>"
    using assms unfolding NetworkAuditRefProjector_Project_def ref_input_def Let_def by (simp split: if_splits)
  then show ?thesis using valid stability_known [OF s] by (simp only: NetworkAuditRefProjection.simps) blast
qed

lemma stability_tag:
  assumes "s @ CHR '':'' # xs = t @ CHR '':'' # ys" "s \<in> {''stable'', ''ephemeral''}" "t \<in> {''stable'', ''ephemeral''}"
  shows "s = t \<and> xs = ys"
  using assms by auto

text \<open>A keyed reference stands for one record: when the keyed hash does not collide on the two inputs, two projections under the same key
  with the same reference agree in stability and timestamp, and their records have the same digest.\<close>

theorem audit_ref_binds_record:
  assumes "NetworkAuditRefProjector_Project url sha hmac enc stamp p r opts = Inr a"
    and "NetworkAuditRefProjector_Project url sha hmac enc stamp p r' opts' = Inr b"
    and "narp_Ref a = narp_Ref b"
    and no_collision: "hmac (narpr_key p) (ref_input sha enc (narp_Stability a) r (narp_Timestamp a)) =
        hmac (narpr_key p) (ref_input sha enc (narp_Stability b) r' (narp_Timestamp b)) \<Longrightarrow>
      ref_input sha enc (narp_Stability a) r (narp_Timestamp a) = ref_input sha enc (narp_Stability b) r' (narp_Timestamp b)"
  shows "narp_Stability a = narp_Stability b \<and> narp_Timestamp a = narp_Timestamp b \<and> sha (enc r) = sha (enc r')"
proof -
  note a = Project_Inr [OF assms(1)] and b = Project_Inr [OF assms(2)]
  from assms(3) a b have "narp_Stability a @ CHR '':'' # hex_encode (hmac (narpr_key p) (ref_input sha enc (narp_Stability a) r (narp_Timestamp a))) =
      narp_Stability b @ CHR '':'' # hex_encode (hmac (narpr_key p) (ref_input sha enc (narp_Stability b) r' (narp_Timestamp b)))" by simp
  from stability_tag [OF this] a b have s: "narp_Stability a = narp_Stability b" and
    "hmac (narpr_key p) (ref_input sha enc (narp_Stability a) r (narp_Timestamp a)) =
     hmac (narpr_key p) (ref_input sha enc (narp_Stability b) r' (narp_Timestamp b))" by (auto dest: hex_encode_inj)
  from no_collision [OF this(2)] have "ref_input sha enc (narp_Stability a) r (narp_Timestamp a) = ref_input sha enc (narp_Stability a) r' (narp_Timestamp b)"
    by (simp add: s)
  from ref_input_inj [OF this] s show ?thesis by iprover
qed

section \<open>What an accepted record says\<close>

definition usage_counters :: "ResourceUsage \<Rightarrow> int list" where
  "usage_counters u = [ru_CPUMillis u, ru_GPUMillis u, ru_MaxMemoryBytes u, ru_NetworkRxBytes u, ru_NetworkTxBytes u, ru_WorkspaceBytes u, ru_OutputBytes u]"

lemma usage_None: "validateNetworkAuditResourceUsage u = None \<Longrightarrow> \<forall>n \<in> set (usage_counters u). 0 \<le> n"
  by (simp add: validateNetworkAuditResourceUsage_def usage_counters_def not_less)

text \<open>An accepted audit record is bounded and ordered: at most 32 labels, no negative counter, a valid destination, and a
  finish that neither precedes the start nor follows the observation. Without a finish time the
  observation is not checked: it may precede the start.\<close>

theorem audit_record_bounds:
  assumes "NetworkAuditRecord_Validate url r = None"
  shows "length (nar_Labels r) \<le> 32 \<and> (\<forall>n \<in> set (usage_counters (nar_ResourceUsage r)). 0 \<le> n) \<and>
    validNetworkAuditDestination url (nar_Destination r) \<and>
    (nar_FinishedAt r \<noteq> 0 \<longrightarrow> (nar_StartedAt r \<noteq> 0 \<longrightarrow> nar_StartedAt r \<le> nar_FinishedAt r) \<and>
      (nar_ObservedAt r \<noteq> 0 \<longrightarrow> nar_FinishedAt r \<le> nar_ObservedAt r)) \<and>
    (nar_FinishedAt r = 0 \<longrightarrow> NetworkAuditRecord_Validate url (r\<lparr>nar_ObservedAt := t\<rparr>) = None)"
proof -
  note parts = assms [unfolded Validate_None NetworkAuditRecord_ValidateNetworkAudit_def append_is_Nil_conv when_issue_Nil]
  from parts have "validateNetworkAuditLabels (nar_Labels r) = []" by (elim conjE)
  then have labels: "length (nar_Labels r) \<le> 32" by (simp add: validateNetworkAuditLabels_def NetworkAuditMaxLabels_def)
  from parts have "\<not> validateNetworkAuditResourceUsage (nar_ResourceUsage r) \<noteq> None" by (elim conjE)
  then have usage: "\<forall>n \<in> set (usage_counters (nar_ResourceUsage r)). 0 \<le> n" by (intro usage_None) simp
  from parts have "NetworkAuditDestination_validateNetworkAudit url (nar_Destination r) = []" by (elim conjE)
  then have destination: "validNetworkAuditDestination url (nar_Destination r)"
    by (simp add: NetworkAuditDestination_validateNetworkAudit_def split: if_splits)
  from parts have finish: "\<not> (nar_StartedAt r \<noteq> 0 \<and> nar_FinishedAt r \<noteq> 0 \<and> nar_FinishedAt r < nar_StartedAt r)" by (elim conjE)
  from parts have observed: "\<not> (nar_FinishedAt r \<noteq> 0 \<and> nar_ObservedAt r \<noteq> 0 \<and> nar_ObservedAt r < nar_FinishedAt r)" by (elim conjE)
  have "nar_FinishedAt r = 0 \<Longrightarrow> NetworkAuditRecord_Validate url (r\<lparr>nar_ObservedAt := t\<rparr>) = NetworkAuditRecord_Validate url r"
    by (simp add: NetworkAuditRecord_Validate_def NetworkAuditRecord_ValidateNetworkAudit_def)
  then show ?thesis using labels usage destination finish observed assms by (metis not_less)
qed

section \<open>Examples\<close>

definition demo_record :: "int \<Rightarrow> NetworkAuditRecord" where
  "demo_record t = \<lparr>nar_ProtocolVersion = Version, nar_RecordID = ''r'', nar_TaskID = [], nar_LeaseID = [], nar_WorkerID = ''w'',
     nar_Provider = \<lparr>nape_ProviderID = ''p'', nape_PluginName = [], nape_PluginVersion = [], nape_ContractID = [], nape_ContractVersion = [],
       nape_DescriptorDigest = []\<rparr>,
     nar_Destination = \<lparr>nad_Kind = NetworkAuditDestinationSHA256, nad_Value = demo_sha\<rparr>,
     nar_ResourceUsage = \<lparr>ru_CPUMillis = 1, ru_GPUMillis = 0, ru_MaxMemoryBytes = 0, ru_NetworkRxBytes = 0, ru_NetworkTxBytes = 0,
       ru_WorkspaceBytes = 0, ru_OutputBytes = 0, ru_LimitHit = []\<rparr>,
     nar_Labels = [(''i'', ''x'')], nar_StartedAt = Time (unix_epoch + t), nar_FinishedAt = 0, nar_ObservedAt = 0\<rparr>"

lemma demo_record_accepted: "NetworkAuditRecord_Validate url (demo_record t) = None"
proof -
  have "plain_id ''r''" "plain_id ''w''" "plain_id ''p''" "plain_id ''i''" "trim_space ''x'' = ''x''" "validSHA256Ref demo_sha"
    "trim_space demo_sha = demo_sha" "\<not> contains_any demo_sha (ws_chars @ ch_nul)" "demo_sha \<noteq> []" "\<not> contains_any ''x'' (ctl_chars @ ch_nul)"
    by code_simp+
  moreover have "NetworkAuditDestinationSHA256 \<noteq> NetworkAuditDestinationEndpoint" by (simp add: enum)
  ultimately show ?thesis
    by (simp add: Validate_None NetworkAuditRecord_ValidateNetworkAudit_def demo_record_def NetworkAuditProtocolVersion_def
        NetworkAuditProviderEvidence_validateNetworkAudit_def NetworkAuditDestination_validateNetworkAudit_def validNetworkAuditDestination_def
        validateNetworkAuditResourceUsage_def validateNetworkAuditLabels_def NetworkAuditMaxLabels_def)
qed

lemma audit_record_round_trip_witness:
  "NetworkAuditRecordFromProto (\<lambda>_. None) (Some (NetworkAuditRecord_ToProto (demo_record 5))) = Inr (demo_record 5) \<and>
   NetworkAuditRecordFromProto (\<lambda>_. None) (Some (NetworkAuditRecord_ToProto (demo_record 0))) \<noteq> Inr (demo_record 0)"
  using audit_record_round_trip [OF demo_record_accepted [of "\<lambda>_. None" 5]] audit_record_round_trip [OF demo_record_accepted [of "\<lambda>_. None" 0]]
  by (simp add: demo_record_def survives_def unix_epoch_def)

lemma audit_id_injective_witness:
  "ProjectNetworkAuditID (\<lambda>s. s) [''a'', ''bc''] = ProjectNetworkAuditID (\<lambda>s. s) [''a'', ''bc''] \<and>
   ProjectNetworkAuditID (\<lambda>s. s) [''ab'', ''c''] \<noteq> ProjectNetworkAuditID (\<lambda>s. s) [''a'', ''bc'']"
proof -
  have "\<not> isl (ProjectNetworkAuditID (\<lambda>s. s) [''a'', ''bc''])" by code_simp
  then obtain i where "ProjectNetworkAuditID (\<lambda>s. s) [''a'', ''bc''] = Inr i" by (metis isl_def sum.exhaust)
  then show ?thesis using audit_id_injective [of "\<lambda>s. s" "[''ab'', ''c'']" i "[''a'', ''bc'']"] by auto
qed

lemma audit_record_bounds_witness:
  "NetworkAuditRecord_Validate (\<lambda>_. None) ((demo_record 5)\<lparr>nar_ObservedAt := Time (unix_epoch + 1)\<rparr>) = None"
proof -
  have "nar_FinishedAt (demo_record 5) = 0" by (simp add: demo_record_def)
  then show ?thesis using audit_record_bounds [OF demo_record_accepted [of "\<lambda>_. None" 5], of "Time (unix_epoch + 1)"] by iprover
qed

lemma audit_ref_binds_record_witness:
  "\<exists>a. NetworkAuditRefProjector_Project (\<lambda>_. None) (\<lambda>s. s) (\<lambda>_ s. s) (\<lambda>_. ''record'') (\<lambda>_. ''now'') \<lparr>narpr_key = replicate 32 CHR ''k''\<rparr>
     (demo_record 5) \<lparr>naro_Stability = [], naro_Timestamp = 0\<rparr> = Inr a \<and> narp_Stability a = ''stable''"
proof -
  let ?p = "\<lambda>s. NetworkAuditRefProjector_Project (\<lambda>_. None) (\<lambda>s. s) (\<lambda>_ s. s) (\<lambda>_. ''record'') (\<lambda>_. ''now'') \<lparr>narpr_key = replicate 32 CHR ''k''\<rparr>
     (demo_record 5) \<lparr>naro_Stability = s, naro_Timestamp = 0\<rparr>"
  obtain a b where ab: "?p [] = Inr a" "?p ''stable'' = Inr b" "narp_Ref a = narp_Ref b" "narp_Stability b = ''stable''"
    by (simp add: NetworkAuditRefProjector_Project_def demo_record_accepted NetworkAuditRefStable_def Let_def)
  from audit_ref_binds_record [OF ab(1-3)] ab show ?thesis by auto
qed

end
