(* ===== verification/Services.thy ===== *)
theory Services
  imports ScopedRefs GoNet Paths Policies
begin

text \<open>
  \<open>protocol/types.go\<close>, lines 2082 to 2100 and 2170 to 2560: services and node services, with what
  they are run from (image or component), their environment and files, ports, health checks, status
  probes, ingress and peer policies. The parameter \<open>lower\<close> is \<open>strings.ToLower\<close>: the normal form
  of a peer's endpoint is a lower-case text, whose characters need not be ASCII.
\<close>

section \<open>Records\<close>

record EnvRef =
  enre_Name :: string
  enre_ValueRef :: string
  enre_SecretRef :: string

record WorkloadFileRef =
  wfr_Path :: string
  wfr_ValueRef :: string
  wfr_SecretRef :: string
  wfr_Template :: string
  wfr_Refs :: "EnvRef list"
  wfr_Mode :: int

record ServiceStatusProbe =
  ssp_Command :: "string list"
  ssp_TimeoutSeconds :: int
  ssp_MaxPreviewBytes :: int

record ServicePort =
  sp_Name :: string
  sp_Port :: int
  sp_Protocol :: string

record HealthCheck =
  hc_Kind :: string
  hc_Path :: string
  hc_Command :: "string list"
  hc_IntervalSeconds :: int
  hc_TimeoutSeconds :: int

record IngressPolicy =
  ip_Mode :: string
  ip_AllowedCIDRs :: "string list"
  ip_AuthRequired :: bool

record PeerPolicy =
  pp_Mode :: string
  pp_AllowedPeers :: "string list"
  pp_EgressAllowlist :: "string list"

record ServiceWorkload =
  sw_ImageRef :: string
  sw_ComponentRef :: string
  sw_ComponentDigest :: string
  sw_Command :: "string list"
  sw_Ports :: "ServicePort list"
  sw_HealthCheck :: HealthCheck
  sw_Ingress :: IngressPolicy
  sw_DataDirRef :: string
  sw_DataMountPath :: string
  sw_Env :: "EnvRef list"
  sw_Files :: "WorkloadFileRef list"
  sw_StatusProbe :: ServiceStatusProbe

record NodeServiceWorkload =
  nsw_ImageRef :: string
  nsw_ComponentRef :: string
  nsw_ComponentDigest :: string
  nsw_Chain :: string
  nsw_Network :: string
  nsw_DataDirRef :: string
  nsw_RPCSecretRef :: string
  nsw_PeerPolicy :: PeerPolicy
  nsw_ArtifactRefs :: "string list"
  nsw_Command :: "string list"
  nsw_HealthCheck :: HealthCheck
  nsw_Env :: "EnvRef list"

section \<open>References and files\<close>

definition EnvRef_Validate :: "EnvRef \<Rightarrow> error" where
  "EnvRef_Validate r =
     join
     (fails (enre_Name r = [])
        (New ''name is required'') @
      fails (enre_ValueRef r = [] \<and> enre_SecretRef r = [])
        (New ''requires value_ref or secret_ref'') @
      fails (enre_ValueRef r \<noteq> [] \<and> enre_SecretRef r \<noteq> [])
        (New ''cannot set both value_ref and secret_ref''))"

definition direct_refs :: "WorkloadFileRef \<Rightarrow> nat" where
  "direct_refs r = (if wfr_ValueRef r \<noteq> [] then 1 else 0) + (if wfr_SecretRef r \<noteq> [] then 1 else 0)"

definition WorkloadFileRef_Validate :: "WorkloadFileRef \<Rightarrow> error" where
  "WorkloadFileRef_Validate r =
     (let trimmedPath = trim_space (wfr_Path r);
          cleanPath = path_clean trimmedPath;
          directRefs = direct_refs r
      in join
     ((if trimmedPath = [] then [New ''path is required'']
       else fails (trimmedPath \<noteq> wfr_Path r \<or> has_prefix trimmedPath ''/'' \<or> contains_str trimmedPath [CHR 0x5C] \<or>
                   cleanPath = ''.'' \<or> has_prefix cleanPath ''../'' \<or> cleanPath = ''..'')
              (New ''path must be a relative workspace path'')) @
      (if wfr_Template r = [] then
         fails (directRefs = 0)
           (New ''requires value_ref, secret_ref, or template'') @
         fails (wfr_Refs r \<noteq> [])
           (New ''refs require template'')
       else fails (directRefs > 0)
              (New ''template cannot be combined with value_ref or secret_ref'')) @
      fails (directRefs > 1)
        (New ''cannot set both value_ref and secret_ref'') @
      fails (wfr_Mode r > 511)
        (New ''mode must be an octal file permission <= 0777'') @
      each (\<lambda>i ref.
         wraps ''refs[%d]: %w'' [Num (int i)] (EnvRef_Validate ref)) (wfr_Refs r)))"

definition validateProviderComponentRef :: "string \<Rightarrow> string \<Rightarrow> error" where
  "validateProviderComponentRef name v =
     (let trimmed = trim_space v
      in if trimmed = [] then Some (Errorf ''%s is required'' [Str name])
         else if v \<noteq> trimmed then Some (Errorf ''%s must not contain surrounding whitespace'' [Str name])
         else if contains_any v (ws_chars @ ch_nul)
         then Some (Errorf ''%s must not contain whitespace or NUL'' [Str name])
         else if has_prefix v ''provider://''
         then (case cut_char (CHR ''/'') (trim_prefix v ''provider://'') of
                 None \<Rightarrow> Some (Errorf ''%s must include provider plugin and component path'' [Str name])
               | Some (pluginID, componentPath) \<Rightarrow>
                   if trim_space pluginID = [] \<or> trim_space componentPath = []
                   then Some (Errorf ''%s must include provider plugin and component path'' [Str name])
                   else None)
         else Some (Errorf ''%s must use provider:// plugin component ref'' [Str name]))"

definition validateImageOrComponentRef :: "string \<Rightarrow> string \<Rightarrow> string \<Rightarrow> string \<Rightarrow> err list" where
  "validateImageOrComponentRef kind imageRef componentRef componentDigest =
     (let imageRefSet = trim_space imageRef \<noteq> [] in
        (let componentRefSet = trim_space componentRef \<noteq> [] in
           fails (imageRefSet \<and> componentRefSet)
             (New ''image_ref and component_ref are mutually exclusive'') @
           fails (\<not> imageRefSet \<and> \<not> componentRefSet)
             (New ''image_ref or component_ref is required'') @
           fails (imageRefSet \<and> (trim_space imageRef \<noteq> imageRef \<or> contains_any imageRef ([CHR 0x09] @ [CHR 0x0D] @ [CHR 0x0A] @ '' '' @ [CHR 0x00])))
             (Errorf ''%s image_ref must not contain whitespace or NUL'' [Str kind]) @
           (if componentRefSet then
              reports (validateProviderComponentRef ''component_ref'' componentRef) @
              fails (\<not> validSHA256Digest componentDigest)
                (New ''component_digest must be sha256:<64 hex chars>'')
            else fails (trim_space componentDigest \<noteq> [])
                   (New ''component_digest requires component_ref''))))"

section \<open>Services\<close>

definition ServiceStatusProbe_Validate :: "ServiceStatusProbe \<Rightarrow> error" where
  "ServiceStatusProbe_Validate p =
     join
     (each (\<lambda>i arg.
         fails (trim_space arg = [])
           (Errorf ''command[%d] is required'' [Num (int i)])) (ssp_Command p) @
      fails (ssp_TimeoutSeconds p < 0)
        (New ''timeout_seconds must not be negative'') @
      fails (ssp_MaxPreviewBytes p < 0 \<or> ssp_MaxPreviewBytes p > 4096)
        (New ''max_preview_bytes must be between 0 and 4096''))"

definition ServicePort_Validate :: "ServicePort \<Rightarrow> error" where
  "ServicePort_Validate p =
     join
     (fails (sp_Port p \<le> 0 \<or> sp_Port p > 65535)
        (New ''port must be between 1 and 65535'') @
      (if sp_Protocol p \<in> set [''http'', ''https'', ''tcp''] then
         []
       else [Errorf ''protocol %q is unsupported'' [Str (sp_Protocol p)]]))"

definition HealthCheck_IsZero :: "HealthCheck \<Rightarrow> bool" where
  "HealthCheck_IsZero h =
     (hc_Kind h = [] \<and> hc_Path h = [] \<and> (hc_Command h) = [] \<and> hc_IntervalSeconds h = 0 \<and> hc_TimeoutSeconds h = 0)"

definition HealthCheck_Validate :: "HealthCheck \<Rightarrow> error" where
  "HealthCheck_Validate h =
     join
     ((if hc_Kind h = ''http'' then
         fails (hc_Path h = [])
           (New ''path is required for http health check'')
       else if hc_Kind h = ''command'' then
         fails ((hc_Command h) = [])
           (New ''command is required for command health check'')
       else [Errorf ''kind %q is unsupported'' [Str (hc_Kind h)]]) @
      fails (hc_IntervalSeconds h \<le> 0)
        (New ''interval_seconds must be positive'') @
      fails (hc_TimeoutSeconds h \<le> 0)
        (New ''timeout_seconds must be positive'') @
      fails (hc_IntervalSeconds h > 0 \<and> hc_TimeoutSeconds h > 0 \<and> hc_TimeoutSeconds h > hc_IntervalSeconds h)
        (New ''timeout_seconds must not exceed interval_seconds''))"

definition IngressPolicy_Validate :: "IngressPolicy \<Rightarrow> error" where
  "IngressPolicy_Validate p =
     join
     ((if ip_Mode p = ''none'' then
         fails (ip_AuthRequired p)
           (New ''auth_required must be false for headless ingress'')
       else if ip_Mode p \<in> set [''internal'', ''private'', ''public''] then
         fails (\<not> ip_AuthRequired p)
           (New ''auth_required must be true'')
       else [Errorf ''mode %q is unsupported'' [Str (ip_Mode p)]]) @
      each (\<lambda>i cidr.
         fails (\<not> parses_prefix (trim_space cidr))
           (Errorf ''allowed_cidrs[%d] must be a valid CIDR prefix: %w'' [Num (int i)])) (ip_AllowedCIDRs p))"

text \<open>An endpoint of a peer and its normal form.\<close>

definition validatePeerEndpoint :: "(string \<Rightarrow> string) \<Rightarrow> string \<Rightarrow> nat \<Rightarrow> string \<Rightarrow> err + string" where
  "validatePeerEndpoint lower field index endpoint =
     (let endpoint = trim_space (lower endpoint)
      in if endpoint = [] then Inl (Errorf ''%s[%d] is required'' [Str field, Num (int index)])
         else if contains_str endpoint ''://'' \<or> contains_any endpoint ''/?#@'' \<or> contains_str endpoint ''*''
         then Inl (Errorf ''%s[%d] must be host:port without scheme, path, userinfo, query, fragment, or wildcard'' [Str field, Num (int index)])
         else (case SplitHostPort endpoint of
             None \<Rightarrow> Inl (Errorf ''%s[%d] must be host:port: %w'' [Str field, Num (int index)])
           | Some (host, port) \<Rightarrow>
               (let host = trim_space (trim_brackets host)
                in if host = [] \<or> port = []
                   then Inl (Errorf ''%s[%d] must include host and port'' [Str field, Num (int index)])
                   else (case atoi port of
                       None \<Rightarrow> Inl (Errorf ''%s[%d] port must be numeric and between 1 and 65535'' [Str field, Num (int index)])
                     | Some portNumber \<Rightarrow>
                         if portNumber \<le> 0 \<or> portNumber > 65535
                         then Inl (Errorf ''%s[%d] port must be numeric and between 1 and 65535'' [Str field, Num (int index)])
                         else if contains_any host (ws_chars @ '':'') \<and> \<not> parses_ip host
                         then Inl (Errorf ''%s[%d] host is invalid'' [Str field, Num (int index)])
                         else Inr (JoinHostPort host (dec (nat portNumber)))))))"

definition endpoint_errs :: "(string \<Rightarrow> string) \<Rightarrow> string \<Rightarrow> nat \<Rightarrow> string \<Rightarrow> err list" where
  \<comment> \<open>the loop body of \<open>public-chain-peer\<close>\<close>
  "endpoint_errs lower field i endpoint =
     (case validatePeerEndpoint lower field i endpoint of Inl err \<Rightarrow> [err] | Inr _ \<Rightarrow> [])"

fun egress_loop :: "(string \<Rightarrow> string) \<Rightarrow> nat \<Rightarrow> string set \<Rightarrow> string list \<Rightarrow> err list \<times> string set" where
  \<comment> \<open>the loop that fills \<open>egress\<close>: the errors it appends and the set it leaves\<close>
  "egress_loop lower i egress [] = ([], egress)"
| "egress_loop lower i egress (endpoint # endpoints) =
     (case validatePeerEndpoint lower ''egress_allowlist'' i endpoint of
        Inl err \<Rightarrow> (let (errs, egress) = egress_loop lower (Suc i) egress endpoints in (err # errs, egress))
      | Inr normalized \<Rightarrow> egress_loop lower (Suc i) (insert normalized egress) endpoints)"

definition allowlist_errs :: "(string \<Rightarrow> string) \<Rightarrow> string set \<Rightarrow> nat \<Rightarrow> string \<Rightarrow> err list" where
  \<comment> \<open>the body of the loop over the peers of an allowlist\<close>
  "allowlist_errs lower egress i peer =
     (case validatePeerEndpoint lower ''allowed_peers'' i peer of
        Inl err \<Rightarrow> [err]
      | Inr normalized \<Rightarrow>
          fails (normalized \<notin> egress) (Errorf ''allowed_peers[%d] must be present in egress_allowlist'' [Num (int i)]))"

definition PeerPolicy_Validate :: "(string \<Rightarrow> string) \<Rightarrow> PeerPolicy \<Rightarrow> error" where
  "PeerPolicy_Validate lower p =
     (if pp_Mode p = ''isolated'' then None
      else if pp_Mode p = ''public-chain-peer'' then
        join
        (each (endpoint_errs lower ''egress_allowlist'') (pp_EgressAllowlist p) @
         each (endpoint_errs lower ''allowed_peers'') (pp_AllowedPeers p))
      else if pp_Mode p = ''allowlist'' then
        (let (errs, egress) = egress_loop lower 0 {} (pp_EgressAllowlist p)
         in join
        (fails (pp_AllowedPeers p = [])
           (New ''allowed_peers is required for allowlist mode'') @
         fails (pp_EgressAllowlist p = [])
           (New ''egress_allowlist is required for allowlist mode'') @
         errs @
         each (allowlist_errs lower egress) (pp_AllowedPeers p)))
      else Some (Errorf ''mode %q is unsupported'' [Str (pp_Mode p)]))"

definition ServiceWorkload_Validate :: "ServiceWorkload \<Rightarrow> error" where
  "ServiceWorkload_Validate w =
     join
     (validateImageOrComponentRef ''service'' (sw_ImageRef w) (sw_ComponentRef w) (sw_ComponentDigest w) @
      (let headless = ip_Mode (sw_Ingress w) = ''none'' in
         (if headless then
            fails ((sw_Ports w) \<noteq> [])
              (New ''ports must be empty for headless service'') @
            fails (hc_Kind (sw_HealthCheck w) \<noteq> ''command'')
              (New ''headless service requires command health check'')
          else fails ((sw_Ports w) = [])
                 (New ''ports is required'')) @
         each (\<lambda>i port.
            wraps ''ports[%d]: %w'' [Num (int i)] (ServicePort_Validate port)) (sw_Ports w) @
         wraps ''health_check: %w'' [] (HealthCheck_Validate (sw_HealthCheck w)) @
         wraps ''ingress: %w'' [] (IngressPolicy_Validate (sw_Ingress w)) @
         (if sw_DataDirRef w \<noteq> [] then
            reports (validateScopedRef ''data_dir_ref'' (sw_DataDirRef w) ''volume://'') @
            (if trim_space (sw_DataMountPath w) = [] then
               [New ''data_mount_path is required with data_dir_ref'']
             else fails (\<not> has_prefix (sw_DataMountPath w) ''/'' \<or> contains_str (sw_DataMountPath w) ''..'')
                    (New ''data_mount_path must be an absolute container path''))
          else fails (sw_DataMountPath w \<noteq> [])
                 (New ''data_mount_path requires data_dir_ref'')) @
         each (\<lambda>i ref.
            wraps ''env[%d]: %w'' [Num (int i)] (EnvRef_Validate ref)) (sw_Env w) @
         each (\<lambda>i ref.
            wraps ''files[%d]: %w'' [Num (int i)] (WorkloadFileRef_Validate ref)) (sw_Files w) @
         wraps ''status_probe: %w'' [] (ServiceStatusProbe_Validate (sw_StatusProbe w))))"

definition NodeServiceWorkload_Validate :: "(string \<Rightarrow> string) \<Rightarrow> NodeServiceWorkload \<Rightarrow> error" where
  "NodeServiceWorkload_Validate lower w =
     join
     (validateImageOrComponentRef ''node_service'' (nsw_ImageRef w) (nsw_ComponentRef w) (nsw_ComponentDigest w) @
      fails (nsw_Chain w = [])
        (New ''chain is required'') @
      fails (nsw_Network w = [])
        (New ''network is required'') @
      (if nsw_DataDirRef w = [] then
         [New ''data_dir_ref is required'']
       else reports (validateScopedRef ''data_dir_ref'' (nsw_DataDirRef w) ''volume://'')) @
      (if nsw_RPCSecretRef w = [] then
         [New ''rpc_secret_ref is required'']
       else reports (validateScopedRef ''rpc_secret_ref'' (nsw_RPCSecretRef w) ''secret://'')) @
      wraps ''peer_policy: %w'' [] (PeerPolicy_Validate lower (nsw_PeerPolicy w)) @
      (if HealthCheck_IsZero (nsw_HealthCheck w) then
         [New ''health_check is required'']
       else wraps ''health_check: %w'' [] (HealthCheck_Validate (nsw_HealthCheck w))) @
      each (\<lambda>i ref.
         wraps ''env[%d]: %w'' [Num (int i)] (EnvRef_Validate ref)) (nsw_Env w) @
      each (\<lambda>i ref.
         reports (validateScopedRef (at_index ''artifact_refs'' i []) ref ''artifact://'')) (nsw_ArtifactRefs w) @
      each (\<lambda>i arg.
         fails (trim_space arg = [])
           (Errorf ''command[%d] is required'' [Num (int i)])) (nsw_Command w))"

section \<open>Content of files and environment\<close>

definition one_of3 :: "bool \<Rightarrow> bool \<Rightarrow> bool \<Rightarrow> bool" where
  "one_of3 a b c \<longleftrightarrow> a \<and> \<not> b \<and> \<not> c \<or> \<not> a \<and> b \<and> \<not> c \<or> \<not> a \<and> \<not> b \<and> c"

lemma EnvRef_None [validation]:
  "EnvRef_Validate r = None \<longleftrightarrow> enre_Name r \<noteq> [] \<and> (enre_ValueRef r = [] \<longleftrightarrow> enre_SecretRef r \<noteq> [])"
  by (auto simp: EnvRef_Validate_def)

lemma workspace_path_iff:
  "\<not> (if trim_space v = [] then True
      else trim_space v \<noteq> v \<or> has_prefix (trim_space v) ''/'' \<or> contains_str (trim_space v) [CHR 0x5C] \<or>
        path_clean (trim_space v) = ''.'' \<or> has_prefix (path_clean (trim_space v)) ''../'' \<or> path_clean (trim_space v) = ''..'') \<longleftrightarrow>
   v \<noteq> [] \<and> trim_space v = v \<and> \<not> has_prefix v ''/'' \<and> CHR 0x5C \<notin> set v \<and>
   (\<exists>d. walk 0 (split_char (CHR ''/'') v) = Some d \<and> 0 < d)"
proof (cases "v \<noteq> [] \<and> trim_space v = v \<and> \<not> has_prefix v ''/''")
  case True
  then show ?thesis using clean_relative [of v] by (auto simp: contains_str_single)
qed auto

text \<open>C26. A file of a workload is accepted exactly when its path is relative, without surrounding white space and without
  backslashes and, followed from the workspace root, never leaves it and ends below it, its content has exactly one source (value, secret or template),
  references only fill a template, each named and from either a value or a secret, and its mode is at most 0777.
  Unlike the other workspace paths, it may contain a NUL byte.\<close>

theorem WorkloadFileRef_iff:
  assumes "0 \<le> wfr_Mode r"
  shows "WorkloadFileRef_Validate r = None \<longleftrightarrow>
    wfr_Path r \<noteq> [] \<and> trim_space (wfr_Path r) = wfr_Path r \<and> \<not> has_prefix (wfr_Path r) ''/'' \<and> CHR 0x5C \<notin> set (wfr_Path r) \<and>
    (\<exists>d. walk 0 (split_char (CHR ''/'') (wfr_Path r)) = Some d \<and> 0 < d) \<and>
    one_of3 (wfr_ValueRef r \<noteq> []) (wfr_SecretRef r \<noteq> []) (wfr_Template r \<noteq> []) \<and>
    (wfr_Refs r \<noteq> [] \<longrightarrow> wfr_Template r \<noteq> []) \<and>
    (\<forall>ref \<in> set (wfr_Refs r). enre_Name ref \<noteq> [] \<and> (enre_ValueRef ref = [] \<longleftrightarrow> enre_SecretRef ref \<noteq> [])) \<and>
    wfr_Mode r \<in> {0..511}"
proof -
  have path: "(if trim_space v = [] then [e] else fails (trim_space v \<noteq> v \<or> has_prefix (trim_space v) ''/'' \<or> contains_str (trim_space v) [CHR 0x5C] \<or>
        path_clean (trim_space v) = ''.'' \<or> has_prefix (path_clean (trim_space v)) ''../'' \<or> path_clean (trim_space v) = ''..'') e') = [] \<longleftrightarrow>
      v \<noteq> [] \<and> trim_space v = v \<and> \<not> has_prefix v ''/'' \<and> CHR 0x5C \<notin> set v \<and>
      (\<exists>d. walk 0 (split_char (CHR ''/'') v) = Some d \<and> 0 < d)" for v e e'
    unfolding workspace_path_iff [symmetric] by simp
  have source: "(if wfr_Template r = [] then fails (direct_refs r = 0) e1 @ fails (wfr_Refs r \<noteq> []) e2 else fails (0 < direct_refs r) e3) = [] \<and>
      fails (1 < direct_refs r) e4 = [] \<longleftrightarrow>
      one_of3 (wfr_ValueRef r \<noteq> []) (wfr_SecretRef r \<noteq> []) (wfr_Template r \<noteq> []) \<and> (wfr_Refs r \<noteq> [] \<longrightarrow> wfr_Template r \<noteq> [])"
    for e1 e2 e3 e4 by (auto simp: direct_refs_def one_of3_def)
  show ?thesis
    unfolding WorkloadFileRef_Validate_def Let_def join_None append_is_Nil_conv path
    using assms source by (auto simp: EnvRef_None)
qed

section \<open>Exposure of a service\<close>

text \<open>C27. A service is exposed or headless, never in between: it has no ports exactly when its ingress has mode
  none, which is exactly when it asks for no authentication; a headless one is checked by a command;
  every port is a TCP port number, and every allowed range of addresses parses.\<close>

theorem service_exposure:
  assumes "ServiceWorkload_Validate w = None"
  shows "(sw_Ports w = [] \<longleftrightarrow> ip_Mode (sw_Ingress w) = ''none'') \<and>
    (ip_AuthRequired (sw_Ingress w) \<longleftrightarrow> ip_Mode (sw_Ingress w) \<noteq> ''none'') \<and>
    (ip_Mode (sw_Ingress w) = ''none'' \<longrightarrow> hc_Kind (sw_HealthCheck w) = ''command'' \<and> hc_Command (sw_HealthCheck w) \<noteq> []) \<and>
    (\<forall>port \<in> set (sw_Ports w). 1 \<le> sp_Port port \<and> sp_Port port \<le> 65535) \<and>
    (\<forall>cidr \<in> set (ip_AllowedCIDRs (sw_Ingress w)). parses_prefix (trim_space cidr)) \<and>
    0 < hc_TimeoutSeconds (sw_HealthCheck w) \<and> hc_TimeoutSeconds (sw_HealthCheck w) \<le> hc_IntervalSeconds (sw_HealthCheck w)"
proof -
  note parts = assms [unfolded ServiceWorkload_Validate_def Let_def join_None append_is_Nil_conv]
  then have health: "HealthCheck_Validate (sw_HealthCheck w) = None" and ingress: "IngressPolicy_Validate (sw_Ingress w) = None"
    and ports: "\<forall>port \<in> set (sw_Ports w). ServicePort_Validate port = None"
    and mode: "if ip_Mode (sw_Ingress w) = ''none'' then sw_Ports w = [] \<and> hc_Kind (sw_HealthCheck w) = ''command'' else sw_Ports w \<noteq> []"
    by (simp_all split: if_splits)
  have c1: "ip_AuthRequired (sw_Ingress w) \<longleftrightarrow> ip_Mode (sw_Ingress w) \<noteq> ''none''"
    "\<forall>cidr \<in> set (ip_AllowedCIDRs (sw_Ingress w)). parses_prefix (trim_space cidr)"
    using ingress unfolding IngressPolicy_Validate_def join_None append_is_Nil_conv by (simp_all split: if_splits)
  have c2: "hc_Kind (sw_HealthCheck w) = ''command'' \<longrightarrow> hc_Command (sw_HealthCheck w) \<noteq> []"
    "0 < hc_TimeoutSeconds (sw_HealthCheck w) \<and> hc_TimeoutSeconds (sw_HealthCheck w) \<le> hc_IntervalSeconds (sw_HealthCheck w)"
    using health unfolding HealthCheck_Validate_def join_None append_is_Nil_conv by (auto split: if_splits)
  have c3: "\<forall>port \<in> set (sw_Ports w). 1 \<le> sp_Port port \<and> sp_Port port \<le> 65535"
    using ports by (auto simp: ServicePort_Validate_def)
  show ?thesis using c1 c2 c3 mode by (simp split: if_splits)
qed

section \<open>Endpoints of peers\<close>

text \<open>On ASCII text, \<open>strings.ToLower\<close> maps letter by letter.\<close>

definition ascii :: "string \<Rightarrow> bool" where
  "ascii s \<longleftrightarrow> list_all (\<lambda>c. (of_char c :: nat) < 128) s"

lemma ascii_subset: "ascii s \<Longrightarrow> set t \<subseteq> set s \<Longrightarrow> ascii t"
  by (auto simp: ascii_def list_all_iff)

lemma lower_letter: "d \<in> set lower_letters \<Longrightarrow> lower_char d = d \<and> (of_char d :: nat) < 128"
proof -
  have "list_all (\<lambda>d. lower_char d = d \<and> (of_char d :: nat) < 128) lower_letters" by code_simp
  then show "d \<in> set lower_letters \<Longrightarrow> ?thesis" by (simp add: list_all_iff)
qed

lemma lower_char_cases: "lower_char c = c \<or> lower_char c \<in> set lower_letters"
  by (auto simp: lower_char_def split: option.splits dest!: map_of_SomeD set_zip_rightD)

lemma lower_char_idem: "lower_char (lower_char c) = lower_char c"
  using lower_char_cases [of c] lower_letter by auto

lemma lower_char_ascii: "(of_char c :: nat) < 128 \<Longrightarrow> (of_char (lower_char c) :: nat) < 128"
  using lower_char_cases [of c] lower_letter by auto

lemma space_len_ascii:
  assumes "ascii s" and "s \<noteq> []"
  shows "space_len s = 0 \<longleftrightarrow> \<not> ascii_space (hd s)" and "rspace_len s = 0 \<longleftrightarrow> \<not> ascii_space (hd s)"
proof -
  obtain a s1 where s: "s = a # s1" using assms(2) by (cases s) auto
  have high: "c \<noteq> CHR 0xC2" "c \<noteq> CHR 0xE1" "c \<noteq> CHR 0xE2" "c \<noteq> CHR 0xE3" if "c \<in> set s" for c
    using assms(1) that by (auto simp: ascii_def list_all_iff)
  show "space_len s = 0 \<longleftrightarrow> \<not> ascii_space (hd s)"
    using high(1-4) [of a] by (auto simp: s space_len_def space2_def space3_def split: list.splits)
  show "rspace_len s = 0 \<longleftrightarrow> \<not> ascii_space (hd s)"
  proof (cases s1)
    case (Cons b s2)
    have "\<not> space2 b a" "\<not> space3 c b a" if "c \<in> set s2" for c
      using high [of b] high [of c] that by (auto simp: s Cons space2_def space3_def)
    moreover have "\<not> space2 b a" using high [of b] by (auto simp: s Cons space2_def)
    ultimately show ?thesis by (auto simp: s Cons rspace_len_def split: list.splits)
  qed (simp add: s rspace_len_def)
qed

lemma trim_space_subset: "set (trim_space s) \<subseteq> set s"
proof -
  have "set (strip f t) \<subseteq> set t" for f t using strip_suffix [of f t] by (auto dest: set_mono_suffix)
  then show ?thesis unfolding trim_space_def trim_left_def trim_right_def by (metis order_trans set_rev)
qed

lemma trim_space_ascii:
  assumes "ascii s" and "s \<noteq> []" and "\<not> ascii_space (hd s)" "\<not> ascii_space (last s)"
  shows "trim_space s = s"
proof -
  have "ascii (rev s)" using assms(1) by (auto intro: ascii_subset)
  then show ?thesis
    using assms space_len_ascii(1) [of s] space_len_ascii(2) [of "rev s"] by (simp add: trim_space_id_iff hd_rev)
qed

lemma trim_brackets_id: "set s \<inter> set ''[]'' = {} \<Longrightarrow> trim_brackets s = s"
proof -
  assume s: "set s \<inter> set ''[]'' = {}"
  have "dropWhile (\<lambda>c. c \<in> set ''[]'') t = t" if "set t \<inter> set ''[]'' = {}" for t :: string
    using that by (cases t) auto
  then show ?thesis using s by (simp add: trim_brackets_def)
qed

lemma SplitHostPort_host:
  assumes "SplitHostPort s = Some (host, port)"
  shows "set host \<subseteq> set s \<and> set host \<inter> set ''[]'' = {}"
proof -
  obtain before p where cut: "s = before @ CHR '':'' # p"
      and split: "(if has_prefix s ''[''
          then (case cut_char (CHR '']'') s of
                  None \<Rightarrow> None
                | Some (opened, rest) \<Rightarrow>
                    (let host = drop 1 opened
                     in if before \<noteq> opened @ '']'' then None
                        else if CHR ''['' \<in> set (drop 1 s) then None
                        else if CHR '']'' \<in> set rest then None
                        else Some (host, p)))
          else if CHR '':'' \<in> set before then None
          else if CHR ''['' \<in> set s \<or> CHR '']'' \<in> set s then None
          else Some (before, p)) = Some (host, port)"
    using assms by (auto simp: SplitHostPort_def cut_last_Some split: option.splits)
  show ?thesis
  proof (cases "has_prefix s ''[''")
    case True
    then obtain opened rest where opened: "cut_char (CHR '']'') s = Some (opened, rest)"
        and host: "host = drop 1 opened" and no: "CHR ''['' \<notin> set (drop 1 s)"
      using split by (auto simp: Let_def split: option.splits if_splits)
    then have s: "s = opened @ CHR '']'' # rest" and close: "CHR '']'' \<notin> set opened" by (auto simp: cut_char_Some)
    then obtain t where "opened = CHR ''['' # t" using True by (cases opened) auto
    then show ?thesis using no close by (auto simp: host s)
  next
    case False
    then show ?thesis using split cut by (auto split: if_splits)
  qed
qed

text \<open>When an endpoint is accepted and what its normal form is: neither depends on field and index.\<close>

definition normal_endpoint :: "string \<Rightarrow> string \<Rightarrow> bool" where
  "normal_endpoint e n \<longleftrightarrow>
     e \<noteq> [] \<and> \<not> contains_str e ''://'' \<and> \<not> contains_any e ''/?#@'' \<and> \<not> contains_str e ''*'' \<and>
     (case SplitHostPort e of None \<Rightarrow> False
      | Some (h, port) \<Rightarrow>
          (let host = trim_space (trim_brackets h)
           in host \<noteq> [] \<and> port \<noteq> [] \<and> (contains_any host (ws_chars @ '':'') \<longrightarrow> parses_ip host) \<and>
              (case atoi port of None \<Rightarrow> False
               | Some p \<Rightarrow> 0 < p \<and> p \<le> 65535 \<and> n = JoinHostPort host (dec (nat p)))))"

lemma validatePeerEndpoint_Inr:
  "validatePeerEndpoint lower field i x = Inr n \<longleftrightarrow> normal_endpoint (trim_space (lower x)) n"
proof (cases "SplitHostPort (trim_space (lower x))")
  case None
  then show ?thesis by (simp add: validatePeerEndpoint_def normal_endpoint_def Let_def)
next
  case (Some hp)
  obtain h port where hp: "hp = (h, port)" by fastforce
  show ?thesis
    by (cases "atoi port") (simp_all add: validatePeerEndpoint_def normal_endpoint_def Let_def Some hp not_le not_less eq_commute)
qed

definition lower_ascii :: "string \<Rightarrow> bool" where
  "lower_ascii s \<longleftrightarrow> ascii s \<and> (\<forall>c \<in> set s. lower_char c = c)"

lemma lower_ascii_subset: "lower_ascii s \<Longrightarrow> set t \<subseteq> set s \<Longrightarrow> lower_ascii t"
  by (auto simp: lower_ascii_def intro: ascii_subset)

lemma lower_ascii_map: "ascii s \<Longrightarrow> lower_ascii (map lower_char s)"
  by (auto simp: lower_ascii_def ascii_def list_all_iff lower_char_idem lower_char_ascii)

text \<open>A lower-case host joined with a port number is trimmed and lower-case, and its characters are the host's.\<close>

lemma joined_endpoint:
  fixes p :: nat
  assumes "lower_ascii host" and "host \<noteq> []" and "trim_space host = host"
  defines "n \<equiv> JoinHostPort host (dec p)"
  shows "trim_space n = n" and "lower_ascii n" and "set n \<subseteq> set host \<union> set (''[]:'' @ digits)"
proof -
  have digits: "set (dec p) \<subseteq> set digits" "dec p \<noteq> []" using dec_digits by auto
  show set_n: "set n \<subseteq> set host \<union> set (''[]:'' @ digits)" using digits by (auto simp: n_def JoinHostPort_def)
  have "lower_ascii (''[]:'' @ digits)" by code_simp
  with assms(1) have "lower_ascii (host @ ''[]:'' @ digits)" unfolding lower_ascii_def ascii_def by auto
  then show fixed: "lower_ascii n" using set_n by (elim lower_ascii_subset) auto
  have "\<not> ascii_space (hd host)"
    using assms(1-3) space_len_ascii(1) [of host] by (simp add: trim_space_id_iff lower_ascii_def)
  then have "n \<noteq> []" "\<not> ascii_space (hd n)"
    using assms(2) by (auto simp: n_def JoinHostPort_def ascii_space_def hd_append)
  moreover have "last (dec p) \<in> set digits" using digits last_in_set by blast
  then have "\<not> ascii_space (last (dec p))" by (auto simp: digits_def ascii_space_def)
  then have "\<not> ascii_space (last n)" using digits by (simp add: n_def JoinHostPort_def)
  ultimately show "trim_space n = n" using fixed by (simp add: lower_ascii_def trim_space_ascii)
qed

lemma normal_endpoint_again:
  assumes e: "lower_ascii e" and "normal_endpoint e n"
  shows "trim_space n = n \<and> lower_ascii n \<and> normal_endpoint n n"
proof -
  obtain h port where split: "SplitHostPort e = Some (h, port)"
    using assms(2) by (cases "SplitHostPort e") (auto simp: normal_endpoint_def)
  note ok = assms(2) [unfolded normal_endpoint_def split option.case prod.case Let_def]
  obtain p where p: "0 < p" "p \<le> 65535" and n: "n = JoinHostPort (trim_space (trim_brackets h)) (dec (nat p))"
    using ok by (cases "atoi port") auto
  define host where "host = trim_space (trim_brackets h)"
  from ok have chars: "\<not> contains_any e ''/?#@''" "\<not> contains_str e ''*''" and host_ne: "host \<noteq> []"
    and ip: "contains_any host (ws_chars @ '':'') \<longrightarrow> parses_ip host"
    unfolding host_def by iprover+
  have h: "set h \<subseteq> set e" "set h \<inter> set ''[]'' = {}" using SplitHostPort_host [OF split] by auto
  then have host_h: "host = trim_space h" by (simp add: host_def trim_brackets_id)
  have sub: "set host \<subseteq> set e" "set host \<inter> set ''[]'' = {}" using h trim_space_subset unfolding host_h by blast+
  have "trim_space host = host" by (simp add: host_h)
  note joined = joined_endpoint [OF lower_ascii_subset [OF e sub(1)] host_ne this, of "nat p"]
  have n: "n = JoinHostPort host (dec (nat p))" using n by (simp add: host_def)
  have no: "c \<notin> set n" if "c \<in> set ''/?#@*''" for c
  proof -
    have "c \<notin> set e" using chars that by (auto simp: contains_any_iff contains_str_single)
    then show ?thesis using sub(1) joined(3) that by (auto simp: n digits_def)
  qed
  have "\<not> contains_str n ''://''" using no [of "CHR ''/''"] by (auto simp: contains_str_iff)
  moreover have "\<not> contains_any n ''/?#@''" "\<not> contains_str n ''*''" using no by (auto simp: contains_any_iff contains_str_single)
  moreover have "SplitHostPort n = Some (host, dec (nat p))"
    unfolding n using sub(2) dec_digits [of "nat p"] by (intro SplitHostPort_JoinHostPort) (auto simp: digits_def)
  moreover have "trim_space (trim_brackets host) = host" using sub(2) by (simp add: trim_brackets_id host_h)
  moreover have "atoi (dec (nat p)) = Some p" using p atoi_dec [of "nat p"] by (simp add: in64_def)
  moreover have "n \<noteq> []" by (simp add: n JoinHostPort_def)
  ultimately have "normal_endpoint n n"
    using p ip dec_digits [of "nat p"] host_ne n by (simp add: normal_endpoint_def)
  then show ?thesis using joined(1,2) by (simp add: n)
qed

text \<open>The normal form of an endpoint is its own normal form, whatever field and index it is checked
  under: comparing normal forms compares endpoints. It is stated for ASCII text, on which \<open>lower\<close>
  is assumed to map letter by letter.\<close>

theorem peer_endpoint_normal:
  assumes lower: "\<And>s. ascii s \<Longrightarrow> lower s = map lower_char s"
    and "ascii endpoint" and "validatePeerEndpoint lower field i endpoint = Inr n"
  shows "validatePeerEndpoint lower field' i' n = Inr n"
proof -
  have "lower_ascii (trim_space (lower endpoint))"
    using lower_ascii_subset [OF lower_ascii_map [OF assms(2)]] trim_space_subset lower [OF assms(2)] by metis
  moreover have "normal_endpoint (trim_space (lower endpoint)) n" using assms(3) by (simp only: validatePeerEndpoint_Inr)
  ultimately have n: "trim_space n = n \<and> lower_ascii n \<and> normal_endpoint n n" by (rule normal_endpoint_again)
  then have "lower n = n" by (simp add: lower lower_ascii_def map_idI)
  then show ?thesis using n by (simp only: validatePeerEndpoint_Inr)
qed

definition endpoint_of :: "(string \<Rightarrow> string) \<Rightarrow> string \<Rightarrow> string option" where
  "endpoint_of lower endpoint = (case validatePeerEndpoint lower [] 0 endpoint of Inl _ \<Rightarrow> None | Inr n \<Rightarrow> Some n)"

lemma endpoint_of_Some: "validatePeerEndpoint lower field i x = Inr n \<longleftrightarrow> endpoint_of lower x = Some n"
proof -
  have "validatePeerEndpoint lower field i x = Inr n \<longleftrightarrow> validatePeerEndpoint lower [] 0 x = Inr n"
    by (simp only: validatePeerEndpoint_Inr)
  then show ?thesis by (simp add: endpoint_of_def split: sum.splits)
qed

lemma endpoint_cases:
  obtains (bad) e where "validatePeerEndpoint lower field i x = Inl e" "endpoint_of lower x = None"
    | (good) n where "validatePeerEndpoint lower field i x = Inr n" "endpoint_of lower x = Some n"
proof (cases "validatePeerEndpoint lower field i x")
  case (Inl e)
  then have "validatePeerEndpoint lower field i x \<noteq> Inr n" for n by simp
  then have "endpoint_of lower x = None" using endpoint_of_Some by (metis not_None_eq)
  with Inl show ?thesis by (rule bad)
next
  case (Inr n)
  then show ?thesis using endpoint_of_Some good by blast
qed

lemma endpoint_errs_Nil [validation, simp]: "endpoint_errs lower field i x = [] \<longleftrightarrow> endpoint_of lower x \<noteq> None"
  by (rule endpoint_cases [of lower field i x]) (simp_all add: endpoint_errs_def)

lemma allowlist_errs_Nil [validation, simp]:
  "allowlist_errs lower egress i x = [] \<longleftrightarrow> (\<exists>n. endpoint_of lower x = Some n \<and> n \<in> egress)"
  by (rule endpoint_cases [of lower "''allowed_peers''" i x]) (simp_all add: allowlist_errs_def)

lemma egress_loop_result:
  "(fst (egress_loop lower i egress xs) = [] \<longleftrightarrow> (\<forall>x \<in> set xs. endpoint_of lower x \<noteq> None)) \<and>
   snd (egress_loop lower i egress xs) = egress \<union> {n. \<exists>x \<in> set xs. endpoint_of lower x = Some n}"
proof (induction xs arbitrary: i egress)
  case (Cons x xs)
  show ?case
  proof (rule endpoint_cases [of lower "''egress_allowlist''" i x])
    show ?thesis if "validatePeerEndpoint lower ''egress_allowlist'' i x = Inl e" "endpoint_of lower x = None" for e
      using Cons.IH that by (auto simp: Let_def case_prod_beta)
    show ?thesis if "validatePeerEndpoint lower ''egress_allowlist'' i x = Inr n" "endpoint_of lower x = Some n" for n
      using Cons.IH that by auto
  qed
qed simp

text \<open>A peer policy is accepted exactly when it isolates; or names endpoints only, for a public chain;
  or is an allowlist that names peers and egress endpoints, every peer being, up to normal form, one
  of the egress endpoints: no peer is allowed that egress would block.\<close>

theorem PeerPolicy_iff:
  "PeerPolicy_Validate lower p = None \<longleftrightarrow>
     pp_Mode p = ''isolated'' \<or>
     pp_Mode p = ''public-chain-peer'' \<and> (\<forall>x \<in> set (pp_EgressAllowlist p) \<union> set (pp_AllowedPeers p). endpoint_of lower x \<noteq> None) \<or>
     pp_Mode p = ''allowlist'' \<and> pp_AllowedPeers p \<noteq> [] \<and> pp_EgressAllowlist p \<noteq> [] \<and>
       (\<forall>x \<in> set (pp_EgressAllowlist p). endpoint_of lower x \<noteq> None) \<and>
       (\<forall>x \<in> set (pp_AllowedPeers p). endpoint_of lower x \<in> endpoint_of lower ` set (pp_EgressAllowlist p) - {None})"
proof (cases "pp_Mode p = ''allowlist''")
  case True
  obtain errs egress where loop: "egress_loop lower 0 {} (pp_EgressAllowlist p) = (errs, egress)" by fastforce
  then have errs: "errs = [] \<longleftrightarrow> (\<forall>x \<in> set (pp_EgressAllowlist p). endpoint_of lower x \<noteq> None)"
    and egress: "egress = {n. \<exists>x \<in> set (pp_EgressAllowlist p). endpoint_of lower x = Some n}"
    using egress_loop_result [of lower 0 "{}" "pp_EgressAllowlist p"] by simp_all
  have peer: "(\<exists>n. endpoint_of lower x = Some n \<and> n \<in> egress) \<longleftrightarrow>
      endpoint_of lower x \<in> endpoint_of lower ` set (pp_EgressAllowlist p) - {None}" for x
    by (cases "endpoint_of lower x") (force simp: egress image_iff)+
  show ?thesis
    using True by (simp add: PeerPolicy_Validate_def loop errs peer)
next
  case False
  then show ?thesis by (auto simp: PeerPolicy_Validate_def)
qed

section \<open>Examples\<close>

definition demo_file :: WorkloadFileRef where
  "demo_file = \<lparr>wfr_Path = ''etc/app.conf'', wfr_ValueRef = [], wfr_SecretRef = [], wfr_Template = ''key={{k}}'',
     wfr_Refs = [\<lparr>enre_Name = ''k'', enre_ValueRef = [], enre_SecretRef = ''secret://k''\<rparr>], wfr_Mode = 384\<rparr>"

lemma WorkloadFileRef_iff_witness:
  "WorkloadFileRef_Validate demo_file = None \<and> WorkloadFileRef_Validate (demo_file\<lparr>wfr_SecretRef := ''secret://s''\<rparr>) \<noteq> None \<and>
   WorkloadFileRef_Validate (demo_file\<lparr>wfr_Path := ''a'' @ [CHR 0x00]\<rparr>) = None"
proof -
  have "0 \<le> wfr_Mode demo_file" "0 \<le> wfr_Mode (demo_file\<lparr>wfr_SecretRef := ''secret://s''\<rparr>)"
    by (simp_all add: demo_file_def)
  note iff = WorkloadFileRef_iff [OF this(1)] WorkloadFileRef_iff [OF this(2)]
  have "WorkloadFileRef_Validate demo_file = None"
    unfolding iff(1) by (simp add: demo_file_def one_of3_def) code_simp
  moreover have "WorkloadFileRef_Validate (demo_file\<lparr>wfr_SecretRef := ''secret://s''\<rparr>) \<noteq> None"
    unfolding iff(2) by (simp add: demo_file_def one_of3_def)
  moreover have "WorkloadFileRef_Validate (demo_file\<lparr>wfr_Path := ''a'' @ [CHR 0x00]\<rparr>) = None" by code_simp
  ultimately show ?thesis by blast
qed

definition demo_service :: "string \<Rightarrow> bool \<Rightarrow> ServiceWorkload" where
  "demo_service mode auth = \<lparr>sw_ImageRef = ''registry/app:1'', sw_ComponentRef = [], sw_ComponentDigest = [], sw_Command = [],
     sw_Ports = [\<lparr>sp_Name = ''http'', sp_Port = 8080, sp_Protocol = ''http''\<rparr>],
     sw_HealthCheck = \<lparr>hc_Kind = ''http'', hc_Path = ''/health'', hc_Command = [], hc_IntervalSeconds = 10, hc_TimeoutSeconds = 2\<rparr>,
     sw_Ingress = \<lparr>ip_Mode = mode, ip_AllowedCIDRs = [''10.0.0.0/8''], ip_AuthRequired = auth\<rparr>, sw_DataDirRef = [],
     sw_DataMountPath = [], sw_Env = [], sw_Files = [],
     sw_StatusProbe = \<lparr>ssp_Command = [], ssp_TimeoutSeconds = 0, ssp_MaxPreviewBytes = 0\<rparr>\<rparr>"

lemma service_exposure_witness:
  "parses_prefix ''10.0.0.0/8'' \<and> ServiceWorkload_Validate (demo_service ''public'' False) \<noteq> None \<and>
   ServiceWorkload_Validate (demo_service ''none'' False) \<noteq> None"
proof -
  have "ServiceWorkload_Validate (demo_service ''public'' True) = None" by code_simp
  note ok = service_exposure [OF this]
  have "trim_space ''10.0.0.0/8'' = ''10.0.0.0/8''" by code_simp
  with ok have "parses_prefix ''10.0.0.0/8''" by (simp add: demo_service_def)
  moreover have "ServiceWorkload_Validate (demo_service ''public'' False) \<noteq> None"
    using service_exposure [of "demo_service ''public'' False"] by (auto simp: demo_service_def)
  moreover have "ServiceWorkload_Validate (demo_service ''none'' False) \<noteq> None"
    using service_exposure [of "demo_service ''none'' False"] by (auto simp: demo_service_def)
  ultimately show ?thesis by blast
qed

lemma peer_endpoint_normal_witness:
  "validatePeerEndpoint (map lower_char) ''f'' 0 '' [FE80::1]:+080'' = Inr ''[fe80::1]:80'' \<and>
   validatePeerEndpoint (map lower_char) ''g'' 7 ''[fe80::1]:80'' = Inr ''[fe80::1]:80''"
proof -
  have "validatePeerEndpoint (map lower_char) ''f'' 0 '' [FE80::1]:+080'' = Inr ''[fe80::1]:80''" by code_simp
  moreover from peer_endpoint_normal [OF _ _ this]
  have "validatePeerEndpoint (map lower_char) ''g'' 7 ''[fe80::1]:80'' = Inr ''[fe80::1]:80''"
    by (simp add: ascii_def)
  ultimately show ?thesis by blast
qed

text \<open>The spelling of a peer does not matter, its port does.\<close>

lemma PeerPolicy_iff_witness:
  "PeerPolicy_Validate (map lower_char) \<lparr>pp_Mode = ''allowlist'', pp_AllowedPeers = [''A.example:0443''], pp_EgressAllowlist = [''a.example:443'']\<rparr> = None \<and>
   PeerPolicy_Validate (map lower_char) \<lparr>pp_Mode = ''allowlist'', pp_AllowedPeers = [''a.example:80''], pp_EgressAllowlist = [''a.example:443'']\<rparr> \<noteq> None"
proof -
  have ends: "endpoint_of (map lower_char) ''A.example:0443'' = Some ''a.example:443''"
    "endpoint_of (map lower_char) ''a.example:443'' = Some ''a.example:443''"
    "endpoint_of (map lower_char) ''a.example:80'' = Some ''a.example:80''" by code_simp+
  show ?thesis unfolding PeerPolicy_iff by (simp add: ends)
qed

end
