(* ===== verification/Workloads.thy ===== *)
theory Workloads
  imports Handoff GoJson Services
begin

text \<open>
  \<open>protocol/types.go\<close>, lines 2101 to 2168 and 2561 to 2862: what a task runs. A workload has a kind
  and, for most kinds, a specification of its own: commands, container builds, services and node
  services, product captures, provider operations and WASM components. Parameters are \<open>url\<close>
  (\<open>url.Parse\<close>), \<open>lower\<close> (\<open>strings.ToLower\<close>) and \<open>same\<close> (\<open>strings.EqualFold\<close>).
\<close>

section \<open>Records\<close>

record ConfidentialPayloadRef =
  cpr_CiphertextRef :: string
  cpr_CiphertextHash :: string
  cpr_KeyRefHash :: string
  cpr_Algorithm :: string
  cpr_KBSPolicyID :: string

record CommandWorkload =
  cw_Args :: "string list"
  cw_WorkingDirectory :: string
  cw_Env :: "EnvRef list"
  cw_ArtifactRefs :: "string list"
  cw_ArtifactAllowlist :: "string list"
  cw_ConfidentialPayload :: "ConfidentialPayloadRef option"

record ContainerBuildWorkload =
  cbw_ContextDirectory :: string
  cbw_Dockerfile :: string
  cbw_Tags :: "string list"
  cbw_PushTargetRef :: string
  cbw_PullTargetRef :: string
  cbw_Env :: "EnvRef list"

record ProductCaptureWorkload =
  pcw_URL :: string
  pcw_AllowedHosts :: "string list"
  pcw_CaptureMode :: ProductCaptureMode
  pcw_TimeoutSeconds :: int
  pcw_MaxHTMLBytes :: int
  pcw_MaxImageCount :: int
  pcw_MetadataOnly :: bool

record ProviderWorkload =
  pw_ProviderConfig :: ProviderConfig
  pw_Operation :: string
  pw_ImageRef :: string
  pw_ComponentRef :: string
  pw_ComponentDigest :: string
  pw_ABI :: string
  pw_Input :: string
  pw_ArtifactRefs :: "string list"
  pw_ContentInputs :: "ContentInputRef list"
  pw_StreamInputs :: "StreamInputRef list"

record WASMWorkload =
  wasmw_ComponentRef :: string
  wasmw_ComponentDigest :: string
  wasmw_ABI :: string
  wasmw_Operation :: string
  wasmw_Input :: string

record WorkloadSpec =
  ws_Kind :: WorkloadKind
  ws_Command :: "CommandWorkload option"
  ws_ContainerBuild :: "ContainerBuildWorkload option"
  ws_Service :: "ServiceWorkload option"
  ws_NodeService :: "NodeServiceWorkload option"
  ws_VideoStream :: "StreamSpec option"
  ws_MediaTransform :: "MediaTransformSpec option"
  ws_ProductCapture :: "ProductCaptureWorkload option"
  ws_Provider :: "ProviderWorkload option"
  ws_WASM :: "WASMWorkload option"
  ws_Params :: "(string \<times> (string \<times> string) list) list"

section \<open>Commands, builds and captures\<close>

definition ConfidentialPayloadRef_Validate :: "ConfidentialPayloadRef \<Rightarrow> error" where
  "ConfidentialPayloadRef_Validate r =
     join
     (reports (validateScopedRef ''ciphertext_ref'' (cpr_CiphertextRef r) ''artifact://'') @
      fails (\<not> validSHA256Digest (cpr_CiphertextHash r))
        (New ''ciphertext_hash must be sha256:<64 hex chars>'') @
      fails (\<not> validSHA256Digest (cpr_KeyRefHash r))
        (New ''key_ref_hash must be sha256:<64 hex chars>'') @
      fails (cpr_Algorithm r = [])
        (New ''algorithm is required'') @
      fails (cpr_KBSPolicyID r = [])
        (New ''kbs_policy_id is required''))"

definition CommandWorkload_Validate :: "CommandWorkload \<Rightarrow> error" where
  "CommandWorkload_Validate w =
     join
     (fails ((cw_Args w) = [])
        (New ''command args are required'') @
      each (\<lambda>i ref.
         wraps ''env[%d]: %w'' [Num (int i)] (EnvRef_Validate ref)) (cw_Env w) @
      each (\<lambda>i ref.
         reports (validateScopedRef (at_index ''artifact_refs'' i []) ref ''artifact://'')) (cw_ArtifactRefs w) @
      (if cw_ConfidentialPayload w \<noteq> None then
         wraps ''confidential_payload: %w'' [] (ConfidentialPayloadRef_Validate (the (cw_ConfidentialPayload w)))
       else []))"

definition ContainerBuildWorkload_Validate :: "ContainerBuildWorkload \<Rightarrow> error" where
  "ContainerBuildWorkload_Validate w =
     join
     (fails (cbw_ContextDirectory w = [])
        (New ''context_directory is required'') @
      fails ((cbw_Tags w) = [])
        (New ''tags is required'') @
      each (\<lambda>i ref.
         wraps ''env[%d]: %w'' [Num (int i)] (EnvRef_Validate ref)) (cbw_Env w))"

definition MaxProductCaptureTimeoutSeconds :: int where "MaxProductCaptureTimeoutSeconds = 300"
definition MaxProductCaptureHTMLBytes :: int where "MaxProductCaptureHTMLBytes = 10 * 2 ^ 20"
definition MaxProductCaptureImageCount :: int where "MaxProductCaptureImageCount = 32"

definition productCaptureHostAllowed ::
  "(string \<Rightarrow> string) \<Rightarrow> (string \<Rightarrow> string \<Rightarrow> bool) \<Rightarrow> string \<Rightarrow> string list \<Rightarrow> bool" where
  "productCaptureHostAllowed lower same host allowed =
     (let host = lower (trim_space host)
      in if host = [] then False
         else list_ex (\<lambda>candidate. same host (trim_space candidate)) allowed)"

definition ProductCaptureWorkload_Validate ::
  "(string \<Rightarrow> URL option) \<Rightarrow> (string \<Rightarrow> string) \<Rightarrow> (string \<Rightarrow> string \<Rightarrow> bool) \<Rightarrow> ProductCaptureWorkload \<Rightarrow> error" where
  "ProductCaptureWorkload_Validate url lower same w =
     join
     ((case url (trim_space (pcw_URL w)) of
         None \<Rightarrow> [New ''url must be absolute http(s) URL'']
       | Some parsed \<Rightarrow>
           if url_Scheme parsed = [] \<or> url_Host parsed = [] then [New ''url must be absolute http(s) URL'']
           else fails (url_Scheme parsed \<noteq> ''http'' \<and> url_Scheme parsed \<noteq> ''https'')
                  (New ''url must use http or https'') @
                fails (\<not> productCaptureHostAllowed lower same (url_Hostname parsed) (pcw_AllowedHosts w))
                  (Errorf ''url host %q is not listed in allowed_hosts'' [Str (url_Hostname parsed)])) @
      fails (pcw_AllowedHosts w = [])
        (New ''allowed_hosts is required'') @
      each (\<lambda>i host.
         wraps ''allowed_hosts[%d]: %w'' [Num (int i)] (validateNetworkHostname host)) (pcw_AllowedHosts w) @
      (if pcw_CaptureMode w \<in> set [[], ProductCaptureModeBrowser, ProductCaptureModeMetadata] then
         []
       else [Errorf ''capture_mode %q is unsupported'' [Str (pcw_CaptureMode w)]]) @
      fails (pcw_TimeoutSeconds w < 0 \<or> pcw_TimeoutSeconds w > MaxProductCaptureTimeoutSeconds)
        (Errorf ''timeout_seconds must be between 0 and %d'' [Num MaxProductCaptureTimeoutSeconds]) @
      fails (pcw_MaxHTMLBytes w < 0 \<or> pcw_MaxHTMLBytes w > MaxProductCaptureHTMLBytes)
        (Errorf ''max_html_bytes must be between 0 and %d'' [Num MaxProductCaptureHTMLBytes]) @
      fails (pcw_MaxImageCount w < 0 \<or> pcw_MaxImageCount w > MaxProductCaptureImageCount)
        (Errorf ''max_image_count must be between 0 and %d'' [Num MaxProductCaptureImageCount]))"

definition validateJSONInput :: "string \<Rightarrow> error" where
  "validateJSONInput inp =
     (let trimmed = trim_space inp
      in if trimmed = [] then Some (New ''is required'')
         else if \<not> json_valid trimmed then Some (New ''must be valid JSON'')
         else if hd trimmed \<noteq> CHR ''{'' \<and> hd trimmed \<noteq> CHR ''['' then Some (New ''must be a JSON object or array'')
         else None)"

section \<open>Provider operations and components\<close>

definition plugin_errs :: "ProviderWorkload \<Rightarrow> err list" where
  \<comment> \<open>the plugin that a \<open>provider://\<close> reference names\<close>
  "plugin_errs w =
     (if has_prefix (pw_ComponentRef w) ''provider://'' then
        (let ref = trim_prefix (pw_ComponentRef w) ''provider://'';
             pluginID = (case cut_char (CHR ''/'') ref of None \<Rightarrow> ref | Some (before, after) \<Rightarrow> before)
         in fails (pluginID \<noteq> [] \<and> pc_PluginID (pw_ProviderConfig w) \<noteq> [] \<and> pluginID \<noteq> pc_PluginID (pw_ProviderConfig w))
              (Errorf ''component_ref provider plugin %q must match provider_config.plugin_id %q''
                 [Str pluginID, Str (pc_PluginID (pw_ProviderConfig w))]))
      else [])"

definition ProviderWorkload_Validate :: "(string \<Rightarrow> URL option) \<Rightarrow> ProviderWorkload \<Rightarrow> error" where
  "ProviderWorkload_Validate url w =
     (let imageRefSet = (trim_space (pw_ImageRef w) \<noteq> []);
          componentRefSet = (trim_space (pw_ComponentRef w) \<noteq> [])
      in join
     ((if pw_ProviderConfig w = zero_ProviderConfig then
         [New ''provider_config is required'']
       else wraps ''provider_config: %w'' [] (ProviderConfig_Validate (pw_ProviderConfig w))) @
      reports (validateIdentifier ''operation'' (pw_Operation w)) @
      fails (imageRefSet \<and> componentRefSet)
        (New ''image_ref and component_ref are mutually exclusive'') @
      (if \<not> imageRefSet \<and> \<not> componentRefSet then
         [New ''image_ref or component_ref is required'']
       else if imageRefSet \<and> (trim_space (pw_ImageRef w) \<noteq> pw_ImageRef w \<or> contains_any (pw_ImageRef w) (ws_chars @ ch_nul)) then
         [New ''image_ref must not contain whitespace or NUL'']
       else if imageRefSet then
         (case cut_char (CHR ''@'') (pw_ImageRef w) of
            None \<Rightarrow> [New ''image_ref must be digest-pinned with @sha256:<64 hex>'']
          | Some (_, digest) \<Rightarrow>
              fails (\<not> validSHA256Ref digest)
                (New ''image_ref must be digest-pinned with @sha256:<64 hex>''))
       else []) @
      (if componentRefSet then
         reports (validateProviderComponentRef ''component_ref'' (pw_ComponentRef w)) @
         plugin_errs w @
         fails (\<not> validSHA256Ref (pw_ComponentDigest w))
           (New ''component_digest must be sha256:<64 hex chars>'') @
         (if pw_ABI w \<noteq> [] then
            reports (validateIdentifier ''abi'' (pw_ABI w))
          else [])
       else []) @
      wraps ''input: %w'' [] (validateJSONInput (pw_Input w)) @
      each (\<lambda>i ref.
         reports (validateScopedRef (at_index ''artifact_refs'' i []) ref ''artifact://'')) (pw_ArtifactRefs w) @
      each (\<lambda>i ref.
         wraps ''content_inputs[%d]: %w'' [Num (int i)] (ContentInputRef_Validate url ref)) (pw_ContentInputs w) @
      each (\<lambda>i ref.
         wraps ''stream_inputs[%d]: %w'' [Num (int i)] (StreamInputRef_Validate ref)) (pw_StreamInputs w)))"

definition WASMWorkload_Validate :: "WASMWorkload \<Rightarrow> error" where
  "WASMWorkload_Validate w =
     join
     (reports (validateComponentRef ''component_ref'' (wasmw_ComponentRef w)) @
      fails (\<not> validSHA256Ref (wasmw_ComponentDigest w))
        (New ''component_digest must be sha256:<64 hex chars>'') @
      reports (validateIdentifier ''abi'' (wasmw_ABI w)) @
      reports (validateIdentifier ''operation'' (wasmw_Operation w)) @
      wraps ''input: %w'' [] (validateJSONInput (wasmw_Input w)))"

section \<open>Workloads\<close>

definition WorkloadSpec_Validate :: "(string \<Rightarrow> URL option) \<Rightarrow> (string \<Rightarrow> string) \<Rightarrow> (string \<Rightarrow> string \<Rightarrow> bool) \<Rightarrow> WorkloadSpec \<Rightarrow> error" where
  "WorkloadSpec_Validate url lower same w =
     (if ws_Kind w = WorkloadCommand then if ws_Command w = None then Some (New ''command workload is required'')
        else CommandWorkload_Validate (the (ws_Command w))
      else if ws_Kind w = WorkloadContainerBuild then if ws_ContainerBuild w = None then Some (New ''container_build workload is required'')
        else ContainerBuildWorkload_Validate (the (ws_ContainerBuild w))
      else if ws_Kind w = WorkloadService then if ws_Service w = None then Some (New ''service workload is required'')
        else ServiceWorkload_Validate (the (ws_Service w))
      else if ws_Kind w = WorkloadNodeService then if ws_NodeService w = None then Some (New ''node_service workload is required'')
        else NodeServiceWorkload_Validate lower (the (ws_NodeService w))
      else if ws_Kind w = WorkloadVideoStream then if ws_VideoStream w = None then Some (New ''video_stream workload is required'')
        else StreamSpec_Validate (the (ws_VideoStream w))
      else if ws_Kind w = WorkloadMediaTransform then if ws_MediaTransform w = None then Some (New ''media_transform workload is required'')
        else MediaTransformSpec_Validate (the (ws_MediaTransform w))
      else if ws_Kind w = WorkloadProductCapture then if ws_ProductCapture w = None then Some (New ''product_capture workload is required'')
        else ProductCaptureWorkload_Validate url lower same (the (ws_ProductCapture w))
      else if ws_Kind w = WorkloadProvider then if ws_Provider w = None then Some (New ''provider workload is required'')
        else ProviderWorkload_Validate url (the (ws_Provider w))
      else if ws_Kind w = WorkloadWASMComponent then if ws_WASM w = None then Some (New ''wasm workload is required'')
        else WASMWorkload_Validate (the (ws_WASM w))
      else if ws_Kind w \<in> set [WorkloadDockerComposeBuild, WorkloadBenchmark, WorkloadTraining, WorkloadContentCache, WorkloadSupervisor] then None
      else Some (Errorf ''workload kind %q is unknown'' [Str (ws_Kind w)]))"

section \<open>Input\<close>

lemma space_len_bracket: "space_len (CHR ''{'' # t) = 0" "space_len (CHR ''['' # t) = 0"
  by (simp_all add: space_len_def ascii_space_def space2_def space3_def split: list.split)

lemma rspace_len_bracket: "rspace_len (CHR ''}'' # t) = 0" "rspace_len (CHR '']'' # t) = 0"
  by (simp_all add: rspace_len_def ascii_space_def space2_def space3_def split: list.split)

lemma validateJSONInput_None [validation]:
  "validateJSONInput inp = None \<longleftrightarrow>
     json_valid (trim_space inp) \<and> (case trim_space inp of [] \<Rightarrow> False | c # _ \<Rightarrow> c = CHR ''{'' \<or> c = CHR ''['')"
  by (cases "trim_space inp") (simp_all add: validateJSONInput_def Let_def)

definition is_composite :: "json \<Rightarrow> bool" where
  "is_composite v \<longleftrightarrow> (case v of JArray _ \<Rightarrow> True | JObject _ \<Rightarrow> True | _ \<Rightarrow> False)"

lemma print_composite:
  assumes "is_composite v"
  obtains c t d where "print_json v = c # t @ [d]" "c \<in> set ''{[''" "d \<in> set ''}]''"
proof (cases v)
  case (JArray vs)
  then show ?thesis using that [of "CHR ''[''" "commas (map print_json vs)" "CHR '']''"] by simp
next
  case (JObject fs)
  then show ?thesis using that [of "CHR ''{''" "commas (map (\<lambda>(k, v). quoted k @ '':'' @ print_json v) fs)" "CHR ''}''"] by simp
qed (use assms in \<open>simp_all add: is_composite_def\<close>)

text \<open>What the compact printer of GoJson writes for an object or array of plain text, natural numbers, truth values and
  nulls, to a depth of ten thousand, a workload accepts as its input.\<close>

lemma json_input_printed:
  "(is_composite v \<and> printable v \<and> depth v \<le> 10000 \<longrightarrow> validateJSONInput (print_json v) = None) \<and>
   (validateJSONInput inp = None \<longrightarrow> json_valid (trim_space inp) \<and> hd (trim_space inp) \<in> {CHR ''{'', CHR ''[''})"
proof -
  have "validateJSONInput (print_json v) = None" if v: "is_composite v" "printable v" "depth v \<le> 10000"
  proof -
    obtain c t d where out: "print_json v = c # t @ [d]" "c \<in> set ''{[''" "d \<in> set ''}]''" using v(1) by (rule print_composite)
    then have "trim_space (print_json v) = print_json v"
      using space_len_bracket rspace_len_bracket by (auto simp: trim_space_id_iff)
    then show ?thesis using print_json_text [OF v(2,3)] out by (auto simp: validateJSONInput_None)
  qed
  moreover have "json_valid (trim_space inp) \<and> hd (trim_space inp) \<in> {CHR ''{'', CHR ''[''}" if "validateJSONInput inp = None"
    using that by (simp add: validateJSONInput_None split: list.splits)
  ultimately show ?thesis by blast
qed

section \<open>Provider operations\<close>

lemma ProviderConfig_plugin: "ProviderConfig_Validate p = None \<Longrightarrow> p \<noteq> zero_ProviderConfig \<Longrightarrow> plain_id (pc_PluginID p)"
  by (simp add: ProviderConfig_Validate_def)

lemma component_ref_plugin:
  assumes "validateProviderComponentRef name v = None" 
  obtains plugin path where "v = ''provider://'' @ plugin @ ''/'' @ path" "CHR ''/'' \<notin> set plugin" "plugin \<noteq> []" "path \<noteq> []"
proof -
  from assms have pre: "has_prefix v ''provider://''"
    and cut: "(case cut_char (CHR ''/'') (trim_prefix v ''provider://'') of None \<Rightarrow> Some (Errorf ''%s must include provider plugin and component path'' [Str name])
               | Some (pluginID, componentPath) \<Rightarrow>
                   if trim_space pluginID = [] \<or> trim_space componentPath = []
                   then Some (Errorf ''%s must include provider plugin and component path'' [Str name]) else None) = None"
    by (simp_all add: validateProviderComponentRef_def Let_def split: if_splits)
  from cut obtain plugin path where parts: "cut_char (CHR ''/'') (trim_prefix v ''provider://'') = Some (plugin, path)"
    "trim_space plugin \<noteq> []" "trim_space path \<noteq> []" by (auto split: option.splits if_splits)
  from pre obtain rest where v: "v = ''provider://'' @ rest" by (auto simp: prefix_def)
  then have "trim_prefix v ''provider://'' = rest" by (simp only: trim_prefix_append)
  with parts(1) have "rest = plugin @ CHR ''/'' # path \<and> CHR ''/'' \<notin> set plugin" by (auto simp: cut_char_Some)
  moreover have "plugin \<noteq> []" "path \<noteq> []" using parts(2,3) by auto
  ultimately show ?thesis using that v by simp
qed

text \<open>C29. A provider operation runs pinned code: it names exactly one of image and component, the image by its
  digest, or the component by the very plugin of its provider configuration together with its digest;
  its input is valid JSON.\<close>

theorem provider_workload_pinned:
  assumes "ProviderWorkload_Validate url w = None"
  shows "(trim_space (pw_ImageRef w) \<noteq> [] \<longleftrightarrow> trim_space (pw_ComponentRef w) = []) \<and>
    (trim_space (pw_ImageRef w) \<noteq> [] \<longrightarrow> (\<exists>name digest. pw_ImageRef w = name @ ''@'' @ digest \<and> validSHA256Ref digest)) \<and>
    (trim_space (pw_ComponentRef w) \<noteq> [] \<longrightarrow>
      (\<exists>path. pw_ComponentRef w = ''provider://'' @ pc_PluginID (pw_ProviderConfig w) @ ''/'' @ path \<and> path \<noteq> []) \<and>
      validSHA256Ref (pw_ComponentDigest w)) \<and>
    json_valid (trim_space (pw_Input w)) \<and> plain_id (pc_PluginID (pw_ProviderConfig w))"
proof -
  note parts = assms [unfolded ProviderWorkload_Validate_def Let_def join_None append_is_Nil_conv]
  have config: "pw_ProviderConfig w \<noteq> zero_ProviderConfig" "ProviderConfig_Validate (pw_ProviderConfig w) = None"
    using parts by (simp_all split: if_splits)
  have plugin: "plain_id (pc_PluginID (pw_ProviderConfig w))" using ProviderConfig_plugin config by blast
  have c1: "trim_space (pw_ImageRef w) \<noteq> [] \<longleftrightarrow> trim_space (pw_ComponentRef w) = []" using parts by (simp split: if_splits)
  have c2: "\<exists>name digest. pw_ImageRef w = name @ ''@'' @ digest \<and> validSHA256Ref digest" if "trim_space (pw_ImageRef w) \<noteq> []"
  proof -
    from parts that have "(case cut_char (CHR ''@'') (pw_ImageRef w) of None \<Rightarrow> False | Some (_, digest) \<Rightarrow> validSHA256Ref digest)"
      by (simp split: if_splits option.splits prod.splits)
    then show ?thesis by (auto simp: cut_char_Some split: option.splits) blast
  qed
  have c3: "\<exists>path. pw_ComponentRef w = ''provider://'' @ pc_PluginID (pw_ProviderConfig w) @ ''/'' @ path \<and> path \<noteq> []"
      "validSHA256Ref (pw_ComponentDigest w)" if "trim_space (pw_ComponentRef w) \<noteq> []"
  proof -
    from parts that have ref: "validateProviderComponentRef ''component_ref'' (pw_ComponentRef w) = None"
      and errs: "plugin_errs w = []" and digest: "validSHA256Ref (pw_ComponentDigest w)" by simp_all
    show "validSHA256Ref (pw_ComponentDigest w)" by (rule digest)
    from ref obtain p path where v: "pw_ComponentRef w = ''provider://'' @ p @ ''/'' @ path" "CHR ''/'' \<notin> set p" "p \<noteq> []" "path \<noteq> []"
      by (rule component_ref_plugin)
    then have "cut_char (CHR ''/'') (trim_prefix (pw_ComponentRef w) ''provider://'') = Some (p, path)"
      unfolding v(1) trim_prefix_append by (simp only: cut_char_Some) simp
    with errs v plugin have "p = pc_PluginID (pw_ProviderConfig w)" by (auto simp: plugin_errs_def Let_def)
    with v show "\<exists>path. pw_ComponentRef w = ''provider://'' @ pc_PluginID (pw_ProviderConfig w) @ ''/'' @ path \<and> path \<noteq> []" by blast
  qed
  have "validateJSONInput (pw_Input w) = None" using parts by simp
  then have c4: "json_valid (trim_space (pw_Input w))" by (simp add: validateJSONInput_def Let_def split: if_splits)
  show ?thesis using c1 c2 c3 c4 plugin by blast
qed

section \<open>Captures\<close>

text \<open>C30. A product capture visits an allowed host only: its URL parses as an absolute HTTP URL, whose host, trimmed and in
  lower case, is one of the allowed ones, trimmed, up to case; every allowed host, used or not, is a name: it is not
  empty, holds no blank, tab, line end, colon, slash, question mark, ampersand or number sign, and is no IPv4
  address (an IPv6 address has colons); and the time, page size and number of images the capture may take
  are bounded.\<close>

theorem product_capture_allowed:
  assumes "ProductCaptureWorkload_Validate url lower same w = None"
  shows "(\<exists>u. url (trim_space (pcw_URL w)) = Some u \<and> url_Scheme u \<in> {''http'', ''https''} \<and> url_Host u \<noteq> [] \<and>
      lower (trim_space (url_Hostname u)) \<noteq> [] \<and>
      (\<exists>host \<in> set (pcw_AllowedHosts w). same (lower (trim_space (url_Hostname u))) (trim_space host))) \<and>
    (\<forall>host \<in> set (pcw_AllowedHosts w). trim_space host \<noteq> [] \<and> \<not> parses_ipv4 (trim_space host) \<and>
      set (trim_space host) \<inter> {CHR '' '', CHR 0x09, CHR 0x0D, CHR 0x0A, CHR ''/'', CHR '':'', CHR ''?'', CHR ''&'', CHR ''#''} = {}) \<and>
    pcw_TimeoutSeconds w \<in> {0..300} \<and> pcw_MaxHTMLBytes w \<in> {0..10485760} \<and> pcw_MaxImageCount w \<in> {0..32}"
proof -
  note parts = assms [unfolded ProductCaptureWorkload_Validate_def join_None append_is_Nil_conv]
  then obtain u where u: "url (trim_space (pcw_URL w)) = Some u" "url_Scheme u \<in> {''http'', ''https''}" "url_Host u \<noteq> []"
    and "productCaptureHostAllowed lower same (url_Hostname u) (pcw_AllowedHosts w)"
    by (cases "url (trim_space (pcw_URL w))") (auto split: if_splits)
  then obtain host where host: "host \<in> set (pcw_AllowedHosts w)" "same (lower (trim_space (url_Hostname u))) (trim_space host)"
    and nonempty: "lower (trim_space (url_Hostname u)) \<noteq> []"
    by (auto simp: productCaptureHostAllowed_def Let_def list_ex_iff split: if_splits)
  have names: "trim_space h \<noteq> [] \<and> \<not> parses_ipv4 (trim_space h) \<and>
      set (trim_space h) \<inter> {CHR '' '', CHR 0x09, CHR 0x0D, CHR 0x0A, CHR ''/'', CHR '':'', CHR ''?'', CHR ''&'', CHR ''#''} = {}"
    if "h \<in> set (pcw_AllowedHosts w)" for h
  proof -
    have "validateNetworkHostname h = None" using parts that by simp
    then have "trim_space h \<noteq> []" "\<not> contains_any (trim_space h) url_chars" "\<not> parses_ipv4 (trim_space h)"
      by (simp_all add: validateNetworkHostname_def Let_def split: if_splits)
    then show ?thesis by (auto simp: contains_any_def list_ex_iff url_chars_def ws_chars_def)
  qed
  have "pcw_TimeoutSeconds w \<in> {0..300}" "pcw_MaxHTMLBytes w \<in> {0..10485760}" "pcw_MaxImageCount w \<in> {0..32}"
    using parts by (simp_all add: MaxProductCaptureTimeoutSeconds_def MaxProductCaptureHTMLBytes_def MaxProductCaptureImageCount_def)
  then show ?thesis using u host nonempty names by blast
qed

section \<open>Workloads carry their specification\<close>

text \<open>The specification each kind requires; five kinds require none.\<close>

definition has_spec :: "WorkloadSpec \<Rightarrow> bool" where
  "has_spec w \<longleftrightarrow>
     (\<forall>(kind, present) \<in> set [(WorkloadCommand, ws_Command w \<noteq> None), (WorkloadContainerBuild, ws_ContainerBuild w \<noteq> None),
        (WorkloadService, ws_Service w \<noteq> None), (WorkloadNodeService, ws_NodeService w \<noteq> None),
        (WorkloadVideoStream, ws_VideoStream w \<noteq> None), (WorkloadMediaTransform, ws_MediaTransform w \<noteq> None),
        (WorkloadProductCapture, ws_ProductCapture w \<noteq> None), (WorkloadProvider, ws_Provider w \<noteq> None),
        (WorkloadWASMComponent, ws_WASM w \<noteq> None)]. ws_Kind w = kind \<longrightarrow> present)"

lemma WorkloadSpec_accepted:
  assumes "WorkloadSpec_Validate url lower same w = None"
  shows "validWorkloadKind (ws_Kind w) \<and> has_spec w"
proof -
  have "validWorkloadKind (ws_Kind w)"
    using assms by (simp add: WorkloadSpec_Validate_def validWorkloadKind_def split: if_splits)
  moreover have "has_spec w"
    using assms by (simp add: WorkloadSpec_Validate_def has_spec_def enum split: if_splits)
  ultimately show ?thesis by blast
qed

section \<open>Examples\<close>

lemma json_input_printed_witness:
  "validateJSONInput (print_json (JObject [(''n'', JArray [JNat 10, JNull, JString ''x''])])) = None \<and> validateJSONInput ''5'' \<noteq> None"
proof -
  let ?v = "JObject [(''n'', JArray [JNat 10, JNull, JString ''x''])]"
  have "is_composite ?v \<and> printable ?v \<and> depth ?v \<le> 10000" by (simp add: is_composite_def plain_text_def)
  then have "validateJSONInput (print_json ?v) = None" using json_input_printed [of ?v "''5''"] by blast
  moreover have "trim_space ''5'' = ''5''" by code_simp
  then have "validateJSONInput ''5'' \<noteq> None" using json_input_printed [of ?v "''5''"] by auto
  ultimately show ?thesis by blast
qed

definition demo_workload :: "string \<Rightarrow> string \<Rightarrow> ProviderWorkload" where
  "demo_workload img component = \<lparr>pw_ProviderConfig = \<lparr>pc_PluginID = ''plug'', pc_ProviderID = ''prov'', pc_ContractID = ''c'',
       pc_Version = ''v1'', pc_ConfigRef = ''config://c'', pc_ConfigDigest = []\<rparr>,
     pw_Operation = ''run'', pw_ImageRef = img, pw_ComponentRef = component, pw_ComponentDigest = demo_sha, pw_ABI = [],
     pw_Input = ''{}'', pw_ArtifactRefs = [], pw_ContentInputs = [], pw_StreamInputs = []\<rparr>"

lemma provider_workload_pinned_witness:
  "json_valid ''{}'' \<and> ProviderWorkload_Validate demo_url (demo_workload ''app:latest'' []) \<noteq> None \<and>
   ProviderWorkload_Validate demo_url (demo_workload [] ''provider://other/c'') \<noteq> None"
proof -
  have "ProviderWorkload_Validate demo_url (demo_workload (''app@'' @ demo_sha) []) = None"
    "ProviderWorkload_Validate demo_url (demo_workload [] ''provider://plug/c'') = None" by code_simp+
  note ok = provider_workload_pinned [OF this(1)] provider_workload_pinned [OF this(2)]
  have "trim_space ''{}'' = ''{}''" by code_simp
  with ok(1) have "json_valid ''{}''" by (simp add: demo_workload_def)
  moreover have "ProviderWorkload_Validate demo_url (demo_workload ''app:latest'' []) \<noteq> None"
    "ProviderWorkload_Validate demo_url (demo_workload [] ''provider://other/c'') \<noteq> None" by code_simp+
  ultimately show ?thesis by blast
qed

definition demo_web :: "string \<Rightarrow> URL option" where
  "demo_web s = Some \<lparr>url_Scheme = ''https'', url_User = False, url_Host = s @ '':443'', url_Hostname = s, url_Path = [],
     url_RawQuery = [], url_ForceQuery = False, url_Fragment = []\<rparr>"

definition demo_capture :: "string \<Rightarrow> ProductCaptureWorkload" where
  "demo_capture u = \<lparr>pcw_URL = u, pcw_AllowedHosts = [''shop.example''], pcw_CaptureMode = [], pcw_TimeoutSeconds = 10,
     pcw_MaxHTMLBytes = 0, pcw_MaxImageCount = 0, pcw_MetadataOnly = False\<rparr>"

lemma product_capture_allowed_witness:
  "(\<exists>u. demo_web ''Shop.example'' = Some u \<and> map lower_char (url_Hostname u) = ''shop.example'') \<and>
   ProductCaptureWorkload_Validate demo_web (map lower_char) (=) (demo_capture ''other.example'') \<noteq> None"
proof -
  have trim: "trim_space ''Shop.example'' = ''Shop.example''" "trim_space ''shop.example'' = ''shop.example''" by code_simp+
  have "ProductCaptureWorkload_Validate demo_web (map lower_char) (=) (demo_capture ''Shop.example'') = None" by code_simp
  from product_capture_allowed [OF this]
  have "\<exists>u. demo_web ''Shop.example'' = Some u \<and> map lower_char (url_Hostname u) = ''shop.example''"
    by (auto simp: demo_capture_def demo_web_def trim)
  moreover have "ProductCaptureWorkload_Validate demo_web (map lower_char) (=) (demo_capture ''other.example'') \<noteq> None" by code_simp
  ultimately show ?thesis by blast
qed

end
