(* ===== verification/Networks.thy ===== *)
theory Networks
  imports Attestation
begin

text \<open>
  \<open>protocol/types.go\<close>, lines 3330 to 3611: network policies and signed peer-to-peer session policies.
  \<open>sha\<close> is SHA-256, \<open>enc\<close> the bytes \<open>CanonicalHash\<close> hashes for a session policy.
\<close>

record NetworkDestination =
  nd_Protocol :: string
  nd_Host :: string
  nd_Port :: int
  nd_ContentRef :: string

record NetworkPolicy =
  np_Mode :: NetworkMode
  np_AllowedDestinations :: "NetworkDestination list"
  np_IngressHostnames :: "string list"
  np_AllowIngress :: bool
  np_AuditDestinations :: bool

definition NetworkDestination_Validate :: "NetworkDestination \<Rightarrow> error" where
  "NetworkDestination_Validate d =
     (if nd_ContentRef d \<noteq> [] then join
        (fails (nd_Protocol d \<noteq> [] \<or> nd_Host d \<noteq> [] \<or> nd_Port d \<noteq> 0)
           (New ''content_ref is mutually exclusive with protocol, host, and port'') @
         fails (\<not> has_prefix (nd_ContentRef d) ''artifact://'' \<and> \<not> has_prefix (nd_ContentRef d) ''content://'')
           (New ''content_ref must use artifact:// or content:// scoped ref''))
      else join
        ((if trim_space (nd_Host d) = [] then [New ''host is required'']
          else wraps ''host: %w'' [] (validateNetworkHostname (nd_Host d))) @
         fails (nd_Port d < 0 \<or> nd_Port d > 65535) (New ''port must be between 0 and 65535'') @
         fails (nd_Protocol d \<noteq> [] \<and>
             to_lower (trim_space (nd_Protocol d)) \<notin> set [''tcp'', ''udp'', ''http'', ''https''])
           (Errorf ''protocol %q is unsupported'' [Str (nd_Protocol d)])))"

definition NetworkPolicy_Validate :: "NetworkPolicy \<Rightarrow> error" where
  "NetworkPolicy_Validate p =
     (let p = p\<lparr>np_Mode := normalizeNetworkMode (np_Mode p)\<rparr>
      in join
        (fails (\<not> validNetworkMode (np_Mode p)) (Errorf ''network mode %q is unsupported'' [Str (np_Mode p)]) @
         fails (np_IngressHostnames p \<noteq> [] \<and> \<not> np_AllowIngress p)
           (New ''allow_ingress is required when ingress_hostnames are set'') @
         each (\<lambda>i destination. wraps ''allowed_destinations[%d]: %w'' [Num (int i)] (NetworkDestination_Validate destination))
           (np_AllowedDestinations p) @
         each (\<lambda>i hostname. wraps ''ingress_hostnames[%d]: %w'' [Num (int i)] (validateNetworkHostname hostname))
           (np_IngressHostnames p)))"

section \<open>Peer-to-peer sessions\<close>

record P2PSessionPeer =
  ppsepe_ID :: string
  ppsepe_Role :: string
  ppsepe_Alias :: string
  ppsepe_ContentURL :: string
  ppsepe_IdentitySHA256 :: string

record P2PSessionLimits =
  ppsl_MaxPeers :: int
  ppsl_MaxBytesPerPeer :: int
  ppsl_MaxSessionBytes :: int
  ppsl_MaxDurationSeconds :: int

record P2PSessionPolicy =
  ppsp_ProtocolVersion :: string
  ppsp_SessionID :: string
  ppsp_ProductID :: string
  ppsp_OrgID :: string
  ppsp_NetworkID :: string
  ppsp_OperatorID :: string
  ppsp_PolicyVersion :: string
  ppsp_IssuedAt :: time
  ppsp_NotBefore :: time
  ppsp_ExpiresAt :: time
  ppsp_SessionGeneration :: int
  ppsp_EventID :: string
  ppsp_Nonce :: string
  ppsp_Mode :: P2PSessionMode
  ppsp_Peers :: "P2PSessionPeer list"
  ppsp_AllowedProtocols :: "string list"
  ppsp_ContentRefs :: "string list"
  ppsp_RouteRefs :: "string list"
  ppsp_AllowedDestinations :: "NetworkDestination list"
  ppsp_IngressHostnames :: "string list"
  ppsp_Limits :: P2PSessionLimits
  ppsp_ProofPolicy :: string
  ppsp_RewardPolicyRef :: string
  ppsp_RevocationFeedID :: string
  ppsp_RevocationFreshUntil :: time
  ppsp_KillDirectiveRefs :: "string list"
  ppsp_PreviousGenerationHash :: string
  ppsp_PolicyHash :: string
  ppsp_Signature :: SignatureEnvelope

definition P2PSessionPeer_Validate :: "P2PSessionPeer \<Rightarrow> error" where
  "P2PSessionPeer_Validate p =
     join
     (reports (validateIdentifier ''id'' (ppsepe_ID p)) @
      reports (validateIdentifier ''role'' (ppsepe_Role p)) @
      fails (ppsepe_IdentitySHA256 p \<noteq> [] \<and> \<not> validSHA256Digest (ppsepe_IdentitySHA256 p))
        (New ''identity_sha256 must be sha256 digest''))"

definition P2PSessionLimits_Validate :: "P2PSessionLimits \<Rightarrow> error" where
  "P2PSessionLimits_Validate l =
     join
     (fails (ppsl_MaxPeers l \<le> 0)
        (New ''max_peers must be positive'') @
      fails (ppsl_MaxBytesPerPeer l < 0)
        (New ''max_bytes_per_peer must be non-negative'') @
      fails (ppsl_MaxSessionBytes l < 0)
        (New ''max_session_bytes must be non-negative'') @
      fails (ppsl_MaxDurationSeconds l < 0)
        (New ''max_duration_seconds must be non-negative''))"

definition P2PSessionPolicy_SigningPayload :: "P2PSessionPolicy \<Rightarrow> P2PSessionPolicy" where
  "P2PSessionPolicy_SigningPayload p = p\<lparr>ppsp_PolicyHash := [], ppsp_Signature := zero_SignatureEnvelope\<rparr>"

definition P2PSessionPolicy_Validate :: "(string \<Rightarrow> string) \<Rightarrow> (P2PSessionPolicy \<Rightarrow> string) \<Rightarrow> P2PSessionPolicy \<Rightarrow> time \<Rightarrow> error" where
  "P2PSessionPolicy_Validate sha enc p now =
     join
     (fails (ppsp_ProtocolVersion p \<noteq> [] \<and> ppsp_ProtocolVersion p \<noteq> Version)
        (Errorf ''protocol_version must be %q'' [Str Version]) @
      reports (validateIdentifier ''session_id'' (ppsp_SessionID p)) @
      reports (validateIdentifier ''org_id'' (ppsp_OrgID p)) @
      reports (validateIdentifier ''network_id'' (ppsp_NetworkID p)) @
      reports (validateIdentifier ''operator_id'' (ppsp_OperatorID p)) @
      reports (validateIdentifier ''policy_version'' (ppsp_PolicyVersion p)) @
      reports (validateIdentifier ''event_id'' (ppsp_EventID p)) @
      reports (validateIdentifier ''nonce'' (ppsp_Nonce p)) @
      reports (validateIdentifier ''revocation_feed_id'' (ppsp_RevocationFeedID p)) @
      reports (validateNetworkProductID (ppsp_ProductID p)) @
      fails (ppsp_IssuedAt p = 0)
        (New ''issued_at is required'') @
      fails (ppsp_NotBefore p = 0)
        (New ''not_before is required'') @
      fails (ppsp_ExpiresAt p = 0)
        (New ''expires_at is required'') @
      fails (\<not> ppsp_IssuedAt p = 0 \<and> \<not> ppsp_NotBefore p = 0 \<and> ppsp_NotBefore p < ppsp_IssuedAt p)
        (New ''not_before must not be before issued_at'') @
      fails (\<not> ppsp_NotBefore p = 0 \<and> \<not> ppsp_ExpiresAt p = 0 \<and> \<not> ppsp_NotBefore p < ppsp_ExpiresAt p)
        (New ''not_before must be before expires_at'') @
      (if \<not> now = 0 then
         fails (\<not> ppsp_NotBefore p = 0 \<and> now < ppsp_NotBefore p)
           (New ''session policy not yet valid'') @
         fails (\<not> ppsp_ExpiresAt p = 0 \<and> \<not> now < ppsp_ExpiresAt p)
           (New ''session policy expired'')
       else []) @
      fails (ppsp_SessionGeneration p \<le> 0)
        (New ''session_generation must be positive'') @
      (if ppsp_Mode p \<in> set [P2PSessionModeRelay, P2PSessionModeStream, P2PSessionModeContent] then
         []
       else if ppsp_Mode p = [] then
         [New ''mode is required'']
       else [Errorf ''mode %q is unsupported'' [Str (ppsp_Mode p)]]) @
      fails ((ppsp_Peers p) = [])
        (New ''peers is required'') @
      each_seen 0
        (\<lambda>i exists peer.
           wraps ''peers[%d]: %w'' [Num (int i)] (P2PSessionPeer_Validate peer) @
           fails exists (Errorf ''peers[%d].id is duplicated'' [Num (int i)]))
        (\<lambda>_. True) ppsepe_ID {} (ppsp_Peers p) @
      wraps ''limits: %w'' [] (P2PSessionLimits_Validate (ppsp_Limits p)) @
      fails (ppsl_MaxPeers (ppsp_Limits p) > 0 \<and> int (length (ppsp_Peers p)) > ppsl_MaxPeers (ppsp_Limits p))
        (New ''peers exceed max_peers'') @
      fails ((ppsp_AllowedProtocols p) = [])
        (New ''allowed_protocols is required'') @
      fails (ppsp_Mode p = P2PSessionModeContent \<and> (ppsp_ContentRefs p) = [])
        (New ''content_refs is required'') @
      each (\<lambda>i destination.
         wraps ''allowed_destinations[%d]: %w'' [Num (int i)] (NetworkDestination_Validate destination)) (ppsp_AllowedDestinations p) @
      each (\<lambda>i hostname.
         wraps ''ingress_hostnames[%d]: %w'' [Num (int i)] (validateNetworkHostname hostname)) (ppsp_IngressHostnames p) @
      (if ppsp_RevocationFreshUntil p = 0 then
         [New ''revocation_fresh_until is required'']
       else fails (\<not> now = 0 \<and> \<not> now < ppsp_RevocationFreshUntil p)
              (New ''revocation_fresh_until must be in the future'')) @
      fails (ppsp_PreviousGenerationHash p \<noteq> [] \<and> \<not> validSHA256Digest (ppsp_PreviousGenerationHash p))
        (New ''previous_generation_hash must be sha256 digest'') @
      (if ppsp_PolicyHash p = [] then
         [New ''policy_hash is required'']
       else (if \<not> validSHA256Digest (ppsp_PolicyHash p) then
               [New ''policy_hash must be sha256 digest'']
             else fails (ppsp_PolicyHash p \<noteq> CanonicalHash sha (enc (P2PSessionPolicy_SigningPayload p)))
                    (New ''policy_hash does not match signing payload''))) @
      reports (validateSignatureEnvelope (ppsp_Signature p) ''signature''))"

section \<open>What an accepted session promises\<close>

lemma peers_Nil:
  "each_seen 0
     (\<lambda>i exists peer.
        wraps ''peers[%d]: %w'' [Num (int i)] (P2PSessionPeer_Validate peer) @
        fails exists (Errorf ''peers[%d].id is duplicated'' [Num (int i)]))
     (\<lambda>_. True) ppsepe_ID {} peers = [] \<longleftrightarrow>
   (\<forall>peer \<in> set peers. P2PSessionPeer_Validate peer = None) \<and> distinct (map ppsepe_ID peers)"
  by (subst each_seen_Nil [where Q = "\<lambda>_ peer. P2PSessionPeer_Validate peer = None"]) simp_all

text \<open>A session policy accepted at a time \<open>now\<close> is in force then: issued no later than it starts, started,
  not expired, its revocation list still fresh; its peers are distinct and within their limit; and its
  hash is that of its own signing payload.\<close>

theorem session_policy_in_force:
  assumes "P2PSessionPolicy_Validate sha enc p now = None" and "now \<noteq> 0"
  shows "ppsp_IssuedAt p \<le> ppsp_NotBefore p \<and> ppsp_NotBefore p \<le> now \<and> now < ppsp_ExpiresAt p \<and>
    now < ppsp_RevocationFreshUntil p \<and>
    ppsp_Peers p \<noteq> [] \<and> distinct (map ppsepe_ID (ppsp_Peers p)) \<and>
    int (length (ppsp_Peers p)) \<le> ppsl_MaxPeers (ppsp_Limits p) \<and>
    ppsp_PolicyHash p = CanonicalHash sha (enc (P2PSessionPolicy_SigningPayload p))"
proof -
  note acc = assms(1) [unfolded P2PSessionPolicy_Validate_def join_None append_is_Nil_conv peers_Nil]
  have "P2PSessionLimits_Validate (ppsp_Limits p) = None" using acc by (elim conjE) simp
  then have "ppsl_MaxPeers (ppsp_Limits p) > 0" by (simp add: P2PSessionLimits_Validate_def)
  then show ?thesis using acc assms(2) by (elim conjE) (simp add: not_less not_le)
qed

text \<open>The policy hash seals a session policy: two accepted policies with the same hash differ at most in their
  signature, provided the hash does not collide on their payloads and these are encoded faithfully.\<close>

theorem session_policy_hash_binds:
  assumes "P2PSessionPolicy_Validate sha enc p now = None" and "P2PSessionPolicy_Validate sha enc q now' = None"
    and "ppsp_PolicyHash p = ppsp_PolicyHash q"
    and "sha (enc (P2PSessionPolicy_SigningPayload p)) = sha (enc (P2PSessionPolicy_SigningPayload q)) \<Longrightarrow>
      enc (P2PSessionPolicy_SigningPayload p) = enc (P2PSessionPolicy_SigningPayload q)"
    and "enc (P2PSessionPolicy_SigningPayload p) = enc (P2PSessionPolicy_SigningPayload q) \<Longrightarrow>
      P2PSessionPolicy_SigningPayload p = P2PSessionPolicy_SigningPayload q"
  shows "q = p\<lparr>ppsp_Signature := ppsp_Signature q\<rparr>"
proof -
  have hash: "ppsp_PolicyHash r = CanonicalHash sha (enc (P2PSessionPolicy_SigningPayload r))"
    if "P2PSessionPolicy_Validate sha enc r t = None" for r t
    using that unfolding P2PSessionPolicy_Validate_def join_None append_is_Nil_conv by (elim conjE) simp
  have "P2PSessionPolicy_SigningPayload p = P2PSessionPolicy_SigningPayload q"
    using hash [OF assms(1)] hash [OF assms(2)] assms(3-5) by (simp add: CanonicalHash_eq_iff)
  with assms(3) show ?thesis
    by (cases p; cases q) (simp add: P2PSessionPolicy_SigningPayload_def)
qed

section \<open>Witnesses\<close>

definition demo_session :: "string \<Rightarrow> P2PSessionPolicy" where
  "demo_session h = \<lparr>ppsp_ProtocolVersion = Version, ppsp_SessionID = ''s'', ppsp_ProductID = ''p'', ppsp_OrgID = ''o'',
     ppsp_NetworkID = ''n'', ppsp_OperatorID = ''op'', ppsp_PolicyVersion = ''1'', ppsp_IssuedAt = Time 1,
     ppsp_NotBefore = Time 2, ppsp_ExpiresAt = Time 9, ppsp_SessionGeneration = 1, ppsp_EventID = ''e'', ppsp_Nonce = ''x'',
     ppsp_Mode = P2PSessionModeRelay,
     ppsp_Peers = [\<lparr>ppsepe_ID = ''a'', ppsepe_Role = ''r'', ppsepe_Alias = [], ppsepe_ContentURL = [], ppsepe_IdentitySHA256 = []\<rparr>],
     ppsp_AllowedProtocols = [''tcp''], ppsp_ContentRefs = [], ppsp_RouteRefs = [], ppsp_AllowedDestinations = [],
     ppsp_IngressHostnames = [],
     ppsp_Limits = \<lparr>ppsl_MaxPeers = 2, ppsl_MaxBytesPerPeer = 0, ppsl_MaxSessionBytes = 0, ppsl_MaxDurationSeconds = 0\<rparr>,
     ppsp_ProofPolicy = [], ppsp_RewardPolicyRef = [], ppsp_RevocationFeedID = ''f'', ppsp_RevocationFreshUntil = Time 8,
     ppsp_KillDirectiveRefs = [], ppsp_PreviousGenerationHash = [], ppsp_PolicyHash = h,
     ppsp_Signature = \<lparr>se_Algorithm = ''a'', se_KeyID = ''k'', se_Value = ''v'', se_Verified = False\<rparr>\<rparr>"

definition demo_session_sha :: "string \<Rightarrow> string" where
  "demo_session_sha d = replicate 32 (CHR ''0'')"

definition demo_session_hash :: string where
  "demo_session_hash = CanonicalHash demo_session_sha []"

lemma demo_session_accepted:
  "P2PSessionPolicy_Validate demo_session_sha (\<lambda>_. []) (demo_session demo_session_hash) (Time 5) = None"
  by code_simp

lemma session_policy_in_force_witness:
  "ppsp_NotBefore (demo_session demo_session_hash) \<le> Time 5 \<and> Time 5 < ppsp_ExpiresAt (demo_session demo_session_hash)"
  using session_policy_in_force [OF demo_session_accepted] by simp

lemma session_policy_hash_binds_witness:
  "demo_session demo_session_hash =
     (demo_session demo_session_hash)\<lparr>ppsp_Signature := \<lparr>se_Algorithm = ''b'', se_KeyID = ''k'', se_Value = ''w'', se_Verified = True\<rparr>\<rparr>
     \<lparr>ppsp_Signature := ppsp_Signature (demo_session demo_session_hash)\<rparr>"
proof -
  let ?q = "(demo_session demo_session_hash)\<lparr>ppsp_Signature := \<lparr>se_Algorithm = ''b'', se_KeyID = ''k'', se_Value = ''w'', se_Verified = True\<rparr>\<rparr>"
  have "P2PSessionPolicy_Validate demo_session_sha (\<lambda>_. []) ?q (Time 5) = None" by code_simp
  then show ?thesis
    by (rule session_policy_hash_binds [OF _ demo_session_accepted])
      (simp_all add: P2PSessionPolicy_SigningPayload_def)
qed

end
