(* ===== verification/RuntimeBackend.thy ===== *)
theory RuntimeBackend
  imports Placement
begin

text \<open>
  \<open>protocol/types.go\<close>, lines 656 to 1125: the report of a runtime backend, the managed bundle it
  may carry, and the executors and provider capabilities a worker may advertise from its reports.
  The clock \<open>time.Now()\<close> is the argument \<open>now\<close>.
\<close>

section \<open>Managed bundles\<close>

record RuntimeBackendEvidence =
  rbe_Digest :: string
  rbe_Workspace :: bool
  rbe_Network :: bool
  rbe_Env :: bool
  rbe_Proof :: bool
  rbe_Cleanup :: bool
  rbe_Details :: "string list"

record ManagedRuntimeSignatureSubject =
  mrss_ArtifactDigest :: string
  mrss_RuntimeFamily :: RuntimeBackendFamily
  mrss_OS :: string
  mrss_Arch :: string
  mrss_Version :: string
  mrss_Channel :: string
  mrss_ConformanceProfile :: string
  mrss_ScopedStorePolicyDigest :: string

record ManagedRuntimeUpdatePolicy =
  mrup_Channel :: string
  mrup_MinSupportedVersion :: string
  mrup_BlockedVersions :: "string list"

record ManagedRuntimeCVEPolicy =
  mrcvep_PolicyDigest :: string
  mrcvep_BlockedVersions :: "string list"
  mrcvep_RevokedKeyIDs :: "string list"
  mrcvep_UpdatedByVersion :: string

record ManagedRuntimeScopedStorePolicy =
  mrssp_Required :: bool
  mrssp_NamespaceStrategy :: string
  mrssp_StoreStrategy :: string
  mrssp_PolicyDigest :: string
  mrssp_CleanupRequired :: bool
  mrssp_HostGlobalVisibilityForbidden :: bool

record ManagedRuntimeTarget =
  mrt_OS :: string
  mrt_Arch :: string

record ManagedRuntimeBundleDescriptor =
  mrbd_ProtocolVersion :: string
  mrbd_BundleID :: string
  mrbd_Family :: RuntimeBackendFamily
  mrbd_Tool :: ContainerRuntimeTool
  mrbd_Version :: string
  mrbd_OS :: string
  mrbd_Arch :: string
  mrbd_ArtifactName :: string
  mrbd_ArtifactDigest :: string
  mrbd_ChecksumName :: string
  mrbd_ChecksumDigest :: string
  mrbd_SignatureName :: string
  mrbd_SignatureDigest :: string
  mrbd_SignatureIssuer :: string
  mrbd_SignatureKeyID :: string
  mrbd_TrustRootDigest :: string
  mrbd_SignatureSubject :: ManagedRuntimeSignatureSubject
  mrbd_ValidUntil :: time
  mrbd_UpdatePolicy :: ManagedRuntimeUpdatePolicy
  mrbd_CVEPolicy :: ManagedRuntimeCVEPolicy
  mrbd_ScopedStore :: ManagedRuntimeScopedStorePolicy
  mrbd_SupportedTargets :: "ManagedRuntimeTarget list"
  mrbd_ConformanceProfile :: string
  mrbd_InstallBurden :: RuntimeInstallBurden

definition validateRuntimeBackendEvidence :: "RuntimeBackendEvidence \<Rightarrow> err list" where
  "validateRuntimeBackendEvidence evidence =
     each (\<lambda>idx detail.
        validateRuntimeBackendPublicText (at_index ''evidence.details'' idx []) detail) (rbe_Details evidence)"

definition ManagedRuntimeUpdatePolicy_Validate :: "ManagedRuntimeUpdatePolicy \<Rightarrow> err list" where
  "ManagedRuntimeUpdatePolicy_Validate p =
     validateRequiredRuntimeIdentifier ''update_policy.channel'' (mrup_Channel p) @
     validateRequiredRuntimeIdentifier ''update_policy.min_supported_version'' (mrup_MinSupportedVersion p) @
     each (\<lambda>idx version.
        validateRequiredRuntimeIdentifier (at_index ''update_policy.blocked_versions'' idx []) version) (mrup_BlockedVersions p)"

definition ManagedRuntimeCVEPolicy_Validate :: "ManagedRuntimeCVEPolicy \<Rightarrow> err list" where
  "ManagedRuntimeCVEPolicy_Validate p =
     validateRequiredSHA256Digest ''cve_policy.policy_digest'' (mrcvep_PolicyDigest p) @
     each (\<lambda>idx version.
        validateRequiredRuntimeIdentifier (at_index ''cve_policy.blocked_versions'' idx []) version) (mrcvep_BlockedVersions p) @
     each (\<lambda>idx keyID.
        validateRequiredRuntimeIdentifier (at_index ''cve_policy.revoked_key_ids'' idx []) keyID) (mrcvep_RevokedKeyIDs p) @
     validateRequiredRuntimeIdentifier ''cve_policy.updated_by_version'' (mrcvep_UpdatedByVersion p)"

definition ManagedRuntimeScopedStorePolicy_Validate :: "ManagedRuntimeScopedStorePolicy \<Rightarrow> err list" where
  "ManagedRuntimeScopedStorePolicy_Validate p =
     fails (\<not> mrssp_Required p)
       (New ''scoped_store.required must be true'') @
     validateRequiredRuntimeIdentifier ''scoped_store.namespace_strategy'' (mrssp_NamespaceStrategy p) @
     validateRequiredRuntimeIdentifier ''scoped_store.store_strategy'' (mrssp_StoreStrategy p) @
     validateRequiredSHA256Digest ''scoped_store.policy_digest'' (mrssp_PolicyDigest p) @
     fails (\<not> mrssp_CleanupRequired p)
       (New ''scoped_store.cleanup_required must be true'') @
     fails (\<not> mrssp_HostGlobalVisibilityForbidden p)
       (New ''scoped_store.host_global_visibility_forbidden must be true'')"

definition ManagedRuntimeSignatureSubject_validateAgainst :: "ManagedRuntimeSignatureSubject \<Rightarrow> ManagedRuntimeBundleDescriptor \<Rightarrow> err list" where
  "ManagedRuntimeSignatureSubject_validateAgainst s d =
     validateRequiredSHA256Digest ''signature_subject.artifact_digest'' (mrss_ArtifactDigest s) @
     fails (mrss_ArtifactDigest s \<noteq> [] \<and> mrbd_ArtifactDigest d \<noteq> [] \<and> mrss_ArtifactDigest s \<noteq> mrbd_ArtifactDigest d)
       (New ''signature_subject.artifact_digest must match artifact_digest'') @
     (if mrss_RuntimeFamily s = [] then
        [New ''signature_subject.runtime_family is required'']
      else (if \<not> validRuntimeBackendFamily (mrss_RuntimeFamily s) then
              [Errorf ''signature_subject.runtime_family %q is unsupported'' [Str (mrss_RuntimeFamily s)]]
            else fails (mrbd_Family d \<noteq> [] \<and> mrss_RuntimeFamily s \<noteq> mrbd_Family d)
                   (New ''signature_subject.runtime_family must match family''))) @
     validateRequiredRuntimeIdentifier ''signature_subject.os'' (mrss_OS s) @
     fails (mrss_OS s \<noteq> [] \<and> mrbd_OS d \<noteq> [] \<and> mrss_OS s \<noteq> mrbd_OS d)
       (New ''signature_subject.os must match os'') @
     validateRequiredRuntimeIdentifier ''signature_subject.arch'' (mrss_Arch s) @
     fails (mrss_Arch s \<noteq> [] \<and> mrbd_Arch d \<noteq> [] \<and> mrss_Arch s \<noteq> mrbd_Arch d)
       (New ''signature_subject.arch must match arch'') @
     validateRequiredRuntimeIdentifier ''signature_subject.version'' (mrss_Version s) @
     fails (mrss_Version s \<noteq> [] \<and> mrbd_Version d \<noteq> [] \<and> mrss_Version s \<noteq> mrbd_Version d)
       (New ''signature_subject.version must match version'') @
     validateRequiredRuntimeIdentifier ''signature_subject.channel'' (mrss_Channel s) @
     fails (mrss_Channel s \<noteq> [] \<and> mrup_Channel (mrbd_UpdatePolicy d) \<noteq> [] \<and> mrss_Channel s \<noteq> mrup_Channel (mrbd_UpdatePolicy d))
       (New ''signature_subject.channel must match update_policy.channel'') @
     validateRequiredRuntimeIdentifier ''signature_subject.conformance_profile'' (mrss_ConformanceProfile s) @
     fails (mrss_ConformanceProfile s \<noteq> [] \<and> mrbd_ConformanceProfile d \<noteq> [] \<and> mrss_ConformanceProfile s \<noteq> mrbd_ConformanceProfile d)
       (New ''signature_subject.conformance_profile must match conformance_profile'') @
     validateRequiredSHA256Digest ''signature_subject.scoped_store_policy_digest'' (mrss_ScopedStorePolicyDigest s) @
     fails (mrss_ScopedStorePolicyDigest s \<noteq> [] \<and> mrssp_PolicyDigest (mrbd_ScopedStore d) \<noteq> [] \<and> mrss_ScopedStorePolicyDigest s \<noteq> mrssp_PolicyDigest (mrbd_ScopedStore d))
       (New ''signature_subject.scoped_store_policy_digest must match scoped_store.policy_digest'')"

definition validateManagedRuntimeTargets :: "ManagedRuntimeTarget list \<Rightarrow> string \<Rightarrow> string \<Rightarrow> err list" where
  "validateManagedRuntimeTargets targets artifactOS artifactArch =
     (if targets = [] then [New ''supported_targets are required'']
      else each (\<lambda>idx target.
             validateRequiredRuntimeIdentifier (at_index ''supported_targets'' idx ''.os'') (mrt_OS target) @
             validateRequiredRuntimeIdentifier (at_index ''supported_targets'' idx ''.arch'') (mrt_Arch target)) targets @
           fails (\<not> list_ex (\<lambda>target. mrt_OS target = artifactOS \<and> mrt_Arch target = artifactArch) targets)
             (New ''supported_targets must include os/arch''))"

definition ManagedRuntimeBundleDescriptor_ValidateAt :: "ManagedRuntimeBundleDescriptor \<Rightarrow> time \<Rightarrow> error" where
  "ManagedRuntimeBundleDescriptor_ValidateAt d now =
     join
     (fails (now = 0)
        (New ''validation time is required'') @
      fails (mrbd_ProtocolVersion d \<noteq> [] \<and> mrbd_ProtocolVersion d \<noteq> Version)
        (Errorf ''protocol_version must be %q'' [Str Version]) @
      validateRequiredRuntimeIdentifier ''bundle_id'' (mrbd_BundleID d) @
      (if mrbd_Family d = [] then
         [New ''family is required'']
       else fails (\<not> validRuntimeBackendFamily (mrbd_Family d))
              (Errorf ''family %q is unsupported'' [Str (mrbd_Family d)])) @
      fails (mrbd_Tool d \<noteq> [] \<and> \<not> validContainerRuntimeTool (mrbd_Tool d))
        (Errorf ''tool %q is unsupported'' [Str (mrbd_Tool d)]) @
      validateRequiredRuntimeIdentifier ''version'' (mrbd_Version d) @
      validateRequiredRuntimeIdentifier ''os'' (mrbd_OS d) @
      validateRequiredRuntimeIdentifier ''arch'' (mrbd_Arch d) @
      validateRequiredRuntimeIdentifier ''artifact_name'' (mrbd_ArtifactName d) @
      validateRequiredSHA256Digest ''artifact_digest'' (mrbd_ArtifactDigest d) @
      validateRequiredRuntimeIdentifier ''checksum_name'' (mrbd_ChecksumName d) @
      validateRequiredSHA256Digest ''checksum_digest'' (mrbd_ChecksumDigest d) @
      validateRequiredRuntimeIdentifier ''signature_name'' (mrbd_SignatureName d) @
      validateRequiredSHA256Digest ''signature_digest'' (mrbd_SignatureDigest d) @
      validateRequiredRuntimePublicText ''signature_issuer'' (mrbd_SignatureIssuer d) @
      validateRequiredRuntimeIdentifier ''signature_key_id'' (mrbd_SignatureKeyID d) @
      validateRequiredSHA256Digest ''trust_root_digest'' (mrbd_TrustRootDigest d) @
      ManagedRuntimeSignatureSubject_validateAgainst (mrbd_SignatureSubject d) d @
      (if mrbd_ValidUntil d = 0 then
         [New ''valid_until is required'']
       else fails (\<not> now < mrbd_ValidUntil d)
              (New ''valid_until must be in the future'')) @
      ManagedRuntimeUpdatePolicy_Validate (mrbd_UpdatePolicy d) @
      ManagedRuntimeCVEPolicy_Validate (mrbd_CVEPolicy d) @
      ManagedRuntimeScopedStorePolicy_Validate (mrbd_ScopedStore d) @
      validateManagedRuntimeTargets (mrbd_SupportedTargets d) (mrbd_OS d) (mrbd_Arch d) @
      validateRequiredRuntimeIdentifier ''conformance_profile'' (mrbd_ConformanceProfile d) @
      (if mrbd_InstallBurden d = [] then
         [New ''install_burden is required'']
       else fails (mrbd_InstallBurden d \<noteq> RuntimeInstallBundled)
              (New ''install_burden must be bundled for managed runtime bundles'')))"

text \<open>\<open>clock\<close> is the result of \<open>time.Now()\<close>.\<close>

definition ManagedRuntimeBundleDescriptor_Validate :: "time \<Rightarrow> ManagedRuntimeBundleDescriptor \<Rightarrow> error" where
  "ManagedRuntimeBundleDescriptor_Validate clock r = ManagedRuntimeBundleDescriptor_ValidateAt r clock"

section \<open>Backend reports\<close>

record RuntimeBackendReport =
  rbr_ProtocolVersion :: string
  rbr_BackendID :: string
  rbr_Family :: RuntimeBackendFamily
  rbr_Tool :: ContainerRuntimeTool
  rbr_Version :: string
  rbr_OS :: string
  rbr_Arch :: string
  rbr_Status :: RuntimeBackendStatus
  rbr_Reason :: string
  rbr_IsolationMode :: RuntimeIsolationMode
  rbr_InstallBurden :: RuntimeInstallBurden
  rbr_RuntimeProfiles :: "RuntimeProfile list"
  rbr_ExecutorProviders :: "string list"
  rbr_Executors :: "ExecutorRef list"
  rbr_ConformanceProfiles :: "string list"
  rbr_Evidence :: RuntimeBackendEvidence
  rbr_Bundle :: "ManagedRuntimeBundleDescriptor option"
  rbr_GeneratedAt :: time
  rbr_Constraints :: "string list"

definition RuntimeBackendReport_ValidateAt :: "RuntimeBackendReport \<Rightarrow> time \<Rightarrow> error" where
  "RuntimeBackendReport_ValidateAt r now =
     join
     (reports (validateIdentifier ''backend_id'' (rbr_BackendID r)) @
      (if rbr_Family r = [] then
         [New ''family is required'']
       else fails (\<not> validRuntimeBackendFamily (rbr_Family r))
              (Errorf ''family %q is unsupported'' [Str (rbr_Family r)])) @
      (if rbr_Status r = [] then
         [New ''status is required'']
       else fails (\<not> validRuntimeBackendStatus (rbr_Status r))
              (Errorf ''status %q is unsupported'' [Str (rbr_Status r)])) @
      (if rbr_IsolationMode r = [] then
         [New ''isolation_mode is required'']
       else fails (\<not> validRuntimeIsolationMode (rbr_IsolationMode r))
              (Errorf ''isolation_mode %q is unsupported'' [Str (rbr_IsolationMode r)])) @
      fails (rbr_GeneratedAt r = 0)
        (New ''generated_at is required'') @
      fails (rbr_ProtocolVersion r \<noteq> [] \<and> rbr_ProtocolVersion r \<noteq> Version)
        (Errorf ''protocol_version must be %q'' [Str Version]) @
      fails (rbr_Tool r \<noteq> [] \<and> \<not> validContainerRuntimeTool (rbr_Tool r))
        (Errorf ''tool %q is unsupported'' [Str (rbr_Tool r)]) @
      fails (rbr_InstallBurden r \<noteq> [] \<and> \<not> validRuntimeInstallBurden (rbr_InstallBurden r))
        (Errorf ''install_burden %q is unsupported'' [Str (rbr_InstallBurden r)]) @
      validateRuntimeBackendPublicText ''version'' (rbr_Version r) @
      validateRuntimeBackendPublicText ''os'' (rbr_OS r) @
      validateRuntimeBackendPublicText ''arch'' (rbr_Arch r) @
      each (\<lambda>idx profile.
         fails (\<not> validRuntimeProfile profile)
           (Errorf ''runtime_profiles[%d] %q is unsupported'' [Num (int idx), Str profile])) (rbr_RuntimeProfiles r) @
      each (\<lambda>idx provider.
         reports (validateIdentifier (at_index ''executor_providers'' idx []) provider)) (rbr_ExecutorProviders r) @
      each (\<lambda>idx executor.
         wraps ''executors[%d]: %w'' [Num (int idx)] (ExecutorRef_ValidateForProof executor) @
         wraps ''executors[%d]: %w'' [Num (int idx)] (validateRuntimeBackendExecutor executor) @
         validateRuntimeBackendPublicText (at_index ''executors'' idx ''.version'') (er_Version executor)) (rbr_Executors r) @
      each (\<lambda>idx profile.
         reports (validateIdentifier (at_index ''conformance_profiles'' idx []) profile)) (rbr_ConformanceProfiles r) @
      validateRuntimeBackendEvidence (rbr_Evidence r) @
      (if rbr_Bundle r \<noteq> None then
         fails (rbr_InstallBurden r \<noteq> RuntimeInstallBundled)
           (New ''install_burden must be bundled when bundle is present'') @
         wraps ''bundle: %w'' [] (ManagedRuntimeBundleDescriptor_ValidateAt (the (rbr_Bundle r)) now) @
         fails (mrbd_Family (the (rbr_Bundle r)) \<noteq> [] \<and> rbr_Family r \<noteq> [] \<and> mrbd_Family (the (rbr_Bundle r)) \<noteq> rbr_Family r)
           (New ''bundle.family must match family'') @
         fails (mrbd_Tool (the (rbr_Bundle r)) \<noteq> [] \<and> rbr_Tool r \<noteq> [] \<and> mrbd_Tool (the (rbr_Bundle r)) \<noteq> rbr_Tool r)
           (New ''bundle.tool must match tool'') @
         fails (mrbd_OS (the (rbr_Bundle r)) \<noteq> [] \<and> rbr_OS r \<noteq> [] \<and> mrbd_OS (the (rbr_Bundle r)) \<noteq> rbr_OS r)
           (New ''bundle.os must match os'') @
         fails (mrbd_Arch (the (rbr_Bundle r)) \<noteq> [] \<and> rbr_Arch r \<noteq> [] \<and> mrbd_Arch (the (rbr_Bundle r)) \<noteq> rbr_Arch r)
           (New ''bundle.arch must match arch'') @
         fails (mrbd_Version (the (rbr_Bundle r)) \<noteq> [] \<and> rbr_Version r \<noteq> [] \<and> mrbd_Version (the (rbr_Bundle r)) \<noteq> rbr_Version r)
           (New ''bundle.version must match version'')
       else []) @
      validateRuntimeBackendPublicText ''reason'' (rbr_Reason r) @
      each (\<lambda>idx constraint.
         validateRuntimeBackendPublicText (at_index ''constraints'' idx []) constraint) (rbr_Constraints r) @
      (if rbr_Status r = RuntimeBackendSupported then
         fails (rbr_InstallBurden r = RuntimeInstallBundled \<and> rbr_Bundle r = None)
           (New ''bundle is required for supported bundled runtime backend'') @
         fails ((rbr_ExecutorProviders r) = [])
           (New ''executor_providers are required for supported runtime backend'') @
         fails ((rbr_RuntimeProfiles r) = [])
           (New ''runtime_profiles are required for supported runtime backend'') @
         fails ((rbr_ConformanceProfiles r) = [])
           (New ''conformance_profiles are required for supported runtime backend'') @
         fails (rbe_Digest (rbr_Evidence r) = [] \<or> \<not> validSHA256Digest (rbe_Digest (rbr_Evidence r)))
           (New ''evidence.digest must be sha256:<64 lowercase hex chars>'') @
         fails (\<not> rbe_Workspace (rbr_Evidence r))
           (New ''evidence.workspace is required for supported runtime backend'') @
         fails (\<not> rbe_Network (rbr_Evidence r))
           (New ''evidence.network is required for supported runtime backend'') @
         fails (\<not> rbe_Env (rbr_Evidence r))
           (New ''evidence.env is required for supported runtime backend'') @
         fails (\<not> rbe_Proof (rbr_Evidence r))
           (New ''evidence.proof is required for supported runtime backend'') @
         fails (\<not> rbe_Cleanup (rbr_Evidence r))
           (New ''evidence.cleanup is required for supported runtime backend'')
       else if rbr_Status r \<in> set [RuntimeBackendDegraded, RuntimeBackendUnsupported] then
         fails (trim_space (rbr_Reason r) = [])
           (New ''reason is required for degraded or unsupported runtime backend'') @
         fails ((rbr_ExecutorProviders r) \<noteq> [])
           (New ''executor_providers must be empty unless runtime backend is supported'') @
         fails ((rbr_Executors r) \<noteq> [])
           (New ''executors must be empty unless runtime backend is supported'')
       else []))"

text \<open>\<open>clock\<close> is the result of \<open>time.Now()\<close>.\<close>

definition RuntimeBackendReport_Validate :: "time \<Rightarrow> RuntimeBackendReport \<Rightarrow> error" where
  "RuntimeBackendReport_Validate clock r = RuntimeBackendReport_ValidateAt r clock"

section \<open>What a worker may advertise\<close>

definition advertised :: "time \<Rightarrow> RuntimeBackendReport \<Rightarrow> bool" where
  "advertised now report \<longleftrightarrow>
     \<not> (rbr_Status report \<noteq> RuntimeBackendSupported \<or> RuntimeBackendReport_ValidateAt report now \<noteq> None)"

fun RuntimeBackendReportsSupportedExecutors :: "time \<Rightarrow> RuntimeBackendReport list \<Rightarrow> ExecutorRef list" where
  "RuntimeBackendReportsSupportedExecutors now [] = []"
| "RuntimeBackendReportsSupportedExecutors now (report # rest) =
     (if advertised now report then rbr_Executors report else []) @ RuntimeBackendReportsSupportedExecutors now rest"

definition supported_report :: "string \<Rightarrow> ProviderCapabilityReport" where
  "supported_report provider = \<lparr>pcr_Provider = provider, pcr_Status = ProviderCapabilitySupported, pcr_Reason = []\<rparr>"

text \<open>The state of the loops is the set of providers seen and the reports collected so far.\<close>

definition add_capability ::
  "string set \<times> ProviderCapabilityReport list \<Rightarrow> string \<Rightarrow> string set \<times> ProviderCapabilityReport list" where
  "add_capability st provider =
     (case st of (seen, caps) \<Rightarrow>
        if provider \<in> seen then st else (insert provider seen, caps @ [supported_report provider]))"

definition add_report_capabilities ::
  "time \<Rightarrow> string set \<times> ProviderCapabilityReport list \<Rightarrow> RuntimeBackendReport \<Rightarrow> string set \<times> ProviderCapabilityReport list" where
  "add_report_capabilities now st report =
     (if advertised now report
      then foldl add_capability (foldl add_capability st (rbr_ExecutorProviders report))
             (map er_Provider (rbr_Executors report))
      else st)"

definition ProviderCapabilityReportsFromRuntimeBackends ::
  "time \<Rightarrow> RuntimeBackendReport list \<Rightarrow> ProviderCapabilityReport list" where
  "ProviderCapabilityReportsFromRuntimeBackends now reports0 =
     snd (foldl (add_report_capabilities now) ({}, []) reports0)"

section \<open>The bundle check\<close>

text \<open>What an accepted bundle promises, and what its signature subject repeats.\<close>

definition subject_matches :: "ManagedRuntimeSignatureSubject \<Rightarrow> ManagedRuntimeBundleDescriptor \<Rightarrow> bool" where
  "subject_matches s d \<longleftrightarrow>
     mrss_ArtifactDigest s = mrbd_ArtifactDigest d \<and> mrss_RuntimeFamily s = mrbd_Family d \<and>
     mrss_OS s = mrbd_OS d \<and> mrss_Arch s = mrbd_Arch d \<and> mrss_Version s = mrbd_Version d \<and>
     mrss_Channel s = mrup_Channel (mrbd_UpdatePolicy d) \<and>
     mrss_ConformanceProfile s = mrbd_ConformanceProfile d \<and>
     mrss_ScopedStorePolicyDigest s = mrssp_PolicyDigest (mrbd_ScopedStore d)"

definition runtime_id :: "string \<Rightarrow> bool" where
  "runtime_id v \<longleftrightarrow> plain_id v \<and> public_text v"

lemma runtime_id_Nil [simp]: "\<not> runtime_id []"
  by (simp add: runtime_id_def)

lemma validRuntimeBackendFamily_Nil [simp]: "\<not> validRuntimeBackendFamily []"
  by (simp add: validRuntimeBackendFamily_def enum)

lemma subject_Nil:
  assumes "runtime_id (mrbd_OS d)" "runtime_id (mrbd_Arch d)" "runtime_id (mrbd_Version d)"
    "runtime_id (mrup_Channel (mrbd_UpdatePolicy d))" "runtime_id (mrbd_ConformanceProfile d)"
    "validRuntimeBackendFamily (mrbd_Family d)" "validSHA256Digest (mrbd_ArtifactDigest d)"
    "validSHA256Digest (mrssp_PolicyDigest (mrbd_ScopedStore d))"
  shows "ManagedRuntimeSignatureSubject_validateAgainst s d = [] \<longleftrightarrow> subject_matches s d"
proof -
  have ne: "mrbd_OS d \<noteq> []" "mrbd_Arch d \<noteq> []" "mrbd_Version d \<noteq> []" "mrup_Channel (mrbd_UpdatePolicy d) \<noteq> []"
    "mrbd_ConformanceProfile d \<noteq> []" "mrbd_Family d \<noteq> []" "mrbd_ArtifactDigest d \<noteq> []"
    "mrssp_PolicyDigest (mrbd_ScopedStore d) \<noteq> []"
    using assms by auto
  have id: "validateRequiredRuntimeIdentifier f v = [] \<longleftrightarrow> runtime_id v" for f v
    by (simp add: runtime_id_def)
  have pair: "validateRequiredRuntimeIdentifier f v = [] \<and> fails (v \<noteq> [] \<and> w \<noteq> [] \<and> v \<noteq> w) e = [] \<longleftrightarrow> v = w"
    if "runtime_id w" for f v w e using that unfolding id by auto
  have dig: "validateRequiredSHA256Digest f v = [] \<and> fails (v \<noteq> [] \<and> w \<noteq> [] \<and> v \<noteq> w) e = [] \<longleftrightarrow> v = w"
    if "validSHA256Digest w" for f v w e using that by auto
  have fam: "(if v = [] then [e1] else if \<not> validRuntimeBackendFamily v then [e2] else fails (w \<noteq> [] \<and> v \<noteq> w) e3) = [] \<longleftrightarrow> v = w"
    if "validRuntimeBackendFamily w" for v w e1 e2 e3 using that by auto
  show ?thesis
    unfolding ManagedRuntimeSignatureSubject_validateAgainst_def append_is_Nil_conv fam [OF assms(6)]
    using pair [OF assms(1)] pair [OF assms(2)] pair [OF assms(3)] pair [OF assms(4)] pair [OF assms(5)]
      dig [OF assms(7)] dig [OF assms(8)]
    unfolding subject_matches_def by metis
qed

definition bundle_sound :: "ManagedRuntimeBundleDescriptor \<Rightarrow> time \<Rightarrow> bool" where
  "bundle_sound d now \<longleftrightarrow>
     now \<noteq> 0 \<and> mrbd_ProtocolVersion d \<in> {[], Version} \<and>
     runtime_id (mrbd_BundleID d) \<and> validRuntimeBackendFamily (mrbd_Family d) \<and>
     (mrbd_Tool d = [] \<or> validContainerRuntimeTool (mrbd_Tool d)) \<and>
     runtime_id (mrbd_Version d) \<and> runtime_id (mrbd_OS d) \<and> runtime_id (mrbd_Arch d) \<and>
     runtime_id (mrbd_ArtifactName d) \<and> validSHA256Digest (mrbd_ArtifactDigest d) \<and>
     runtime_id (mrbd_ChecksumName d) \<and> validSHA256Digest (mrbd_ChecksumDigest d) \<and>
     runtime_id (mrbd_SignatureName d) \<and> validSHA256Digest (mrbd_SignatureDigest d) \<and>
     mrbd_SignatureIssuer d \<noteq> [] \<and> trim_space (mrbd_SignatureIssuer d) = mrbd_SignatureIssuer d \<and>
     public_text (mrbd_SignatureIssuer d) \<and> runtime_id (mrbd_SignatureKeyID d) \<and>
     validSHA256Digest (mrbd_TrustRootDigest d) \<and> runtime_id (mrbd_ConformanceProfile d) \<and>
     mrbd_InstallBurden d = RuntimeInstallBundled"

definition policies_sound :: "ManagedRuntimeBundleDescriptor \<Rightarrow> bool" where
  "policies_sound d \<longleftrightarrow>
     (let u = mrbd_UpdatePolicy d; c = mrbd_CVEPolicy d; s = mrbd_ScopedStore d
      in runtime_id (mrup_Channel u) \<and> runtime_id (mrup_MinSupportedVersion u) \<and>
         (\<forall>v \<in> set (mrup_BlockedVersions u). runtime_id v) \<and>
         validSHA256Digest (mrcvep_PolicyDigest c) \<and> runtime_id (mrcvep_UpdatedByVersion c) \<and>
         (\<forall>v \<in> set (mrcvep_BlockedVersions c). runtime_id v) \<and> (\<forall>k \<in> set (mrcvep_RevokedKeyIDs c). runtime_id k) \<and>
         mrssp_Required s \<and> mrssp_CleanupRequired s \<and> mrssp_HostGlobalVisibilityForbidden s \<and>
         runtime_id (mrssp_NamespaceStrategy s) \<and> runtime_id (mrssp_StoreStrategy s) \<and>
         validSHA256Digest (mrssp_PolicyDigest s))"

lemma UpdatePolicy_Nil: "ManagedRuntimeUpdatePolicy_Validate u = [] \<longleftrightarrow>
    runtime_id (mrup_Channel u) \<and> runtime_id (mrup_MinSupportedVersion u) \<and> (\<forall>v \<in> set (mrup_BlockedVersions u). runtime_id v)"
  by (simp add: ManagedRuntimeUpdatePolicy_Validate_def runtime_id_def)

lemma CVEPolicy_Nil: "ManagedRuntimeCVEPolicy_Validate c = [] \<longleftrightarrow>
    validSHA256Digest (mrcvep_PolicyDigest c) \<and> runtime_id (mrcvep_UpdatedByVersion c) \<and>
    (\<forall>v \<in> set (mrcvep_BlockedVersions c). runtime_id v) \<and> (\<forall>k \<in> set (mrcvep_RevokedKeyIDs c). runtime_id k)"
  by (auto simp: ManagedRuntimeCVEPolicy_Validate_def runtime_id_def)

lemma ScopedStore_Nil: "ManagedRuntimeScopedStorePolicy_Validate s = [] \<longleftrightarrow>
    mrssp_Required s \<and> mrssp_CleanupRequired s \<and> mrssp_HostGlobalVisibilityForbidden s \<and>
    runtime_id (mrssp_NamespaceStrategy s) \<and> runtime_id (mrssp_StoreStrategy s) \<and> validSHA256Digest (mrssp_PolicyDigest s)"
  by (auto simp: ManagedRuntimeScopedStorePolicy_Validate_def runtime_id_def)

definition targets_include :: "ManagedRuntimeBundleDescriptor \<Rightarrow> bool" where
  "targets_include d \<longleftrightarrow>
     (\<forall>t \<in> set (mrbd_SupportedTargets d). runtime_id (mrt_OS t) \<and> runtime_id (mrt_Arch t)) \<and>
     \<lparr>mrt_OS = mrbd_OS d, mrt_Arch = mrbd_Arch d\<rparr> \<in> set (mrbd_SupportedTargets d)"

lemma target_eq_iff: "mrt_OS t = a \<and> mrt_Arch t = b \<longleftrightarrow> t = \<lparr>mrt_OS = a, mrt_Arch = b\<rparr>"
  by (cases t) auto

lemma targets_Nil:
  "validateManagedRuntimeTargets (mrbd_SupportedTargets d) (mrbd_OS d) (mrbd_Arch d) = [] \<longleftrightarrow> targets_include d"
  by (auto simp: validateManagedRuntimeTargets_def targets_include_def runtime_id_def list_ex_iff target_eq_iff)

lemma bundle_enum: "validRuntimeBackendFamily f \<Longrightarrow> f \<noteq> []" "RuntimeInstallBundled \<noteq> []"
  by (auto simp: RuntimeInstallBundled_def)

lemmas bundle_parts = UpdatePolicy_Nil CVEPolicy_Nil ScopedStore_Nil targets_Nil

text \<open>\<open>ValidateAt\<close> accepts exactly the bundles that are well formed and unexpired, whose signed subject
  repeats the descriptor, whose policies are sound and whose targets include the artifact's own.\<close>

theorem bundle_ValidateAt_iff:
  "ManagedRuntimeBundleDescriptor_ValidateAt d now = None \<longleftrightarrow>
     bundle_sound d now \<and> policies_sound d \<and> subject_matches (mrbd_SignatureSubject d) d \<and>
     targets_include d \<and> mrbd_ValidUntil d \<noteq> 0 \<and> now < mrbd_ValidUntil d"
proof -
  let ?subj = "ManagedRuntimeSignatureSubject_validateAgainst (mrbd_SignatureSubject d) d = []"
  have "ManagedRuntimeBundleDescriptor_ValidateAt d now = None \<longleftrightarrow>
      bundle_sound d now \<and> policies_sound d \<and> ?subj \<and> targets_include d \<and>
      mrbd_ValidUntil d \<noteq> 0 \<and> now < mrbd_ValidUntil d"
    unfolding ManagedRuntimeBundleDescriptor_ValidateAt_def join_None append_is_Nil_conv bundle_parts if_error_Nil
      fails_Nil validateRequiredRuntimeIdentifier_Nil [folded runtime_id_def] validateRequiredSHA256Digest_Nil
      validateRequiredRuntimePublicText_Nil bundle_sound_def policies_sound_def Let_def insert_iff empty_iff
    by (rule iffI; elim conjE; simp add: bundle_enum)
  moreover have "?subj \<longleftrightarrow> subject_matches (mrbd_SignatureSubject d) d" if "bundle_sound d now" "policies_sound d"
    using that by (intro subject_Nil) (simp_all add: bundle_sound_def policies_sound_def Let_def)
  ultimately show ?thesis by blast
qed

text \<open>The update and CVE policies of a bundle are carried, not enforced: a bundle stays accepted when its own
  version is blocked by both policies and the key that signed it is revoked.\<close>

theorem bundle_policies_not_enforced:
  assumes "ManagedRuntimeBundleDescriptor_ValidateAt d now = None"
  shows "ManagedRuntimeBundleDescriptor_ValidateAt
     (d\<lparr>mrbd_UpdatePolicy := (mrbd_UpdatePolicy d)\<lparr>mrup_BlockedVersions := [mrbd_Version d]\<rparr>,
        mrbd_CVEPolicy := (mrbd_CVEPolicy d)\<lparr>mrcvep_BlockedVersions := [mrbd_Version d],
                                              mrcvep_RevokedKeyIDs := [mrbd_SignatureKeyID d]\<rparr>\<rparr>) now = None"
  using assms unfolding bundle_ValidateAt_iff
  by (simp add: bundle_sound_def policies_sound_def subject_matches_def targets_include_def Let_def)

section \<open>Advertising\<close>

definition advertised_providers :: "RuntimeBackendReport \<Rightarrow> string list" where
  "advertised_providers r = rbr_ExecutorProviders r @ map er_Provider (rbr_Executors r)"

lemma advertised_iff: "advertised now r \<longleftrightarrow> rbr_Status r = RuntimeBackendSupported \<and> RuntimeBackendReport_ValidateAt r now = None"
  by (auto simp: advertised_def)

lemma SupportedExecutors_concat:
  "RuntimeBackendReportsSupportedExecutors now rs = concat (map rbr_Executors (filter (advertised now) rs))"
  by (induction rs) simp_all

definition well_tiered :: "ExecutorRef \<Rightarrow> bool" where
  "well_tiered e \<longleftrightarrow> plain_id (er_Provider e) \<and> validExecutionSecurityTier (er_ExecutionSecurityTier e) \<and> validProofTier (er_ProofTier e)"

lemma valid_report_executors:
  assumes "RuntimeBackendReport_ValidateAt r now = None" and "e \<in> set (rbr_Executors r)"
  shows "provable_executor e \<and> well_tiered e"
proof -
  have "\<forall>e \<in> set (rbr_Executors r). provable_executor e \<and> validateRuntimeBackendExecutor e = None \<and> public_text (er_Version e)"
    using assms(1) unfolding RuntimeBackendReport_ValidateAt_def join_None append_is_Nil_conv
    by (elim conjE) simp
  then have e: "provable_executor e" "validateRuntimeBackendExecutor e = None" using assms(2) by blast+
  then show ?thesis by (simp add: validateRuntimeBackendExecutor_def well_tiered_def provable_executor_def)
qed

lemma valid_report_unsupported:
  assumes "RuntimeBackendReport_ValidateAt r now = None" and "rbr_Status r \<noteq> RuntimeBackendSupported"
  shows "rbr_ExecutorProviders r = [] \<and> rbr_Executors r = []"
proof -
  have "rbr_Status r \<noteq> [] \<and> validRuntimeBackendStatus (rbr_Status r)"
    using assms(1) unfolding RuntimeBackendReport_ValidateAt_def join_None append_is_Nil_conv by (elim conjE) simp
  with assms(2) have "rbr_Status r \<in> set [RuntimeBackendDegraded, RuntimeBackendUnsupported]"
    by (simp add: validRuntimeBackendStatus_def)
  then show ?thesis
    using assms unfolding RuntimeBackendReport_ValidateAt_def join_None append_is_Nil_conv by (elim conjE) simp
qed

text \<open>Every executor a worker advertises comes from a supported report that validates, and is complete
  enough to prove work: identified, versioned, in known tiers, with image and root file system pinned
  unless it runs natively.\<close>

theorem supported_executors_sound:
  assumes "e \<in> set (RuntimeBackendReportsSupportedExecutors now rs)"
  shows "provable_executor e \<and> well_tiered e \<and>
    (\<exists>r \<in> set rs. rbr_Status r = RuntimeBackendSupported \<and> RuntimeBackendReport_ValidateAt r now = None \<and> e \<in> set (rbr_Executors r))"
  using assms valid_report_executors by (auto simp: SupportedExecutors_concat advertised_iff)

text \<open>A valid report that is not supported offers neither providers nor executors, so among valid reports
  the status filter loses nothing.\<close>

theorem unsupported_reports_offer_nothing:
  assumes "\<forall>r \<in> set rs. RuntimeBackendReport_ValidateAt r now = None"
  shows "RuntimeBackendReportsSupportedExecutors now rs = concat (map rbr_Executors rs)"
  using assms
proof (induction rs)
  case (Cons r rs)
  then show ?case using valid_report_unsupported [of r now] by (auto simp: advertised_iff)
qed simp

text \<open>The two inner loops are one pass over the providers of a report, and the whole is one pass over all of them.\<close>

lemma add_report_capabilities_eq:
  "add_report_capabilities now st r =
     (if advertised now r then foldl add_capability st (advertised_providers r) else st)"
  by (simp add: add_report_capabilities_def advertised_providers_def)

lemma foldl_add_reports:
  "foldl (add_report_capabilities now) st rs =
     foldl add_capability st (concat (map advertised_providers (filter (advertised now) rs)))"
  by (induction rs arbitrary: st) (simp_all add: add_report_capabilities_eq)

definition keep_first :: "'a list \<Rightarrow> 'a list" where
  "keep_first xs = rev (remdups (rev xs))"

lemma foldl_add_capability:
  "foldl add_capability ({}, []) ps = (set ps, map supported_report (keep_first ps))"
  by (induction ps rule: rev_induct) (auto simp: add_capability_def keep_first_def)

text \<open>C37. The capability reports a worker derives from its backends list each advertised provider once, in
  order of first appearance, as supported.\<close>

theorem capability_reports_exact:
  "ProviderCapabilityReportsFromRuntimeBackends now rs =
     map supported_report (keep_first (concat (map advertised_providers (filter (advertised now) rs))))"
  by (simp add: ProviderCapabilityReportsFromRuntimeBackends_def foldl_add_reports foldl_add_capability)

lemma set_keep_first [simp]: "set (keep_first xs) = set xs"
  by (simp add: keep_first_def)

lemma find_supported_report:
  "providerCapabilityReportForProvider (map supported_report ps) p =
     (if p \<noteq> [] \<and> p \<in> set ps then Some (supported_report p) else None)"
  by (induction ps) (auto simp: providerCapabilityReportForProvider_def supported_report_def)

text \<open>What a worker derives from its backends is consistent for placement: a task that asks for the provider
  and tiers of any advertised executor finds a supported match among the advertised executors and reports.\<close>

theorem advertised_executor_places:
  assumes "e \<in> set (RuntimeBackendReportsSupportedExecutors now rs)"
    and "prc_Executors caps = RuntimeBackendReportsSupportedExecutors now rs"
    and "prc_CapabilityReports caps = ProviderCapabilityReportsFromRuntimeBackends now rs"
    and "pr_ExecutorProvider req = er_Provider e" and "pr_ExecutionSecurityTier req = er_ExecutionSecurityTier e"
    and "pr_ProofTier req = er_ProofTier e"
  shows "ExecutorCapabilitiesHaveSupportedMatch req caps \<and> provider_usable caps (pr_ExecutorProvider req)"
proof -
  have usable: "provider_usable caps p" for p
    by (simp add: provider_usable_def assms(3) ProviderCapabilityReportsFromRuntimeBackends_def foldl_add_reports
        foldl_add_capability find_supported_report)
      (simp add: supported_report_def)
  have "ExecutorMatchesPlacementRequirements e req" by (simp add: ExecutorMatches_iff optionally_def assms(4-6))
  then show ?thesis using usable assms(1,2) by (auto simp: SupportedMatch_iff)
qed

section \<open>Witnesses\<close>

definition demo_bundle :: ManagedRuntimeBundleDescriptor where
  "demo_bundle = \<lparr>mrbd_ProtocolVersion = Version, mrbd_BundleID = ''bundle'', mrbd_Family = RuntimeBackendFamilyPodman,
     mrbd_Tool = ContainerRuntimePodman, mrbd_Version = ''v1'', mrbd_OS = ''linux'', mrbd_Arch = ''amd64'',
     mrbd_ArtifactName = ''a.tar'', mrbd_ArtifactDigest = demo_sha, mrbd_ChecksumName = ''c.txt'', mrbd_ChecksumDigest = demo_sha,
     mrbd_SignatureName = ''s.sig'', mrbd_SignatureDigest = demo_sha, mrbd_SignatureIssuer = ''issuer'',
     mrbd_SignatureKeyID = ''key'', mrbd_TrustRootDigest = demo_sha,
     mrbd_SignatureSubject = \<lparr>mrss_ArtifactDigest = demo_sha, mrss_RuntimeFamily = RuntimeBackendFamilyPodman,
       mrss_OS = ''linux'', mrss_Arch = ''amd64'', mrss_Version = ''v1'', mrss_Channel = ''stable'',
       mrss_ConformanceProfile = ''conf'', mrss_ScopedStorePolicyDigest = demo_sha\<rparr>,
     mrbd_ValidUntil = Time 1000,
     mrbd_UpdatePolicy = \<lparr>mrup_Channel = ''stable'', mrup_MinSupportedVersion = ''v1'', mrup_BlockedVersions = []\<rparr>,
     mrbd_CVEPolicy = \<lparr>mrcvep_PolicyDigest = demo_sha, mrcvep_BlockedVersions = [], mrcvep_RevokedKeyIDs = [],
       mrcvep_UpdatedByVersion = ''v1''\<rparr>,
     mrbd_ScopedStore = \<lparr>mrssp_Required = True, mrssp_NamespaceStrategy = ''ns'', mrssp_StoreStrategy = ''st'',
       mrssp_PolicyDigest = demo_sha, mrssp_CleanupRequired = True, mrssp_HostGlobalVisibilityForbidden = True\<rparr>,
     mrbd_SupportedTargets = [\<lparr>mrt_OS = ''linux'', mrt_Arch = ''amd64''\<rparr>], mrbd_ConformanceProfile = ''conf'',
     mrbd_InstallBurden = RuntimeInstallBundled\<rparr>"

definition demo_report :: "RuntimeBackendStatus \<Rightarrow> string \<Rightarrow> ExecutorRef list \<Rightarrow> RuntimeBackendReport" where
  "demo_report status reason execs = \<lparr>rbr_ProtocolVersion = Version, rbr_BackendID = ''backend'', rbr_Family = RuntimeBackendFamilyPodman,
     rbr_Tool = ContainerRuntimePodman, rbr_Version = ''v1'', rbr_OS = ''linux'', rbr_Arch = ''amd64'', rbr_Status = status,
     rbr_Reason = reason, rbr_IsolationMode = RuntimeIsolationMicroVM, rbr_InstallBurden = RuntimeInstallSystemInstalled,
     rbr_RuntimeProfiles = [RuntimeProfileSandboxedOCI], rbr_ExecutorProviders = map er_Provider execs, rbr_Executors = execs,
     rbr_ConformanceProfiles = [''conf''],
     rbr_Evidence = \<lparr>rbe_Digest = demo_sha, rbe_Workspace = True, rbe_Network = True, rbe_Env = True, rbe_Proof = True,
       rbe_Cleanup = True, rbe_Details = []\<rparr>,
     rbr_Bundle = None, rbr_GeneratedAt = Time 5, rbr_Constraints = []\<rparr>"

definition demo_native :: ExecutorRef where
  "demo_native = \<lparr>er_Provider = ''native'', er_Version = ''1'', er_ExecutionSecurityTier = ExecutionTrustedNative,
     er_ProofTier = ProofReceiptOnly, er_ImageDigest = [], er_RootFSDigest = []\<rparr>"

definition demo_reports :: "RuntimeBackendReport list" where
  "demo_reports = [demo_report RuntimeBackendSupported [] [demo_native], demo_report RuntimeBackendDegraded ''slow'' []]"

lemma demo_bundle_accepted: "ManagedRuntimeBundleDescriptor_ValidateAt demo_bundle (Time 10) = None"
  by code_simp

lemma demo_reports_valid: "list_all (\<lambda>r. RuntimeBackendReport_ValidateAt r (Time 10) = None) demo_reports"
  by code_simp

lemma bundle_policies_not_enforced_witness:
  "\<exists>d. ManagedRuntimeBundleDescriptor_ValidateAt d (Time 10) = None \<and>
     mrbd_Version d \<in> set (mrup_BlockedVersions (mrbd_UpdatePolicy d)) \<and>
     mrbd_SignatureKeyID d \<in> set (mrcvep_RevokedKeyIDs (mrbd_CVEPolicy d))"
  by (rule exI, rule conjI, rule bundle_policies_not_enforced [OF demo_bundle_accepted]) simp

lemma demo_reports_executors: "RuntimeBackendReportsSupportedExecutors (Time 10) demo_reports = [demo_native]"
  by code_simp

lemma supported_executors_sound_witness: "provable_executor demo_native \<and> well_tiered demo_native"
  using supported_executors_sound [of demo_native "Time 10" demo_reports] demo_reports_executors by simp

lemma unsupported_reports_offer_nothing_witness:
  "RuntimeBackendReportsSupportedExecutors (Time 10) demo_reports = concat (map rbr_Executors demo_reports)"
  using unsupported_reports_offer_nothing [of demo_reports "Time 10"] demo_reports_valid by (simp add: list_all_iff)

lemma advertised_executor_places_witness:
  "\<exists>req caps. ExecutorCapabilitiesHaveSupportedMatch req caps \<and> prc_Executors caps = [demo_native]"
proof -
  let ?req = "\<lparr>pr_ExecutorProvider = ''native'', pr_ExecutionSecurityTier = ExecutionTrustedNative,
     pr_ProofTier = ProofReceiptOnly, pr_HardwareClass = [], pr_RequiredCapabilities = []\<rparr>"
  let ?caps = "\<lparr>prc_CapabilityTags = [], prc_ExecutorProviders = [], prc_ExecutionTiers = [], prc_ProofTiers = [],
     prc_CapabilityReports = ProviderCapabilityReportsFromRuntimeBackends (Time 10) demo_reports,
     prc_Executors = RuntimeBackendReportsSupportedExecutors (Time 10) demo_reports\<rparr>"
  have "ExecutorCapabilitiesHaveSupportedMatch ?req ?caps \<and> provider_usable ?caps (pr_ExecutorProvider ?req)"
    by (rule advertised_executor_places [of demo_native "Time 10" demo_reports])
      (simp_all add: demo_reports_executors, simp_all add: demo_native_def)
  then show ?thesis using demo_reports_executors by (intro exI [of _ ?req] exI [of _ ?caps]) simp
qed

end
