(* ===== verification/Leases.thy ===== *)
theory Leases
  imports Contracts Networks RuntimeBackend
begin

text \<open>
  \<open>protocol/types.go\<close>, lines 3840 to 3900 and 4024 to 4228: machines and their capabilities, agents, the
  selection of an idle agent, and the leases that bind a task to a worker.
\<close>

section \<open>Records\<close>

record GPU =
  gpu_Vendor :: string
  gpu_Name :: string
  gpu_MemoryBytes :: int

record CapabilityReport =
  cr_Provider :: string
  cr_Backend :: string
  cr_Status :: CapabilityReportStatus
  cr_Reason :: string
  cr_Constraints :: "string list"

record SigningCapability =
  sc_Provider :: string
  sc_Algorithm :: string
  sc_KeyID :: string
  sc_HardwareBacked :: bool
  sc_Available :: bool

record Security =
  se2_TPM :: bool
  se2_SecureEnclave :: bool
  se2_TEE :: "string list"
  se2_HardwareClasses :: "string list"
  se2_HardwareAttestations :: "HardwareAttestation list"
  se2_Signing :: "SigningCapability list"

record Capabilities =
  ca_MachineID :: string
  ca_OS :: string
  ca_Arch :: string
  ca_CPUModel :: string
  ca_CPUCount :: int
  ca_MemoryBytes :: int
  ca_DiskBytes :: int
  ca_BandwidthMbps :: int
  ca_IngressCapable :: bool
  ca_GPU :: "GPU list"
  ca_ExecutorProviders :: "string list"
  ca_Executors :: "ExecutorRef list"
  ca_WorkloadKinds :: "string list"
  ca_ExecutionTiers :: "ExecutionSecurityTier list"
  ca_ProofTiers :: "ProofTier list"
  ca_NetworkModes :: "NetworkMode list"
  ca_CapabilityTags :: "string list"
  ca_CapabilityReports :: "CapabilityReport list"
  ca_RuntimeBackendReports :: "RuntimeBackendReport list"
  ca_HardwareSecurity :: Security

record AgentNetworkProfile =
  anp_ID :: string
  anp_ProductID :: string
  anp_OrgID :: string
  anp_PoolID :: string
  anp_Weight :: int
  anp_Disabled :: bool
  anp_WorkloadKinds :: "string list"
  anp_NetworkModes :: "NetworkMode list"

record AgentComponentVersion =
  acv_Component :: string
  acv_PluginID :: string
  acv_ComponentID :: string
  acv_Version :: string
  acv_Source :: string
  acv_PID :: int

record AgentSupervisorProfileStatus =
  asps_ID :: string
  asps_Status :: string
  asps_Executor :: string
  asps_AvailabilityMode :: string
  asps_ErrorClass :: string
  asps_Networks :: "AgentNetworkProfile list"

record Agent =
  ag_ID :: string
  ag_OrgID :: string
  ag_PoolID :: string
  ag_Status :: AgentStatus
  ag_Capabilities :: Capabilities
  ag_Networks :: "AgentNetworkProfile list"
  ag_Labels :: "(string \<times> string) list"
  ag_ComponentVersions :: "AgentComponentVersion list"
  ag_SupervisorProfiles :: "AgentSupervisorProfileStatus list"
  ag_LastSeenAt :: time
  ag_CreatedAt :: time

record Lease =
  le_ID :: string
  le_TaskID :: string
  le_WorkerID :: string
  le_PoolID :: string
  le_Executor :: ExecutorRef
  le_CapabilitySnapshot :: Capabilities
  le_AllowedPushTargets :: "string list"
  le_AllowedPullTargets :: "string list"
  le_ProviderArtifactSpecs :: "ProviderArtifactSpec list"
  le_NetworkPolicy :: NetworkPolicy
  le_P2PSessionPolicy :: "P2PSessionPolicy option"
  le_ResiduePolicy :: ResiduePolicy
  le_RunLogPolicy :: RunLogLeasePolicy
  le_LeasedAt :: time
  le_ExpiresAt :: time

section \<open>Selecting an agent\<close>

text \<open>
  The loop of \<open>agentMatchesNetwork\<close> over the network profiles of an agent, with the flag it carries;
  the identifiers are trimmed before. The base case is the return after the loop.
\<close>

definition is_default_profile :: "Agent \<Rightarrow> AgentNetworkProfile \<Rightarrow> bool" where
  "is_default_profile agent profile \<longleftrightarrow>
     trim_space (anp_ProductID profile) = [] \<and> trim_space (anp_OrgID profile) = trim_space (ag_OrgID agent) \<and>
     trim_space (anp_PoolID profile) = trim_space (ag_PoolID agent)"

definition serves :: "AgentNetworkProfile \<Rightarrow> string \<Rightarrow> string \<Rightarrow> bool" where
  "serves profile orgID poolID \<longleftrightarrow>
     \<not> anp_Disabled profile \<and> trim_space (anp_OrgID profile) = orgID \<and> trim_space (anp_PoolID profile) = poolID"

fun profile_loop :: "Agent \<Rightarrow> string \<Rightarrow> string \<Rightarrow> bool \<Rightarrow> AgentNetworkProfile list \<Rightarrow> bool" where
  "profile_loop agent orgID poolID hasExplicitDefault [] \<longleftrightarrow>
     \<not> hasExplicitDefault \<and> trim_space (ag_OrgID agent) = orgID \<and> trim_space (ag_PoolID agent) = poolID"
| "profile_loop agent orgID poolID hasExplicitDefault (profile # profiles) \<longleftrightarrow>
     (let hasExplicitDefault = (if is_default_profile agent profile then True else hasExplicitDefault)
      in if serves profile orgID poolID then True else profile_loop agent orgID poolID hasExplicitDefault profiles)"

definition agentMatchesNetwork :: "Agent \<Rightarrow> string \<Rightarrow> string \<Rightarrow> bool" where
  "agentMatchesNetwork agent orgID poolID = profile_loop agent (trim_space orgID) (trim_space poolID) False (ag_Networks agent)"

definition busy :: "Lease list \<Rightarrow> time \<Rightarrow> Agent \<Rightarrow> bool" where
  \<comment> \<open>the inner loop\<close>
  "busy leases now agent \<longleftrightarrow> list_ex (\<lambda>lease. le_WorkerID lease = ag_ID agent \<and> now < le_ExpiresAt lease) leases"

text \<open>The zero agent and \<open>false\<close> of the source are \<open>None\<close>.\<close>

fun SelectIdleAgent :: "Agent list \<Rightarrow> Lease list \<Rightarrow> string \<Rightarrow> string \<Rightarrow> time \<Rightarrow> Agent option" where
  "SelectIdleAgent [] leases orgID poolID now = None"
| "SelectIdleAgent (agent # agents) leases orgID poolID now =
     (if ag_Status agent \<noteq> AgentOnline \<or> \<not> agentMatchesNetwork agent orgID poolID
      then SelectIdleAgent agents leases orgID poolID now
      else if \<not> busy leases now agent then Some agent
      else SelectIdleAgent agents leases orgID poolID now)"

section \<open>Leases\<close>

definition containsCapabilityTag :: "string list \<Rightarrow> string \<Rightarrow> bool" where
  "containsCapabilityTag tags want = list_ex (\<lambda>tag. tag = want) tags"

definition required_text :: "string \<Rightarrow> string \<Rightarrow> err list" where
  \<comment> \<open>the closure \<open>require\<close>\<close>
  "required_text name v = fails (trim_space v = []) (Errorf ''%s is required'' [Str name])"

definition Lease_Validate :: "(string \<Rightarrow> string) \<Rightarrow> (P2PSessionPolicy \<Rightarrow> string) \<Rightarrow> Lease \<Rightarrow> error" where
  "Lease_Validate sha enc l =
     join
     (required_text ''id'' (le_ID l) @
      required_text ''task_id'' (le_TaskID l) @
      required_text ''worker_id'' (le_WorkerID l) @
      required_text ''pool_id'' (le_PoolID l) @
      required_text ''executor.provider'' (er_Provider (le_Executor l)) @
      required_text ''executor.version'' (er_Version (le_Executor l)) @
      fails (trim_space (ca_OS (le_CapabilitySnapshot l)) = [])
        (New ''capability_snapshot.os is required'') @
      fails (trim_space (ca_Arch (le_CapabilitySnapshot l)) = [])
        (New ''capability_snapshot.arch is required'') @
      reports (ValidateProviderArtifactSpecs (le_ProviderArtifactSpecs l)) @
      wraps ''network_policy: %w'' [] (NetworkPolicy_Validate (le_NetworkPolicy l)) @
      (case le_P2PSessionPolicy l of
         None \<Rightarrow> []
       | Some p \<Rightarrow> wraps ''p2p_session_policy: %w'' [] (P2PSessionPolicy_Validate sha enc p 0)) @
      reports (RunLogLeasePolicy_Validate (le_RunLogPolicy l)) @
      fails (rllp_Version (le_RunLogPolicy l) \<noteq> [] \<and> \<not> containsCapabilityTag (ca_CapabilityTags (le_CapabilitySnapshot l)) CapabilityTagRunLogLeasePolicyV1)
        (Errorf ''capability_snapshot.capability_tags must include %q for versioned run_log_policy'' [Str CapabilityTagRunLogLeasePolicyV1]) @
      wraps ''residue_policy: %w'' [] (ResiduePolicy_Validate (le_ResiduePolicy l) \<lparr>rpv_NoWorkspaceAllowed = False, rpv_RequireSessionKey = True, rpv_RequireExplicitWorkerBound = True, rpv_RequirePolicyHash = True\<rparr>) @
      fails (le_LeasedAt l = 0)
        (New ''leased_at is required'') @
      fails (le_ExpiresAt l = 0)
        (New ''expires_at is required'') @
      fails (\<not> le_LeasedAt l = 0 \<and> \<not> le_ExpiresAt l = 0 \<and> \<not> le_LeasedAt l < le_ExpiresAt l)
        (New ''expires_at must be after leased_at''))"

section \<open>Which networks an agent serves\<close>

lemma profile_loop_iff:
  "profile_loop agent o' p has ps \<longleftrightarrow>
     (\<exists>profile \<in> set ps. serves profile o' p) \<or>
     \<not> has \<and> (\<forall>profile \<in> set ps. \<not> is_default_profile agent profile) \<and>
     trim_space (ag_OrgID agent) = o' \<and> trim_space (ag_PoolID agent) = p"
  by (induction ps arbitrary: has) (auto simp: Let_def)

text \<open>An agent serves a network exactly when one of its enabled profiles names it, or when it is the agent's own
  network and no profile, enabled or not, stands for that default: a disabled default profile takes
  the agent out of its own network.\<close>

theorem agentMatchesNetwork_iff:
  "agentMatchesNetwork agent orgID poolID \<longleftrightarrow>
     (\<exists>profile \<in> set (ag_Networks agent). serves profile (trim_space orgID) (trim_space poolID)) \<or>
     (\<forall>profile \<in> set (ag_Networks agent). \<not> is_default_profile agent profile) \<and>
     trim_space (ag_OrgID agent) = trim_space orgID \<and> trim_space (ag_PoolID agent) = trim_space poolID"
  by (simp add: agentMatchesNetwork_def profile_loop_iff)

section \<open>Selection\<close>

definition eligible :: "string \<Rightarrow> string \<Rightarrow> Agent \<Rightarrow> bool" where
  "eligible orgID poolID agent \<longleftrightarrow> ag_Status agent = AgentOnline \<and> agentMatchesNetwork agent orgID poolID"

lemma SelectIdleAgent_find:
  "SelectIdleAgent agents leases orgID poolID now = find (\<lambda>a. eligible orgID poolID a \<and> \<not> busy leases now a) agents"
  by (induction agents) (auto simp: eligible_def)

lemma SelectIdleAgent_Some:
  "SelectIdleAgent agents leases orgID poolID now = Some a \<Longrightarrow> a \<in> set agents \<and> eligible orgID poolID a \<and> \<not> busy leases now a"
  unfolding SelectIdleAgent_find by (auto simp: find_Some_iff)

text \<open>C33. An agent is selected whenever one can be: selection fails exactly when every online agent that serves the
  network holds an unexpired lease, and otherwise gives the first one that does not.\<close>

theorem SelectIdleAgent_complete:
  "(case SelectIdleAgent agents leases orgID poolID now of
      None \<Rightarrow> (\<forall>a \<in> set agents. eligible orgID poolID a \<longrightarrow> (\<exists>l \<in> set leases. le_WorkerID l = ag_ID a \<and> now < le_ExpiresAt l))
    | Some a \<Rightarrow> \<exists>before after. agents = before @ a # after \<and> eligible orgID poolID a \<and>
        (\<forall>l \<in> set leases. le_WorkerID l = ag_ID a \<longrightarrow> le_ExpiresAt l \<le> now) \<and>
        (\<forall>b \<in> set before. eligible orgID poolID b \<longrightarrow> busy leases now b))"
proof (induction agents)
  case (Cons a agents)
  have idle: "\<not> busy leases now a \<longleftrightarrow> (\<forall>l \<in> set leases. le_WorkerID l = ag_ID a \<longrightarrow> le_ExpiresAt l \<le> now)"
    by (auto simp: busy_def list_ex_iff not_less)
  show ?case
  proof (cases "eligible orgID poolID a \<and> \<not> busy leases now a")
    case True
    then have "SelectIdleAgent (a # agents) leases orgID poolID now = Some a" by (simp add: eligible_def)
    then show ?thesis using True idle by (auto intro: exI [of _ "[]"])
  next
    case False
    then have sel: "SelectIdleAgent (a # agents) leases orgID poolID now = SelectIdleAgent agents leases orgID poolID now"
      by (auto simp: eligible_def)
    show ?thesis
    proof (cases "SelectIdleAgent agents leases orgID poolID now")
      case None
      with Cons.IH False idle show ?thesis unfolding sel by (auto simp: busy_def list_ex_iff)
    next
      case (Some b)
      with Cons.IH obtain before after where "agents = before @ b # after" "eligible orgID poolID b"
        "\<forall>l \<in> set leases. le_WorkerID l = ag_ID b \<longrightarrow> le_ExpiresAt l \<le> now" "\<forall>b \<in> set before. eligible orgID poolID b \<longrightarrow> busy leases now b"
        by auto
      with False show ?thesis unfolding sel Some option.case
        by (intro exI [of _ "a # before"] exI [of _ after]) auto
    qed
  qed
qed simp

section \<open>What an accepted lease says\<close>

lemma required_text_Nil [validation, simp]: "required_text name v = [] \<longleftrightarrow> trim_space v \<noteq> []"
  by (simp add: required_text_def)

text \<open>An accepted lease runs forward in time, grants run logs only to a worker that declares the capability and
  under a valid policy, and reuses a workspace only under a policy hash, bound to a session by a key
  or to the worker explicitly.\<close>

theorem lease_accepted:
  assumes "Lease_Validate sha enc l = None"
  shows "0 \<noteq> le_LeasedAt l \<and> le_LeasedAt l < le_ExpiresAt l \<and>
    le_WorkerID l \<noteq> [] \<and> le_TaskID l \<noteq> [] \<and>
    (rllp_PreserveFullLogs (le_RunLogPolicy l) \<longrightarrow> CapabilityTagRunLogLeasePolicyV1 \<in> set (ca_CapabilityTags (le_CapabilitySnapshot l)) \<and> validSHA256Digest (rllp_PolicyHash (le_RunLogPolicy l))) \<and>
    (ResiduePolicy_UsesReusableWorkspace (le_ResiduePolicy l) \<longrightarrow> validSHA256Ref (rp_PolicyHash (le_ResiduePolicy l))) \<and>
    (rp_Mode (le_ResiduePolicy l) = ResidueModeSessionBound \<longrightarrow> rp_SessionKey (le_ResiduePolicy l) \<noteq> []) \<and>
    (rp_Mode (le_ResiduePolicy l) = ResidueModeWorkerBound \<longrightarrow> rp_ExplicitWorkerBound (le_ResiduePolicy l))"
proof -
  note parts = assms [unfolded Lease_Validate_def join_None append_is_Nil_conv]
  have c1: "0 \<noteq> le_LeasedAt l \<and> le_LeasedAt l < le_ExpiresAt l" using parts by auto
  have c2: "le_WorkerID l \<noteq> [] \<and> le_TaskID l \<noteq> []" using parts by auto
  have "RunLogLeasePolicy_Validate (le_RunLogPolicy l) = None"
    and tag: "rllp_Version (le_RunLogPolicy l) = [] \<or> CapabilityTagRunLogLeasePolicyV1 \<in> set (ca_CapabilityTags (le_CapabilitySnapshot l))"
    using parts by (auto simp: containsCapabilityTag_def list_ex_iff)
  then have c3: "CapabilityTagRunLogLeasePolicyV1 \<in> set (ca_CapabilityTags (le_CapabilitySnapshot l)) \<and> validSHA256Digest (rllp_PolicyHash (le_RunLogPolicy l))"
    if "rllp_PreserveFullLogs (le_RunLogPolicy l)"
    using that by (auto simp: RunLogLeasePolicy_Validate_def split: if_splits option.splits)
  have residue: "ResiduePolicy_Validate (le_ResiduePolicy l) \<lparr>rpv_NoWorkspaceAllowed = False, rpv_RequireSessionKey = True,
      rpv_RequireExplicitWorkerBound = True, rpv_RequirePolicyHash = True\<rparr> = None" using parts by simp
  then have c4: "validSHA256Ref (rp_PolicyHash (le_ResiduePolicy l))" if "ResiduePolicy_UsesReusableWorkspace (le_ResiduePolicy l)"
    using that by (auto simp: ResiduePolicy_Validate_def split: if_splits)
  have c5: "rp_SessionKey (le_ResiduePolicy l) \<noteq> []" if "rp_Mode (le_ResiduePolicy l) = ResidueModeSessionBound"
    using residue that by (auto simp: ResiduePolicy_Validate_def split: if_splits)
  have c6: "rp_ExplicitWorkerBound (le_ResiduePolicy l)" if "rp_Mode (le_ResiduePolicy l) = ResidueModeWorkerBound"
    using residue that by (auto simp: ResiduePolicy_Validate_def split: if_splits)
  show ?thesis using c1 c2 c3 c4 c5 c6 by blast
qed

section \<open>Leases granted by selection\<close>

definition unexpired :: "Lease list \<Rightarrow> string \<Rightarrow> time \<Rightarrow> Lease list" where
  "unexpired leases worker t = filter (\<lambda>l. le_WorkerID l = worker \<and> t < le_ExpiresAt l) leases"

lemma unexpired_later: "t \<le> t' \<Longrightarrow> length (unexpired leases w t') \<le> length (unexpired leases w t)"
proof -
  assume "t \<le> t'"
  then have "unexpired leases w t' = filter (\<lambda>l. t' < le_ExpiresAt l) (unexpired leases w t)"
    by (auto simp: unexpired_def intro!: filter_cong)
  then show ?thesis by (simp add: length_filter_le)
qed

lemma busy_iff: "busy leases now agent \<longleftrightarrow> unexpired leases (ag_ID agent) now \<noteq> []"
  by (auto simp: busy_def unexpired_def list_ex_iff filter_empty_conv)

text \<open>C6. A lease for the selected agent is its only one: when no worker holds two unexpired leases at the time of a
  selection, then none holds two after any lease has been added for the selected agent, at that time and at any
  later one.\<close>

theorem selection_keeps_one_lease:
  assumes "SelectIdleAgent agents leases orgID poolID now = Some agent" and "le_WorkerID l = ag_ID agent"
    and "\<forall>w. length (unexpired leases w now) \<le> 1" and "now \<le> t"
  shows "\<forall>w. length (unexpired (leases @ [l]) w t) \<le> 1"
proof
  fix w
  have "unexpired leases (ag_ID agent) now = []"
    using SelectIdleAgent_Some [OF assms(1)] by (simp add: busy_iff)
  then have "length (unexpired (leases @ [l]) w now) \<le> 1"
    using assms(2, 3) by (cases "w = ag_ID agent") (simp_all add: unexpired_def)
  then show "length (unexpired (leases @ [l]) w t) \<le> 1"
    using unexpired_later [OF assms(4), of "leases @ [l]" w] by (rule le_trans [rotated])
qed

section \<open>Examples\<close>

definition demo_capabilities :: Capabilities where
  "demo_capabilities = \<lparr>ca_MachineID = [], ca_OS = ''linux'', ca_Arch = ''amd64'', ca_CPUModel = [], ca_CPUCount = 4, ca_MemoryBytes = 1,
     ca_DiskBytes = 1, ca_BandwidthMbps = 1, ca_IngressCapable = False, ca_GPU = [], ca_ExecutorProviders = [], ca_Executors = [],
     ca_WorkloadKinds = [], ca_ExecutionTiers = [], ca_ProofTiers = [], ca_NetworkModes = [],
     ca_CapabilityTags = [CapabilityTagRunLogLeasePolicyV1], ca_CapabilityReports = [], ca_RuntimeBackendReports = [],
     ca_HardwareSecurity = \<lparr>se2_TPM = False, se2_SecureEnclave = False, se2_TEE = [], se2_HardwareClasses = [],
       se2_HardwareAttestations = [], se2_Signing = []\<rparr>\<rparr>"

definition demo_agent :: "string \<Rightarrow> Agent" where
  "demo_agent i = \<lparr>ag_ID = i, ag_OrgID = ''org'', ag_PoolID = ''pool'', ag_Status = AgentOnline, ag_Capabilities = demo_capabilities,
     ag_Networks = [], ag_Labels = [], ag_ComponentVersions = [], ag_SupervisorProfiles = [], ag_LastSeenAt = 0, ag_CreatedAt = 0\<rparr>"

definition demo_lease :: "string \<Rightarrow> int \<Rightarrow> int \<Rightarrow> Lease" where
  "demo_lease worker t1 t2 = \<lparr>le_ID = ''lease'', le_TaskID = ''task'', le_WorkerID = worker, le_PoolID = ''pool'',
     le_Executor = demo_native, le_CapabilitySnapshot = demo_capabilities, le_AllowedPushTargets = [], le_AllowedPullTargets = [],
     le_ProviderArtifactSpecs = [], le_NetworkPolicy = \<lparr>np_Mode = [], np_AllowedDestinations = [], np_IngressHostnames = [], np_AllowIngress = False, np_AuditDestinations = False\<rparr>, le_P2PSessionPolicy = None,
     le_ResiduePolicy = zero_ResiduePolicy\<lparr>rp_Mode := ResidueModeSessionBound, rp_SessionKey := ''key'', rp_PolicyHash := demo_sha\<rparr>,
     le_RunLogPolicy = \<lparr>rllp_Version = RunLogLeasePolicyVersionV1, rllp_PreserveFullLogs = True, rllp_RetentionSeconds = 60,
       rllp_PolicyRef = ''global'', rllp_PolicyHash = demo_sha, rllp_ProviderEnrollmentID = [], rllp_RequestAdjusted = False, rllp_present = True\<rparr>,
     le_LeasedAt = Time t1, le_ExpiresAt = Time t2\<rparr>"

lemma demo_lease_accepted:
  "Lease_Validate sha enc (demo_lease ''a'' 10 20) = None" "Lease_Validate sha enc (demo_lease ''b'' 12 22) = None"
  by (simp_all add: Lease_Validate_def demo_lease_def) (code_simp)+

lemma lease_accepted_witness: "Time 10 < Time 20 \<and> validSHA256Digest demo_sha"
  using lease_accepted [OF demo_lease_accepted(1)] by (simp add: demo_lease_def)

lemma selection_keeps_one_lease_witness:
  "length (unexpired [demo_lease ''a'' 10 20, demo_lease ''b'' 12 22] ''a'' (Time 15)) \<le> 1"
proof -
  let ?agents = "[demo_agent ''a'', demo_agent ''b'']"
  have "SelectIdleAgent ?agents [demo_lease ''a'' 10 20] ''org'' ''pool'' (Time 12) = Some (demo_agent ''b'')" by code_simp
  moreover have "le_WorkerID (demo_lease ''b'' 12 22) = ag_ID (demo_agent ''b'')" by (simp add: demo_lease_def demo_agent_def)
  moreover have "\<forall>w. length (unexpired [demo_lease ''a'' 10 20] w (Time 12)) \<le> 1" by (simp add: unexpired_def)
  ultimately have "\<forall>w. length (unexpired ([demo_lease ''a'' 10 20] @ [demo_lease ''b'' 12 22]) w (Time 15)) \<le> 1"
    by (rule selection_keeps_one_lease) simp
  then show ?thesis by simp
qed

definition demo_disabled :: Agent where
  "demo_disabled = (demo_agent ''c'')\<lparr>ag_Networks := [\<lparr>anp_ID = ''p'', anp_ProductID = [], anp_OrgID = ''org'', anp_PoolID = ''pool'',
     anp_Weight = 1, anp_Disabled = True, anp_WorkloadKinds = [], anp_NetworkModes = []\<rparr>]\<rparr>"

text \<open>A disabled default profile takes the agent out of its own network.\<close>

lemma agentMatchesNetwork_iff_witness:
  "agentMatchesNetwork (demo_agent ''a'') ''org'' ''pool'' \<and> \<not> agentMatchesNetwork demo_disabled ''org'' ''pool''"
  unfolding agentMatchesNetwork_iff by code_simp

lemma SelectIdleAgent_complete_witness:
  "\<exists>before after. [demo_disabled, demo_agent ''a'', demo_agent ''b''] = before @ demo_agent ''b'' # after \<and>
     length before = 2"
proof -
  let ?agents = "[demo_disabled, demo_agent ''a'', demo_agent ''b'']"
  have "SelectIdleAgent ?agents [demo_lease ''a'' 10 20] ''org'' ''pool'' (Time 12) = Some (demo_agent ''b'')" by code_simp
  with SelectIdleAgent_complete [where agents = ?agents and leases = "[demo_lease ''a'' 10 20]" and orgID = "''org''"
    and poolID = "''pool''" and now = "Time 12"]
  obtain before after where "?agents = before @ demo_agent ''b'' # after" by auto
  moreover have "demo_disabled \<noteq> demo_agent ''b''" "demo_agent ''a'' \<noteq> demo_agent ''b''"
    by (simp_all add: demo_disabled_def demo_agent_def)
  ultimately have "length before = 2" by (auto simp: Cons_eq_append_conv)
  with \<open>?agents = before @ demo_agent ''b'' # after\<close> show ?thesis by blast
qed

end
