(* ===== verification/Tasks.thy ===== *)
theory Tasks
  imports Workloads Networks Leases
begin

text \<open>
  \<open>protocol/types.go\<close>: tasks and what runs them, as the runtime execution request and the contract of a
  runtime adapter (lines 2070 to 2080 and 2864 to 3010), the evidence of a service's ingress
  (3138 to 3328), the task with its queue (3740 to 3838, 4114 to 4121) and the record of an artifact. A
  Go map is the list of its entries. Parameters are those of the parts: \<open>url\<close>, \<open>lower\<close> and
  \<open>same\<close> of workloads, \<open>sha\<close> and \<open>enc\<close> of peer-to-peer session policies.
\<close>

section \<open>Records\<close>

record RuntimeExecutionRequest =
  rer_ProtocolVersion :: string
  rer_TaskID :: string
  rer_LeaseID :: string
  rer_WorkloadKind :: WorkloadKind
  rer_ProviderConfig :: ProviderConfig
  rer_Operation :: string
  rer_Input :: string
  rer_Env :: "(string \<times> string) list"
  rer_Limits :: ResourceLimits

record RuntimeAdapterContract =
  rac_ProtocolVersion :: string
  rac_AdapterID :: string
  rac_Descriptor :: RuntimeDescriptor
  rac_Kinds :: "RuntimeAdapterKind list"
  rac_WorkloadKinds :: "WorkloadKind list"
  rac_RuntimeProfiles :: "RuntimeProfile list"
  rac_WorkspacePolicy :: RuntimeWorkspacePolicy
  rac_ConformanceProfiles :: "string list"
  rac_ResiduePolicy :: ResiduePolicy
  rac_ProviderConfig :: ProviderConfig
  rac_Metadata :: "(string \<times> string) list"

record ServiceIngressEvidence =
  sie_ID :: string
  sie_OrgID :: string
  sie_PoolID :: string
  sie_ProductID :: string
  sie_Hostname :: string
  sie_RouteTarget :: string
  sie_ServiceLeaseID :: string
  sie_TaskID :: string
  sie_WorkerID :: string
  sie_LeaseLeasedAt :: time
  sie_LeaseRenewBy :: time
  sie_SelectedAt :: time
  sie_LastHealthAt :: time
  sie_HealthValidUntil :: time
  sie_LastHealthResponseHash :: string
  sie_LastHealthSLOEvidenceHash :: string
  sie_AuthDecisionHash :: string
  sie_IdempotencyKey :: string
  sie_RequestMethod :: string
  sie_RequestPath :: string
  sie_RequestBodyHash :: string
  sie_RequestHeaderNames :: "string list"
  sie_HelperImage :: string
  sie_HelperScheme :: string
  sie_HelperHost :: string
  sie_HelperPort :: int
  sie_HelperPortName :: string
  sie_HelperTimeoutMS :: int
  sie_HelperContainerNetNSTarget :: string
  sie_HelperOutputHash :: string
  sie_HelperErrorHash :: string
  sie_FailureClass :: string
  sie_FailureMessage :: string
  sie_ResponseStatus :: int
  sie_ResponseHeaderNames :: "string list"
  sie_ResponseHash :: string
  sie_ResponseBytes :: int
  sie_TerminalStatus :: ServiceIngressTerminalStatus
  sie_StartedAt :: time
  sie_FinishedAt :: time

record Task =
  ta_ProtocolVersion :: string
  ta_ID :: string
  ta_ProductID :: string
  ta_OrgID :: string
  ta_PoolID :: string
  ta_PolicyID :: string
  ta_Status :: TaskStatus
  ta_Workload :: WorkloadSpec
  ta_Requirements :: PlacementRequirements
  ta_ProofPolicy :: ProofPolicy
  ta_NetworkPolicy :: NetworkPolicy
  ta_P2PSessionPolicy :: "P2PSessionPolicy option"
  ta_AccessPolicy :: AccessPolicy
  ta_ResiduePolicy :: ResiduePolicy
  ta_ResourceLimits :: ResourceLimits
  ta_InputHash :: string
  ta_RequestedAt :: time
  ta_TimeoutSeconds :: int
  ta_Labels :: "(string \<times> string) list"
  ta_Signature :: SignatureEnvelope

record TaskArtifact =
  taar_TaskID :: string
  taar_ProofID :: string
  taar_PoolID :: string
  taar_Name :: string
  taar_Ref :: string
  taar_ContentType :: string
  taar_SHA256 :: string
  taar_SizeBytes :: int
  taar_CreatedAt :: time
  taar_ExpiresAt :: time
  taar_ArtifactClass :: string
  taar_Visibility :: AccessVisibility
  taar_UploaderKind :: string
  taar_UploaderID :: string
  taar_PolicySource :: string
  taar_PolicyRef :: string
  taar_PolicyHash :: string
  taar_ProviderEnrollmentID :: string
  taar_PolicyRetentionSeconds :: int
  taar_PolicyRequestAdjusted :: bool
  taar_Truncated :: bool
  taar_OriginalSizeBytes :: int

section \<open>Requests and adapters\<close>

definition RuntimeExecutionRequest_Validate :: "RuntimeExecutionRequest \<Rightarrow> error" where
  "RuntimeExecutionRequest_Validate r =
     join
     (fails (rer_ProtocolVersion r \<noteq> Version)
        (Errorf ''protocol_version must be %q'' [Str Version]) @
      fails (trim_space (rer_TaskID r) = [])
        (New ''task_id is required'') @
      fails (trim_space (rer_LeaseID r) = [])
        (New ''lease_id is required'') @
      fails (\<not> validWorkloadKind (rer_WorkloadKind r))
        (Errorf ''workload_kind %q is unsupported'' [Str (rer_WorkloadKind r)]) @
      (if rer_ProviderConfig r \<noteq> zero_ProviderConfig then
         wraps ''provider_config: %w'' [] (ProviderConfig_Validate (rer_ProviderConfig r))
       else []) @
      fails (contains_any (rer_Operation r) (ws_chars @ ch_nul))
        (New ''operation must not contain whitespace'') @
      fails (rer_Input r \<noteq> [] \<and> \<not> json_valid (rer_Input r))
        (New ''input must be valid JSON'') @
      wraps ''resource_limits: %w'' [] (ResourceLimits_Validate (rer_Limits r)))"

definition RuntimeAdapterContract_Supports :: "RuntimeAdapterContract \<Rightarrow> WorkloadKind \<Rightarrow> bool" where
  "RuntimeAdapterContract_Supports c kind = list_ex (\<lambda>supported. supported = kind) (rac_WorkloadKinds c)"

definition RuntimeAdapterContract_SupportsAdapterKind :: "RuntimeAdapterContract \<Rightarrow> RuntimeAdapterKind \<Rightarrow> bool" where
  "RuntimeAdapterContract_SupportsAdapterKind c kind = list_ex (\<lambda>supported. supported = kind) (rac_Kinds c)"

definition RuntimeAdapterContract_Validate :: "RuntimeAdapterContract \<Rightarrow> error" where
  "RuntimeAdapterContract_Validate c =
     join
     (fails (rac_ProtocolVersion c \<noteq> Version)
        (Errorf ''protocol_version must be %q'' [Str Version]) @
      reports (validateIdentifier ''adapter_id'' (rac_AdapterID c)) @
      wraps ''descriptor: %w'' [] (RuntimeDescriptor_Validate (rac_Descriptor c)) @
      fails (rac_Kinds c = [])
        (New ''kinds is required'') @
      each_unique 0
        (\<lambda>i kind. if \<not> validRuntimeAdapterKind kind then Some (Errorf ''kinds[%d] %q is unsupported'' [Num (int i), Str kind]) else None)
        (\<lambda>kind. kind)
        (\<lambda>i kind. Errorf ''kinds[%d] %q is duplicated'' [Num (int i), Str kind]) {} (rac_Kinds c) @
      fails (rac_WorkloadKinds c = [])
        (New ''workload_kinds is required'') @
      each_unique 0
        (\<lambda>i kind. if \<not> validWorkloadKind kind then Some (Errorf ''workload_kinds[%d] %q is unsupported'' [Num (int i), Str kind]) else None)
        (\<lambda>kind. kind)
        (\<lambda>i kind. Errorf ''workload_kinds[%d] %q is duplicated'' [Num (int i), Str kind]) {} (rac_WorkloadKinds c) @
      (if RuntimeAdapterContract_SupportsAdapterKind c RuntimeAdapterServiceRun then
         fails (\<not> RuntimeAdapterContract_Supports c WorkloadService \<and> \<not> RuntimeAdapterContract_Supports c WorkloadNodeService)
           (New ''service adapter kinds require service workload kind'')
       else []) @
      (if RuntimeAdapterContract_SupportsAdapterKind c RuntimeAdapterServiceSession then
         fails (\<not> RuntimeAdapterContract_Supports c WorkloadService \<and> \<not> RuntimeAdapterContract_Supports c WorkloadNodeService \<and>
                \<not> RuntimeAdapterContract_Supports c WorkloadVideoStream)
           (New ''service-session adapter kind requires service, node-service, or video-stream workload kind'')
       else []) @
      each (\<lambda>i profile.
         fails (\<not> validRuntimeProfile profile)
           (Errorf ''runtime_profiles[%d] %q is unsupported'' [Num (int i), Str profile])) (rac_RuntimeProfiles c) @
      fails (\<not> validRuntimeWorkspacePolicy (rac_WorkspacePolicy c))
        (Errorf ''workspace_policy %q is unsupported'' [Str (rac_WorkspacePolicy c)]) @
      fails (rac_ConformanceProfiles c = [])
        (New ''conformance_profiles is required'') @
      each_unique 0
        (\<lambda>i profile. validateIdentifier (at_index ''conformance_profiles'' i []) profile)
        (\<lambda>profile. profile)
        (\<lambda>i profile. Errorf ''conformance_profiles[%d] %q is duplicated'' [Num (int i), Str profile]) {} (rac_ConformanceProfiles c) @
      wraps ''residue_policy: %w'' [] (ResiduePolicy_Validate (rac_ResiduePolicy c) \<lparr>rpv_NoWorkspaceAllowed = False, rpv_RequireSessionKey = False, rpv_RequireExplicitWorkerBound = False, rpv_RequirePolicyHash = True\<rparr>) @
      wraps ''provider_config: %w'' [] (ProviderConfig_Validate (rac_ProviderConfig c)) @
      each (\<lambda>i (key, v).
         reports (validateIdentifier ''metadata key'' key)) (rac_Metadata c))"

section \<open>Evidence of ingress\<close>

definition ingress_required :: "ServiceIngressEvidence \<Rightarrow> (string \<times> string) list" where
  "ingress_required e =
     [(''id'', sie_ID e), (''org_id'', sie_OrgID e), (''pool_id'', sie_PoolID e), (''product_id'', sie_ProductID e), (''hostname'', sie_Hostname e), (''route_target'', sie_RouteTarget e), (''service_lease_id'', sie_ServiceLeaseID e), (''task_id'', sie_TaskID e), (''worker_id'', sie_WorkerID e), (''last_health_response_hash'', sie_LastHealthResponseHash e), (''last_health_slo_evidence_hash'', sie_LastHealthSLOEvidenceHash e), (''auth_decision_hash'', sie_AuthDecisionHash e), (''idempotency_key'', sie_IdempotencyKey e), (''request_method'', sie_RequestMethod e), (''request_path'', sie_RequestPath e), (''helper_image'', sie_HelperImage e), (''helper_scheme'', sie_HelperScheme e), (''helper_host'', sie_HelperHost e), (''helper_container_netns_target'', sie_HelperContainerNetNSTarget e)]"

definition ingress_identifiers :: "ServiceIngressEvidence \<Rightarrow> (string \<times> string) list" where
  "ingress_identifiers e =
     [(''id'', sie_ID e), (''org_id'', sie_OrgID e), (''pool_id'', sie_PoolID e), (''product_id'', sie_ProductID e), (''service_lease_id'', sie_ServiceLeaseID e), (''task_id'', sie_TaskID e), (''worker_id'', sie_WorkerID e), (''idempotency_key'', sie_IdempotencyKey e)]"

definition ingress_digests :: "ServiceIngressEvidence \<Rightarrow> (string \<times> string) list" where
  "ingress_digests e =
     [(''last_health_response_hash'', sie_LastHealthResponseHash e), (''last_health_slo_evidence_hash'', sie_LastHealthSLOEvidenceHash e), (''auth_decision_hash'', sie_AuthDecisionHash e), (''request_body_hash'', sie_RequestBodyHash e), (''helper_output_hash'', sie_HelperOutputHash e), (''helper_error_hash'', sie_HelperErrorHash e), (''response_hash'', sie_ResponseHash e)]"

definition ingress_times :: "ServiceIngressEvidence \<Rightarrow> (string \<times> time) list" where
  "ingress_times e =
     [(''lease_leased_at'', sie_LeaseLeasedAt e), (''lease_renew_by'', sie_LeaseRenewBy e), (''selected_at'', sie_SelectedAt e), (''last_health_at'', sie_LastHealthAt e), (''health_valid_until'', sie_HealthValidUntil e), (''started_at'', sie_StartedAt e), (''finished_at'', sie_FinishedAt e)]"

definition ServiceIngressEvidence_Validate :: "ServiceIngressEvidence \<Rightarrow> error" where
  "ServiceIngressEvidence_Validate e =
     join
     (concat (map (\<lambda>(name, v). required_text name v) (ingress_required e)) @
      concat (map (\<lambda>(name, v). if v \<noteq> [] then reports (validateIdentifier name v) else []) (ingress_identifiers e)) @
      (if sie_Hostname e \<noteq> [] then
         wraps ''hostname: %w'' [] (validateNetworkHostname (sie_Hostname e))
       else []) @
      fails (sie_RouteTarget e \<noteq> [] \<and> \<not> has_prefix (sie_RouteTarget e) ''service-route:'')
        (New ''route_target must be opaque service-route target'') @
      (if sie_RequestMethod e \<in> set [''GET'', ''POST''] then []
       else if sie_RequestMethod e = [] then []
       else [Errorf ''request_method %q is unsupported'' [Str (sie_RequestMethod e)]]) @
      (if sie_RequestPath e \<noteq> [] then
         fails (\<not> has_prefix (sie_RequestPath e) ''/'' \<or> contains_str (sie_RequestPath e) ''://'')
           (New ''request_path must be queryless origin-form path'') @
         fails (contains_any (sie_RequestPath e) ''?#'')
           (New ''request_path must not contain query or fragment'')
       else []) @
      fails (sie_HelperScheme e \<noteq> [] \<and> sie_HelperScheme e \<noteq> ''http'')
        (New ''helper_scheme must be http'') @
      fails (sie_HelperHost e \<noteq> [] \<and> sie_HelperHost e \<noteq> ''127.0.0.1'')
        (New ''helper_host must be 127.0.0.1'') @
      fails (sie_HelperPort e \<le> 0 \<or> sie_HelperPort e > 65535)
        (New ''helper_port must be between 1 and 65535'') @
      fails (sie_HelperTimeoutMS e \<le> 0)
        (New ''helper_timeout_ms is required'') @
      concat (map (\<lambda>(name, v). fails (v \<noteq> [] \<and> \<not> validSHA256Digest v) (Errorf ''%s must use sha256 digest'' [Str name])) (ingress_digests e)) @
      (if sie_TerminalStatus e = ServiceIngressTerminalCompleted then
         fails (sie_ResponseStatus e \<le> 0)
           (New ''response_status is required for completed ingress'') @
         fails (sie_ResponseHash e = [])
           (New ''response_hash is required for completed ingress'')
       else if sie_TerminalStatus e = ServiceIngressTerminalFailed then
         fails (trim_space (sie_FailureClass e) = [])
           (New ''failure_class is required for failed ingress'')
       else if sie_TerminalStatus e = [] then
         [New ''terminal_status is required'']
       else [Errorf ''terminal_status %q is unsupported'' [Str (sie_TerminalStatus e)]]) @
      fails (sie_ResponseBytes e < 0)
        (New ''response_bytes must be non-negative'') @
      each (\<lambda>i name.
         wraps ''request_header_names[%d]: %w'' [Num (int i)] (validateIngressHeaderName name)) (sie_RequestHeaderNames e) @
      each (\<lambda>i name.
         wraps ''response_header_names[%d]: %w'' [Num (int i)] (validateIngressHeaderName name)) (sie_ResponseHeaderNames e) @
      concat (map (\<lambda>(name, ts). fails (ts = 0) (Errorf ''%s is required'' [Str name])) (ingress_times e)) @
      fails (\<not> sie_StartedAt e = 0 \<and> \<not> sie_FinishedAt e = 0 \<and> sie_FinishedAt e < sie_StartedAt e)
        (New ''finished_at must be after started_at''))"

section \<open>Tasks\<close>

definition validTaskStatus :: "TaskStatus \<Rightarrow> bool" where
  "validTaskStatus status =
     (if status \<in> set [[], TaskQueued, TaskLeased, TaskRunning, TaskSucceeded, TaskFailed, TaskStalled, TaskCanceled] then True
      else False)"

definition Task_Validate :: "(string \<Rightarrow> URL option) \<Rightarrow> (string \<Rightarrow> string) \<Rightarrow> (string \<Rightarrow> string \<Rightarrow> bool) \<Rightarrow>
    (string \<Rightarrow> string) \<Rightarrow> (P2PSessionPolicy \<Rightarrow> string) \<Rightarrow> Task \<Rightarrow> error" where
  "Task_Validate url lower same sha enc t =
     join
     (fails (ta_ProtocolVersion t \<noteq> Version)
        (Errorf ''protocol_version must be %q'' [Str Version]) @
      fails (trim_space (ta_ID t) = [])
        (Errorf ''%s is required'' [Str ''id'']) @
      fails (trim_space (ta_OrgID t) = [])
        (Errorf ''%s is required'' [Str ''org_id'']) @
      fails (trim_space (ta_PoolID t) = [])
        (Errorf ''%s is required'' [Str ''pool_id'']) @
      fails (trim_space (ta_PolicyID t) = [])
        (Errorf ''%s is required'' [Str ''policy_id'']) @
      fails (\<not> validTaskStatus (ta_Status t))
        (Errorf ''status %q is unsupported'' [Str (ta_Status t)]) @
      wraps ''workload: %w'' [] (WorkloadSpec_Validate url lower same (ta_Workload t)) @
      reports (ValidateProofPolicy (pr_ProofTier (ta_Requirements t)) (ta_ProofPolicy t)) @
      wraps ''network_policy: %w'' [] (NetworkPolicy_Validate (ta_NetworkPolicy t)) @
      (case ta_P2PSessionPolicy t of
         None \<Rightarrow> []
       | Some p \<Rightarrow> wraps ''p2p_session_policy: %w'' [] (P2PSessionPolicy_Validate sha enc p 0)) @
      wraps ''access_policy: %w'' [] (AccessPolicy_Validate (ta_AccessPolicy t)) @
      wraps ''residue_policy: %w'' [] (ResiduePolicy_Validate (ta_ResiduePolicy t) zero_ResiduePolicyValidation) @
      wraps ''resource_limits: %w'' [] (ResourceLimits_Validate (ta_ResourceLimits t)) @
      reports (validateSignatureEnvelope (ta_Signature t) ''signature'') @
      fails (ta_RequestedAt t = 0)
        (New ''requested_at is required'') @
      fails (ta_TimeoutSeconds t \<le> 0)
        (New ''timeout_seconds must be positive''))"

text \<open>The zero task and \<open>false\<close> of the source are \<open>None\<close>.\<close>

definition FindQueuedTask :: "Task list \<Rightarrow> string \<Rightarrow> string \<Rightarrow> Task option" where
  "FindQueuedTask tasks orgID poolID =
     find (\<lambda>task. ta_OrgID task = orgID \<and> ta_PoolID task = poolID \<and> ta_Status task = TaskQueued) tasks"

section \<open>The queue\<close>

lemma find_first:
  assumes "find P xs = Some x"
  shows "\<exists>before after. xs = before @ x # after \<and> P x \<and> (\<forall>y \<in> set before. \<not> P y)"
proof -
  from assms obtain i where i: "i < length xs" "xs ! i = x" "P x" "\<forall>j < i. \<not> P (xs ! j)"
    by (auto simp: find_Some_iff)
  then have "xs = take i xs @ x # drop (Suc i) xs" by (metis id_take_nth_drop)
  moreover have "\<forall>y \<in> set (take i xs). \<not> P y" using i(1, 4) by (auto simp: in_set_conv_nth)
  ultimately show ?thesis using i(3) by blast
qed

text \<open>The queue is served in order: no task is found exactly when none of the organisation and pool is
  queued, and otherwise the first one.\<close>

lemma FindQueuedTask_first:
  "(case FindQueuedTask tasks orgID poolID of
      None \<Rightarrow> (\<forall>t \<in> set tasks. ta_OrgID t = orgID \<and> ta_PoolID t = poolID \<longrightarrow> ta_Status t \<noteq> TaskQueued)
    | Some t \<Rightarrow> \<exists>before after. tasks = before @ t # after \<and> ta_OrgID t = orgID \<and> ta_PoolID t = poolID \<and> ta_Status t = TaskQueued \<and>
        (\<forall>b \<in> set before. ta_OrgID b = orgID \<and> ta_PoolID b = poolID \<longrightarrow> ta_Status b \<noteq> TaskQueued))"
proof (cases "FindQueuedTask tasks orgID poolID")
  case None
  then have "\<not> (\<exists>t \<in> set tasks. ta_OrgID t = orgID \<and> ta_PoolID t = poolID \<and> ta_Status t = TaskQueued)"
    by (simp only: FindQueuedTask_def find_None_iff) blast
  then show ?thesis by (simp add: None)
next
  case (Some t)
  then have "find (\<lambda>task. ta_OrgID task = orgID \<and> ta_PoolID task = poolID \<and> ta_Status task = TaskQueued) tasks = Some t"
    by (simp add: FindQueuedTask_def)
  from find_first [OF this] show ?thesis by (auto simp: Some)
qed

section \<open>What an accepted task says, and what it does not\<close>

lemma Task_accepted:
  assumes "Task_Validate url lower same sha enc t = None"
  shows "WorkloadSpec_Validate url lower same (ta_Workload t) = None"
    and "ValidateProofPolicy (pr_ProofTier (ta_Requirements t)) (ta_ProofPolicy t) = None"
    and "0 < ta_TimeoutSeconds t" and "ta_RequestedAt t \<noteq> 0" and "validTaskStatus (ta_Status t)"
  using assms unfolding Task_Validate_def join_None append_is_Nil_conv by simp_all

text \<open>Acceptance of a task depends on neither its input hash, nor its product and labels, nor on any of its
  placement requirements but the proof tier: a task is accepted whatever machine it requires.\<close>

theorem task_unchecked_fields:
  assumes "pr_ProofTier req = pr_ProofTier (ta_Requirements t)"
  shows "Task_Validate url lower same sha enc (t\<lparr>ta_InputHash := h, ta_ProductID := p, ta_Labels := ls, ta_Requirements := req\<rparr>) =
    Task_Validate url lower same sha enc t"
  using assms by (simp add: Task_Validate_def)

section \<open>Ingress evidence\<close>

definition credential_headers :: "string set" where
  "credential_headers = {''authorization'', ''cookie'', ''proxy-authorization'', ''x-api-key'', ''x-auth-token'', ''x-forwarded-authorization''}"

lemma concat_pairs_Nil: "concat (map (\<lambda>(n, v). f n v) xs) = [] \<longleftrightarrow> (\<forall>(n, v) \<in> set xs. f n v = [])"
  by auto

lemma header_accepted: "validateIngressHeaderName name = None \<Longrightarrow> trim_space (to_lower name) \<notin> credential_headers"
  by (auto simp: validateIngressHeaderName_def credential_headers_def Let_def split: if_splits)

text \<open>Accepted evidence of ingress leaks and reaches nothing: the helper is reached over plain HTTP on the
  loopback address, no credential header is recorded in any spelling, requests and responses appear as
  canonical digests, the path has no query, and the request ends no earlier than it starts.\<close>

theorem ingress_evidence_contained:
  assumes "ServiceIngressEvidence_Validate e = None"
  shows "sie_HelperScheme e = ''http'' \<and> sie_HelperHost e = ''127.0.0.1'' \<and> sie_HelperPort e \<in> {1..65535} \<and>
    (\<forall>name \<in> set (sie_RequestHeaderNames e) \<union> set (sie_ResponseHeaderNames e). trim_space (to_lower name) \<notin> credential_headers) \<and>
    (\<forall>(name, v) \<in> set (ingress_digests e). v = [] \<or> validSHA256Digest v) \<and>
    (sie_TerminalStatus e = ServiceIngressTerminalCompleted \<longrightarrow> validSHA256Digest (sie_ResponseHash e)) \<and>
    sie_RequestMethod e \<in> {''GET'', ''POST''} \<and> has_prefix (sie_RequestPath e) ''/'' \<and> \<not> contains_any (sie_RequestPath e) ''?#'' \<and>
    0 \<noteq> sie_StartedAt e \<and> sie_StartedAt e \<le> sie_FinishedAt e"
proof -
  note parts = assms [unfolded ServiceIngressEvidence_Validate_def join_None append_is_Nil_conv concat_pairs_Nil]
  from parts have req: "\<forall>(name, v) \<in> set (ingress_required e). required_text name v = []" by (elim conjE)
  then have nonempty: "sie_HelperScheme e \<noteq> []" "sie_HelperHost e \<noteq> []" "sie_RequestMethod e \<noteq> []" "sie_RequestPath e \<noteq> []"
    by (auto simp: ingress_required_def required_text_def)
  from parts have "\<forall>(name, v) \<in> set (ingress_digests e). fails (v \<noteq> [] \<and> \<not> validSHA256Digest v) (Errorf ''%s must use sha256 digest'' [Str name]) = []"
    by (elim conjE)
  then have digests: "\<forall>(name, v) \<in> set (ingress_digests e). v = [] \<or> validSHA256Digest v" by auto
  then have response: "sie_ResponseHash e = [] \<or> validSHA256Digest (sie_ResponseHash e)" by (simp add: ingress_digests_def)
  from parts have "\<forall>(name, ts) \<in> set (ingress_times e). fails (ts = 0) (Errorf ''%s is required'' [Str name]) = []" by (elim conjE)
  then have times: "sie_StartedAt e \<noteq> 0" "sie_FinishedAt e \<noteq> 0" by (simp_all add: ingress_times_def)
  have headers: "\<forall>name \<in> set (sie_RequestHeaderNames e) \<union> set (sie_ResponseHeaderNames e). validateIngressHeaderName name = None"
    using parts by (elim conjE) (simp add: ball_Un)
  have scheme: "sie_HelperScheme e = ''http''"
    using parts nonempty(1) by (elim conjE) simp
  have host: "sie_HelperHost e = ''127.0.0.1''"
    using parts nonempty(2) by (elim conjE) simp
  have port: "sie_HelperPort e \<in> {1..65535}"
    using parts by (elim conjE) simp
  have ends: "sie_StartedAt e \<le> sie_FinishedAt e"
    using parts times by (elim conjE) simp
  have verb: "sie_RequestMethod e \<in> {''GET'', ''POST''}"
    using parts nonempty(3) by (elim conjE) (simp split: if_splits)
  have path: "has_prefix (sie_RequestPath e) ''/'' \<and> \<not> contains_any (sie_RequestPath e) ''?#''"
    using parts nonempty(4) by (elim conjE) simp
  from parts have "(if sie_TerminalStatus e = ServiceIngressTerminalCompleted then
         fails (sie_ResponseStatus e \<le> 0)
           (New ''response_status is required for completed ingress'') @
         fails (sie_ResponseHash e = [])
           (New ''response_hash is required for completed ingress'')
       else if sie_TerminalStatus e = ServiceIngressTerminalFailed then
         fails (trim_space (sie_FailureClass e) = [])
           (New ''failure_class is required for failed ingress'')
       else if sie_TerminalStatus e = [] then
         [New ''terminal_status is required'']
       else [Errorf ''terminal_status %q is unsupported'' [Str (sie_TerminalStatus e)]]) = []"
    by (elim conjE)
  then have "sie_TerminalStatus e = ServiceIngressTerminalCompleted \<longrightarrow> sie_ResponseHash e \<noteq> []" by auto
  with response have completed: "sie_TerminalStatus e = ServiceIngressTerminalCompleted \<longrightarrow> validSHA256Digest (sie_ResponseHash e)"
    by iprover
  have hidden: "\<forall>name \<in> set (sie_RequestHeaderNames e) \<union> set (sie_ResponseHeaderNames e). trim_space (to_lower name) \<notin> credential_headers"
    using headers by (intro ballI header_accepted) (rule bspec)
  show ?thesis
    using scheme host port hidden digests completed verb path times(1) [symmetric] ends by (intro conjI) (iprover+)
qed

section \<open>Adapters\<close>

text \<open>An accepted adapter that runs services, or sessions of them, supports a workload that has them; its
  kinds and workload kinds are known and distinct.\<close>

theorem adapter_kinds_supported:
  assumes "RuntimeAdapterContract_Validate c = None"
  shows "(RuntimeAdapterServiceRun \<in> set (rac_Kinds c) \<longrightarrow>
      WorkloadService \<in> set (rac_WorkloadKinds c) \<or> WorkloadNodeService \<in> set (rac_WorkloadKinds c)) \<and>
    (RuntimeAdapterServiceSession \<in> set (rac_Kinds c) \<longrightarrow>
      {WorkloadService, WorkloadNodeService, WorkloadVideoStream} \<inter> set (rac_WorkloadKinds c) \<noteq> {}) \<and>
    rac_Kinds c \<noteq> [] \<and> distinct (rac_Kinds c) \<and> list_all validRuntimeAdapterKind (rac_Kinds c) \<and>
    rac_WorkloadKinds c \<noteq> [] \<and> distinct (rac_WorkloadKinds c) \<and> list_all validWorkloadKind (rac_WorkloadKinds c)"
proof -
  note parts = assms [unfolded RuntimeAdapterContract_Validate_def join_None append_is_Nil_conv]
  have run: "RuntimeAdapterServiceRun \<in> set (rac_Kinds c) \<longrightarrow>
      WorkloadService \<in> set (rac_WorkloadKinds c) \<or> WorkloadNodeService \<in> set (rac_WorkloadKinds c)"
    using parts by (auto simp: RuntimeAdapterContract_Supports_def RuntimeAdapterContract_SupportsAdapterKind_def list_ex_iff)
  have session: "RuntimeAdapterServiceSession \<in> set (rac_Kinds c) \<longrightarrow>
      {WorkloadService, WorkloadNodeService, WorkloadVideoStream} \<inter> set (rac_WorkloadKinds c) \<noteq> {}"
    using parts by (auto simp: RuntimeAdapterContract_Supports_def RuntimeAdapterContract_SupportsAdapterKind_def list_ex_iff)
  have kinds: "rac_Kinds c \<noteq> []" "distinct (rac_Kinds c)" "list_all validRuntimeAdapterKind (rac_Kinds c)"
    using parts by (simp_all add: list_all_iff split: if_splits)
  have works: "rac_WorkloadKinds c \<noteq> []" "distinct (rac_WorkloadKinds c)" "list_all validWorkloadKind (rac_WorkloadKinds c)"
    using parts by (simp_all add: list_all_iff split: if_splits)
  show ?thesis using run session kinds works by blast
qed

section \<open>Examples\<close>

definition demo_benchmark :: WorkloadSpec where
  "demo_benchmark = \<lparr>ws_Kind = WorkloadBenchmark, ws_Command = None, ws_ContainerBuild = None, ws_Service = None, ws_NodeService = None,
     ws_VideoStream = None, ws_MediaTransform = None, ws_ProductCapture = None, ws_Provider = None, ws_WASM = None, ws_Params = []\<rparr>"

definition demo_needs :: "string list \<Rightarrow> PlacementRequirements" where
  "demo_needs caps = \<lparr>pr_ExecutorProvider = [], pr_ExecutionSecurityTier = [], pr_ProofTier = [], pr_HardwareClass = [],
     pr_RequiredCapabilities = caps\<rparr>"

definition demo_task :: "string \<Rightarrow> TaskStatus \<Rightarrow> Task" where
  "demo_task i status = \<lparr>ta_ProtocolVersion = Version, ta_ID = i, ta_ProductID = [], ta_OrgID = ''org'', ta_PoolID = ''pool'',
     ta_PolicyID = ''policy'', ta_Status = status, ta_Workload = demo_benchmark, ta_Requirements = demo_needs [],
     ta_ProofPolicy = \<lparr>prpo_Quorum = 0, prpo_MaxAttempts = 0\<rparr>,
     ta_NetworkPolicy = \<lparr>np_Mode = [], np_AllowedDestinations = [], np_IngressHostnames = [], np_AllowIngress = False, np_AuditDestinations = False\<rparr>,
     ta_P2PSessionPolicy = None,
     ta_AccessPolicy = \<lparr>ap_ProviderUsageVisibility = [], ap_WorkloadVisibility = [], ap_ArtifactVisibility = []\<rparr>,
     ta_ResiduePolicy = zero_ResiduePolicy,
     ta_ResourceLimits = \<lparr>rl_CPUPercent = 0, rl_MemoryBytes = 0, rl_WorkspaceBytes = 0, rl_RuntimeSeconds = 0, rl_NetworkEgressBytes = 0, rl_OutputBytes = 0\<rparr>,
     ta_InputHash = [], ta_RequestedAt = Time 1, ta_TimeoutSeconds = 60, ta_Labels = [], ta_Signature = demo_signature ''task''\<rparr>"

lemma demo_task_accepted: "Task_Validate url lower same sha enc (demo_task ''t'' []) = None"
  by (simp add: Task_Validate_def demo_task_def) code_simp

lemma FindQueuedTask_first_witness:
  "\<exists>before after. [demo_task ''a'' [], demo_task ''b'' TaskQueued, demo_task ''c'' TaskQueued] = before @ demo_task ''b'' TaskQueued # after \<and>
     (\<forall>b \<in> set before. ta_Status b \<noteq> TaskQueued \<or> ta_OrgID b \<noteq> ''org'')"
proof -
  let ?tasks = "[demo_task ''a'' [], demo_task ''b'' TaskQueued, demo_task ''c'' TaskQueued]"
  have "FindQueuedTask ?tasks ''org'' ''pool'' = Some (demo_task ''b'' TaskQueued)"
    by (simp add: FindQueuedTask_def demo_task_def TaskQueued_def)
  with FindQueuedTask_first [of ?tasks "''org''" "''pool''"]
  obtain before after where "?tasks = before @ demo_task ''b'' TaskQueued # after"
    and early: "\<forall>b \<in> set before. ta_OrgID b = ''org'' \<and> ta_PoolID b = ''pool'' \<longrightarrow> ta_Status b \<noteq> TaskQueued" by auto
  moreover from this(1) have "set before \<subseteq> set ?tasks" by (metis set_append sup_ge1)
  then have "\<forall>b \<in> set before. ta_PoolID b = ''pool''" by (auto simp: demo_task_def)
  ultimately show ?thesis by blast
qed

lemma task_unchecked_fields_witness:
  "Task_Validate demo_url (\<lambda>s. s) (=) (\<lambda>_. []) (\<lambda>_. [])
     ((demo_task ''t'' [])\<lparr>ta_InputHash := ''x'', ta_ProductID := ''..'', ta_Labels := [], ta_Requirements := demo_needs [''no such capability'']\<rparr>) = None"
  using task_unchecked_fields [of "demo_needs [''no such capability'']" "demo_task ''t'' []"] demo_task_accepted
  by (simp add: demo_task_def demo_needs_def)

definition demo_ingress :: ServiceIngressEvidence where
  "demo_ingress = \<lparr>sie_ID = ''i'', sie_OrgID = ''org'', sie_PoolID = ''pool'', sie_ProductID = ''prod'', sie_Hostname = ''app.example'',
     sie_RouteTarget = ''service-route:r'', sie_ServiceLeaseID = ''l'', sie_TaskID = ''t'', sie_WorkerID = ''w'',
     sie_LeaseLeasedAt = Time 1, sie_LeaseRenewBy = Time 2, sie_SelectedAt = Time 3, sie_LastHealthAt = Time 3, sie_HealthValidUntil = Time 9,
     sie_LastHealthResponseHash = demo_sha, sie_LastHealthSLOEvidenceHash = demo_sha, sie_AuthDecisionHash = demo_sha,
     sie_IdempotencyKey = ''k'', sie_RequestMethod = ''GET'', sie_RequestPath = ''/x'', sie_RequestBodyHash = [],
     sie_RequestHeaderNames = [''accept''], sie_HelperImage = ''curl'', sie_HelperScheme = ''http'', sie_HelperHost = ''127.0.0.1'',
     sie_HelperPort = 80, sie_HelperPortName = [], sie_HelperTimeoutMS = 5, sie_HelperContainerNetNSTarget = ''c'', sie_HelperOutputHash = [],
     sie_HelperErrorHash = [], sie_FailureClass = [], sie_FailureMessage = [], sie_ResponseStatus = 200, sie_ResponseHeaderNames = [],
     sie_ResponseHash = demo_sha, sie_ResponseBytes = 0, sie_TerminalStatus = ServiceIngressTerminalCompleted,
     sie_StartedAt = Time 4, sie_FinishedAt = Time 5\<rparr>"

lemma ingress_evidence_contained_witness:
  "validSHA256Digest demo_sha \<and> Time 4 \<le> Time 5 \<and>
   ServiceIngressEvidence_Validate (demo_ingress\<lparr>sie_RequestHeaderNames := ['' Cookie'']\<rparr>) \<noteq> None"
proof -
  have "ServiceIngressEvidence_Validate demo_ingress = None" by code_simp
  from ingress_evidence_contained [OF this] have "validSHA256Digest demo_sha \<and> Time 4 \<le> Time 5"
    by (simp add: demo_ingress_def)
  moreover have "ServiceIngressEvidence_Validate (demo_ingress\<lparr>sie_RequestHeaderNames := ['' Cookie'']\<rparr>) \<noteq> None" by code_simp
  ultimately show ?thesis by blast
qed

definition demo_adapter :: "RuntimeAdapterKind list \<Rightarrow> WorkloadKind list \<Rightarrow> RuntimeAdapterContract" where
  "demo_adapter kinds works = \<lparr>rac_ProtocolVersion = Version, rac_AdapterID = ''adapter'',
     rac_Descriptor = \<lparr>rd_Name = ''native'', rd_Version = ''1'', rd_ExecutionSecurityTier = ExecutionTrustedNative,
       rd_ProofTier = ProofReceiptOnly, rd_ImageDigest = [], rd_RootFSDigest = []\<rparr>,
     rac_Kinds = kinds, rac_WorkloadKinds = works, rac_RuntimeProfiles = [], rac_WorkspacePolicy = RuntimeWorkspaceOptional,
     rac_ConformanceProfiles = [''base''], rac_ResiduePolicy = zero_ResiduePolicy, rac_ProviderConfig = zero_ProviderConfig, rac_Metadata = []\<rparr>"

lemma adapter_kinds_supported_witness:
  "WorkloadService \<in> set [WorkloadService, WorkloadCommand] \<and>
   RuntimeAdapterContract_Validate (demo_adapter [RuntimeAdapterServiceRun] [WorkloadCommand]) \<noteq> None"
proof -
  have "RuntimeAdapterContract_Validate (demo_adapter [RuntimeAdapterServiceRun] [WorkloadService, WorkloadCommand]) = None" by code_simp
  from adapter_kinds_supported [OF this]
  have "WorkloadService \<in> set [WorkloadService, WorkloadCommand] \<or> WorkloadNodeService \<in> set [WorkloadService, WorkloadCommand]"
    by (simp add: demo_adapter_def)
  moreover have "WorkloadNodeService \<notin> set [WorkloadService, WorkloadCommand]" by code_simp
  moreover have "RuntimeAdapterContract_Validate (demo_adapter [RuntimeAdapterServiceRun] [WorkloadCommand]) \<noteq> None" by code_simp
  ultimately show ?thesis by blast
qed

end
