(* ===== verification/Receipts.thy ===== *)
theory Receipts
  imports Attestation Placement Networks
begin

text \<open>
  \<open>protocol/receipt_signature.go\<close>, with the evidence records of \<open>types.go\<close>, lines 3012 to 3131: the
  proof, service and edge request receipts, their unkeyed and HMAC signatures, verification, and
  validation.

  \<open>sha\<close> is SHA-256, \<open>hmac key data\<close> HMAC-SHA256, and \<open>enc\<close> the JSON encoding of a receipt (or,
  where marshalling fails, its \<open>%v\<close> form); \<open>marshal\<close> encodes an attestation decision and may fail,
  where \<open>BindingDigest\<close> panics. The values of a result preview, of type \<open>any\<close> in Go, are of a type
  variable, and \<open>json\<close> marshals a preview.
\<close>

section \<open>Evidence\<close>

record SLOEvidence =
  sloe_LatencyMillis :: int
  sloe_StatusCode :: int
  sloe_DeadlineMS :: int
  sloe_Healthy :: bool

record ServiceStatusEvidence =
  sse_CommandHash :: string
  sse_OutputHash :: string
  sse_Preview :: string
  sse_Truncated :: bool

record RuntimeServiceResult =
  rsr_StartedAt :: time
  rsr_FinishedAt :: time
  rsr_RequestHash :: string
  rsr_ResponseHash :: string
  rsr_ResourceUsage :: ResourceUsage
  rsr_SLOEvidence :: SLOEvidence
  rsr_StatusEvidence :: ServiceStatusEvidence

definition SLOEvidence_Validate :: "SLOEvidence \<Rightarrow> error" where
  "SLOEvidence_Validate e =
     join
     (fails (sloe_StatusCode e \<le> 0)
        (New ''status_code is required'') @
      fails (sloe_LatencyMillis e \<le> 0)
        (New ''latency_millis is required'') @
      fails (sloe_DeadlineMS e < 0)
        (New ''deadline_ms must not be negative''))"

definition ServiceStatusEvidence_Validate :: "ServiceStatusEvidence \<Rightarrow> error" where
  "ServiceStatusEvidence_Validate e =
     join
     (fails (sse_CommandHash e \<noteq> [] \<and> \<not> validSHA256Ref (sse_CommandHash e))
        (Errorf ''%s must be sha256:<64 hex chars>'' [Str ''command_hash'']) @
      fails (sse_OutputHash e \<noteq> [] \<and> \<not> validSHA256Ref (sse_OutputHash e))
        (Errorf ''%s must be sha256:<64 hex chars>'' [Str ''output_hash'']))"

definition RuntimeServiceResult_Validate :: "RuntimeServiceResult \<Rightarrow> error" where
  "RuntimeServiceResult_Validate r =
     join
     (fails (\<not> rsr_StartedAt r = 0 \<and> \<not> rsr_FinishedAt r = 0 \<and> rsr_FinishedAt r < rsr_StartedAt r)
        (New ''finished_at must be after started_at'') @
      fails (rsr_RequestHash r \<noteq> [] \<and> \<not> validSHA256Ref (rsr_RequestHash r))
        (Errorf ''%s must be sha256:<64 hex chars>'' [Str ''request_hash'']) @
      fails (rsr_ResponseHash r \<noteq> [] \<and> \<not> validSHA256Ref (rsr_ResponseHash r))
        (Errorf ''%s must be sha256:<64 hex chars>'' [Str ''response_hash'']) @
      wraps ''slo_evidence: %w'' [] (SLOEvidence_Validate (rsr_SLOEvidence r)) @
      wraps ''status_evidence: %w'' [] (ServiceStatusEvidence_Validate (rsr_StatusEvidence r)))"

definition MaxRuntimeResultPreviewBytes :: nat where "MaxRuntimeResultPreviewBytes = 16 * 1024"

text \<open>The error of \<open>json.Marshal\<close> is not modelled further: \<open>New []\<close> stands for it.\<close>

definition ValidateRuntimeResultPreview :: "((string \<times> 'v) list \<Rightarrow> string option) \<Rightarrow> (string \<times> 'v) list \<Rightarrow> error" where
  "ValidateRuntimeResultPreview json preview =
     (if preview = [] then None
      else (case json preview of
              None \<Rightarrow> Some (Errorf ''result_preview must be JSON-serializable: %w'' [Wrapped (New [])])
            | Some data \<Rightarrow>
                if length data > MaxRuntimeResultPreviewBytes
                then Some (Errorf ''result_preview must be at most %d bytes'' [Num (int MaxRuntimeResultPreviewBytes)])
                else None))"

record 'v RuntimeExecutionResult =
  ruexre_StartedAt :: time
  ruexre_FinishedAt :: time
  ruexre_ExitCode :: int
  ruexre_Stdout :: string
  ruexre_Stderr :: string
  ruexre_ArtifactHash :: string
  ruexre_Artifacts :: "string list"
  ruexre_ResultPreview :: "(string \<times> 'v) list"
  ruexre_ResourceUsage :: ResourceUsage

definition RuntimeExecutionResult_Validate :: "((string \<times> 'v) list \<Rightarrow> string option) \<Rightarrow> 'v RuntimeExecutionResult \<Rightarrow> error" where
  "RuntimeExecutionResult_Validate json r =
     join
     (fails (\<not> ruexre_StartedAt r = 0 \<and> \<not> ruexre_FinishedAt r = 0 \<and> ruexre_FinishedAt r < ruexre_StartedAt r)
        (New ''finished_at must be after started_at'') @
      fails (ruexre_ArtifactHash r \<noteq> [] \<and> \<not> validSHA256Ref (ruexre_ArtifactHash r))
        (New ''artifact_hash must be sha256:<64 hex chars>'') @
      reports (ValidateRuntimeResultPreview json (ruexre_ResultPreview r)))"

section \<open>Receipts\<close>

record 'v ProofReceipt =
  prre_ID :: string
  prre_OrgID :: string
  prre_TaskID :: string
  prre_TaskHash :: string
  prre_InputHash :: string
  prre_DependencyClosureHash :: string
  prre_Executor :: ExecutorRef
  prre_WorkerID :: string
  prre_PoolID :: string
  prre_PolicyID :: string
  prre_StartedAt :: time
  prre_FinishedAt :: time
  prre_ExitCode :: int
  prre_ResourceUsage :: ResourceUsage
  prre_ArtifactHash :: string
  prre_ResultPreview :: "(string \<times> 'v) list"
  prre_Verifier :: VerifierResult
  prre_AgentSignature :: string

record ServiceReceipt =
  sere_ID :: string
  sere_OrgID :: string
  sere_TaskID :: string
  sere_ServiceLeaseID :: string
  sere_WorkerID :: string
  sere_PoolID :: string
  sere_PolicyID :: string
  sere_Executor :: ExecutorRef
  sere_DeploymentHash :: string
  sere_RequestID :: string
  sere_TraceID :: string
  sere_RequestHash :: string
  sere_ResponseHash :: string
  sere_StartedAt :: time
  sere_FinishedAt :: time
  sere_ResourceUsage :: ResourceUsage
  sere_ResourceLimits :: ResourceLimits
  sere_SLOEvidence :: SLOEvidence
  sere_StatusEvidence :: ServiceStatusEvidence
  sere_Verifier :: VerifierResult
  sere_AgentSignature :: string

record EdgeRequestReceipt =
  edge_ProtocolVersion :: string
  edge_ID :: string
  edge_OrgID :: string
  edge_PoolID :: string
  edge_ProductID :: string
  edge_Hostname :: string
  edge_RouteTarget :: string
  edge_ServiceLeaseID :: string
  edge_TaskID :: string
  edge_WorkerID :: string
  edge_ContentRef :: string
  edge_RequestID :: string
  edge_TraceID :: string
  edge_Method :: string
  edge_RequestClass :: string
  edge_RequestHash :: string
  edge_ResponseHash :: string
  edge_RequestBytes :: int
  edge_ResponseBytes :: int
  edge_StartedAt :: time
  edge_FinishedAt :: time
  edge_ResourceUsage :: ResourceUsage
  edge_ServiceReceiptIDs :: "string list"
  edge_IngressEvidenceID :: string
  edge_IngressEvidenceHash :: string
  edge_Verifier :: VerifierResult
  edge_RouterSignature :: string

record ReceiptVerificationOptions =
  rvo_CredentialTokenProofKey :: string
  rvo_AllowSoftwareFallback :: bool
  rvo_VerifierProvider :: string
  rvo_VerifierMessage :: string

definition zero_AttestationDecision :: AttestationDecision where
  "zero_AttestationDecision = \<lparr>ad_Provider = [], ad_VerifierID = [], ad_DecisionID = [], ad_HardwareClass = [], ad_ExecutorImageDigest = [], ad_ExecutorRootFSDigest = [], ad_PolicyID = [], ad_Nonce = [], ad_IssuedAt = 0, ad_ExpiresAt = 0, ad_SignatureVerified = False, ad_ConfidentialGPU = False, ad_Signature = zero_SignatureEnvelope\<rparr>"

definition zero_KeyReleaseDecision :: KeyReleaseDecision where
  "zero_KeyReleaseDecision = \<lparr>krd_Provider = [], krd_DecisionID = [], krd_AttestationDecisionID = [], krd_AttestationDigest = [], krd_AttestationProvider = [], krd_AttestationVerifierID = [], krd_AttestationKeyID = [], krd_PolicyID = [], krd_TaskID = [], krd_TaskHash = [], krd_InputHash = [], krd_DependencyClosureHash = [], krd_WorkerID = [], krd_PoolID = [], krd_KeyRefHash = [], krd_Released = False, krd_ExpiresAt = 0, krd_Signature = zero_SignatureEnvelope\<rparr>"

definition zero_VerifierResult :: VerifierResult where
  "zero_VerifierResult = \<lparr>vr_Provider = [], vr_Status = [], vr_Message = [], vr_Attestation = zero_AttestationDecision, vr_KeyRelease = zero_KeyReleaseDecision\<rparr>"

definition validStoredProofStatus :: "VerificationStatus \<Rightarrow> bool" where
  "validStoredProofStatus status \<longleftrightarrow>
     status \<in> set [VerificationPending, VerificationAccepted, VerificationRejected, VerificationConflicted]"

definition validateContentRef :: "string \<Rightarrow> error" where
  "validateContentRef ref =
     (if ref = [] then Some (New ''ref is required'')
      else if trim_space ref \<noteq> ref then Some (New ''ref must not contain leading or trailing whitespace'')
      else if contains_any ref (ws_chars @ ''?&#'') \<or> contains_str ref ''://'' \<and> \<not> has_prefix ref ''artifact://'' then Some (New ''ref must be immutable digest/artifact ref without URL query or fragment'')
      else if has_prefix ref ''sha256:'' then if \<not> validSHA256Digest ref then Some (New ''sha256 ref must use 64 hex chars'')
        else None
      else if has_prefix ref ''artifact://'' then (let path = trim_prefix ref ''artifact://'' in
        if path = [] \<or> has_prefix path ''/'' \<or> contains_str path ''..'' then Some (New ''artifact ref path is invalid'')
        else None)
      else Some (New ''ref must use sha256 or artifact scheme''))"

text \<open>
  The validators of proof and service receipts, cut at the binding of an attested execution, whose
  digest may panic: what is reported before it, and after.
\<close>

definition proof_receipt_errs :: "((string \<times> 'v) list \<Rightarrow> string option) \<Rightarrow> 'v ProofReceipt \<Rightarrow> err list" where
  "proof_receipt_errs json r =
     (required ''id'' (prre_ID r) @
      required ''org_id'' (prre_OrgID r) @
      required ''task_id'' (prre_TaskID r) @
      required ''task_hash'' (prre_TaskHash r) @
      required ''input_hash'' (prre_InputHash r) @
      required ''dependency_closure_hash'' (prre_DependencyClosureHash r) @
      (if prre_ID r \<noteq> [] then
         reports (validateIdentifier ''id'' (prre_ID r))
       else []) @
      (if prre_OrgID r \<noteq> [] then
         reports (validateIdentifier ''org_id'' (prre_OrgID r))
       else []) @
      (if prre_TaskID r \<noteq> [] then
         reports (validateIdentifier ''task_id'' (prre_TaskID r))
       else []) @
      (if prre_WorkerID r \<noteq> [] then
         reports (validateIdentifier ''worker_id'' (prre_WorkerID r))
       else []) @
      (if prre_PoolID r \<noteq> [] then
         reports (validateIdentifier ''pool_id'' (prre_PoolID r))
       else []) @
      (if prre_PolicyID r \<noteq> [] then
         reports (validateIdentifier ''policy_id'' (prre_PolicyID r))
       else []) @
      fails (prre_TaskHash r \<noteq> [] \<and> \<not> validSHA256Digest (prre_TaskHash r))
        (Errorf ''%s must use sha256 digest'' [Str ''task_hash'']) @
      fails (prre_InputHash r \<noteq> [] \<and> \<not> validSHA256Digest (prre_InputHash r))
        (Errorf ''%s must use sha256 digest'' [Str ''input_hash'']) @
      fails (prre_DependencyClosureHash r \<noteq> [] \<and> \<not> validSHA256Digest (prre_DependencyClosureHash r))
        (Errorf ''%s must use sha256 digest'' [Str ''dependency_closure_hash'']) @
      fails (prre_ArtifactHash r \<noteq> [] \<and> \<not> validSHA256Digest (prre_ArtifactHash r))
        (Errorf ''%s must use sha256 digest'' [Str ''artifact_hash'']) @
      reports (ExecutorRef_ValidateForProof (prre_Executor r)) @
      required ''worker_id'' (prre_WorkerID r) @
      required ''pool_id'' (prre_PoolID r) @
      required ''policy_id'' (prre_PolicyID r) @
      required ''artifact_hash'' (prre_ArtifactHash r) @
      required ''verifier.provider'' (vr_Provider (prre_Verifier r)) @
      required ''agent_signature'' (prre_AgentSignature r) @
      reports (ValidateRuntimeResultPreview json (prre_ResultPreview r)) @
      fails (vr_Status (prre_Verifier r) \<noteq> VerificationAccepted)
        (Errorf ''verifier.status must be %q'' [Str VerificationAccepted]))"

definition proof_receipt_times :: "'v ProofReceipt \<Rightarrow> err list" where
  "proof_receipt_times r =
     (fails (prre_StartedAt r = 0)
        (New ''started_at is required'') @
      fails (prre_FinishedAt r = 0)
        (New ''finished_at is required'') @
      fails (\<not> prre_StartedAt r = 0 \<and> \<not> prre_FinishedAt r = 0 \<and> prre_FinishedAt r < prre_StartedAt r)
        (New ''finished_at must be after started_at''))"

definition proof_binding :: "'v ProofReceipt \<Rightarrow> AttestedProofBinding" where
  "proof_binding r =
     \<lparr>apb_Executor = prre_Executor r, apb_PolicyID = prre_PolicyID r, apb_TaskID = prre_TaskID r, apb_TaskHash = prre_TaskHash r,
      apb_InputHash = prre_InputHash r, apb_DependencyClosureHash = prre_DependencyClosureHash r, apb_WorkerID = prre_WorkerID r,
      apb_PoolID = prre_PoolID r, apb_StartedAt = prre_StartedAt r, apb_FinishedAt = prre_FinishedAt r, apb_Verifier = prre_Verifier r\<rparr>"

definition ProofReceipt_Validate :: "(string \<Rightarrow> string) \<Rightarrow> (AttestationDecision \<Rightarrow> string option) \<Rightarrow> ((string \<times> 'v) list \<Rightarrow> string option) \<Rightarrow> 'v ProofReceipt \<Rightarrow> error outcome" where
  "ProofReceipt_Validate sha marshal json r =
     (if ExecutorRef_RequiresAttestation (prre_Executor r) then
        (case ValidateAttestedProofBinding sha marshal (proof_binding r) of
           Panic \<Rightarrow> Panic
         | Returns binding \<Rightarrow> Returns (join (proof_receipt_errs json r @ reports binding @ proof_receipt_times r)))
      else Returns (join (proof_receipt_errs json r @ proof_receipt_times r)))"

definition service_receipt_errs :: "ServiceReceipt \<Rightarrow> err list" where
  "service_receipt_errs r =
     (required ''id'' (sere_ID r) @
      required ''org_id'' (sere_OrgID r) @
      required ''task_id'' (sere_TaskID r) @
      required ''service_lease_id'' (sere_ServiceLeaseID r) @
      required ''worker_id'' (sere_WorkerID r) @
      required ''pool_id'' (sere_PoolID r) @
      required ''policy_id'' (sere_PolicyID r) @
      (if sere_ID r \<noteq> [] then
         reports (validateIdentifier ''id'' (sere_ID r))
       else []) @
      (if sere_OrgID r \<noteq> [] then
         reports (validateIdentifier ''org_id'' (sere_OrgID r))
       else []) @
      (if sere_TaskID r \<noteq> [] then
         reports (validateIdentifier ''task_id'' (sere_TaskID r))
       else []) @
      (if sere_ServiceLeaseID r \<noteq> [] then
         reports (validateIdentifier ''service_lease_id'' (sere_ServiceLeaseID r))
       else []) @
      (if sere_WorkerID r \<noteq> [] then
         reports (validateIdentifier ''worker_id'' (sere_WorkerID r))
       else []) @
      (if sere_PoolID r \<noteq> [] then
         reports (validateIdentifier ''pool_id'' (sere_PoolID r))
       else []) @
      (if sere_PolicyID r \<noteq> [] then
         reports (validateIdentifier ''policy_id'' (sere_PolicyID r))
       else []) @
      (if sere_RequestID r \<noteq> [] then
         reports (validateIdentifier ''request_id'' (sere_RequestID r))
       else []) @
      (if sere_TraceID r \<noteq> [] then
         reports (validateIdentifier ''trace_id'' (sere_TraceID r))
       else []) @
      reports (ExecutorRef_ValidateForProof (sere_Executor r)) @
      required ''deployment_hash'' (sere_DeploymentHash r) @
      required ''request_id'' (sere_RequestID r) @
      required ''trace_id'' (sere_TraceID r) @
      required ''request_hash'' (sere_RequestHash r) @
      required ''response_hash'' (sere_ResponseHash r) @
      fails (sere_DeploymentHash r \<noteq> [] \<and> \<not> validSHA256Digest (sere_DeploymentHash r))
        (Errorf ''%s must use sha256 digest'' [Str ''deployment_hash'']) @
      fails (sere_RequestHash r \<noteq> [] \<and> \<not> validSHA256Digest (sere_RequestHash r))
        (Errorf ''%s must use sha256 digest'' [Str ''request_hash'']) @
      fails (sere_ResponseHash r \<noteq> [] \<and> \<not> validSHA256Digest (sere_ResponseHash r))
        (Errorf ''%s must use sha256 digest'' [Str ''response_hash'']) @
      required ''verifier.provider'' (vr_Provider (sere_Verifier r)) @
      required ''agent_signature'' (sere_AgentSignature r) @
      fails (\<not> validStoredProofStatus (vr_Status (sere_Verifier r)))
        (Errorf ''verifier.status %q is unsupported'' [Str (vr_Status (sere_Verifier r))]))"

definition service_receipt_evidence :: "ServiceReceipt \<Rightarrow> err list" where
  "service_receipt_evidence r =
     (fails (sere_StartedAt r = 0)
        (New ''started_at is required'') @
      fails (sere_FinishedAt r = 0)
        (New ''finished_at is required'') @
      fails (\<not> sere_StartedAt r = 0 \<and> \<not> sere_FinishedAt r = 0 \<and> sere_FinishedAt r < sere_StartedAt r)
        (New ''finished_at must be after started_at'') @
      wraps ''resource_limits: %w'' [] (ResourceLimits_Validate (sere_ResourceLimits r)) @
      wraps ''slo_evidence: %w'' [] (SLOEvidence_Validate (sere_SLOEvidence r)) @
      wraps ''status_evidence: %w'' [] (ServiceStatusEvidence_Validate (sere_StatusEvidence r)))"

definition service_binding :: "ServiceReceipt \<Rightarrow> AttestedServiceBinding" where
  "service_binding r =
     \<lparr>asb_Executor = sere_Executor r, asb_PolicyID = sere_PolicyID r, asb_TaskID = sere_TaskID r,
      asb_DeploymentHash = sere_DeploymentHash r, asb_WorkerID = sere_WorkerID r, asb_PoolID = sere_PoolID r,
      asb_StartedAt = sere_StartedAt r, asb_FinishedAt = sere_FinishedAt r, asb_Verifier = sere_Verifier r\<rparr>"

definition ServiceReceipt_Validate :: "(string \<Rightarrow> string) \<Rightarrow> (AttestationDecision \<Rightarrow> string option) \<Rightarrow> ServiceReceipt \<Rightarrow> error outcome" where
  "ServiceReceipt_Validate sha marshal r =
     (if ExecutorRef_RequiresAttestation (sere_Executor r) then
        (case ValidateAttestedServiceBinding sha marshal (service_binding r) of
           Panic \<Rightarrow> Panic
         | Returns binding \<Rightarrow> Returns (join (service_receipt_errs r @ reports binding @ service_receipt_evidence r)))
      else Returns (join (service_receipt_errs r @ service_receipt_evidence r)))"

definition EdgeRequestReceipt_Validate :: "EdgeRequestReceipt \<Rightarrow> error" where
  "EdgeRequestReceipt_Validate r =
     join
     (required ''id'' (edge_ID r) @
      required ''org_id'' (edge_OrgID r) @
      required ''pool_id'' (edge_PoolID r) @
      required ''product_id'' (edge_ProductID r) @
      required ''hostname'' (edge_Hostname r) @
      required ''route_target'' (edge_RouteTarget r) @
      required ''request_id'' (edge_RequestID r) @
      required ''trace_id'' (edge_TraceID r) @
      required ''method'' (edge_Method r) @
      required ''request_class'' (edge_RequestClass r) @
      required ''request_hash'' (edge_RequestHash r) @
      required ''response_hash'' (edge_ResponseHash r) @
      required ''router_signature'' (edge_RouterSignature r) @
      (if edge_OrgID r \<noteq> [] then
         reports (validateIdentifier ''org_id'' (edge_OrgID r))
       else []) @
      (if edge_PoolID r \<noteq> [] then
         reports (validateIdentifier ''pool_id'' (edge_PoolID r))
       else []) @
      (if edge_ProductID r \<noteq> [] then
         reports (validateIdentifier ''product_id'' (edge_ProductID r))
       else []) @
      (if edge_RequestID r \<noteq> [] then
         reports (validateIdentifier ''request_id'' (edge_RequestID r))
       else []) @
      (if edge_TraceID r \<noteq> [] then
         reports (validateIdentifier ''trace_id'' (edge_TraceID r))
       else []) @
      (if edge_RequestClass r \<noteq> [] then
         reports (validateIdentifier ''request_class'' (edge_RequestClass r))
       else []) @
      (if edge_ID r \<noteq> [] then
         reports (validateIdentifier ''id'' (edge_ID r))
       else []) @
      (if edge_Hostname r \<noteq> [] then
         wraps ''hostname: %w'' [] (validateNetworkHostname (edge_Hostname r))
       else []) @
      fails (edge_RouteTarget r \<noteq> [] \<and> \<not> has_prefix (edge_RouteTarget r) ''service-route:'' \<and> \<not> has_prefix (edge_RouteTarget r) ''content-route:'')
        (New ''route_target must be opaque service-route or content-route target'') @
      (if has_prefix (edge_RouteTarget r) ''service-route:'' then
         fails (edge_ContentRef r \<noteq> [])
           (New ''content_ref must be empty for service route receipt'') @
         required ''ingress_evidence_id'' (edge_IngressEvidenceID r) @
         required ''ingress_evidence_hash'' (edge_IngressEvidenceHash r) @
         (if edge_IngressEvidenceID r \<noteq> [] then
            reports (validateIdentifier ''ingress_evidence_id'' (edge_IngressEvidenceID r))
          else []) @
         fails (edge_IngressEvidenceHash r \<noteq> [] \<and> \<not> validSHA256Digest (edge_IngressEvidenceHash r))
           (New ''ingress_evidence_hash must use sha256 digest'')
       else []) @
      (if has_prefix (edge_RouteTarget r) ''content-route:'' then
         required ''content_ref'' (edge_ContentRef r)
       else []) @
      (if edge_ContentRef r \<noteq> [] then
         wraps ''content_ref: %w'' [] (validateContentRef (edge_ContentRef r))
       else []) @
      (if edge_Method r \<in> set [''GET'', ''HEAD'', ''POST'', ''PUT'', ''PATCH'', ''DELETE'', ''OPTIONS''] then
         []
       else if edge_Method r = [] then
         []
       else [Errorf ''method %q is unsupported'' [Str (edge_Method r)]]) @
      fails (edge_RequestHash r \<noteq> [] \<and> \<not> validSHA256Digest (edge_RequestHash r))
        (Errorf ''%s must use sha256 digest'' [Str ''request_hash'']) @
      fails (edge_ResponseHash r \<noteq> [] \<and> \<not> validSHA256Digest (edge_ResponseHash r))
        (Errorf ''%s must use sha256 digest'' [Str ''response_hash'']) @
      fails (edge_RequestBytes r < 0)
        (New ''request_bytes must be non-negative'') @
      fails (edge_ResponseBytes r < 0)
        (New ''response_bytes must be non-negative'') @
      fails (edge_StartedAt r = 0)
        (New ''started_at is required'') @
      fails (edge_FinishedAt r = 0)
        (New ''finished_at is required'') @
      fails (\<not> edge_StartedAt r = 0 \<and> \<not> edge_FinishedAt r = 0 \<and> edge_FinishedAt r < edge_StartedAt r)
        (New ''finished_at must be after started_at'') @
      each_seen 0
        (\<lambda>i dup receiptID.
           reports (validateIdentifier (at_index ''service_receipt_ids'' i []) receiptID) @
           fails dup (Errorf ''service_receipt_ids[%d] duplicates %q'' [Num (int i), Str receiptID]))
        (\<lambda>receiptID. True) (\<lambda>receiptID. receiptID) {} (edge_ServiceReceiptIDs r) @
      required ''verifier.provider'' (vr_Provider (edge_Verifier r)) @
      fails (\<not> validStoredProofStatus (vr_Status (edge_Verifier r)))
        (Errorf ''verifier.status %q is unsupported'' [Str (vr_Status (edge_Verifier r))]))"

section \<open>Signatures\<close>

definition SoftwareAgentSignaturePrefix :: string where "SoftwareAgentSignaturePrefix = ''software-agent:''"
definition SoftwareRouterSignaturePrefix :: string where "SoftwareRouterSignaturePrefix = ''software-router:''"
definition CredentialProofSignaturePrefix :: string where "CredentialProofSignaturePrefix = ''credential-hmac-sha256:''"
definition defaultReceiptVerifierProvider :: string where "defaultReceiptVerifierProvider = ''signed_receipt''"

definition TokenProofKey :: "(string \<Rightarrow> string) \<Rightarrow> string \<Rightarrow> string" where
  "TokenProofKey sha token = (if token = [] then [] else hex_encode (sha token))"

text \<open>
  What each kind of receipt signs: the receipt without its signature, and without the verifier's
  result where the verifier fills it in later. Both signature schemes blank the same fields.
\<close>

definition proof_payload :: "'v ProofReceipt \<Rightarrow> 'v ProofReceipt" where
  "proof_payload receipt = receipt\<lparr>prre_AgentSignature := []\<rparr>"

definition service_payload :: "ServiceReceipt \<Rightarrow> ServiceReceipt" where
  "service_payload receipt =
     (let receipt = receipt\<lparr>sere_AgentSignature := []\<rparr>
      in if \<not> ExecutorRef_RequiresAttestation (sere_Executor receipt)
         then receipt\<lparr>sere_Verifier := zero_VerifierResult\<rparr> else receipt)"

definition edge_payload :: "EdgeRequestReceipt \<Rightarrow> EdgeRequestReceipt" where
  "edge_payload receipt = receipt\<lparr>edge_RouterSignature := [], edge_Verifier := zero_VerifierResult\<rparr>"

definition SoftwareAgentProofSignature :: "(string \<Rightarrow> string) \<Rightarrow> ('v ProofReceipt \<Rightarrow> string) \<Rightarrow> 'v ProofReceipt \<Rightarrow> string" where
  "SoftwareAgentProofSignature sha enc receipt =
     SoftwareAgentSignaturePrefix @ trim_prefix (CanonicalHash sha (enc (proof_payload receipt))) ''sha256:''"

definition SoftwareAgentServiceSignature :: "(string \<Rightarrow> string) \<Rightarrow> (ServiceReceipt \<Rightarrow> string) \<Rightarrow> ServiceReceipt \<Rightarrow> string" where
  "SoftwareAgentServiceSignature sha enc receipt =
     SoftwareAgentSignaturePrefix @ trim_prefix (CanonicalHash sha (enc (service_payload receipt))) ''sha256:''"

definition SoftwareRouterEdgeSignature :: "(string \<Rightarrow> string) \<Rightarrow> (EdgeRequestReceipt \<Rightarrow> string) \<Rightarrow> EdgeRequestReceipt \<Rightarrow> string" where
  "SoftwareRouterEdgeSignature sha enc receipt =
     SoftwareRouterSignaturePrefix @ trim_prefix (CanonicalHash sha (enc (edge_payload receipt))) ''sha256:''"

definition CredentialProofSignature ::
  "(string \<Rightarrow> string) \<Rightarrow> (string \<Rightarrow> string \<Rightarrow> string) \<Rightarrow> ('v ProofReceipt \<Rightarrow> string) \<Rightarrow> 'v ProofReceipt \<Rightarrow> string \<Rightarrow> string" where
  "CredentialProofSignature sha hmac enc receipt tokenProofKey =
     (if tokenProofKey = [] then []
      else CredentialProofSignaturePrefix @ hex_encode (hmac tokenProofKey (CanonicalHash sha (enc (proof_payload receipt)))))"

definition CredentialServiceSignature ::
  "(string \<Rightarrow> string) \<Rightarrow> (string \<Rightarrow> string \<Rightarrow> string) \<Rightarrow> (ServiceReceipt \<Rightarrow> string) \<Rightarrow> ServiceReceipt \<Rightarrow> string \<Rightarrow> string" where
  "CredentialServiceSignature sha hmac enc receipt tokenProofKey =
     (if tokenProofKey = [] then []
      else CredentialProofSignaturePrefix @ hex_encode (hmac tokenProofKey (CanonicalHash sha (enc (service_payload receipt)))))"

definition CredentialEdgeSignature ::
  "(string \<Rightarrow> string) \<Rightarrow> (string \<Rightarrow> string \<Rightarrow> string) \<Rightarrow> (EdgeRequestReceipt \<Rightarrow> string) \<Rightarrow> EdgeRequestReceipt \<Rightarrow> string \<Rightarrow> string" where
  "CredentialEdgeSignature sha hmac enc receipt tokenProofKey =
     (if tokenProofKey = [] then []
      else CredentialProofSignaturePrefix @ hex_encode (hmac tokenProofKey (CanonicalHash sha (enc (edge_payload receipt)))))"

definition VerifyCredentialProofSignature ::
  "(string \<Rightarrow> string) \<Rightarrow> (string \<Rightarrow> string \<Rightarrow> string) \<Rightarrow> ('v ProofReceipt \<Rightarrow> string) \<Rightarrow> 'v ProofReceipt \<Rightarrow> string \<Rightarrow> bool" where
  "VerifyCredentialProofSignature sha hmac enc receipt tokenProofKey =
     (if tokenProofKey = [] then False
      else if \<not> has_prefix (prre_AgentSignature receipt) CredentialProofSignaturePrefix then False
      else prre_AgentSignature receipt = CredentialProofSignature sha hmac enc receipt tokenProofKey)"

definition VerifyCredentialServiceSignature ::
  "(string \<Rightarrow> string) \<Rightarrow> (string \<Rightarrow> string \<Rightarrow> string) \<Rightarrow> (ServiceReceipt \<Rightarrow> string) \<Rightarrow> ServiceReceipt \<Rightarrow> string \<Rightarrow> bool" where
  "VerifyCredentialServiceSignature sha hmac enc receipt tokenProofKey =
     (if tokenProofKey = [] then False
      else if \<not> has_prefix (sere_AgentSignature receipt) CredentialProofSignaturePrefix then False
      else sere_AgentSignature receipt = CredentialServiceSignature sha hmac enc receipt tokenProofKey)"

definition VerifyCredentialEdgeSignature ::
  "(string \<Rightarrow> string) \<Rightarrow> (string \<Rightarrow> string \<Rightarrow> string) \<Rightarrow> (EdgeRequestReceipt \<Rightarrow> string) \<Rightarrow> EdgeRequestReceipt \<Rightarrow> string \<Rightarrow> bool" where
  "VerifyCredentialEdgeSignature sha hmac enc receipt tokenProofKey =
     (if tokenProofKey = [] then False
      else if \<not> has_prefix (edge_RouterSignature receipt) CredentialProofSignaturePrefix then False
      else edge_RouterSignature receipt = CredentialEdgeSignature sha hmac enc receipt tokenProofKey)"

section \<open>Verification\<close>

definition serviceReceiptSignatureValid ::
  "(string \<Rightarrow> string) \<Rightarrow> (string \<Rightarrow> string \<Rightarrow> string) \<Rightarrow> (ServiceReceipt \<Rightarrow> string) \<Rightarrow> ServiceReceipt \<Rightarrow> ReceiptVerificationOptions \<Rightarrow> bool" where
  "serviceReceiptSignatureValid sha hmac enc receipt opts =
     (if has_prefix (sere_AgentSignature receipt) CredentialProofSignaturePrefix
      then VerifyCredentialServiceSignature sha hmac enc receipt (rvo_CredentialTokenProofKey opts)
      else rvo_AllowSoftwareFallback opts \<and> sere_AgentSignature receipt = SoftwareAgentServiceSignature sha enc receipt)"

definition edgeRequestReceiptSignatureValid ::
  "(string \<Rightarrow> string) \<Rightarrow> (string \<Rightarrow> string \<Rightarrow> string) \<Rightarrow> (EdgeRequestReceipt \<Rightarrow> string) \<Rightarrow> EdgeRequestReceipt \<Rightarrow> ReceiptVerificationOptions \<Rightarrow> bool" where
  "edgeRequestReceiptSignatureValid sha hmac enc receipt opts =
     (if has_prefix (edge_RouterSignature receipt) CredentialProofSignaturePrefix
      then VerifyCredentialEdgeSignature sha hmac enc receipt (rvo_CredentialTokenProofKey opts)
      else rvo_AllowSoftwareFallback opts \<and> edge_RouterSignature receipt = SoftwareRouterEdgeSignature sha enc receipt)"

definition receiptVerifierResult :: "ReceiptVerificationOptions \<Rightarrow> string \<Rightarrow> VerifierResult" where
  "receiptVerifierResult opts defaultMessage =
     (let provider = trim_space (rvo_VerifierProvider opts);
          provider = (if provider = [] then defaultReceiptVerifierProvider else provider);
          message = rvo_VerifierMessage opts;
          message = (if message = [] then defaultMessage else message)
      in zero_VerifierResult\<lparr>vr_Provider := provider, vr_Status := VerificationAccepted, vr_Message := message\<rparr>)"

definition digest_error :: "string \<Rightarrow> string \<Rightarrow> error" where
  "digest_error name v = (if \<not> validSHA256Digest v then Some (Errorf ''%s must use sha256 digest'' [Str name]) else None)"

text \<open>A result \<open>Inl err\<close> is an error, with the zero receipt beside it in the source.\<close>

definition VerifyServiceReceipt ::
  "(string \<Rightarrow> string) \<Rightarrow> (string \<Rightarrow> string \<Rightarrow> string) \<Rightarrow> (ServiceReceipt \<Rightarrow> string) \<Rightarrow> (AttestationDecision \<Rightarrow> string option) \<Rightarrow>
   ServiceReceipt \<Rightarrow> ReceiptVerificationOptions \<Rightarrow> (err + ServiceReceipt) outcome" where
  "VerifyServiceReceipt sha hmac enc marshal receipt opts =
     (case digest_error ''deployment_hash'' (sere_DeploymentHash receipt) of Some err \<Rightarrow> Returns (Inl err)
      | None \<Rightarrow> (case digest_error ''request_hash'' (sere_RequestHash receipt) of Some err \<Rightarrow> Returns (Inl err)
      | None \<Rightarrow> (case digest_error ''response_hash'' (sere_ResponseHash receipt) of Some err \<Rightarrow> Returns (Inl err)
      | None \<Rightarrow>
          if \<not> serviceReceiptSignatureValid sha hmac enc receipt opts
          then Returns (Inl (New ''service receipt agent_signature is invalid''))
          else (let receipt =
                  (if \<not> ExecutorRef_RequiresAttestation (sere_Executor receipt)
                   then receipt\<lparr>sere_Verifier := receiptVerifierResult opts
                     ''service receipt signature verified; quorum and key-backed trust handled separately''\<rparr>
                   else receipt)
                in case ServiceReceipt_Validate sha marshal receipt of
                     Panic \<Rightarrow> Panic
                   | Returns v \<Rightarrow> Returns (case v of Some err \<Rightarrow> Inl err | None \<Rightarrow> Inr receipt)))))"

definition VerifyEdgeRequestReceipt ::
  "(string \<Rightarrow> string) \<Rightarrow> (string \<Rightarrow> string \<Rightarrow> string) \<Rightarrow> (EdgeRequestReceipt \<Rightarrow> string) \<Rightarrow>
   EdgeRequestReceipt \<Rightarrow> ReceiptVerificationOptions \<Rightarrow> err + EdgeRequestReceipt" where
  "VerifyEdgeRequestReceipt sha hmac enc receipt opts =
     (case digest_error ''request_hash'' (edge_RequestHash receipt) of Some err \<Rightarrow> Inl err
      | None \<Rightarrow> (case digest_error ''response_hash'' (edge_ResponseHash receipt) of Some err \<Rightarrow> Inl err
      | None \<Rightarrow>
          if \<not> edgeRequestReceiptSignatureValid sha hmac enc receipt opts
          then Inl (New ''edge request receipt router_signature is invalid'')
          else (let receipt = receipt\<lparr>edge_Verifier := receiptVerifierResult opts
                  ''edge request receipt signature and shape verified; host must still check route, authz, replay, and accounting''\<rparr>
                in case EdgeRequestReceipt_Validate receipt of Some err \<Rightarrow> Inl err | None \<Rightarrow> Inr receipt)))"

section \<open>The contract of a credential signature\<close>

text \<open>
  What the three pairs of signing and verifying functions have in common: a signature field, a
  payload that does not depend on it, an HMAC of the payload behind a fixed prefix.
\<close>

locale credential_signature =
  fixes sig :: "'r \<Rightarrow> string" and set_sig :: "string \<Rightarrow> 'r \<Rightarrow> 'r" and payload :: "'r \<Rightarrow> string"
    and mac :: "string \<Rightarrow> string \<Rightarrow> string" and sign :: "'r \<Rightarrow> string \<Rightarrow> string" and verify :: "'r \<Rightarrow> string \<Rightarrow> bool"
  assumes sig_set: "sig (set_sig s r) = s"
    and payload_set: "payload (set_sig s r) = payload r"
    and sign_key: "key \<noteq> [] \<Longrightarrow> sign r key = CredentialProofSignaturePrefix @ hex_encode (mac key (payload r))"
    and verify_key: "verify r key \<longleftrightarrow> key \<noteq> [] \<and> has_prefix (sig r) CredentialProofSignaturePrefix \<and> sig r = sign r key"
begin

lemma verify_iff: "verify r key \<longleftrightarrow> key \<noteq> [] \<and> sig r = CredentialProofSignaturePrefix @ hex_encode (mac key (payload r))"
  by (auto simp: verify_key sign_key)

lemma verify_signed: "verify (set_sig (sign r key) r) key \<longleftrightarrow> key \<noteq> []"
  by (auto simp: verify_iff sig_set payload_set sign_key)

lemma verify_set: "verify (set_sig s r) key \<longleftrightarrow> key \<noteq> [] \<and> s = sign r key"
  by (auto simp: verify_iff sig_set payload_set sign_key)

lemma replayed: "verify r key \<Longrightarrow> verify r' key' \<Longrightarrow> sig r = sig r' \<Longrightarrow> mac key (payload r) = mac key' (payload r')"
  by (auto simp: verify_iff dest: hex_encode_inj)

end

lemma proof_payload_set [simp]: "proof_payload (r\<lparr>prre_AgentSignature := s\<rparr>) = proof_payload r"
  by (simp add: proof_payload_def)

lemma service_payload_set [simp]: "service_payload (r\<lparr>sere_AgentSignature := s\<rparr>) = service_payload r"
  by (simp add: service_payload_def Let_def)

lemma edge_payload_set [simp]: "edge_payload (r\<lparr>edge_RouterSignature := s\<rparr>) = edge_payload r"
  "edge_payload (r\<lparr>edge_Verifier := v\<rparr>) = edge_payload r"
  by (simp_all add: edge_payload_def)

lemma service_payload_verifier:
  "\<not> ExecutorRef_RequiresAttestation (sere_Executor r) \<Longrightarrow> service_payload (r\<lparr>sere_Verifier := v\<rparr>) = service_payload r"
  by (simp add: service_payload_def Let_def)

interpretation proof_sig: credential_signature prre_AgentSignature "\<lambda>s r. r\<lparr>prre_AgentSignature := s\<rparr>"
  "\<lambda>r. CanonicalHash sha (enc (proof_payload r))" hmac
  "CredentialProofSignature sha hmac enc" "VerifyCredentialProofSignature sha hmac enc"
  for sha hmac enc
  by unfold_locales (auto simp: CredentialProofSignature_def VerifyCredentialProofSignature_def)

interpretation service_sig: credential_signature sere_AgentSignature "\<lambda>s r. r\<lparr>sere_AgentSignature := s\<rparr>"
  "\<lambda>r. CanonicalHash sha (enc (service_payload r))" hmac
  "CredentialServiceSignature sha hmac enc" "VerifyCredentialServiceSignature sha hmac enc"
  for sha hmac enc
  by unfold_locales (auto simp: CredentialServiceSignature_def VerifyCredentialServiceSignature_def)

interpretation edge_sig: credential_signature edge_RouterSignature "\<lambda>s r. r\<lparr>edge_RouterSignature := s\<rparr>"
  "\<lambda>r. CanonicalHash sha (enc (edge_payload r))" hmac
  "CredentialEdgeSignature sha hmac enc" "VerifyCredentialEdgeSignature sha hmac enc"
  for sha hmac enc
  by unfold_locales (auto simp: CredentialEdgeSignature_def VerifyCredentialEdgeSignature_def)

text \<open>A signed receipt verifies, and under a given key one signature only: setting the signature of a proof,
  service or edge receipt makes it verify under a key exactly when the key is not empty and the
  signature is the one the signing function gives for that key.\<close>

theorem credential_signatures_verify:
  "(VerifyCredentialProofSignature sha hmac encP (p\<lparr>prre_AgentSignature := s\<rparr>) key \<longleftrightarrow>
      key \<noteq> [] \<and> s = CredentialProofSignature sha hmac encP p key) \<and>
   (VerifyCredentialServiceSignature sha hmac encS (r\<lparr>sere_AgentSignature := s\<rparr>) key \<longleftrightarrow>
      key \<noteq> [] \<and> s = CredentialServiceSignature sha hmac encS r key) \<and>
   (VerifyCredentialEdgeSignature sha hmac encE (e\<lparr>edge_RouterSignature := s\<rparr>) key \<longleftrightarrow>
      key \<noteq> [] \<and> s = CredentialEdgeSignature sha hmac encE e key)"
  by (intro conjI proof_sig.verify_set service_sig.verify_set edge_sig.verify_set)

text \<open>C14. Tampering with a signed service receipt means breaking a hash: two receipts that verify with the same signature under
  one key have the same encoding, or their encodings are a collision of SHA-256, or the hashes of these a
  collision of HMAC under that key. What is encoded is the whole receipt but for the signature and, where no
  attestation is required, the verifier's result.\<close>

theorem service_tampering_collides:
  assumes "VerifyCredentialServiceSignature sha hmac enc r key" and "VerifyCredentialServiceSignature sha hmac enc r' key"
    and "sere_AgentSignature r = sere_AgentSignature r'"
  defines "covered \<equiv> \<lambda>r. if ExecutorRef_RequiresAttestation (sere_Executor r) then r\<lparr>sere_AgentSignature := []\<rparr>
      else r\<lparr>sere_AgentSignature := [], sere_Verifier := zero_VerifierResult\<rparr>"
  shows "enc (covered r) = enc (covered r') \<or>
    enc (covered r) \<noteq> enc (covered r') \<and> sha (enc (covered r)) = sha (enc (covered r')) \<or>
    (\<exists>h h'. h = ''sha256:'' @ hex_encode (sha (enc (covered r))) \<and> h' = ''sha256:'' @ hex_encode (sha (enc (covered r'))) \<and>
       h \<noteq> h' \<and> hmac key h = hmac key h')"
proof -
  have payload: "covered r = service_payload r" for r by (simp add: covered_def service_payload_def)
  have mac: "hmac key (CanonicalHash sha (enc (service_payload r))) = hmac key (CanonicalHash sha (enc (service_payload r')))"
    using service_sig.replayed [OF assms(1-3)] by simp
  then show ?thesis unfolding payload CanonicalHash_def by (auto simp: hex_encode_inj)
qed

section \<open>What verification accepts\<close>

lemma digest_error_None [simp]: "digest_error name v = None \<longleftrightarrow> validSHA256Digest v"
  by (simp add: digest_error_def)

definition service_verified :: "ServiceReceipt \<Rightarrow> ReceiptVerificationOptions \<Rightarrow> ServiceReceipt" where
  \<comment> \<open>the receipt with the verifier's result filled in where no attestation is required\<close>
  "service_verified receipt opts =
     (if \<not> ExecutorRef_RequiresAttestation (sere_Executor receipt)
      then receipt\<lparr>sere_Verifier := receiptVerifierResult opts
        ''service receipt signature verified; quorum and key-backed trust handled separately''\<rparr>
      else receipt)"

lemma VerifyServiceReceipt_iff:
  "VerifyServiceReceipt sha hmac enc marshal receipt opts = Returns (Inr receipt') \<longleftrightarrow>
     validSHA256Digest (sere_DeploymentHash receipt) \<and> validSHA256Digest (sere_RequestHash receipt) \<and>
     validSHA256Digest (sere_ResponseHash receipt) \<and> serviceReceiptSignatureValid sha hmac enc receipt opts \<and>
     receipt' = service_verified receipt opts \<and> ServiceReceipt_Validate sha marshal receipt' = Returns None"
proof -
  have checked: "(case digest_error n v of Some err \<Rightarrow> Returns (Inl err) | None \<Rightarrow> w) = Returns (Inr receipt') \<longleftrightarrow>
      validSHA256Digest v \<and> w = Returns (Inr receipt')" for n v and w :: "(err + ServiceReceipt) outcome"
    by (simp add: digest_error_def)
  have result: "(case ServiceReceipt_Validate sha marshal r of Panic \<Rightarrow> Panic
        | Returns v \<Rightarrow> Returns (case v of Some err \<Rightarrow> Inl err | None \<Rightarrow> Inr r)) = Returns (Inr receipt') \<longleftrightarrow>
      receipt' = r \<and> ServiceReceipt_Validate sha marshal r = Returns None" for r
    by (cases "ServiceReceipt_Validate sha marshal r") (auto split: option.splits)
  show ?thesis
    unfolding VerifyServiceReceipt_def Let_def service_verified_def [symmetric] checked
    by (cases "serviceReceiptSignatureValid sha hmac enc receipt opts") (auto simp only: result if_True if_False not_True_eq_False not_False_eq_True simp_thms outcome.inject sum.distinct)
qed

lemma service_verified_simps [simp]:
  "sere_DeploymentHash (service_verified r opts) = sere_DeploymentHash r" "sere_RequestHash (service_verified r opts) = sere_RequestHash r"
  "sere_ResponseHash (service_verified r opts) = sere_ResponseHash r" "sere_AgentSignature (service_verified r opts) = sere_AgentSignature r"
  "sere_Executor (service_verified r opts) = sere_Executor r"
  by (simp_all add: service_verified_def)

lemma service_verified_payload [simp]: "service_payload (service_verified r opts) = service_payload r"
  by (simp add: service_verified_def service_payload_verifier)

lemma service_verified_idem [simp]: "service_verified (service_verified r opts) opts = service_verified r opts"
  by (simp add: service_verified_def)

text \<open>C3. An accepted service receipt is authentic and checked: it carries either the HMAC of its payload under a
  non-empty key or, if the caller allows the fallback, the plain hash of its payload; its digests are
  canonical; only the verifier's result may differ from what was submitted, and it says accepted
  unless an attestation decides; and verifying the accepted receipt again accepts it unchanged.\<close>

theorem VerifyServiceReceipt_sound:
  assumes "VerifyServiceReceipt sha hmac enc marshal receipt opts = Returns (Inr receipt')"
  shows "(sere_AgentSignature receipt =
        CredentialProofSignaturePrefix @ hex_encode (hmac (rvo_CredentialTokenProofKey opts) (CanonicalHash sha (enc (service_payload receipt)))) \<and>
        rvo_CredentialTokenProofKey opts \<noteq> [] \<or>
      rvo_AllowSoftwareFallback opts \<and> sere_AgentSignature receipt = SoftwareAgentServiceSignature sha enc receipt) \<and>
    validSHA256Digest (sere_DeploymentHash receipt') \<and>
    validSHA256Digest (sere_RequestHash receipt') \<and>
    validSHA256Digest (sere_ResponseHash receipt') \<and>
    receipt'\<lparr>sere_Verifier := sere_Verifier receipt\<rparr> = receipt \<and>
    (\<not> ExecutorRef_RequiresAttestation (sere_Executor receipt) \<longrightarrow> vr_Status (sere_Verifier receipt') = VerificationAccepted) \<and>
    (ExecutorRef_RequiresAttestation (sere_Executor receipt) \<longrightarrow> receipt' = receipt) \<and>
    ServiceReceipt_Validate sha marshal receipt' = Returns None \<and>
    VerifyServiceReceipt sha hmac enc marshal receipt' opts = Returns (Inr receipt')"
proof -
  note v = assms [unfolded VerifyServiceReceipt_iff]
  then have sig: "serviceReceiptSignatureValid sha hmac enc receipt opts" and r': "receipt' = service_verified receipt opts" by blast+
  from sig have c0: "sere_AgentSignature receipt =
        CredentialProofSignaturePrefix @ hex_encode (hmac (rvo_CredentialTokenProofKey opts) (CanonicalHash sha (enc (service_payload receipt)))) \<and>
        rvo_CredentialTokenProofKey opts \<noteq> [] \<or>
      rvo_AllowSoftwareFallback opts \<and> sere_AgentSignature receipt = SoftwareAgentServiceSignature sha enc receipt"
    by (auto simp: serviceReceiptSignatureValid_def service_sig.verify_iff split: if_splits)
  have digests: "validSHA256Digest (sere_DeploymentHash receipt')" "validSHA256Digest (sere_RequestHash receipt')"
      "validSHA256Digest (sere_ResponseHash receipt')"
    using v by simp_all
  have valid: "ServiceReceipt_Validate sha marshal receipt' = Returns None" using v by blast
  have c1: "receipt'\<lparr>sere_Verifier := sere_Verifier receipt\<rparr> = receipt"
    "ExecutorRef_RequiresAttestation (sere_Executor receipt) \<Longrightarrow> receipt' = receipt"
    "\<not> ExecutorRef_RequiresAttestation (sere_Executor receipt) \<Longrightarrow> vr_Status (sere_Verifier receipt') = VerificationAccepted"
    by (simp_all add: r' service_verified_def receiptVerifierResult_def Let_def)
  have "serviceReceiptSignatureValid sha hmac enc receipt' opts"
    using sig by (auto simp: r' serviceReceiptSignatureValid_def service_sig.verify_iff SoftwareAgentServiceSignature_def split: if_splits)
  moreover have "receipt' = service_verified receipt' opts" by (simp add: r')
  ultimately have c2: "VerifyServiceReceipt sha hmac enc marshal receipt' opts = Returns (Inr receipt')"
    unfolding VerifyServiceReceipt_iff using digests valid by blast
  show ?thesis using c0 digests valid c1 c2 by blast
qed

text \<open>The software signature authenticates nothing: whatever a receipt says, anyone can compute, without a key,
  a signature that the fallback accepts. A caller that neither allows the fallback nor supplies a key
  accepts no receipt.\<close>

theorem software_fallback_is_open:
  "(rvo_AllowSoftwareFallback opts \<longrightarrow>
      serviceReceiptSignatureValid sha hmac enc (r\<lparr>sere_AgentSignature := SoftwareAgentServiceSignature sha enc r\<rparr>) opts) \<and>
   (\<not> rvo_AllowSoftwareFallback opts \<and> rvo_CredentialTokenProofKey opts = [] \<longrightarrow>
      \<not> serviceReceiptSignatureValid sha hmac enc r opts)"
proof -
  have "\<not> has_prefix (SoftwareAgentSignaturePrefix @ x) CredentialProofSignaturePrefix" for x
    by (simp add: SoftwareAgentSignaturePrefix_def CredentialProofSignaturePrefix_def)
  then show ?thesis
    by (auto simp: serviceReceiptSignatureValid_def SoftwareAgentServiceSignature_def service_sig.verify_iff)
qed

lemma edge_receipt_ids:
  assumes "EdgeRequestReceipt_Validate r = None"
  shows "distinct (edge_ServiceReceiptIDs r)"
proof -
  have "each_seen 0
        (\<lambda>i dup receiptID.
           reports (validateIdentifier (at_index ''service_receipt_ids'' i []) receiptID) @
           fails dup (Errorf ''service_receipt_ids[%d] duplicates %q'' [Num (int i), Str receiptID]))
        (\<lambda>receiptID. True) (\<lambda>receiptID. receiptID) {} (edge_ServiceReceiptIDs r) = []"
    using assms unfolding EdgeRequestReceipt_Validate_def join_None append_is_Nil_conv by blast
  then show ?thesis
    by (subst (asm) each_seen_Nil [where Q = "\<lambda>i receiptID. plain_id receiptID"]) simp_all
qed

lemma edge_receipt_amounts:
  assumes "EdgeRequestReceipt_Validate r = None"
  shows "0 \<noteq> edge_StartedAt r" "edge_StartedAt r \<le> edge_FinishedAt r" "0 \<le> edge_RequestBytes r" "0 \<le> edge_ResponseBytes r"
proof -
  have "fails (edge_StartedAt r = 0) (New ''started_at is required'') = []"
    "fails (edge_FinishedAt r = 0) (New ''finished_at is required'') = []"
    "fails (\<not> edge_StartedAt r = 0 \<and> \<not> edge_FinishedAt r = 0 \<and> edge_FinishedAt r < edge_StartedAt r)
        (New ''finished_at must be after started_at'') = []"
    "fails (edge_RequestBytes r < 0) (New ''request_bytes must be non-negative'') = []"
    "fails (edge_ResponseBytes r < 0) (New ''response_bytes must be non-negative'') = []"
    using assms unfolding EdgeRequestReceipt_Validate_def join_None append_is_Nil_conv by blast+
  then show "0 \<noteq> edge_StartedAt r" "edge_StartedAt r \<le> edge_FinishedAt r" "0 \<le> edge_RequestBytes r" "0 \<le> edge_ResponseBytes r"
    by (auto simp: not_less)
qed

definition single_route :: "EdgeRequestReceipt \<Rightarrow> bool" where
  \<comment> \<open>a service with ingress evidence and no content, or content alone\<close>
  "single_route r \<longleftrightarrow>
     has_prefix (edge_RouteTarget r) ''service-route:'' \<and> edge_ContentRef r = [] \<and>
       plain_id (edge_IngressEvidenceID r) \<and> validSHA256Digest (edge_IngressEvidenceHash r) \<or>
     has_prefix (edge_RouteTarget r) ''content-route:'' \<and> validateContentRef (edge_ContentRef r) = None"

lemma edge_receipt_route:
  assumes "EdgeRequestReceipt_Validate r = None"
  shows "single_route r"
proof -
  have "required ''route_target'' (edge_RouteTarget r) = []"
    "fails (edge_RouteTarget r \<noteq> [] \<and> \<not> has_prefix (edge_RouteTarget r) ''service-route:'' \<and> \<not> has_prefix (edge_RouteTarget r) ''content-route:'')
        (New ''route_target must be opaque service-route or content-route target'') = []"
    "(if has_prefix (edge_RouteTarget r) ''service-route:'' then
         fails (edge_ContentRef r \<noteq> [])
           (New ''content_ref must be empty for service route receipt'') @
         required ''ingress_evidence_id'' (edge_IngressEvidenceID r) @
         required ''ingress_evidence_hash'' (edge_IngressEvidenceHash r) @
         (if edge_IngressEvidenceID r \<noteq> [] then
            reports (validateIdentifier ''ingress_evidence_id'' (edge_IngressEvidenceID r))
          else []) @
         fails (edge_IngressEvidenceHash r \<noteq> [] \<and> \<not> validSHA256Digest (edge_IngressEvidenceHash r))
           (New ''ingress_evidence_hash must use sha256 digest'')
       else []) = []"
    "(if has_prefix (edge_RouteTarget r) ''content-route:'' then
         required ''content_ref'' (edge_ContentRef r)
       else []) = []"
    "(if edge_ContentRef r \<noteq> [] then
         wraps ''content_ref: %w'' [] (validateContentRef (edge_ContentRef r))
       else []) = []"
    using assms unfolding EdgeRequestReceipt_Validate_def join_None append_is_Nil_conv by blast+
  then show ?thesis by (auto simp: single_route_def split: if_splits)
qed

lemma VerifyEdgeRequestReceipt_iff:
  "VerifyEdgeRequestReceipt sha hmac enc receipt opts = Inr receipt' \<longleftrightarrow>
     validSHA256Digest (edge_RequestHash receipt) \<and> validSHA256Digest (edge_ResponseHash receipt) \<and>
     edgeRequestReceiptSignatureValid sha hmac enc receipt opts \<and>
     receipt' = receipt\<lparr>edge_Verifier := receiptVerifierResult opts
       ''edge request receipt signature and shape verified; host must still check route, authz, replay, and accounting''\<rparr> \<and>
     EdgeRequestReceipt_Validate receipt' = None"
  unfolding VerifyEdgeRequestReceipt_def digest_error_def Let_def by (auto split: option.splits)

text \<open>C28. An accepted edge receipt is authentic and bills one route. It carries either the HMAC of the receipt, less signature
  and verifier's result, under a non-empty key or, if the caller allows the fallback, the plain hash; it names a service
  route with an ingress evidence, its digest, and no content, or a content route with a valid content reference; it
  runs forward in time, its sizes are not negative, no service receipt is counted twice, its digests are canonical,
  and it is what was submitted, but for the verifier's result, which says accepted.\<close>

theorem edge_receipt_verified:
  assumes "VerifyEdgeRequestReceipt sha hmac enc receipt opts = Inr receipt'"
  defines "h \<equiv> CanonicalHash sha (enc (receipt\<lparr>edge_RouterSignature := [], edge_Verifier := zero_VerifierResult\<rparr>))"
  shows "(edge_RouterSignature receipt = CredentialProofSignaturePrefix @ hex_encode (hmac (rvo_CredentialTokenProofKey opts) h) \<and>
        rvo_CredentialTokenProofKey opts \<noteq> [] \<or>
      rvo_AllowSoftwareFallback opts \<and> edge_RouterSignature receipt = SoftwareRouterEdgeSignature sha enc receipt) \<and>
    (has_prefix (edge_RouteTarget receipt) ''service-route:'' \<and> edge_ContentRef receipt = [] \<and>
        plain_id (edge_IngressEvidenceID receipt) \<and> validSHA256Digest (edge_IngressEvidenceHash receipt) \<or>
      has_prefix (edge_RouteTarget receipt) ''content-route:'' \<and> validateContentRef (edge_ContentRef receipt) = None) \<and>
    distinct (edge_ServiceReceiptIDs receipt) \<and>
    0 \<noteq> edge_StartedAt receipt \<and> edge_StartedAt receipt \<le> edge_FinishedAt receipt \<and>
    0 \<le> edge_RequestBytes receipt \<and> 0 \<le> edge_ResponseBytes receipt \<and>
    validSHA256Digest (edge_RequestHash receipt) \<and> validSHA256Digest (edge_ResponseHash receipt) \<and>
    receipt' = receipt\<lparr>edge_Verifier := edge_Verifier receipt'\<rparr> \<and>
    vr_Status (edge_Verifier receipt') = VerificationAccepted"
proof -
  note v = assms(1) [unfolded VerifyEdgeRequestReceipt_iff]
  then have valid: "EdgeRequestReceipt_Validate receipt' = None" and sig: "edgeRequestReceiptSignatureValid sha hmac enc receipt opts"
    and r': "receipt' = receipt\<lparr>edge_Verifier := receiptVerifierResult opts
       ''edge request receipt signature and shape verified; host must still check route, authz, replay, and accounting''\<rparr>" by blast+
  have c1: "single_route receipt" "distinct (edge_ServiceReceiptIDs receipt)" "0 \<noteq> edge_StartedAt receipt"
    "edge_StartedAt receipt \<le> edge_FinishedAt receipt" "0 \<le> edge_RequestBytes receipt" "0 \<le> edge_ResponseBytes receipt"
    using edge_receipt_route [OF valid] edge_receipt_ids [OF valid] edge_receipt_amounts [OF valid]
    by (simp_all add: r' single_route_def)
  have c2: "edge_RouterSignature receipt = CredentialProofSignaturePrefix @ hex_encode (hmac (rvo_CredentialTokenProofKey opts) h) \<and>
        rvo_CredentialTokenProofKey opts \<noteq> [] \<or>
      rvo_AllowSoftwareFallback opts \<and> edge_RouterSignature receipt = SoftwareRouterEdgeSignature sha enc receipt"
    using sig by (auto simp: h_def edgeRequestReceiptSignatureValid_def edge_sig.verify_iff edge_payload_def split: if_splits)
  have c3: "receipt' = receipt\<lparr>edge_Verifier := edge_Verifier receipt'\<rparr>" "vr_Status (edge_Verifier receipt') = VerificationAccepted"
    by (simp_all add: r' receiptVerifierResult_def Let_def)
  have c4: "validSHA256Digest (edge_RequestHash receipt)" "validSHA256Digest (edge_ResponseHash receipt)" using v by blast+
  show ?thesis using c1(1) [unfolded single_route_def] c1(2-6) c2 c3 c4 by blast
qed

section \<open>Examples\<close>

definition demo_sha256 :: "string \<Rightarrow> string" where
  "demo_sha256 d = replicate 32 (CHR ''0'')"

definition demo_hmac :: "string \<Rightarrow> string \<Rightarrow> string" where
  "demo_hmac key d = key @ d"

definition demo_options :: "string \<Rightarrow> ReceiptVerificationOptions" where
  "demo_options key = \<lparr>rvo_CredentialTokenProofKey = key, rvo_AllowSoftwareFallback = False, rvo_VerifierProvider = [], rvo_VerifierMessage = []\<rparr>"

definition demo_usage :: ResourceUsage where
  "demo_usage = \<lparr>ru_CPUMillis = 1, ru_GPUMillis = 0, ru_MaxMemoryBytes = 1, ru_NetworkRxBytes = 0, ru_NetworkTxBytes = 0,
     ru_WorkspaceBytes = 0, ru_OutputBytes = 0, ru_LimitHit = []\<rparr>"

definition demo_service :: ServiceReceipt where
  "demo_service = \<lparr>sere_ID = ''r'', sere_OrgID = ''org'', sere_TaskID = ''task'', sere_ServiceLeaseID = ''lease'', sere_WorkerID = ''worker'',
     sere_PoolID = ''pool'', sere_PolicyID = ''policy'',
     sere_Executor = \<lparr>er_Provider = ''oci'', er_Version = ''1'', er_ExecutionSecurityTier = ExecutionHardenedContainer,
       er_ProofTier = ProofArtifactHash, er_ImageDigest = ''i'', er_RootFSDigest = ''r''\<rparr>,
     sere_DeploymentHash = demo_sha, sere_RequestID = ''req'', sere_TraceID = ''trace'', sere_RequestHash = demo_sha,
     sere_ResponseHash = demo_sha, sere_StartedAt = Time 1, sere_FinishedAt = Time 2, sere_ResourceUsage = demo_usage,
     sere_ResourceLimits = \<lparr>rl_CPUPercent = 0, rl_MemoryBytes = 0, rl_WorkspaceBytes = 0, rl_RuntimeSeconds = 0,
       rl_NetworkEgressBytes = 0, rl_OutputBytes = 0\<rparr>,
     sere_SLOEvidence = \<lparr>sloe_LatencyMillis = 5, sloe_StatusCode = 200, sloe_DeadlineMS = 0, sloe_Healthy = True\<rparr>,
     sere_StatusEvidence = \<lparr>sse_CommandHash = [], sse_OutputHash = [], sse_Preview = [], sse_Truncated = False\<rparr>,
     sere_Verifier = zero_VerifierResult, sere_AgentSignature = []\<rparr>"

definition demo_signed :: ServiceReceipt where
  "demo_signed = demo_service\<lparr>sere_AgentSignature := CredentialServiceSignature demo_sha256 demo_hmac sere_ID demo_service ''k''\<rparr>"

lemma demo_service_accepted:
  "VerifyServiceReceipt demo_sha256 demo_hmac sere_ID (\<lambda>_. None) demo_signed (demo_options ''k'') =
     Returns (Inr (service_verified demo_signed (demo_options ''k'')))"
  by code_simp

lemma VerifyServiceReceipt_sound_witness:
  "vr_Status (sere_Verifier (service_verified demo_signed (demo_options ''k''))) = VerificationAccepted"
proof -
  have "\<not> ExecutorRef_RequiresAttestation (sere_Executor demo_signed)" by code_simp
  with VerifyServiceReceipt_sound [OF demo_service_accepted] show ?thesis by (simp add: demo_signed_def)
qed

text \<open>With a hash that always gives the same digest, a forged receipt verifies, and the theorem exhibits the collision.\<close>

lemma service_tampering_collides_witness:
  "VerifyCredentialServiceSignature demo_sha256 demo_hmac sere_ID (demo_signed\<lparr>sere_ID := ''forged''\<rparr>) ''k'' \<and>
   demo_sha256 ''r'' = demo_sha256 ''forged''"
proof -
  have verified: "VerifyCredentialServiceSignature demo_sha256 demo_hmac sere_ID demo_signed ''k''"
    "VerifyCredentialServiceSignature demo_sha256 demo_hmac sere_ID (demo_signed\<lparr>sere_ID := ''forged''\<rparr>) ''k''" by code_simp+
  have covered: "sere_ID (if b then r\<lparr>sere_AgentSignature := []\<rparr> else r\<lparr>sere_AgentSignature := [], sere_Verifier := v\<rparr>) = sere_ID r" for b r v
    by simp
  have same: "sere_AgentSignature demo_signed = sere_AgentSignature (demo_signed\<lparr>sere_ID := ''forged''\<rparr>)"
    and ids: "sere_ID demo_signed = ''r''" "sere_ID (demo_signed\<lparr>sere_ID := ''forged''\<rparr>) = ''forged''"
    by (simp_all add: demo_signed_def demo_service_def)
  have mac: "demo_hmac ''k'' h = demo_hmac ''k'' h' \<Longrightarrow> h = h'" for h h' by (simp add: demo_hmac_def)
  have "''r'' \<noteq> ''forged''" by simp
  with service_tampering_collides [OF verified same, unfolded covered ids] mac
  have "demo_sha256 ''r'' = demo_sha256 ''forged''" by blast
  then show ?thesis using verified(2) by blast
qed

definition demo_edge :: EdgeRequestReceipt where
  "demo_edge = \<lparr>edge_ProtocolVersion = [], edge_ID = ''e'', edge_OrgID = ''org'', edge_PoolID = ''pool'', edge_ProductID = ''product'',
     edge_Hostname = ''edge.example'', edge_RouteTarget = ''service-route:main'', edge_ServiceLeaseID = [], edge_TaskID = [], edge_WorkerID = [],
     edge_ContentRef = [], edge_RequestID = ''req'', edge_TraceID = ''trace'', edge_Method = ''GET'', edge_RequestClass = ''page'',
     edge_RequestHash = demo_sha, edge_ResponseHash = demo_sha, edge_RequestBytes = 1, edge_ResponseBytes = 2, edge_StartedAt = Time 1,
     edge_FinishedAt = Time 1, edge_ResourceUsage = demo_usage, edge_ServiceReceiptIDs = [''r''], edge_IngressEvidenceID = ''ingress'',
     edge_IngressEvidenceHash = demo_sha, edge_Verifier = zero_VerifierResult, edge_RouterSignature = []\<rparr>"

definition demo_routed :: EdgeRequestReceipt where
  "demo_routed = demo_edge\<lparr>edge_RouterSignature := CredentialEdgeSignature demo_sha256 demo_hmac edge_ID demo_edge ''k''\<rparr>"

lemma edge_receipt_verified_witness:
  "demo_routed \<noteq> demo_edge \<and> plain_id (edge_IngressEvidenceID demo_routed) \<and> validSHA256Digest demo_sha \<and>
   (case VerifyEdgeRequestReceipt demo_sha256 demo_hmac edge_ID demo_edge (demo_options ''k'') of Inl e \<Rightarrow> True | Inr r \<Rightarrow> False)"
proof -
  have "case VerifyEdgeRequestReceipt demo_sha256 demo_hmac edge_ID demo_routed (demo_options ''k'') of Inl e \<Rightarrow> False | Inr r \<Rightarrow> True"
    by code_simp
  then obtain r where "VerifyEdgeRequestReceipt demo_sha256 demo_hmac edge_ID demo_routed (demo_options ''k'') = Inr r"
    by (auto split: sum.splits)
  from edge_receipt_verified [OF this]
  have "plain_id (edge_IngressEvidenceID demo_routed) \<and> validSHA256Digest demo_sha \<and> edge_RouterSignature demo_routed \<noteq> []"
    by (auto simp: demo_routed_def demo_edge_def demo_options_def CredentialProofSignaturePrefix_def)
  moreover have "edge_RouterSignature demo_edge = []" by (simp add: demo_edge_def)
  moreover have "case VerifyEdgeRequestReceipt demo_sha256 demo_hmac edge_ID demo_edge (demo_options ''k'') of Inl e \<Rightarrow> True | Inr r \<Rightarrow> False"
    by code_simp
  ultimately show ?thesis by metis
qed

lemma software_fallback_is_open_witness:
  "\<not> serviceReceiptSignatureValid demo_sha256 demo_hmac sere_ID demo_signed (demo_options [])"
  using software_fallback_is_open [of "demo_options []"] by (simp add: demo_options_def)

end
