(* ===== verification/ServiceRuntime.thy ===== *)
theory ServiceRuntime
  imports Tasks Receipts
begin

text \<open>
  \<open>protocol/service_runtime.go\<close>: what a service provider is asked to run, and the interfaces that the plugins
  implement. An interface is the record of its methods; a provider that opens sessions extends one that does
  not, as the Go interface embeds it. The context of a call is left out, and of a provider with a state
  of its own a record is one moment. The code states no law of the methods.

  \<open>internal/plugin.go\<close>: the manifest by which the plugin is found. Its version is a variable that the
  build sets.
\<close>

section \<open>Service providers\<close>

record NetworkBinding =
  nb_Mode :: NetworkMode
  nb_SandboxNetwork :: string
  nb_Captive :: bool
  nb_GatewayEndpoint :: string
  nb_ProxyURL :: string

record ContainerRuntimeScope =
  crs_Args :: "string list"

record SandboxMount =
  sm_HostPath :: string
  sm_ContainerPath :: string
  sm_ReadOnly :: bool
  sm_RequiredPrefix :: string

record ServiceRunRequest =
  srr_Task :: Task
  srr_Lease :: Lease
  srr_Workspace :: string
  srr_Env :: "(string \<times> string) list"
  srr_Limits :: ResourceLimits
  srr_Network :: NetworkBinding
  srr_RuntimeScope :: ContainerRuntimeScope
  srr_HTTPHelperImage :: string
  srr_DataMounts :: "SandboxMount list"

record ServiceProvider =
  spr_Name :: string
  spr_Descriptor :: RuntimeDescriptor
  spr_CanServe :: "Task \<Rightarrow> Lease \<Rightarrow> bool"
  spr_RunService :: "ServiceRunRequest \<Rightarrow> err + RuntimeServiceResult"

record ServiceSession =
  sse_Health :: "err + RuntimeServiceResult"
  sse_Stop :: "err + RuntimeServiceResult"

record ServiceSessionProvider = ServiceProvider +
  ssp_StartServiceSession :: "ServiceRunRequest \<Rightarrow> err + ServiceSession"

section \<open>The plugin\<close>

text \<open>\<open>sdk.PluginManifest\<close>: the fields that the code sets.\<close>

record PluginManifest =
  plm_Name :: string
  plm_Version :: string
  plm_Author :: string
  plm_Description :: string

definition PluginVersion :: string where
  \<comment> \<open>the value of \<open>Version\<close> that the build may replace\<close>
  "PluginVersion = ''0.0.0''"

definition ComputeCorePlugin_Manifest :: "string \<Rightarrow> PluginManifest" where
  "ComputeCorePlugin_Manifest version =
     \<lparr>plm_Name = ''workflow-plugin-compute-core'', plm_Version = version, plm_Author = ''GoCodeAlone'',
      plm_Description = ''Public compute protocol and provider catalog core for Workflow.''\<rparr>"

lemma manifest_identifies: "plain_id (plm_Name (ComputeCorePlugin_Manifest v)) \<and> plain_id PluginVersion"
  by code_simp

end
