(* ===== verification/Client.thy ===== *)
theory Client
  imports Tasks Receipts Paths
begin

text \<open>
  \<open>protocol/client.go\<close>: the client of the compute server. It is a base URL with a token; its operations
  build one request each, send it, and decode the response strictly.

  What the client does not do itself is the record \<open>transport\<close>: joining a path to the base URL,
  creating a request, and sending it. A response has a status and a stream, which is the bytes that arrive
  and the error reading ends with, if any. \<open>uri\<close> is \<open>url.ParseRequestURI\<close>, \<open>decode\<close> is one
  \<open>Decode\<close> of a JSON decoder that refuses unknown fields, giving the value and the rest of the stream,
  and \<open>marshal\<close> the JSON encoder. Contexts are left out.
\<close>

section \<open>Records\<close>

type_synonym stream = "string \<times> error"

record Request =
  rq_Method :: string
  rq_URL :: string
  rq_Header :: "(string \<times> string) list"
  rq_Body :: string

record Response =
  rs_StatusCode :: int
  rs_Body :: stream

record transport =
  JoinPath :: "URL \<Rightarrow> string \<Rightarrow> string"
  creates :: "string \<Rightarrow> string \<Rightarrow> error"
  sends :: "Request \<Rightarrow> err + Response"

text \<open>A client given by the caller, or one built with a timeout.\<close>

datatype 'h http_client = Given 'h | WithTimeout int

definition defaultClientTimeout :: int where "defaultClientTimeout = 30 * 1000000000"

record 'h ClientConfig =
  cc_ServerURL :: string
  cc_Token :: string
  cc_HTTPClient :: "'h option"
  cc_Timeout :: int

record 'h Client =
  cl_baseURL :: URL
  cl_token :: string
  cl_http :: "'h http_client"

record TaskStall =
  tast_TaskID :: string
  tast_LeaseID :: string
  tast_AgentID :: string
  tast_Reason :: string
  tast_AgeMS :: int

record TaskList =
  tali_Tasks :: "Task list"
  tali_Stalls :: "TaskStall list"

record TaskListSummary =
  tals_Total :: int
  tals_Open :: int
  tals_Queued :: int
  tals_Stalled :: int
  tals_Succeeded :: int

record TaskListWithSummary =
  talws_Tasks :: "Task list"
  talws_Stalls :: "TaskStall list"
  talws_Summary :: TaskListSummary

record ProofListSummary =
  prls_Total :: int
  prls_Accepted :: int
  prls_Pending :: int
  prls_Rejected :: int
  prls_Conflicted :: int

record 'v ProofListWithSummary =
  prlws_Proofs :: "'v ProofReceipt list"
  prlws_Summary :: ProofListSummary

record agentListSummary =
  als_Total :: int
  als_Active :: int
  als_Stale :: int
  als_Offline :: int
  als_Registered :: int
  als_Historical :: int

record agentListResponse =
  alr_Agents :: "Agent list"
  alr_Summary :: agentListSummary

record leaseListResponse =
  llr_Leases :: "Lease list"

record taskArtifactListResponse =
  talr_Artifacts :: "TaskArtifact list"

record TaskResponse =
  tare_Task :: Task

section \<open>Loopback hosts\<close>

text \<open>The bytes of an address that \<open>net.ParseIP\<close> accepts.\<close>

definition hex_digit_value :: "char \<Rightarrow> nat" where
  "hex_digit_value c = (let n = of_char c :: nat in if n \<le> 57 then n - 48 else if n \<le> 70 then n - 55 else n - 87)"

definition group_bytes :: "string \<Rightarrow> nat list" where
  "group_bytes g =
     (if CHR ''.'' \<in> set g then map decimal_value (split_char (CHR ''.'') g)
      else (let v = foldl (\<lambda>n c. n * 16 + hex_digit_value c) 0 g in [v div 256, v mod 256]))"

definition groups_bytes :: "string \<Rightarrow> nat list" where
  "groups_bytes s = (if s = [] then [] else concat (map group_bytes (split_char (CHR '':'') s)))"

fun cut_ellipsis :: "string \<Rightarrow> (string \<times> string) option" where
  "cut_ellipsis (c # d # s) =
     (if c = CHR '':'' \<and> d = CHR '':'' then Some ([], s) else map_option (map_prod ((#) c) id) (cut_ellipsis (d # s)))"
| "cut_ellipsis _ = None"

definition ipv6_bytes :: "string \<Rightarrow> nat list" where
  "ipv6_bytes s =
     (case cut_ellipsis s of
        None \<Rightarrow> groups_bytes s
      | Some (l, r) \<Rightarrow> (let a = groups_bytes l; b = groups_bytes r in a @ replicate (16 - length a - length b) 0 @ b))"

definition ip_is_loopback :: "string \<Rightarrow> bool" where
  \<comment> \<open>\<open>ip := net.ParseIP(s); ip != nil && ip.IsLoopback()\<close>: version 4, also mapped into version 6, in 127.0.0.0/8, or \<open>::1\<close>\<close>
  "ip_is_loopback s =
     (case parse_addr s of
        Some IPv4 \<Rightarrow> decimal_value (hd (split_char (CHR ''.'') s)) = 127
      | Some IPv6 \<Rightarrow>
          (let b = ipv6_bytes s
           in if take 12 b = replicate 10 0 @ [255, 255] then b ! 12 = 127 else b = replicate 15 0 @ [1])
      | _ \<Rightarrow> False)"

definition isLoopbackHost :: "string \<Rightarrow> bool" where
  "isLoopbackHost host =
     (let host = trim_space (trim_brackets host)
      in if host = ''localhost'' then True else ip_is_loopback host)"

section \<open>Paths\<close>

definition path_char :: "char \<Rightarrow> bool" where
  \<comment> \<open>what \<open>url.PathEscape\<close> leaves as it is\<close>
  "path_char c \<longleftrightarrow> c \<in> set (''ABCDEFGHIJKLMNOPQRSTUVWXYZabcdefghijklmnopqrstuvwxyz0123456789'' @ ''-_.~$&+:=@'')"

definition escape_char :: "char \<Rightarrow> string" where
  "escape_char c =
     (if path_char c then [c]
      else [CHR ''%'', ''0123456789ABCDEF'' ! (of_char c div 16), ''0123456789ABCDEF'' ! (of_char c mod 16)])"

definition PathEscape :: "string \<Rightarrow> string" where
  "PathEscape s = concat (map escape_char s)"

definition escapedPath :: "string list \<Rightarrow> string" where
  "escapedPath segments = ''/'' @ join_char (CHR ''/'') (map PathEscape segments)"

definition unsafe_segment :: "string \<Rightarrow> bool" where
  "unsafe_segment segment \<longleftrightarrow>
     segment = [] \<or> segment = ''.'' \<or> segment = ''..'' \<or>
     contains_any segment [CHR 0x5C, CHR 0x00, CHR 0x0D, CHR 0x0A, CHR 0x09, CHR '' '', CHR ''?'', CHR ''#'']"

definition taskArtifactRefParts :: "string \<Rightarrow> err + (string \<times> string \<times> string \<times> string)" where
  "taskArtifactRefParts ref =
     (if \<not> has_prefix ref ''artifact://'' then Inl (New ''artifact ref must use artifact://'')
      else (let parts = split_char (CHR ''/'') (trim_prefix ref ''artifact://'')
            in if length parts < 6 \<or> parts ! 1 \<noteq> ''tasks'' \<or> parts ! 3 \<noteq> ''proofs''
               then Inl (New ''artifact ref must use artifact://<pool>/tasks/<task>/proofs/<proof>/<name>'')
               else if list_ex unsafe_segment ([parts ! 0, parts ! 2, parts ! 4] @ drop 5 parts)
               then Inl (New ''artifact ref contains unsafe segment'')
               else Inr (parts ! 0, parts ! 2, parts ! 4, join_char (CHR ''/'') (drop 5 parts))))"

section \<open>Requests\<close>

definition NewClient :: "(string \<Rightarrow> URL option) \<Rightarrow> 'h ClientConfig \<Rightarrow> err + 'h Client" where
  "NewClient uri config =
     (case uri (cc_ServerURL config) of
        None \<Rightarrow> Inl (New ''server_url must be absolute http(s) URL'')
      | Some parsed \<Rightarrow>
          if url_Scheme parsed \<noteq> ''http'' \<and> url_Scheme parsed \<noteq> ''https''
          then Inl (New ''server_url must be absolute http(s) URL'')
          else if cc_Token config \<noteq> [] \<and> url_Scheme parsed \<noteq> ''https'' \<and> \<not> isLoopbackHost (url_Hostname parsed)
          then Inl (New ''server_url must use https when auth token is set'')
          else Inr \<lparr>cl_baseURL = parsed, cl_token = cc_Token config,
                    cl_http = (case cc_HTTPClient config of
                                 Some h \<Rightarrow> Given h
                               | None \<Rightarrow> WithTimeout (if cc_Timeout config \<le> 0 then defaultClientTimeout else cc_Timeout config))\<rparr>)"

definition StatusError_Error :: "string \<Rightarrow> string \<Rightarrow> int \<Rightarrow> err" where
  "StatusError_Error method path code = Errorf ''%s %s: got status %d'' [Str method, Str path, Num code]"

definition authorization :: "'h Client \<Rightarrow> (string \<times> string) list" where
  "authorization c = (if cl_token c \<noteq> [] then [(''Authorization'', ''Bearer '' @ cl_token c)] else [])"

definition DecodeStrict :: "(stream \<Rightarrow> err + ('v \<times> stream)) \<Rightarrow> stream \<Rightarrow> err + 'v" where
  "DecodeStrict decode r =
     (case decode r of
        Inl err \<Rightarrow> Inl err
      | Inr (v, rest) \<Rightarrow>
          if list_all json_space (fst rest) \<and> snd rest = None then Inr v
          else Inl (New ''multiple JSON values are not allowed''))"

text \<open>\<open>body\<close> is the marshalled body, if there is one.\<close>

definition json_request :: "transport \<Rightarrow> 'h Client \<Rightarrow> string \<Rightarrow> string \<Rightarrow> string option \<Rightarrow> Request" where
  "json_request t c method path body =
     \<lparr>rq_Method = method, rq_URL = JoinPath t (cl_baseURL c) path,
      rq_Header = (case body of Some _ \<Rightarrow> [(''Content-Type'', ''application/json'')] | None \<Rightarrow> []) @ authorization c,
      rq_Body = (case body of Some data \<Rightarrow> data | None \<Rightarrow> [])\<rparr>"

definition doJSON :: "transport \<Rightarrow> (stream \<Rightarrow> err + ('v \<times> stream)) \<Rightarrow> 'h Client \<Rightarrow> string \<Rightarrow> string \<Rightarrow> (err + string) option \<Rightarrow> int \<Rightarrow> err + 'v" where
  "doJSON t decode c method path body want =
     (case body of
        Some (Inl err) \<Rightarrow> Inl (Errorf ''marshal request: %w'' [Wrapped err])
      | _ \<Rightarrow>
          (let request = json_request t c method path (map_option (case_sum (\<lambda>_. []) (\<lambda>data. data)) body)
           in case creates t method (rq_URL request) of
                Some err \<Rightarrow> Inl (Errorf ''create request: %w'' [Wrapped err])
              | None \<Rightarrow>
                  (case sends t request of
                     Inl err \<Rightarrow> Inl (Errorf ''%s %s: %w'' [Str method, Str path, Wrapped err])
                   | Inr resp \<Rightarrow>
                       if rs_StatusCode resp \<noteq> want then Inl (StatusError_Error method path (rs_StatusCode resp))
                       else DecodeStrict decode (rs_Body resp))))"

section \<open>Operations\<close>

definition Client_SubmitTask :: "transport \<Rightarrow> (stream \<Rightarrow> err + (TaskResponse \<times> stream)) \<Rightarrow> (Task \<Rightarrow> err + string) \<Rightarrow> 'h Client \<Rightarrow> Task \<Rightarrow> err + Task" where
  "Client_SubmitTask t decode marshal c task =
     (case doJSON t decode c ''POST'' ''/v1/tasks'' (Some (marshal task)) 201 of
        Inl err \<Rightarrow> Inl err
      | Inr out \<Rightarrow> Inr (tare_Task out))"

definition Client_ListTasksWithSummary :: "transport \<Rightarrow> (stream \<Rightarrow> err + (TaskListWithSummary \<times> stream)) \<Rightarrow> 'h Client \<Rightarrow> err + TaskListWithSummary" where
  "Client_ListTasksWithSummary t decode c = doJSON t decode c ''GET'' ''/v1/tasks'' None 200"

definition Client_ListTasks :: "transport \<Rightarrow> (stream \<Rightarrow> err + (TaskListWithSummary \<times> stream)) \<Rightarrow> 'h Client \<Rightarrow> err + TaskList" where
  "Client_ListTasks t decode c =
     (case Client_ListTasksWithSummary t decode c of
        Inl err \<Rightarrow> Inl err
      | Inr out \<Rightarrow> Inr \<lparr>tali_Tasks = talws_Tasks out, tali_Stalls = talws_Stalls out\<rparr>)"

definition Client_ListAgents :: "transport \<Rightarrow> (stream \<Rightarrow> err + (agentListResponse \<times> stream)) \<Rightarrow> 'h Client \<Rightarrow> err + Agent list" where
  "Client_ListAgents t decode c =
     (case doJSON t decode c ''GET'' ''/v1/agents'' None 200 of
        Inl err \<Rightarrow> Inl err
      | Inr out \<Rightarrow> Inr (alr_Agents out))"

fun first_invalid_lease :: "(string \<Rightarrow> string) \<Rightarrow> (P2PSessionPolicy \<Rightarrow> string) \<Rightarrow> nat \<Rightarrow> Lease list \<Rightarrow> error" where
  "first_invalid_lease sha enc i [] = None"
| "first_invalid_lease sha enc i (lease # leases) =
     (case Lease_Validate sha enc lease of
        Some err \<Rightarrow> Some (Errorf ''leases[%d]: %w'' [Num (int i), Wrapped err])
      | None \<Rightarrow> first_invalid_lease sha enc (Suc i) leases)"

definition Client_ListLeases :: "transport \<Rightarrow> (stream \<Rightarrow> err + (leaseListResponse \<times> stream)) \<Rightarrow> (string \<Rightarrow> string) \<Rightarrow> (P2PSessionPolicy \<Rightarrow> string) \<Rightarrow>
    'h Client \<Rightarrow> err + Lease list" where
  "Client_ListLeases t decode sha enc c =
     (case doJSON t decode c ''GET'' ''/v1/leases'' None 200 of
        Inl err \<Rightarrow> Inl err
      | Inr out \<Rightarrow>
          (case first_invalid_lease sha enc 0 (llr_Leases out) of
             Some err \<Rightarrow> Inl err
           | None \<Rightarrow> Inr (llr_Leases out)))"

definition Client_ListTaskArtifacts :: "transport \<Rightarrow> (stream \<Rightarrow> err + (taskArtifactListResponse \<times> stream)) \<Rightarrow> 'h Client \<Rightarrow> string \<Rightarrow> err + TaskArtifact list" where
  "Client_ListTaskArtifacts t decode c taskID =
     (if taskID = [] \<or> taskID = ''.'' \<or> taskID = ''..'' then Inl (New ''taskID must not be empty, \".\", or \"..\"'')
      else (case doJSON t decode c ''GET'' (escapedPath [''v1'', ''tasks'', taskID, ''artifacts'']) None 200 of
              Inl err \<Rightarrow> Inl err
            | Inr out \<Rightarrow> Inr (talr_Artifacts out)))"

text \<open>\<open>io.ReadAll(io.LimitReader(r, n))\<close>: the limit ends the reading before the error is seen.\<close>

definition read_limited :: "stream \<Rightarrow> int \<Rightarrow> err + string" where
  "read_limited r n =
     (if n \<le> int (length (fst r)) then Inr (take (nat n) (fst r))
      else case snd r of None \<Rightarrow> Inr (fst r) | Some err \<Rightarrow> Inl err)"

definition download_path :: "string \<Rightarrow> string \<Rightarrow> string \<Rightarrow> string" where
  "download_path taskID proofID name =
     escapedPath ([''v1'', ''tasks'', taskID, ''proofs'', proofID, ''artifacts''] @ split_char (CHR ''/'') name)"

definition download_request :: "transport \<Rightarrow> 'h Client \<Rightarrow> string \<Rightarrow> Request" where
  "download_request t c path =
     \<lparr>rq_Method = ''GET'', rq_URL = JoinPath t (cl_baseURL c) path, rq_Header = authorization c, rq_Body = []\<rparr>"

definition Client_DownloadTaskArtifact :: "transport \<Rightarrow> 'h Client \<Rightarrow> string \<Rightarrow> int \<Rightarrow> err + string" where
  "Client_DownloadTaskArtifact t c ref maxBytes =
     (if maxBytes \<le> 0 then Inl (New ''maxBytes must be positive'')
      else (case taskArtifactRefParts ref of
              Inl err \<Rightarrow> Inl err
            | Inr (_, taskID, proofID, name) \<Rightarrow>
                (let path = download_path taskID proofID name;
                     request = download_request t c path
                 in case creates t ''GET'' (rq_URL request) of
                      Some err \<Rightarrow> Inl (Errorf ''create request: %w'' [Wrapped err])
                    | None \<Rightarrow>
                        (case sends t request of
                           Inl err \<Rightarrow> Inl (Errorf ''%s %s: %w'' [Str ''GET'', Str path, Wrapped err])
                         | Inr resp \<Rightarrow>
                             if rs_StatusCode resp \<noteq> 200 then Inl (StatusError_Error ''GET'' path (rs_StatusCode resp))
                             else (let readLimit = (if maxBytes < int64_max then maxBytes + 1 else maxBytes)
                                   in case read_limited (rs_Body resp) readLimit of
                                        Inl err \<Rightarrow> Inl (Errorf ''read artifact: %w'' [Wrapped err])
                                      | Inr data \<Rightarrow>
                                          if int (length data) > maxBytes
                                          then Inl (Errorf ''artifact exceeds maxBytes %d'' [Num maxBytes])
                                          else Inr data)))))"

text \<open>The zero task and \<open>false\<close> of the source are \<open>None\<close>, here and for proofs.\<close>

definition Client_TaskSnapshot :: "transport \<Rightarrow> (stream \<Rightarrow> err + (TaskListWithSummary \<times> stream)) \<Rightarrow> 'h Client \<Rightarrow> string \<Rightarrow>
    err + (Task option \<times> TaskStall list)" where
  "Client_TaskSnapshot t decode c i =
     (case Client_ListTasks t decode c of
        Inl err \<Rightarrow> Inl err
      | Inr tasks \<Rightarrow>
          (let matchingStalls = filter (\<lambda>stall. tast_TaskID stall = i) (tali_Stalls tasks)
           in Inr (find (\<lambda>task. ta_ID task = i) (tali_Tasks tasks), matchingStalls)))"

definition Client_ListProofsWithSummary :: "transport \<Rightarrow> (stream \<Rightarrow> err + ('v ProofListWithSummary \<times> stream)) \<Rightarrow> 'h Client \<Rightarrow> err + 'v ProofListWithSummary" where
  "Client_ListProofsWithSummary t decode c = doJSON t decode c ''GET'' ''/v1/proofs'' None 200"

definition Client_ListProofs :: "transport \<Rightarrow> (stream \<Rightarrow> err + ('v ProofListWithSummary \<times> stream)) \<Rightarrow> 'h Client \<Rightarrow> err + 'v ProofReceipt list" where
  "Client_ListProofs t decode c =
     (case Client_ListProofsWithSummary t decode c of
        Inl err \<Rightarrow> Inl err
      | Inr out \<Rightarrow> Inr (prlws_Proofs out))"

definition Client_FindProof :: "transport \<Rightarrow> (stream \<Rightarrow> err + ('v ProofListWithSummary \<times> stream)) \<Rightarrow> 'h Client \<Rightarrow> string \<Rightarrow> err + 'v ProofReceipt option" where
  "Client_FindProof t decode c taskID =
     (case Client_ListProofs t decode c of
        Inl err \<Rightarrow> Inl err
      | Inr proofs \<Rightarrow> Inr (find (\<lambda>proof. prre_TaskID proof = taskID) proofs))"

section \<open>Escaped paths\<close>

text \<open>What a server does with a segment, for the statement that no two segments escape to the same text.\<close>

fun unescape :: "string \<Rightarrow> string" where
  "unescape [] = []"
| "unescape (c # s) =
     (if c = CHR ''%'' then (case s of a # b # s' \<Rightarrow> char_of (hex_digit_value a * 16 + hex_digit_value b) # unescape s' | _ \<Rightarrow> [])
      else c # unescape s)"

lemma upper_hex: "n < 16 \<Longrightarrow> hex_digit_value (''0123456789ABCDEF'' ! n) = n \<and> ''0123456789ABCDEF'' ! n \<noteq> CHR ''/''"
proof -
  have "\<forall>n \<in> set [0..<16]. hex_digit_value (''0123456789ABCDEF'' ! n) = n \<and> ''0123456789ABCDEF'' ! n \<noteq> CHR ''/''"
    by (simp add: hex_digit_value_def upt_rec)
  moreover assume "n < 16"
  ultimately show ?thesis by simp
qed

lemma byte_nibbles: "of_char c div 16 < (16 :: nat)" "of_char c mod 16 < (16 :: nat)"
  by (simp_all add: div_less_iff_less_mult)

lemma path_char_plain: "path_char c \<Longrightarrow> c \<noteq> CHR ''%'' \<and> c \<noteq> CHR ''/''"
  by (auto simp: path_char_def)

lemma unescape_char: "unescape (escape_char c @ s) = c # unescape s"
  using byte_nibbles [of c] path_char_plain [of c] by (simp add: escape_char_def upper_hex)

lemma unescape_PathEscape: "unescape (PathEscape s) = s"
  by (induction s) (simp_all add: PathEscape_def unescape_char)

lemma PathEscape_inj [simp]: "PathEscape s = PathEscape t \<longleftrightarrow> s = t"
  using unescape_PathEscape by metis

lemma PathEscape_no_slash: "CHR ''/'' \<notin> set (PathEscape s)"
proof -
  have "CHR ''/'' \<notin> set (escape_char c)" for c
    using path_char_plain [of c] upper_hex [OF byte_nibbles(1) [of c]] upper_hex [OF byte_nibbles(2) [of c]]
    by (auto simp: escape_char_def)
  then show ?thesis by (simp add: PathEscape_def)
qed

lemma PathEscape_dots: "PathEscape [] = []" "PathEscape ''.'' = ''.''" "PathEscape ''..'' = ''..''"
  by (simp_all add: PathEscape_def escape_char_def path_char_def)

lemma PathEscape_special: "PathEscape s \<in> {[], ''.'', ''..''} \<longleftrightarrow> s \<in> {[], ''.'', ''..''}"
  using PathEscape_inj [of s "[]"] PathEscape_inj [of s "''.''"] PathEscape_inj [of s "''..''"] unfolding PathEscape_dots by blast

lemma split_escapedPath: "segments \<noteq> [] \<Longrightarrow> split_char (CHR ''/'') (escapedPath segments) = [] # map PathEscape segments"
  by (simp add: escapedPath_def split_join_char PathEscape_no_slash)

text \<open>C24. A path determines its segments, whatever bytes they hold: escaping lets none of them add a separator or read as
  a current or parent directory it was not.\<close>

theorem escapedPath_segments:
  assumes "segments \<noteq> []" "segments' \<noteq> []"
  shows "split_char (CHR ''/'') (escapedPath segments) = [] # map PathEscape segments \<and>
    (escapedPath segments = escapedPath segments' \<longleftrightarrow> segments = segments') \<and>
    (\<forall>s \<in> set segments. PathEscape s \<in> {[], ''.'', ''..''} \<longleftrightarrow> s \<in> {[], ''.'', ''..''})"
proof -
  have "escapedPath segments = escapedPath segments' \<Longrightarrow> map PathEscape segments = map PathEscape segments'"
    using split_escapedPath [OF assms(1)] split_escapedPath [OF assms(2)] by simp
  then have "escapedPath segments = escapedPath segments' \<longleftrightarrow> segments = segments'"
    using inj_map_eq_map [OF injI [of PathEscape]] by (metis PathEscape_inj)
  then show ?thesis using split_escapedPath [OF assms(1)] PathEscape_special by blast
qed

section \<open>References to artifacts\<close>

lemma split_artifact_ref:
  assumes "CHR ''/'' \<notin> set pool" "CHR ''/'' \<notin> set task" "CHR ''/'' \<notin> set proof_id"
  shows "split_char (CHR ''/'') (pool @ ''/tasks/'' @ task @ ''/proofs/'' @ proof_id @ ''/'' @ name) =
    [pool, ''tasks'', task, ''proofs'', proof_id] @ split_char (CHR ''/'') name"
  using assms split_char_append_sep [of "CHR ''/''" "''tasks''"] split_char_append_sep [of "CHR ''/''" "''proofs''"]
  by (simp add: split_char_append_sep)

lemma artifact_parts_join:
  assumes "\<not> length parts < 6" "parts ! 1 = ''tasks''" "parts ! 3 = ''proofs''"
  shows "join_char (CHR ''/'') parts =
    parts ! 0 @ ''/tasks/'' @ parts ! 2 @ ''/proofs/'' @ parts ! 4 @ ''/'' @ join_char (CHR ''/'') (drop 5 parts)"
proof -
  obtain a b c d e f xs where "parts = a # b # c # d # e # f # xs"
    using assms(1) by (auto simp: not_less numeral_eq_Suc Suc_le_length_iff)
  then show ?thesis using assms(2, 3) by simp
qed

lemma artifact_ref_spelled:
  "taskArtifactRefParts ref = Inr (pool, task, proof_id, name) \<longleftrightarrow>
     ref = ''artifact://'' @ pool @ ''/tasks/'' @ task @ ''/proofs/'' @ proof_id @ ''/'' @ name \<and>
     CHR ''/'' \<notin> set pool \<union> set task \<union> set proof_id \<and>
     list_all (\<lambda>w. \<not> unsafe_segment w) ([pool, task, proof_id] @ split_char (CHR ''/'') name)"
  (is "?parsed \<longleftrightarrow> ?spelled")
proof
  assume ?parsed
  then obtain rest where ref: "ref = ''artifact://'' @ rest" by (auto simp: taskArtifactRefParts_def prefix_def split: if_splits)
  define parts where "parts = split_char (CHR ''/'') rest"
  from \<open>?parsed\<close> have p: "\<not> length parts < 6" "parts ! 1 = ''tasks''" "parts ! 3 = ''proofs''"
    "\<not> list_ex unsafe_segment ([parts ! 0, parts ! 2, parts ! 4] @ drop 5 parts)"
    "pool = parts ! 0" "task = parts ! 2" "proof_id = parts ! 4" "name = join_char (CHR ''/'') (drop 5 parts)"
    unfolding taskArtifactRefParts_def ref parts_def Let_def trim_prefix_def by (simp_all split: if_splits)
  have clean: "\<forall>w \<in> set parts. CHR ''/'' \<notin> set w" unfolding parts_def using split_char_no_sep by blast
  have "rest = join_char (CHR ''/'') parts" by (simp add: parts_def join_split_char)
  also note artifact_parts_join [OF p(1-3)]
  finally have "ref = ''artifact://'' @ pool @ ''/tasks/'' @ task @ ''/proofs/'' @ proof_id @ ''/'' @ name" using ref p(5-8) by simp
  moreover have "CHR ''/'' \<notin> set (parts ! i)" if "i < 6" for i using that clean p(1) by (intro bspec [OF clean] nth_mem) linarith
  then have "CHR ''/'' \<notin> set pool \<union> set task \<union> set proof_id" using p(5-7) by simp
  moreover have "split_char (CHR ''/'') name = drop 5 parts"
    using p(1, 8) clean by (auto intro!: split_join_char dest: in_set_dropD)
  then have "list_all (\<lambda>w. \<not> unsafe_segment w) ([pool, task, proof_id] @ split_char (CHR ''/'') name)"
    using p(4-7) by (auto simp: list_all_iff list_ex_iff)
  ultimately show ?spelled by iprover
next
  assume spelled: ?spelled
  then have "split_char (CHR ''/'') (trim_prefix ref ''artifact://'') = [pool, ''tasks'', task, ''proofs'', proof_id] @ split_char (CHR ''/'') name"
    using split_artifact_ref [of pool task proof_id name] by (simp add: trim_prefix_def)
  moreover have "\<not> length ([pool, ''tasks'', task, ''proofs'', proof_id] @ split_char (CHR ''/'') name) < 6"
    by (simp add: not_less Suc_le_eq)
  moreover have "\<not> list_ex unsafe_segment ([pool, task, proof_id] @ split_char (CHR ''/'') name)"
    using spelled by (auto simp: list_all_iff list_ex_iff)
  moreover have "has_prefix ref ''artifact://''" using spelled by simp
  ultimately show ?parsed by (simp add: taskArtifactRefParts_def Let_def join_split_char)
qed

lemma unsafe_segment_iff:
  "\<not> unsafe_segment w \<longleftrightarrow> w \<noteq> [] \<and> w \<noteq> ''.'' \<and> w \<noteq> ''..'' \<and>
     set w \<inter> {CHR 0x5C, CHR 0x00, CHR 0x0D, CHR 0x0A, CHR 0x09, CHR '' '', CHR ''?'', CHR ''#''} = {}"
  by (auto simp: unsafe_segment_def contains_any_def list_ex_iff)

text \<open>C23. A reference to an artifact is accepted exactly when it spells out its four parts, and parsing gives them back: no
  segment is empty, the current or the parent directory, or holds a backslash, a NUL, a carriage return, a
  line feed, a tab, a blank, a question mark or a number sign.\<close>

theorem artifact_ref_parts:
  "taskArtifactRefParts ref = Inr (pool, task, proof_id, name) \<longleftrightarrow>
     ref = ''artifact://'' @ pool @ ''/tasks/'' @ task @ ''/proofs/'' @ proof_id @ ''/'' @ name \<and>
     CHR ''/'' \<notin> set pool \<union> set task \<union> set proof_id \<and>
     (\<forall>w \<in> set ([pool, task, proof_id] @ split_char (CHR ''/'') name). w \<noteq> [] \<and> w \<noteq> ''.'' \<and> w \<noteq> ''..'' \<and>
        set w \<inter> {CHR 0x5C, CHR 0x00, CHR 0x0D, CHR 0x0A, CHR 0x09, CHR '' '', CHR ''?'', CHR ''#''} = {})"
  unfolding artifact_ref_spelled list_all_iff unsafe_segment_iff by (rule refl)

section \<open>Downloads\<close>

lemma length_take_nat: "n \<le> int (length xs) \<Longrightarrow> length (take (nat n) xs) = nat n"
  by (auto simp: min_def nat_le_iff)

lemma read_limited_below:
  assumes "int (length data) < n"
  shows "read_limited r n = Inr data \<longleftrightarrow> r = (data, None)"
proof (cases "n \<le> int (length (fst r))")
  case True
  then have "length (take (nat n) (fst r)) = nat n" by (rule length_take_nat)
  moreover have "length data < nat n" using assms by simp
  ultimately have "data \<noteq> take (nat n) (fst r)" by (metis less_irrefl)
  with True assms show ?thesis by (cases r) (auto simp: read_limited_def)
next
  case False
  then show ?thesis by (cases r) (auto simp: read_limited_def split: option.splits)
qed

lemma read_limited_at:
  assumes "int (length data) = n"
  shows "read_limited r n = Inr data \<longleftrightarrow> take (length data) (fst r) = data"
proof (cases "n \<le> int (length (fst r))")
  case True
  then show ?thesis using assms by (auto simp: read_limited_def)
next
  case False
  then have "fst r \<noteq> data" "length (fst r) < length data" using assms by auto
  with False show ?thesis by (auto simp: read_limited_def split: option.splits)
qed

lemma download_parts:
  "Client_DownloadTaskArtifact t c ref maxBytes = Inr data \<longleftrightarrow>
     0 < maxBytes \<and> int (length data) \<le> maxBytes \<and>
     (\<exists>pool task proof_id name rs. taskArtifactRefParts ref = Inr (pool, task, proof_id, name) \<and>
        creates t ''GET'' (JoinPath t (cl_baseURL c) (download_path task proof_id name)) = None \<and>
        sends t (download_request t c (download_path task proof_id name)) = Inr rs \<and> rs_StatusCode rs = 200 \<and>
        read_limited (rs_Body rs) (if maxBytes < int64_max then maxBytes + 1 else maxBytes) = Inr data)"
proof -
  have url: "rq_URL (download_request t c p) = JoinPath t (cl_baseURL c) p" for p by (simp add: download_request_def)
  show ?thesis
    unfolding Client_DownloadTaskArtifact_def Let_def url not_less [symmetric]
    by (auto split: sum.splits option.splits if_splits)
qed

text \<open>C5. A download returns the whole artifact or an error: it returns data exactly when the reference parses, a request for
  the path of its segments can be created and is answered with status 200, and the body is that data, no longer
  than the bound, and ends without an error. The one exception is data of the largest length an \<open>int64\<close> holds, under the
  largest bound, where the extra byte that detects an overlong body cannot be asked for: it is the
  beginning of the body.\<close>

theorem download_complete_and_bounded:
  assumes "maxBytes \<le> int64_max"
  shows "Client_DownloadTaskArtifact t c ref maxBytes = Inr data \<longleftrightarrow>
    0 < maxBytes \<and> int (length data) \<le> maxBytes \<and>
    (\<exists>pool task proof_id name rs. taskArtifactRefParts ref = Inr (pool, task, proof_id, name) \<and>
       creates t ''GET'' (JoinPath t (cl_baseURL c) (download_path task proof_id name)) = None \<and>
       sends t (download_request t c (download_path task proof_id name)) = Inr rs \<and> rs_StatusCode rs = 200 \<and>
       (if int (length data) < int64_max then rs_Body rs = (data, None) else take (length data) (fst (rs_Body rs)) = data))"
proof -
  have "read_limited r (if maxBytes < int64_max then maxBytes + 1 else maxBytes) = Inr data \<longleftrightarrow>
      (if int (length data) < int64_max then r = (data, None) else take (length data) (fst r) = data)"
    if "int (length data) \<le> maxBytes" for r
    using that assms read_limited_below [of data] read_limited_at [of data] by (cases "maxBytes < int64_max") auto
  then show ?thesis unfolding download_parts by (simp cong: conj_cong)
qed

section \<open>Answers\<close>

lemma lease_order: "Lease_Validate sha enc l = None \<Longrightarrow> le_LeasedAt l < le_ExpiresAt l"
  by (auto simp: Lease_Validate_def)

lemma no_invalid_lease: "first_invalid_lease sha enc i leases = None \<longleftrightarrow> (\<forall>l \<in> set leases. Lease_Validate sha enc l = None)"
  by (induction leases arbitrary: i) (auto split: option.splits)

text \<open>The leases a client returns are valid ones: each passes the validation of leases, so that it expires after it was
  given and carries a policy digest, whatever the server sent.\<close>

theorem listed_leases_valid:
  assumes "Client_ListLeases t decode sha enc c = Inr leases" "l \<in> set leases"
  shows "Lease_Validate sha enc l = None \<and> le_LeasedAt l < le_ExpiresAt l"
proof -
  have "Lease_Validate sha enc l = None"
    using assms by (auto simp: Client_ListLeases_def no_invalid_lease split: sum.splits option.splits)
  then show ?thesis using lease_order by blast
qed

text \<open>The first proof of a task is the one found, and a task's snapshot holds its first record and all of its
  stalls.\<close>

theorem client_finds_first:
  "(Client_FindProof t decode c i = Inr (Some p) \<longrightarrow> (\<exists>before after. Client_ListProofs t decode c = Inr (before @ p # after) \<and>
      prre_TaskID p = i \<and> (\<forall>q \<in> set before. prre_TaskID q \<noteq> i))) \<and>
   (Client_FindProof t decode c i = Inr None \<longrightarrow> (\<exists>ps. Client_ListProofs t decode c = Inr ps \<and> (\<forall>q \<in> set ps. prre_TaskID q \<noteq> i))) \<and>
   (Client_TaskSnapshot t decode' c i = Inr (task, stalls) \<longrightarrow> (\<exists>list. Client_ListTasks t decode' c = Inr list \<and>
      set stalls = {s \<in> set (tali_Stalls list). tast_TaskID s = i} \<and>
      (task = None \<longleftrightarrow> i \<notin> ta_ID ` set (tali_Tasks list))))"
proof (intro conjI impI)
  assume "Client_FindProof t decode c i = Inr (Some p)"
  then obtain ps where ps: "Client_ListProofs t decode c = Inr ps" "find (\<lambda>proof. prre_TaskID proof = i) ps = Some p"
    by (auto simp: Client_FindProof_def split: sum.splits)
  from find_first [OF this(2)] ps(1)
  show "\<exists>before after. Client_ListProofs t decode c = Inr (before @ p # after) \<and> prre_TaskID p = i \<and> (\<forall>q \<in> set before. prre_TaskID q \<noteq> i)"
    by blast
next
  assume "Client_FindProof t decode c i = Inr None"
  then show "\<exists>ps. Client_ListProofs t decode c = Inr ps \<and> (\<forall>q \<in> set ps. prre_TaskID q \<noteq> i)"
    by (auto simp: Client_FindProof_def find_None_iff split: sum.splits)
next
  assume "Client_TaskSnapshot t decode' c i = Inr (task, stalls)"
  then show "\<exists>list. Client_ListTasks t decode' c = Inr list \<and> set stalls = {s \<in> set (tali_Stalls list). tast_TaskID s = i} \<and>
      (task = None \<longleftrightarrow> i \<notin> ta_ID ` set (tali_Tasks list))"
    by (auto simp: Client_TaskSnapshot_def Let_def find_None_iff split: sum.splits)
qed

text \<open>A call succeeds in one way only: the body marshals, the request is created and sent, the status is the wanted one and
  the stream holds one JSON value and blanks; and a status other than the wanted one is the error, whatever
  the body says.\<close>

theorem doJSON_outcome:
  "(doJSON t decode c method path body want = Inr v \<longleftrightarrow>
     (\<exists>data rs rest. (body = None \<and> data = None \<or> (\<exists>b. body = Some (Inr b) \<and> data = Some b)) \<and>
        creates t method (JoinPath t (cl_baseURL c) path) = None \<and>
        sends t (json_request t c method path data) = Inr rs \<and> rs_StatusCode rs = want \<and>
        decode (rs_Body rs) = Inr (v, rest) \<and> list_all json_space (fst rest) \<and> snd rest = None)) \<and>
   (body = Some (Inr b) \<and> creates t method (JoinPath t (cl_baseURL c) path) = None \<and>
      sends t (json_request t c method path (Some b)) = Inr rs \<and> rs_StatusCode rs \<noteq> want \<longrightarrow>
    doJSON t decode c method path body want = Inl (StatusError_Error method path (rs_StatusCode rs)))"
proof -
  have url: "rq_URL (json_request t c method path d) = JoinPath t (cl_baseURL c) path" for d by (simp add: json_request_def)
  have strict: "DecodeStrict decode r = Inr v \<longleftrightarrow> (\<exists>rest. decode r = Inr (v, rest) \<and> list_all json_space (fst rest) \<and> snd rest = None)" for r
    by (auto simp: DecodeStrict_def split: sum.splits prod.splits if_splits)
  show ?thesis
  proof (cases body)
    case None
    then show ?thesis by (auto simp: doJSON_def Let_def url strict split: sum.splits option.splits if_splits)
  next
    case (Some b')
    then show ?thesis by (cases b') (auto simp: doJSON_def Let_def url strict split: sum.splits option.splits if_splits)
  qed
qed

section \<open>The token\<close>

text \<open>The hosts that count as loopback, spelled out.\<close>

lemma isLoopbackHost_cases:
  assumes "isLoopbackHost host"
  defines "h \<equiv> trim_space (trim_brackets host)"
  shows "h = ''localhost'' \<or>
    parse_addr h = Some IPv4 \<and> decimal_value (hd (split_char (CHR ''.'') h)) = 127 \<or>
    parse_addr h = Some IPv6 \<and> (ipv6_bytes h = replicate 15 0 @ [1] \<or>
      take 12 (ipv6_bytes h) = replicate 10 0 @ [255, 255] \<and> ipv6_bytes h ! 12 = 127)"
  using assms(1) unfolding isLoopbackHost_def Let_def h_def [symmetric] ip_is_loopback_def
  by (auto split: if_splits option.splits addr.splits)

definition bears :: "string \<Rightarrow> Request \<Rightarrow> bool" where
  "bears token rq \<longleftrightarrow>
     map_of (rq_Header rq) ''Authorization'' = (if token = [] then None else Some (''Bearer '' @ token))"

lemma request_bears: "bears (cl_token c) (json_request t c method path body)" "bears (cl_token c) (download_request t c path)"
  by (simp_all add: bears_def json_request_def download_request_def authorization_def split: option.split)

lemma request_url:
  "rq_URL (json_request t c method path body) = JoinPath t (cl_baseURL c) path"
  "rq_URL (download_request t c path) = JoinPath t (cl_baseURL c) path"
  by (simp_all add: json_request_def download_request_def)

text \<open>Two transports that differ at most on requests a client does not make.\<close>

definition agree_for :: "transport \<Rightarrow> transport \<Rightarrow> 'h Client \<Rightarrow> bool" where
  "agree_for t t' c \<longleftrightarrow> JoinPath t' = JoinPath t \<and> creates t' = creates t \<and>
     (\<forall>rq path. bears (cl_token c) rq \<and> rq_URL rq = JoinPath t (cl_baseURL c) path \<longrightarrow> sends t' rq = sends t rq)"

lemma agree_requests:
  assumes "agree_for t t' c"
  shows "json_request t' c method path body = json_request t c method path body"
    and "download_request t' c path = download_request t c path"
    and "sends t' (json_request t c method path body) = sends t (json_request t c method path body)"
    and "sends t' (download_request t c path) = sends t (download_request t c path)"
proof -
  have same: "JoinPath t' = JoinPath t" and sent: "bears (cl_token c) rq \<Longrightarrow> rq_URL rq = JoinPath t (cl_baseURL c) path \<Longrightarrow> sends t' rq = sends t rq" for rq path
    using assms unfolding agree_for_def by blast+
  show "json_request t' c method path body = json_request t c method path body" "download_request t' c path = download_request t c path"
    by (simp_all only: json_request_def download_request_def same)
  show "sends t' (json_request t c method path body) = sends t (json_request t c method path body)"
    "sends t' (download_request t c path) = sends t (download_request t c path)"
    by (rule sent [OF request_bears(1) request_url(1)], rule sent [OF request_bears(2) request_url(2)])
qed

lemma agree_doJSON:
  assumes "agree_for t t' c"
  shows "doJSON t' decode c method path body want = doJSON t decode c method path body want"
proof -
  have "creates t' = creates t" using assms by (simp only: agree_for_def)
  then show ?thesis unfolding doJSON_def Let_def agree_requests [OF assms] by (simp only:)
qed

lemma agree_download:
  assumes "agree_for t t' c"
  shows "Client_DownloadTaskArtifact t' c ref n = Client_DownloadTaskArtifact t c ref n"
proof -
  have "creates t' = creates t" using assms by (simp only: agree_for_def)
  then show ?thesis unfolding Client_DownloadTaskArtifact_def Let_def agree_requests [OF assms] by (simp only:)
qed

text \<open>C18. A token goes where it may: no operation of a client looks further than requests that carry the token, exactly when
  there is one, to a path joined to the URL it was built with, so that another transport that answers these alike
  gives the same results; and a client with a token talks HTTPS, or to localhost, an address of 127.0.0.0/8,
  plain or mapped into IPv6, or ::1.\<close>

theorem token_guarded:
  fixes c :: "'h Client"
  assumes "NewClient uri config = Inr c" and "JoinPath t' = JoinPath t" and "creates t' = creates t"
    and "\<And>rq path. map_of (rq_Header rq) ''Authorization'' = (if cc_Token config = [] then None else Some (''Bearer '' @ cc_Token config)) \<Longrightarrow>
      rq_URL rq = JoinPath t (cl_baseURL c) path \<Longrightarrow> sends t' rq = sends t rq"
  defines "h \<equiv> trim_space (trim_brackets (url_Hostname (cl_baseURL c)))"
  shows "Client_SubmitTask t' submitted marshal c task = Client_SubmitTask t submitted marshal c task \<and>
    Client_ListTasksWithSummary t' tasks c = Client_ListTasksWithSummary t tasks c \<and>
    Client_ListTasks t' tasks c = Client_ListTasks t tasks c \<and>
    Client_TaskSnapshot t' tasks c i = Client_TaskSnapshot t tasks c i \<and>
    Client_ListAgents t' agents c = Client_ListAgents t agents c \<and>
    Client_ListLeases t' leases sha enc c = Client_ListLeases t leases sha enc c \<and>
    Client_ListTaskArtifacts t' artifacts c i = Client_ListTaskArtifacts t artifacts c i \<and>
    Client_DownloadTaskArtifact t' c ref n = Client_DownloadTaskArtifact t c ref n \<and>
    Client_ListProofsWithSummary t' proofs c = Client_ListProofsWithSummary t proofs c \<and>
    Client_ListProofs t' proofs c = Client_ListProofs t proofs c \<and>
    Client_FindProof t' proofs c i = Client_FindProof t proofs c i \<and>
    uri (cc_ServerURL config) = Some (cl_baseURL c) \<and> url_Scheme (cl_baseURL c) \<in> {''http'', ''https''} \<and>
    (cc_Token config \<noteq> [] \<longrightarrow> url_Scheme (cl_baseURL c) = ''https'' \<or> h = ''localhost'' \<or>
      parse_addr h = Some IPv4 \<and> decimal_value (hd (split_char (CHR ''.'') h)) = 127 \<or>
      parse_addr h = Some IPv6 \<and> (ipv6_bytes h = replicate 15 0 @ [1] \<or>
        take 12 (ipv6_bytes h) = replicate 10 0 @ [255, 255] \<and> ipv6_bytes h ! 12 = 127))"
proof -
  have built: "uri (cc_ServerURL config) = Some (cl_baseURL c)" "url_Scheme (cl_baseURL c) \<in> {''http'', ''https''}"
    "cl_token c = cc_Token config" "cc_Token config \<noteq> [] \<Longrightarrow> url_Scheme (cl_baseURL c) = ''https'' \<or> isLoopbackHost (url_Hostname (cl_baseURL c))"
    using assms(1) by (auto simp: NewClient_def split: option.splits if_splits)
  have agree: "agree_for t t' c" using assms(2-4) built(3) by (auto simp: agree_for_def bears_def)
  have ops: "Client_SubmitTask t' submitted marshal c task = Client_SubmitTask t submitted marshal c task"
    "Client_ListTasksWithSummary t' tasks c = Client_ListTasksWithSummary t tasks c"
    "Client_ListAgents t' agents c = Client_ListAgents t agents c"
    "Client_ListLeases t' leases sha enc c = Client_ListLeases t leases sha enc c"
    "Client_ListTaskArtifacts t' artifacts c i = Client_ListTaskArtifacts t artifacts c i"
    "Client_ListProofsWithSummary t' proofs c = Client_ListProofsWithSummary t proofs c"
    by (simp_all add: Client_SubmitTask_def Client_ListTasksWithSummary_def Client_ListAgents_def Client_ListLeases_def
        Client_ListTaskArtifacts_def Client_ListProofsWithSummary_def agree_doJSON [OF agree])
  moreover have "Client_ListTasks t' tasks c = Client_ListTasks t tasks c" "Client_ListProofs t' proofs c = Client_ListProofs t proofs c"
    by (simp_all add: Client_ListTasks_def Client_ListProofs_def ops)
  moreover from this have "Client_TaskSnapshot t' tasks c i = Client_TaskSnapshot t tasks c i" "Client_FindProof t' proofs c i = Client_FindProof t proofs c i"
    by (simp_all add: Client_TaskSnapshot_def Client_FindProof_def)
  moreover have "cc_Token config \<noteq> [] \<Longrightarrow> url_Scheme (cl_baseURL c) = ''https'' \<or> h = ''localhost'' \<or>
      parse_addr h = Some IPv4 \<and> decimal_value (hd (split_char (CHR ''.'') h)) = 127 \<or>
      parse_addr h = Some IPv6 \<and> (ipv6_bytes h = replicate 15 0 @ [1] \<or>
        take 12 (ipv6_bytes h) = replicate 10 0 @ [255, 255] \<and> ipv6_bytes h ! 12 = 127)"
    using built(4) isLoopbackHost_cases unfolding h_def by blast
  ultimately show ?thesis using ops built(1,2) agree_download [OF agree] by (intro conjI impI)
qed

section \<open>Examples\<close>

lemma escapedPath_segments_witness:
  "split_char (CHR ''/'') (escapedPath [''a/b'', ''..'']) = [[], ''a%2Fb'', ''..''] \<and> escapedPath [''a/b''] \<noteq> escapedPath [''a'', ''b'']"
proof -
  have "map PathEscape [''a/b'', ''..''] = [''a%2Fb'', ''..'']" by (simp add: PathEscape_def escape_char_def path_char_def)
  then show ?thesis using escapedPath_segments [of "[''a/b'', ''..'']" "[''a'', ''b'']"] escapedPath_segments [of "[''a/b'']" "[''a'', ''b'']"] by simp
qed

definition demo_base :: URL where
  "demo_base = \<lparr>url_Scheme = ''https'', url_User = False, url_Host = ''h'', url_Hostname = ''h'', url_Path = [], url_RawQuery = [],
     url_ForceQuery = False, url_Fragment = []\<rparr>"

definition demo_client :: "unit Client" where
  "demo_client = \<lparr>cl_baseURL = demo_base, cl_token = ''secret'', cl_http = WithTimeout defaultClientTimeout\<rparr>"

definition demo_transport :: transport where
  "demo_transport = \<lparr>JoinPath = \<lambda>_ path. path, creates = \<lambda>_ _. None,
     sends = \<lambda>rq. Inr \<lparr>rs_StatusCode = 200, rs_Body = (''body'', None)\<rparr>\<rparr>"

lemma demo_artifact_ref: "taskArtifactRefParts ''artifact://p/tasks/t/proofs/x/n/m'' = Inr (''p'', ''t'', ''x'', ''n/m'')"
  unfolding artifact_ref_spelled by (simp add: unsafe_segment_def contains_any_def)

lemma artifact_ref_parts_witness:
  "taskArtifactRefParts ''artifact://p/tasks/t/proofs/x/n/m'' = Inr (''p'', ''t'', ''x'', ''n/m'') \<and>
   taskArtifactRefParts ''artifact://p/tasks/t/proofs/x/../m'' \<noteq> Inr (''p'', ''t'', ''x'', ''../m'')"
  unfolding artifact_ref_parts by simp

lemma download_complete_and_bounded_witness:
  "Client_DownloadTaskArtifact demo_transport demo_client ''artifact://p/tasks/t/proofs/x/n/m'' 4 = Inr ''body'' \<and>
   Client_DownloadTaskArtifact demo_transport demo_client ''artifact://p/tasks/t/proofs/x/n/m'' 3 \<noteq> Inr ''body'' \<and>
   Client_DownloadTaskArtifact (demo_transport\<lparr>sends := \<lambda>_. Inr \<lparr>rs_StatusCode = 200, rs_Body = (''body'', Some (New ''connection reset''))\<rparr>\<rparr>)
     demo_client ''artifact://p/tasks/t/proofs/x/n/m'' 9 \<noteq> Inr ''body''"
proof -
  have iff: "Client_DownloadTaskArtifact t demo_client ''artifact://p/tasks/t/proofs/x/n/m'' n = Inr ''body'' \<longleftrightarrow>
    4 \<le> n \<and> creates t ''GET'' (JoinPath t (cl_baseURL demo_client) (download_path ''t'' ''x'' ''n/m'')) = None \<and>
    sends t (download_request t demo_client (download_path ''t'' ''x'' ''n/m'')) = Inr \<lparr>rs_StatusCode = 200, rs_Body = (''body'', None)\<rparr>"
    if "n \<le> int64_max" for n t
    using download_complete_and_bounded [of n t demo_client "''artifact://p/tasks/t/proofs/x/n/m''" "''body''"] that
    by (auto simp: demo_artifact_ref)
  show ?thesis by (simp add: iff) (simp add: demo_transport_def)
qed

lemma listed_leases_valid_witness:
  "\<exists>ls. Client_ListLeases demo_transport (\<lambda>_. Inr (\<lparr>llr_Leases = [demo_lease ''a'' 10 20]\<rparr>, ([], None))) (\<lambda>_. []) (\<lambda>_. []) demo_client = Inr ls \<and>
     (\<forall>l \<in> set ls. le_LeasedAt l < le_ExpiresAt l)"
proof -
  let ?d = "\<lambda>_. Inr (\<lparr>llr_Leases = [demo_lease ''a'' 10 20]\<rparr>, ([], None))"
  have ok: "Client_ListLeases demo_transport ?d (\<lambda>_. []) (\<lambda>_. []) demo_client = Inr [demo_lease ''a'' 10 20]"
    by (simp add: Client_ListLeases_def doJSON_def demo_transport_def DecodeStrict_def demo_lease_accepted)
  then show ?thesis using listed_leases_valid [OF ok] by blast
qed

definition demo_proofs :: "stream \<Rightarrow> err + (nat ProofListWithSummary \<times> stream)" where
  "demo_proofs r = Inr (\<lparr>prlws_Proofs = [], prlws_Summary = \<lparr>prls_Total = 0, prls_Accepted = 0, prls_Pending = 0, prls_Rejected = 0, prls_Conflicted = 0\<rparr>\<rparr>,
     ([], None))"

definition demo_tasks :: "stream \<Rightarrow> err + (TaskListWithSummary \<times> stream)" where
  "demo_tasks r = Inr (\<lparr>talws_Tasks = [demo_task ''a'' TaskQueued], talws_Stalls = [],
     talws_Summary = \<lparr>tals_Total = 1, tals_Open = 1, tals_Queued = 1, tals_Stalled = 0, tals_Succeeded = 0\<rparr>\<rparr>, ([], None))"

lemma client_finds_first_witness:
  "(\<exists>task. Client_TaskSnapshot demo_transport demo_tasks demo_client ''a'' = Inr (task, []) \<and> task \<noteq> None) \<and>
   Client_FindProof demo_transport demo_proofs demo_client ''a'' = Inr None"
proof -
  have list: "Client_ListTasks demo_transport demo_tasks demo_client = Inr \<lparr>tali_Tasks = [demo_task ''a'' TaskQueued], tali_Stalls = []\<rparr>"
    by (simp add: Client_ListTasks_def Client_ListTasksWithSummary_def doJSON_def demo_transport_def DecodeStrict_def demo_tasks_def)
  have "ta_ID (demo_task ''a'' TaskQueued) = ''a''" by (simp add: demo_task_def)
  moreover obtain task where task: "Client_TaskSnapshot demo_transport demo_tasks demo_client ''a'' = Inr (task, [])"
    by (simp add: Client_TaskSnapshot_def list)
  ultimately have "task \<noteq> None"
    using client_finds_first [where t = demo_transport and decode' = demo_tasks and c = demo_client and i = "''a''" and task = task and stalls = "[]"] list
    by auto
  moreover have "Client_FindProof demo_transport demo_proofs demo_client ''a'' = Inr None"
    by (simp add: Client_FindProof_def Client_ListProofs_def Client_ListProofsWithSummary_def doJSON_def demo_transport_def DecodeStrict_def demo_proofs_def)
  ultimately show ?thesis using task by blast
qed

lemma doJSON_outcome_witness:
  "doJSON (demo_transport\<lparr>sends := \<lambda>_. Inr \<lparr>rs_StatusCode = 409, rs_Body = (''{}'', None)\<rparr>\<rparr>) demo_proofs demo_client ''POST'' ''/v1/tasks'' (Some (Inr ''{}'')) 201 =
     Inl (StatusError_Error ''POST'' ''/v1/tasks'' 409)"
  by (rule mp [OF conjunct2 [OF doJSON_outcome [where b = "''{}''" and rs = "\<lparr>rs_StatusCode = 409, rs_Body = (''{}'', None)\<rparr>"]], THEN trans])
    (simp_all add: demo_transport_def)

definition demo_uri :: "string \<Rightarrow> string \<Rightarrow> URL option" where
  "demo_uri host s = Some (demo_base\<lparr>url_Scheme := s, url_Hostname := host\<rparr>)"

lemma demo_loopback: "isLoopbackHost ''127.0.0.9''" "isLoopbackHost ''[::1]''" "\<not> isLoopbackHost ''10.0.0.1''"
  by code_simp+

text \<open>A transport that answers only requests with the token is as good to a client that has it.\<close>

lemma token_guarded_witness:
  "\<exists>c :: unit Client. NewClient (demo_uri ''127.0.0.9'') \<lparr>cc_ServerURL = ''http'', cc_Token = ''s'', cc_HTTPClient = None, cc_Timeout = 0\<rparr> = Inr c \<and>
     Client_ListTasks (demo_transport\<lparr>sends := \<lambda>rq. if map_of (rq_Header rq) ''Authorization'' = Some ''Bearer s'' then sends demo_transport rq else Inl (New ''401'')\<rparr>)
       demo_tasks c = Client_ListTasks demo_transport demo_tasks c"
proof -
  let ?t = "demo_transport\<lparr>sends := \<lambda>rq. if map_of (rq_Header rq) ''Authorization'' = Some ''Bearer s'' then sends demo_transport rq else Inl (New ''401'')\<rparr>"
  obtain c :: "unit Client" where c: "NewClient (demo_uri ''127.0.0.9'') \<lparr>cc_ServerURL = ''http'', cc_Token = ''s'', cc_HTTPClient = None, cc_Timeout = 0\<rparr> = Inr c"
    by (simp add: NewClient_def demo_uri_def demo_loopback)
  have "Client_ListTasks ?t demo_tasks c = Client_ListTasks demo_transport demo_tasks c"
    by (rule token_guarded [OF c, where t' = ?t and t = demo_transport and tasks = demo_tasks, THEN conjunct2, THEN conjunct2, THEN conjunct1]) simp_all
  with c show ?thesis by blast
qed

end
