(* ===== verification/TestVectors.thy ===== *)
theory TestVectors
  imports StreamProof Services RuntimeProvider Marketplace Receipts Client
begin

text \<open>
  Unit tests of the repository (\<open>protocol/*_test.go\<close>), evaluated on the model: every lemma bears the name of
  the Go test whose inputs and verdicts it repeats. They tie the definitions to the code where the other
  theories tie them to what the code is for.
\<close>

section \<open>Stream proof\<close>

definition startedAt :: time where "startedAt = Time (63839664000 * 10 ^ 9)"
  \<comment> \<open>\<open>time.Date(2024, 1, 1, 0, 0, 0, 0, time.UTC)\<close>\<close>

definition second :: int where "second = 10 ^ 9"

definition segment :: "int \<Rightarrow> int \<Rightarrow> string \<Rightarrow> SegmentProvenance \<Rightarrow> Segment" where
  "segment i bytes sha provenance = \<lparr>s_Index = i, s_DurationMS = 2000, s_Bytes = bytes, s_SHA256 = sha, s_Provenance = provenance\<rparr>"

definition baseSegments :: "Segment list" where
  "baseSegments = [segment 0 10000 ''aaa'' ProvenanceHostVerified, segment 1 8000 ''bbb'' ProvenanceAttested]"

definition gapSegments :: "Segment list" where
  "gapSegments = [segment 0 10000 ''aaa'' ProvenanceHostVerified, segment 2 9000 ''ccc'' ProvenanceHostVerified]"

definition receipt :: "int \<Rightarrow> int \<Rightarrow> int \<Rightarrow> string \<Rightarrow> DeliveryReceipt" where
  "receipt first_seq last_seq bytes sha = \<lparr>d_ConsumerID = ''c1'', d_Kind = ConsumerViewer, d_SeqStart = first_seq, d_SeqEnd = last_seq,
     d_Bytes = bytes, d_SHA256 = sha, d_Sig = []\<rparr>"

definition nonce :: "string \<Rightarrow> int \<Rightarrow> LivenessNonce" where
  "nonce n seconds = \<lparr>n_Nonce = n, n_IssuedAt = Time (instant startedAt + seconds * second), n_ReflectedInSeq = 0\<rparr>"

definition manifest :: "Segment list \<Rightarrow> LivenessNonce list \<Rightarrow> DeliveryReceipt list \<Rightarrow> Discontinuity list \<Rightarrow> StreamManifest" where
  "manifest segments nonces receipts gaps = \<lparr>m_Seq = 1, m_StreamID = ''s1'', m_StartedAt = startedAt, m_LivenessNonces = nonces,
     m_Segments = segments, m_SampledFrames = [], m_DeliveryReceipts = receipts, m_WorkerReportedDeliveredBytes = 0,
     m_AttestedPushedBytesByDestination = [], m_Discontinuities = gaps, m_DroppedFrames = 0, m_Sig = []\<rparr>"

definition marker :: Discontinuity where
  "marker = \<lparr>c_At = Time (instant startedAt + 2 * second), c_Reason = ''network drop'', c_PrevSeq = 0, c_ResumeSeq = 2, c_Sig = ''host-sig''\<rparr>"

lemma TestVerifyManifest_accepts:
  "VerifyManifest (manifest baseSegments [nonce ''n1'' 1] [receipt 0 0 10000 ''aaa''] []) [nonce ''n1'' 1] (5 * second) = None"
  "VerifyManifest (manifest gapSegments [] [] [marker]) [] (5 * second) = None"
  by code_simp+

lemma TestVerifyManifest_rejects:
  "VerifyManifest (manifest baseSegments [] [receipt 0 0 10000 ''zzz''] []) [] (5 * second) \<noteq> None"
  "VerifyManifest (manifest gapSegments [] [] []) [] (5 * second) \<noteq> None"
  "VerifyManifest (manifest baseSegments [] [receipt 0 5 50000 ''range-hash''] []) [] (5 * second) \<noteq> None"
  "VerifyManifest (manifest baseSegments [nonce ''n2'' 100] [] []) [nonce ''n2'' 100] (5 * second) \<noteq> None"
  by code_simp+

lemma TestVerifyManifest_bytes:
  "VerifiedDeliveredBytes (manifest [segment 0 10000 ''aaa'' ProvenanceHostVerified] [] [receipt 0 0 (10 ^ 18) ''aaa''] []) = 10000"
  "VerifiedDeliveredBytes (manifest baseSegments [] [receipt 0 0 10000 ''aaa'', receipt 1 1 8000 ''bbb''] []) = 10000"
  by code_simp+

section \<open>Media, streams and handoff\<close>

definition media :: MediaTransformSpec where
  "media = \<lparr>mts_Scale = [], mts_Crop = [], mts_Pan = [], mts_FPS = 0, mts_Codec = [], mts_Container = [], mts_BitrateKbps = 0,
     mts_Transpose = [], mts_RotateDegrees = 0, mts_Renditions = []\<rparr>"

definition rendition :: "string \<Rightarrow> string \<Rightarrow> int \<Rightarrow> Rendition" where
  "rendition name scale kbps = \<lparr>re2_Name = name, re2_Scale = scale, re2_BitrateKbps = kbps\<rparr>"

lemma TestMediaTransformSpec:
  "list_all (\<lambda>m. MediaTransformSpec_Validate m \<noteq> None)
     [media\<lparr>mts_FPS := - 1\<rparr>, media\<lparr>mts_BitrateKbps := - 100\<rparr>, media\<lparr>mts_Renditions := [rendition [] ''720p'' 2000]\<rparr>,
      media\<lparr>mts_Renditions := [rendition ''hd'' [] (- 1)]\<rparr>, media\<lparr>mts_Transpose := ''sideways''\<rparr>,
      media\<lparr>mts_RotateDegrees := 45\<rparr>, media\<lparr>mts_RotateDegrees := - 90\<rparr>]"
  "list_all (\<lambda>m. MediaTransformSpec_Validate m = None)
     ([media\<lparr>mts_Scale := ''1080p'', mts_Codec := ''h264'', mts_Container := ''mp4'', mts_FPS := 30, mts_BitrateKbps := 4000\<rparr>,
       media\<lparr>mts_Scale := ''1080p'', mts_Renditions := [rendition ''hd'' ''1080p'' 4000, rendition ''sd'' ''480p'' 1200]\<rparr>] @
      map (\<lambda>t. media\<lparr>mts_Transpose := t\<rparr>) [''clock'', ''cclock'', ''clock_flip'', ''cclock_flip''] @
      map (\<lambda>d. media\<lparr>mts_RotateDegrees := d\<rparr>) [90, 180, 270])"
  by code_simp+

definition redundancy :: "RedundancyTier \<Rightarrow> int \<Rightarrow> int \<Rightarrow> RedundancyPolicy" where
  "redundancy tier standby cutover = \<lparr>repo_Tier = tier, repo_StandbyCount = standby, repo_CutoverDeadlineMS = cutover\<rparr>"

lemma TestRedundancyPolicyValidate:
  "RedundancyPolicy_Validate (redundancy RedundancyNone 0 0) = None"
  "RedundancyPolicy_Validate (redundancy RedundancyWarmStandby 1 500) = None"
  "RedundancyPolicy_Validate (redundancy RedundancyWarmStandby 0 0) \<noteq> None"
  "RedundancyPolicy_Validate (redundancy RedundancyActiveActive 2 100) = ErrRedundancyTierNotEnabledV1"
  by code_simp+

definition stream :: "string list \<Rightarrow> StreamDestination list \<Rightarrow> StreamSpec" where
  "stream protocols destinations = \<lparr>ss_IngestProtocols = protocols, ss_Destinations = destinations,
     ss_ViewerEgress = \<lparr>vec_HLS = False, vec_WHEP = False\<rparr>, ss_Recording = False, ss_Redundancy = redundancy [] 0 0\<rparr>"

definition destination :: "string \<Rightarrow> MediaTransformSpec option \<Rightarrow> StreamDestination" where
  "destination ref transform = \<lparr>sd_TargetRef = ref, sd_Transform = transform, sd_Rendition = []\<rparr>"

lemma TestStreamSpec_rejects:
  "StreamSpec_Validate (stream [] []) \<noteq> None"
  "StreamSpec_Validate (stream [''rtmp''] [destination [] None]) \<noteq> None"
  "StreamSpec_Validate (stream [''rtmp''] [destination ''stream://live/channel-3'' (Some (media\<lparr>mts_FPS := - 1\<rparr>))]) \<noteq> None"
  "StreamSpec_Validate ((stream [''rtmp''] [])\<lparr>ss_Redundancy := redundancy RedundancyWarmStandby 0 0\<rparr>) \<noteq> None"
  by code_simp+

lemma TestStreamSpec_accepts:
  "StreamSpec_Validate ((stream [''rtmp'', ''srt''] [destination ''stream://live/channel-1'' None])
     \<lparr>ss_ViewerEgress := \<lparr>vec_HLS = True, vec_WHEP = False\<rparr>, ss_Recording := True\<rparr>) = None"
  "StreamSpec_Validate (stream [''whip''] [destination ''stream://live/channel-2'' (Some (media\<lparr>mts_Scale := ''1080p'', mts_Codec := ''h264''\<rparr>))]) = None"
  by code_simp+

definition handle :: StreamHandle where
  "handle = \<lparr>stha_URL = ''rtmp://stream.example/live/session-1'', stha_Protocol = ''rtmp'',
     stha_AuthTokenRef = ''secret://stream/session-1/publish-token'', stha_Codecs = [''h264'', ''aac''], stha_ExpiresAt = ''2026-06-30T08:00:00Z''\<rparr>"

lemma TestStreamHandleValidate:
  "StreamHandle_Validate handle = None"
  "list_all (\<lambda>h. StreamHandle_Validate h \<noteq> None)
     [handle\<lparr>stha_URL := []\<rparr>, handle\<lparr>stha_Protocol := []\<rparr>, handle\<lparr>stha_AuthTokenRef := []\<rparr>, handle\<lparr>stha_Codecs := []\<rparr>, handle\<lparr>stha_ExpiresAt := []\<rparr>]"
  by code_simp+

definition stream_input :: StreamInputRef where
  "stream_input = \<lparr>sir_Name = ''live-main'', sir_Handle = handle\<lparr>stha_AuthTokenRef := ''secret://stream/session-1/read-token''\<rparr>,
     sir_ProviderID = ''workflow-plugin-stream''\<rparr>"

lemma TestStreamInputRefValidate:
  "StreamInputRef_Validate stream_input = None"
  "list_all (\<lambda>r. StreamInputRef_Validate r \<noteq> None)
     [stream_input\<lparr>sir_Name := []\<rparr>, stream_input\<lparr>sir_Handle := handle\<lparr>stha_Protocol := ''ftp''\<rparr>\<rparr>,
      stream_input\<lparr>sir_Handle := handle\<lparr>stha_AuthTokenRef := ''raw-token''\<rparr>\<rparr>,
      stream_input\<lparr>sir_Handle := handle\<lparr>stha_Codecs := [''h264'', []]\<rparr>\<rparr>,
      stream_input\<lparr>sir_Handle := handle\<lparr>stha_ExpiresAt := ''tomorrow''\<rparr>\<rparr>, stream_input\<lparr>sir_ProviderID := ''stream/plugin''\<rparr>]"
  by code_simp+

text \<open>\<open>url.Parse\<close> on the references of the tests: of the parts read, the user and the query.\<close>

definition test_url :: "string \<Rightarrow> URL option" where
  "test_url s = Some \<lparr>url_Scheme = ''s3'', url_User = (CHR ''@'' \<in> set s), url_Host = ''media-bucket'', url_Hostname = ''media-bucket'',
     url_Path = [], url_RawQuery = (case cut_char (CHR ''?'') s of None \<Rightarrow> [] | Some (_, query) \<Rightarrow> query), url_ForceQuery = False, url_Fragment = []\<rparr>"

definition content_input :: ContentInputRef where
  "content_input = \<lparr>cir_Name = ''source-video'', cir_Ref = ''s3://media-bucket/input.mov'', cir_TargetPath = ''inputs/source.mov'',
     cir_SHA256 = ''sha256:'' @ replicate 64 CHR ''a'', cir_ContentType = ''video/quicktime'', cir_SizeBytes = 42, cir_ProviderID = ''workflow-plugin-aws''\<rparr>"

lemma TestContentInputRefValidate_accepts:
  "list_all (\<lambda>ref. ContentInputRef_Validate test_url (content_input\<lparr>cir_Ref := ref\<rparr>) = None)
     [''content://media/source.mov'', ''s3://media-bucket/input.mov'', ''gs://media-bucket/input.mov'', ''spaces://media-bucket/input.mov'']"
  by code_simp

lemma TestContentInputRefValidate_rejects:
  "list_all (\<lambda>r. ContentInputRef_Validate test_url r \<noteq> None)
     [content_input\<lparr>cir_Name := []\<rparr>, content_input\<lparr>cir_Ref := ''https://example.invalid/input.mov''\<rparr>,
      content_input\<lparr>cir_Ref := ''s3://AKIASECRET:pw@media-bucket/input.mov''\<rparr>, content_input\<lparr>cir_TargetPath := ''../input.mov''\<rparr>,
      content_input\<lparr>cir_SHA256 := ''sha256:not-hex''\<rparr>, content_input\<lparr>cir_SizeBytes := - 1\<rparr>, content_input\<lparr>cir_ProviderID := ''aws/plugin''\<rparr>]"
  by code_simp

lemma TestContentInputRefReportsPreciseMalformedRefReasons:
  "validateContentInputRef test_url ''ref'' '' s3://media-bucket/input.mov '' = Some (Errorf ''%s must not contain surrounding whitespace'' [Str ''ref''])"
  by code_simp

definition artifact :: ForwardableArtifactRef where
  "artifact = \<lparr>far_Handle = ''artifact://task-1/output.ts'', far_Digest = ''sha256:'' @ replicate 64 CHR ''a'', far_ContentType = ''video/mp2t'',
     far_TransferTokenRef = ''secret://transfer/task-1/output''\<rparr>"

lemma TestForwardableArtifactRefValidate:
  "ForwardableArtifactRef_Validate artifact = None"
  "list_all (\<lambda>r. ForwardableArtifactRef_Validate r \<noteq> None)
     [artifact\<lparr>far_Handle := []\<rparr>, artifact\<lparr>far_Digest := ''sha256:not-hex''\<rparr>, artifact\<lparr>far_ContentType := []\<rparr>, artifact\<lparr>far_TransferTokenRef := []\<rparr>]"
  by code_simp+

section \<open>Services and providers\<close>

lemma TestWorkloadFileRefRejectsTrimmedAbsolutePath:
  "WorkloadFileRef_Validate \<lparr>wfr_Path = '' /etc/passwd'', wfr_ValueRef = ''config://service/file'', wfr_SecretRef = [], wfr_Template = [],
     wfr_Refs = [], wfr_Mode = 0\<rparr> = Some (Joined [New ''path must be a relative workspace path''])"
  by code_simp

definition run :: "string \<Rightarrow> RunRequest" where
  "run provider = \<lparr>rr_ExecutorProvider = provider, rr_Input = [], rr_Env = [], rr_TaskId = [], rr_LeaseId = []\<rparr>"

definition provider :: "string \<Rightarrow> string list \<Rightarrow> ProviderCapabilities" where
  "provider i executors = \<lparr>prca_ProviderId = i, prca_WorkloadKinds = [], prca_ExecutorProviders = executors, prca_RuntimeProfiles = []\<rparr>"

lemma TestValidateRunRequest:
  "ValidateRunRequest None \<noteq> None" "ValidateRunRequest (Some (run [])) \<noteq> None" "ValidateRunRequest (Some (run ''   '')) \<noteq> None"
  "ValidateRunRequest (Some (run ''docker'')) = None"
  by code_simp+

lemma TestValidateProviderCapabilities:
  "ValidateProviderCapabilities None \<noteq> None"
  "ValidateProviderCapabilities (Some (provider [] [''docker''])) \<noteq> None"
  "ValidateProviderCapabilities (Some (provider ''my-provider'' [])) \<noteq> None"
  "ValidateProviderCapabilities (Some (provider ''my-provider'' [[], ''   ''])) \<noteq> None"
  "ValidateProviderCapabilities (Some (provider ''my-provider'' [''docker''])) = None"
  by code_simp+

section \<open>Placement\<close>

definition wants :: PlacementRequirements where
  "wants = \<lparr>pr_ExecutorProvider = [], pr_ExecutionSecurityTier = [], pr_ProofTier = [], pr_HardwareClass = [], pr_RequiredCapabilities = []\<rparr>"

lemma TestRequiredHardwareClass:
  "RequiredHardwareClass (wants\<lparr>pr_HardwareClass := ''sev-snp''\<rparr>) = ''sev-snp''"
  "RequiredHardwareClass (wants\<lparr>pr_ExecutionSecurityTier := ExecutionConfidentialCPU\<rparr>) = ''confidential-cpu''"
  "RequiredHardwareClass (wants\<lparr>pr_ExecutionSecurityTier := ExecutionConfidentialGPU\<rparr>) = ''confidential-gpu''"
  "RequiredHardwareClass wants = []"
  by code_simp+

definition verified :: "string \<Rightarrow> int \<Rightarrow> HardwareAttestation" where
  "verified hardware_class seconds = \<lparr>ha_Class = hardware_class, ha_Provider = ''vendor'', ha_VerifierID = ''verifier-1'', ha_KeyID = ''key-1'',
     ha_Verified = True, ha_ExpiresAt = Time (instant startedAt + seconds * second)\<rparr>"

definition hardware :: "int \<Rightarrow> string list \<Rightarrow> string list \<Rightarrow> HardwareAttestation list \<Rightarrow> HardwarePlacementCapabilities" where
  "hardware gpus tees classes attestations = \<lparr>hpc_GPUCount = gpus,
     hpc_Security = \<lparr>hsc_TEE = tees, hsc_HardwareClasses = classes, hsc_HardwareAttestations = attestations\<rparr>, hpc_Now = startedAt\<rparr>"

lemma TestHardwareCapabilitiesSatisfyPlacementRequirements:
  "HardwareCapabilitiesSatisfyPlacementRequirements 0 (wants\<lparr>pr_ExecutionSecurityTier := ExecutionConfidentialCPU\<rparr>)
     (hardware 0 [] [] [verified ''confidential-cpu'' 3600])"
  "\<not> HardwareCapabilitiesSatisfyPlacementRequirements 0 (wants\<lparr>pr_ExecutionSecurityTier := ExecutionConfidentialCPU\<rparr>)
     (hardware 0 [] [] [verified ''confidential-cpu'' (- 1)])"
  "HardwareCapabilitiesSatisfyPlacementRequirements 0 (wants\<lparr>pr_ExecutionSecurityTier := ExecutionConfidentialGPU\<rparr>)
     (hardware 1 [] [] [verified ''confidential-gpu'' 3600])"
  "\<not> HardwareCapabilitiesSatisfyPlacementRequirements 0 (wants\<lparr>pr_ExecutionSecurityTier := ExecutionConfidentialGPU\<rparr>)
     (hardware 0 [] [] [verified ''confidential-gpu'' 3600])"
  "HardwareCapabilitiesSatisfyPlacementRequirements 0 (wants\<lparr>pr_HardwareClass := ''arm-neoverse''\<rparr>) (hardware 0 [] [''arm-neoverse''] [])"
  "HardwareCapabilitiesSatisfyPlacementRequirements 0 (wants\<lparr>pr_HardwareClass := ''sev-snp''\<rparr>) (hardware 0 [''sev-snp''] [] [])"
  "\<not> HardwareCapabilitiesSatisfyPlacementRequirements 0
     (wants\<lparr>pr_ExecutionSecurityTier := ExecutionConfidentialCPU, pr_HardwareClass := ''sev-snp''\<rparr>) (hardware 0 [] [''sev-snp''] [])"
  by code_simp+

definition sandboxed :: ExecutorRef where
  "sandboxed = \<lparr>er_Provider = ''sandboxed-command'', er_Version = ''dev'', er_ExecutionSecurityTier = ExecutionSandboxedContainer,
     er_ProofTier = ProofArtifactHash, er_ImageDigest = [], er_RootFSDigest = []\<rparr>"

definition wants_executor :: "string \<Rightarrow> ExecutionSecurityTier \<Rightarrow> ProofTier \<Rightarrow> PlacementRequirements" where
  "wants_executor executor tier proof_tier = wants\<lparr>pr_ExecutorProvider := executor, pr_ExecutionSecurityTier := tier, pr_ProofTier := proof_tier\<rparr>"

lemma TestExecutorMatchesPlacementRequirements:
  "ExecutorMatchesPlacementRequirements sandboxed wants"
  "ExecutorMatchesPlacementRequirements sandboxed (wants_executor ''sandboxed-command'' ExecutionSandboxedContainer ProofArtifactHash)"
  "\<not> ExecutorMatchesPlacementRequirements sandboxed (wants_executor ''service-sandboxed-container'' ExecutionSandboxedContainer ProofArtifactHash)"
  "\<not> ExecutorMatchesPlacementRequirements sandboxed (wants_executor ''sandboxed-command'' ExecutionMicroVM ProofArtifactHash)"
  "\<not> ExecutorMatchesPlacementRequirements sandboxed (wants_executor ''sandboxed-command'' ExecutionSandboxedContainer ProofAttestedReceipt)"
  by code_simp+

definition limits :: "int \<Rightarrow> int \<Rightarrow> int \<Rightarrow> ResourceLimits" where
  "limits cpu memory workspace = \<lparr>rl_CPUPercent = cpu, rl_MemoryBytes = memory, rl_WorkspaceBytes = workspace, rl_RuntimeSeconds = 0,
     rl_NetworkEgressBytes = 0, rl_OutputBytes = 0\<rparr>"

lemma TestResourceLimitsRejectNegativeValues:
  "ResourceLimits_Validate ((limits (- 1) 0 0)\<lparr>rl_RuntimeSeconds := - 1, rl_OutputBytes := - 1\<rparr>) =
     Some (Joined [New ''cpu_percent cannot be negative'', New ''runtime_seconds cannot be negative'', New ''output_bytes cannot be negative''])"
  by code_simp

lemma TestValidateResourceLimitsAgainstCapacity:
  "ValidateResourceLimitsAgainstCapacity (limits 1100 (64 * 2 ^ 30) (2 ^ 40)) \<lparr>rc_CPUCount = 4, rc_MemoryBytes = 8 * 2 ^ 30, rc_DiskBytes = 20 * 2 ^ 30\<rparr> =
     Some (Joined
       [Errorf ''resource_limits.cpu_percent %d exceeds worker CPU capacity %d'' [Num 1100, Num 400],
        Errorf ''resource_limits.memory_bytes %d exceeds worker memory_bytes %d'' [Num (64 * 2 ^ 30), Num (8 * 2 ^ 30)],
        Errorf ''resource_limits.workspace_bytes %d exceeds worker disk_bytes %d'' [Num (2 ^ 40), Num (20 * 2 ^ 30)]])"
  "ValidateResourceLimitsAgainstCapacity (limits 400 (8 * 2 ^ 30) (20 * 2 ^ 30)) \<lparr>rc_CPUCount = 4, rc_MemoryBytes = 8 * 2 ^ 30, rc_DiskBytes = 20 * 2 ^ 30\<rparr> = None"
  "ValidateResourceLimitsAgainstCapacity (limits 1100 (64 * 2 ^ 30) (2 ^ 40)) \<lparr>rc_CPUCount = 0, rc_MemoryBytes = 0, rc_DiskBytes = 0\<rparr> = None"
  by code_simp+

section \<open>Policies, previews and the marketplace\<close>

lemma TestValidateProofPolicyRequiresQuorumOnlyForQuorumTiers:
  "ValidateProofPolicy ProofReplicatedQuorum \<lparr>prpo_Quorum = 2, prpo_MaxAttempts = 3\<rparr> = None"
  "ValidateProofPolicy ProofArtifactHash \<lparr>prpo_Quorum = 2, prpo_MaxAttempts = 0\<rparr> \<noteq> None"
  by code_simp+

lemma TestValidateRuntimeResultPreview:
  "ValidateRuntimeResultPreview (\<lambda>_. Some ''{\"ok\":true}'') [(''ok'', True)] = None"
  "ValidateRuntimeResultPreview (\<lambda>_. Some (replicate (MaxRuntimeResultPreviewBytes + 1) CHR ''x'')) [(''payload'', True)] \<noteq> None"
  "ValidateRuntimeResultPreview (\<lambda>_. None) [(''bad'', True)] \<noteq> None"
  by (simp_all add: ValidateRuntimeResultPreview_def MaxRuntimeResultPreviewBytes_def)

lemma TestMarketplacePoliciesRejectMalformedRotations:
  "MarketplaceOperationsPolicy_Validate
     \<lparr>maoppo_ProtocolVersion = Version, maoppo_ID = ''marketplace-ops'', maoppo_Enabled = True, maoppo_Version = 1,
      maoppo_TermsVersion = ''terms-v1'', maoppo_RewardPolicyVersion = ''rewards-v1'', maoppo_DisputeWindowHours = 72,
      maoppo_AbuseContact = ''abuse@example.invalid'', maoppo_PayoutProvider = ''stripe'', maoppo_ActivePayoutKeyID = ''payout-key-1'',
      maoppo_PreviousPayoutKeyIDs = [''payout-key-1''], maoppo_CreatedAt = 0, maoppo_UpdatedAt = 0\<rparr> \<noteq> None"
  "MarketplacePayoutKeyRotationRequest_Validate
     \<lparr>mpkrr_ProtocolVersion = Version, mpkrr_NewPayoutKeyID = ''bad/key'', mpkrr_RequireCurrentVersion = - 1, mpkrr_Reason = []\<rparr> \<noteq> None"
  "MarketplaceTrustRootRotationRequest_Validate
     \<lparr>mtrrr_ProtocolVersion = Version, mtrrr_AddTrustedFederationKeyIDs = [''federation-key-1'', ''federation-key-1''],
      mtrrr_RemoveTrustedFederationKeyIDs = [''federation-key-1''], mtrrr_RequireCurrentVersion = 0, mtrrr_Reason = ''rotate''\<rparr> \<noteq> None"
  "ReputationEvent_Validate
     \<lparr>re_ProtocolVersion = Version, re_ID = ''rep-event-1'', re_OrgID = ''org-1'', re_SubjectKind = ReputationSubjectProvider,
      re_SubjectID = ''provider-1'', re_ProductID = [], re_TaskID = [], re_ProofID = [], re_Type = ReputationManualAdjustment,
      re_ScoreDelta = 0, re_Reason = ''manual adjustment'', re_RecordedAt = 0\<rparr> \<noteq> None"
  by code_simp+

section \<open>Client\<close>

lemma TestClientDownloadTaskArtifactEscapesCanonicalSegments:
  "map_sum id (\<lambda>(_, task, proof_id, name). download_path task proof_id name)
     (taskArtifactRefParts ''artifact://pool/tasks/task%id/proofs/proof%id/run-logs/stderr%.txt'') =
   Inr ''/v1/tasks/task%25id/proofs/proof%25id/artifacts/run-logs/stderr%25.txt''"
  by code_simp

lemma TestClientRejectsTokenOverNonLoopbackHTTP:
  "\<not> isLoopbackHost ''example.test''" "isLoopbackHost ''127.0.0.1''" "isLoopbackHost ''localhost''" "isLoopbackHost ''[::1]''"
  by code_simp+

lemma TestClientDownloadTaskArtifactRejectsMalformedRefs:
  "list_all (\<lambda>ref. isl (taskArtifactRefParts ref))
     [''artifact:///tasks/task-1/proofs/proof-1/result.json'', ''artifact://pool-1/tasks//proofs/proof-1/result.json'',
      ''artifact://pool-1/tasks/task-1/proofs//result.json'', ''artifact://pool-1/tasks/task-1/proofs/proof-1'',
      ''artifact://pool-1/tasks/task-1/proofs/proof-1/'', ''artifact://pool-1/tasks/task-1/proofs/proof-1/run-logs//result.json'',
      ''artifact://pool-1/task/task-1/proofs/proof-1/result.json'', ''artifact://pool-1/tasks/task-1/proof/proof-1/result.json'',
      ''artifact://pool-1/tasks/task-1/proofs/proof-1/../secret'', ''artifact://pool-1/tasks/task-1/proofs/proof-1/name?token=secret'']"
  by code_simp

end
