(* ===== verification/Spec2Isabelle.thy ===== *)
theory Spec2Isabelle
  imports StreamProof Contracts Marketplace Lifecycle RuntimeProvider NetworkAudit ServiceRuntime Client TestVectors
begin

text \<open>
  The protocol package of workflow-plugin-compute-core: the messages by which a compute server, its agents
  and its plugins agree on work, and the rules each message has to meet. It keeps no state of its own;
  its operations validate, sign, verify, select, project and decode values, and a caller acts on the
  result. The theories follow the Go files of \<open>src/protocol\<close>.

  \<^bold>\<open>How code becomes definitions.\<close> A struct is a record with one field per Go field, in the same order and
  behind a short prefix; a \<open>type T string\<close> is a string with its constants; a pointer that may be \<open>nil\<close>
  is an option. A method \<open>func (r T) M\<close> is the definition \<open>T_M\<close>. A string is its bytes. An \<open>int\<close> or
  \<open>int64\<close> is an \<open>int\<close>, and where the code computes with it the result is wrapped (\<open>wrap64\<close>); an
  unsigned counter that is only compared is a \<open>nat\<close>. A \<open>time.Time\<close> is an instant (GoTime), so that
  \<open>UTC()\<close> is the identity. A map that is read by key is a function to an option or an association list, a map
  that is iterated is the list of its entries in the order of the iteration, which Go leaves open. An
  \<open>error\<close> is an \<open>err option\<close> (Prelude) with the format and its arguments; the text of an error that comes
  from the standard library is left out. A value with an error is a sum, and a call that may panic has an
  \<open>outcome\<close>. The method that writes through its receiver returns the new value. All definitions compute
  and all recursion is structural or has a termination proof, so that no fuel is needed; one walk over nested
  messages has a bounded version, for which the height of the message is enough (ProtoFields).

  \<^bold>\<open>Parameters.\<close> SHA-256 (\<open>sha\<close>), HMAC (\<open>hmac\<close>), Ed25519 (\<open>sign\<close>, \<open>ver\<close>), the JSON and protobuf encoders
  and decoders (\<open>enc\<close>, \<open>json\<close>, \<open>marshal\<close>, \<open>proto\<close>, \<open>unproto\<close>, \<open>decode\<close>), \<open>url.Parse\<close> (\<open>url\<close>,
  \<open>uri\<close>), the Unicode case mappings where they matter (\<open>lower\<close>, \<open>upper\<close>, \<open>same\<close>), time formatting (\<open>stamp\<close>)
  and the HTTP transport are arguments of the definitions that call them. A theorem that relies on their
  behaviour says so in a hypothesis, such as \<open>good_key\<close> for Ed25519, or names the collision of hashes that the contrary would be.

  \<^bold>\<open>The library.\<close>
  \<^item> Prelude: errors, the loops over slices that collect them, 64-bit arithmetic, and the collection
    \<open>validation\<close> by which acceptance of a validator unfolds to what it checks.
  \<^item> GoStrings, GoTime, UnixTime, GoMime, GoNet, GoDate, GoJson, GoBase64: what the source uses of Go's
    \<open>strings\<close>, \<open>path\<close>, \<open>hex\<close>, \<open>time\<close>, \<open>mime\<close>, \<open>net\<close>, \<open>json.Valid\<close> and \<open>base64\<close>.

  \<^bold>\<open>The components.\<close>
  \<^item> Vocabulary, Identifiers, Paths, ScopedRefs: the constants and leaf validators of \<open>types.go\<close>, which every
    other component calls.
  \<^item> Attestation, Placement, RuntimeBackend (\<open>types.go\<close>, to line 2068): executors with their attestation and key
    release, what a task asks of a worker, backend reports and managed bundles.
  \<^item> NetworkAudit (\<open>types.go\<close>, 1307 to 2017): audit records, their keyed projections and protobuf form.
    ProtoFields: the walk over a protobuf message that refuses unknown fields, which Bootstrap shares.
  \<^item> Handoff (\<open>handoff.go\<close>, \<open>media.go\<close>, \<open>stream.go\<close>), Services, Workloads, Tasks: what a task runs, with
    its inputs, streams, services and providers; the task, the queue, adapters and ingress evidence.
  \<^item> Networks, Policies: network, peer-to-peer, residue and run-log policies.
  \<^item> Leases: agents, the choice of an idle one, and leases.
  \<^item> Products, RuntimeProfiles, Contracts: network products, runtime profiles, and provider contracts with the
    one operation that changes state, the application of conformance evidence.
  \<^item> Marketplace (5811 to 6601): settlement holds, key rotations, reputation, abuse cases.
  \<^item> Receipts (\<open>receipt_signature.go\<close>): proof, service and edge receipts with their signatures.
  \<^item> StreamProof (\<open>stream_proof.go\<close>): stream manifests and the bytes billed.
  \<^item> Bootstrap (\<open>bootstrap.go\<close>, \<open>package_artifact.go\<close>), Lifecycle (\<open>managed_lifecycle.go\<close>): signed manifests,
    install receipts, and the requests and results by which a managed provider is driven.
  \<^item> RuntimeProvider (\<open>runtime_provider_validate.go\<close>), Client (\<open>client.go\<close>), and ServiceRuntime
    (\<open>service_runtime.go\<close>, \<open>internal/plugin.go\<close>): the interfaces of providers and the plugin's manifest.
  \<^item> TestVectors: inputs and verdicts of the repository's unit tests, evaluated on the model.

  \<^bold>\<open>How they interact.\<close> A product sets a security floor; a contract supports a product through its runtime
  profiles. A task carries a workload, policies and placement requirements. An agent's capabilities come from
  its backend reports. The server finds a queued task, selects an idle agent and grants a lease; receipts
  and stream manifests prove the work, and the marketplace settles it. Lifecycle messages and bootstrap
  manifests protect the software that does so. The client reads and submits all of this over HTTP.

  \<^bold>\<open>Interfaces.\<close> The locale \<open>keyed_index\<close> (StreamProof) is the contract of the lookup tables built from a slice;
  \<open>credential_signature\<close> (Receipts) that of a signed receipt, and \<open>signed_message\<close> (Bootstrap) that of a message
  signed with Ed25519. Each is interpreted on every table, receipt and message of the code.

  \<^bold>\<open>What the theorems show.\<close> Acceptance of a validator is characterised or bounded by what it guarantees to the code
  behind it (paths stay below their root, hosts are allowed ones, code is pinned, credentials do not leak);
  signing and verifying fit together and bind what they should; encodings round-trip; selections are the first
  and miss nothing; arithmetic is exact up to the bounds stated. Some theorems show where the code does
  less than it seems to: a task lost with the first executor listed, capabilities left to a profile, a saturated window, a receipt billed twice, a default profile that never validates,
  evidence that breaks a contract, a time that is lost.

  \<^bold>\<open>Not modelled.\<close> Generated protobuf code, of which the records hold the fields, and the bytes of its encoding;
  how the plugin SDK serves the plugin; contexts and time-outs of HTTP; the bodies of the service interfaces, which
  the plugins supply.
\<close>

section \<open>Tasks and their proofs\<close>

lemma receipt_input_hash:
  assumes "ProofReceipt_Validate sha marshal json r = Returns None"
  shows "validSHA256Digest (prre_InputHash r)"
proof -
  have "proof_receipt_errs json r = []"
    using assms by (auto simp: ProofReceipt_Validate_def split: if_splits outcome.splits)
  then show ?thesis unfolding proof_receipt_errs_def append_is_Nil_conv by auto
qed

text \<open>C31. An accepted task may be one that no proof can match: the validation of tasks reads the input hash nowhere, while
  every accepted proof receipt carries a canonical SHA-256 digest of the input. So a task whose hash is
  missing or of another form is accepted, and no accepted receipt has its hash.\<close>

theorem task_input_unproved:
  assumes "Task_Validate url lower same sha enc t = None" "\<not> validSHA256Digest h"
  shows "Task_Validate url lower same sha enc (t\<lparr>ta_InputHash := h\<rparr>) = None \<and>
    (\<forall>r. ProofReceipt_Validate sha marshal json r = Returns None \<longrightarrow> prre_InputHash r \<noteq> h)"
proof
  show "Task_Validate url lower same sha enc (t\<lparr>ta_InputHash := h\<rparr>) = None"
    using assms(1) by (simp add: Task_Validate_def)
  show "\<forall>r. ProofReceipt_Validate sha marshal json r = Returns None \<longrightarrow> prre_InputHash r \<noteq> h"
    using receipt_input_hash assms(2) by blast
qed

lemma task_input_unproved_witness:
  "Task_Validate (\<lambda>_. None) (\<lambda>s. s) (=) (\<lambda>s. s) (\<lambda>_. []) ((demo_task ''t'' [])\<lparr>ta_InputHash := ''md5:0''\<rparr>) = None"
proof -
  have "\<not> validSHA256Digest ''md5:0''" by (simp add: validSHA256Digest_def)
  from task_input_unproved [OF demo_task_accepted this] show ?thesis by iprover
qed

end
